(* ===== verification/Go_Prelude.thy ===== *)
theory Go_Prelude
  imports Main "HOL-Library.AList" "HOL-Library.Multiset"
begin

section \<open>The part of Go the components rely on\<close>

text \<open>
  What the components share of the Go language and its standard library.

  \<^item> \<open>int\<close> and \<open>int64\<close> are HOL integers; where the source can leave the 64-bit range the
    wrap-around is written out with \<open>wrap64\<close>.
  \<^item> \<open>time.Time\<close> is a number of nanoseconds since the zero time (year 1), so that
    \<open>IsZero\<close> is equality with 0, \<open>Before\<close> and \<open>After\<close> are the order and \<open>Add\<close> is
    addition; \<open>Sub\<close> saturates at the bounds of \<open>time.Duration\<close>, as the library does.
  \<^item> a Go map is an association list with distinct keys (\<open>len\<close> is its length). The order in
    which \<open>range\<close> visits a map is unspecified in Go: every model of such a loop takes a ranking
    of the keys that may depend on the contents of the map, and visits the entries in the order
    of the ranking. Theorems hold for every ranking, hence for every iteration order.
\<close>

named_theorems go_simps \<open>unfolding rules for the modelled fragment of the Go library\<close>

type_synonym go_time = int
type_synonym duration = int
type_synonym ('k, 'v) gomap = "('k \<times> 'v) list"
type_synonym ('k, 'v) range_order = "('k, 'v) gomap \<Rightarrow> 'k \<Rightarrow> nat"

definition int64_max :: int where
  "int64_max = 9223372036854775807"

definition int64_min :: int where
  "int64_min = - 9223372036854775808"

definition in_int64 :: "int \<Rightarrow> bool" where
  "in_int64 x \<longleftrightarrow> int64_min \<le> x \<and> x \<le> int64_max"

definition wrap64 :: "int \<Rightarrow> int" where
  "wrap64 x = (x + 9223372036854775808) mod 18446744073709551616 - 9223372036854775808"

definition time_is_zero :: "go_time \<Rightarrow> bool" where
  "time_is_zero t \<longleftrightarrow> t = 0"

definition time_sub :: "go_time \<Rightarrow> go_time \<Rightarrow> duration" where
  "time_sub t u = max int64_min (min int64_max (t - u))"

definition second :: duration where
  "second = 1000000000"

text \<open>Seconds since 1970 and back: \<open>Time.Unix\<close> and \<open>time.Unix(s, 0)\<close>.\<close>

definition unix_of :: "go_time \<Rightarrow> int" where
  "unix_of t = t div 1000000000 - 62135596800"

definition time_of_unix :: "int \<Rightarrow> go_time" where
  "time_of_unix s = (s + 62135596800) * 1000000000"

text \<open>Checks made one after the other: the first error reported.\<close>

fun first_error :: "'e option list \<Rightarrow> 'e option" where
  "first_error [] = None"
| "first_error (None # es) = first_error es"
| "first_error (Some e # es) = Some e"

definition gomap_keys :: "('k, 'v) gomap \<Rightarrow> 'k list" where
  "gomap_keys m = map fst m"

definition gomap_ok :: "('k, 'v) gomap \<Rightarrow> bool" where
  "gomap_ok m \<longleftrightarrow> distinct (gomap_keys m)"

definition gomap_len :: "('k, 'v) gomap \<Rightarrow> int" where
  "gomap_len m = int (length m)"

definition range_over :: "('k, 'v) range_order \<Rightarrow> ('k, 'v) gomap \<Rightarrow> ('k \<times> 'v) list" where
  "range_over ord m = sort_key (\<lambda>(k, v). ord m k) m"

subsection \<open>64-bit arithmetic and times\<close>

lemma wrap64_in_range [simp]: "in_int64 (wrap64 x)"
proof -
  have "0 \<le> (x + 9223372036854775808) mod 18446744073709551616"
    and "(x + 9223372036854775808) mod 18446744073709551616 < 18446744073709551616"
    by (rule pos_mod_sign, simp, rule pos_mod_bound, simp)
  then show ?thesis
    by (simp add: in_int64_def wrap64_def int64_min_def int64_max_def)
qed

lemma wrap64_id: "in_int64 x \<Longrightarrow> wrap64 x = x"
  by (simp add: in_int64_def wrap64_def int64_min_def int64_max_def)

lemma time_sub_ge_iff:
  "int64_min < d \<Longrightarrow> d \<le> int64_max \<Longrightarrow> d \<le> time_sub t u \<longleftrightarrow> d \<le> t - u"
  by (auto simp: time_sub_def)

lemma time_sub_less_iff:
  "int64_min < d \<Longrightarrow> d \<le> int64_max \<Longrightarrow> time_sub t u < d \<longleftrightarrow> t - u < d"
  by (auto simp: time_sub_def)

lemma time_sub_gt_iff:
  "int64_min \<le> d \<Longrightarrow> d < int64_max \<Longrightarrow> d < time_sub t u \<longleftrightarrow> d < t - u"
  by (auto simp: time_sub_def)

lemma time_sub_exact: "in_int64 (t - u) \<Longrightarrow> time_sub t u = t - u"
  by (auto simp: time_sub_def in_int64_def)

lemma time_sub_mono: "t \<le> t' \<Longrightarrow> time_sub t u \<le> time_sub t' u"
  by (auto simp: time_sub_def)

lemmas time_sub_iffs = time_sub_ge_iff time_sub_less_iff time_sub_gt_iff

subsection \<open>Maps\<close>

lemma set_range_over [simp]: "set (range_over ord m) = set m"
  by (simp add: range_over_def)

lemma mset_range_over [simp]: "mset (range_over ord m) = mset m"
  by (simp add: range_over_def)

lemma length_delete_less:
  "k \<in> fst ` set m \<Longrightarrow> length (AList.delete k m) < length m"
  by (auto simp: AList.delete_eq intro: length_filter_less)

lemma length_delete_less_pair:
  "(k, v) \<in> set m \<Longrightarrow> length (AList.delete k m) < length m"
  by (rule length_delete_less) force

lemma gomap_len_delete: "gomap_len (AList.delete k m) \<le> gomap_len m"
  by (simp add: gomap_len_def AList.delete_eq)

lemma gomap_ok_Nil [simp]: "gomap_ok []"
  by (simp add: gomap_ok_def gomap_keys_def)

lemma gomap_ok_update [simp]: "gomap_ok m \<Longrightarrow> gomap_ok (AList.update k v m)"
  by (simp add: gomap_ok_def gomap_keys_def distinct_update)

lemma gomap_ok_delete [simp]: "gomap_ok m \<Longrightarrow> gomap_ok (AList.delete k m)"
  by (simp add: gomap_ok_def gomap_keys_def distinct_delete)

lemma length_update_present:
  "k \<in> fst ` set m \<Longrightarrow> length (AList.update k v m) = length m"
  by (induction m) (auto simp: image_iff)

lemma length_update_absent:
  "k \<notin> fst ` set m \<Longrightarrow> length (AList.update k v m) = Suc (length m)"
  by (induction m) auto

lemma map_of_eq_None_keys: "map_of m k = None \<longleftrightarrow> k \<notin> fst ` set m"
  by (rule map_of_eq_None_iff)

lemma map_of_delete_gomap: "map_of (AList.delete k m) k' = (if k' = k then None else map_of m k')"
  by (simp add: delete_conv')

lemma map_of_update_gomap:
  "map_of (AList.update k v m) k' = (if k' = k then Some v else map_of m k')"
  by (simp add: update_conv')

lemma length_gomap_card: "gomap_ok m \<Longrightarrow> length m = card (fst ` set m)"
  by (metis distinct_card gomap_keys_def gomap_ok_def length_map list.set_map)

lemmas gomap_lookup = map_of_delete_gomap map_of_update_gomap map_of_eq_None_keys

subsection \<open>Counting over lists\<close>

lemma length_filter_mono:
  "(\<And>x. x \<in> set xs \<Longrightarrow> P x \<Longrightarrow> Q x) \<Longrightarrow> length (filter P xs) \<le> length (filter Q xs)"
  by (induction xs) auto

lemma first_error_None: "first_error es = None \<longleftrightarrow> (\<forall>e\<in>set es. e = None)"
  by (induction es rule: first_error.induct) auto

end
