(* ===== verification/Ratelimit_Store.thy ===== *)
theory Ratelimit_Store
  imports Go_Prelude
begin

section \<open>Bounded per-key stores (util/ratelimit)\<close>

text \<open>
  The four limiters of \<open>util/ratelimit\<close> keep a bounded map from keys to entries and share three
  pieces of code, written out once per limiter in the source: \<open>retryAfter\<close> and the janitor of
  \<open>common.go\<close>, the loop of \<open>makeRoomLocked\<close> that evicts the entry with the oldest
  \<open>updatedAt\<close> until the map has room, and the guard of \<open>maybePruneLocked\<close>.

  The locale \<open>keyed_store\<close> is the contract of one call of a limiter: it may first prune
  the map, evicts only when the key is new and the map is full, and computes the new entry and
  the decision from the old entry of that key alone. From these laws the locale derives, once for
  all limiters, that the map never outgrows its bound. The locale \<open>keyed_limiter\<close> adds that
  pruning is not observable; then, as long as no more keys are in use than the map has room for,
  the limiter decides exactly as one independent machine per key would.
\<close>

record Decision =
  Allowed :: bool
  RetryAfter :: duration
  Count :: int

datatype janitor = JanitorNil | JanitorRunning | JanitorStopped

definition startJanitor :: "duration \<Rightarrow> janitor" where
  "startJanitor interval = (if interval \<le> 0 then JanitorNil else JanitorRunning)"

fun janitor_close :: "janitor \<Rightarrow> janitor" where
  "janitor_close JanitorNil = JanitorNil"
| "janitor_close JanitorRunning = JanitorStopped"
| "janitor_close JanitorStopped = JanitorStopped"

definition retryAfter :: "go_time \<Rightarrow> go_time \<Rightarrow> duration \<Rightarrow> duration" where
  "retryAfter deadline now fallback =
     (let retry = time_sub deadline now in if retry \<le> 0 then fallback else retry)"

fun oldest_scan ::
  "('e \<Rightarrow> go_time) \<Rightarrow> ('k \<times> 'e) list \<Rightarrow> ('k \<times> go_time) option \<Rightarrow> ('k \<times> go_time) option" where
  "oldest_scan upd [] best = best"
| "oldest_scan upd ((k, e) # rest) best =
     oldest_scan upd rest
       (case best of None \<Rightarrow> Some (k, upd e)
        | Some (k0, t0) \<Rightarrow> if upd e < t0 then Some (k, upd e) else Some (k0, t0))"

lemma oldest_scan_cases:
  "oldest_scan upd xs best = Some (k, t) \<Longrightarrow>
     best = Some (k, t) \<or> (\<exists>e. (k, e) \<in> set xs \<and> t = upd e)"
  by (induction upd xs best rule: oldest_scan.induct) (auto split: option.splits if_splits)

lemma oldest_scan_key:
  "oldest_scan upd xs None = Some (k, t) \<Longrightarrow> k \<in> fst ` set xs"
  by (drule oldest_scan_cases) force

function make_room ::
  "('e \<Rightarrow> go_time) \<Rightarrow> ('k, 'e) range_order \<Rightarrow> int \<Rightarrow> ('k, 'e) gomap \<Rightarrow> ('k, 'e) gomap" where
  "make_room upd ord maxKeys m =
     (if gomap_len m \<ge> maxKeys
      then (case oldest_scan upd (range_over ord m) None of
              None \<Rightarrow> m
            | Some (k, t) \<Rightarrow> make_room upd ord maxKeys (AList.delete k m))
      else m)"
  by pat_completeness auto
termination
  by (relation "measure (\<lambda>(upd, ord, maxKeys, m). length m)")
    (auto dest!: oldest_scan_key intro: length_delete_less_pair)

declare make_room.simps [simp del]

definition prune_due :: "('k, 'e) gomap \<Rightarrow> int \<Rightarrow> duration \<Rightarrow> go_time \<Rightarrow> go_time \<Rightarrow> bool" where
  "prune_due m maxKeys gcEvery lastGC now \<longleftrightarrow>
     \<not> (gomap_len m < maxKeys \<and>
        (gcEvery \<le> 0 \<or> (\<not> time_is_zero lastGC \<and> time_sub now lastGC < gcEvery)))"

fun trim_map :: "('e \<Rightarrow> 'e option) \<Rightarrow> ('k, 'e) gomap \<Rightarrow> ('k, 'e) gomap" where
  "trim_map trim [] = []"
| "trim_map trim ((k, e) # m) =
     (case trim e of None \<Rightarrow> trim_map trim m | Some e' \<Rightarrow> (k, e') # trim_map trim m)"

fun limiter_run ::
  "(('k, 'e) range_order \<Rightarrow> 'k \<Rightarrow> 'a \<Rightarrow> go_time \<Rightarrow> 's \<Rightarrow> 's \<times> 'd) \<Rightarrow> 's \<Rightarrow>
     ('k \<times> 'a \<times> go_time \<times> ('k, 'e) range_order) list \<Rightarrow> 'd list" where
  "limiter_run call s [] = []"
| "limiter_run call s ((k, a, now, ord) # cs) =
     (let (s', d) = call ord k a now s in d # limiter_run call s' cs)"

fun limiter_state ::
  "(('k, 'e) range_order \<Rightarrow> 'k \<Rightarrow> 'a \<Rightarrow> go_time \<Rightarrow> 's \<Rightarrow> 's \<times> 'd) \<Rightarrow> 's \<Rightarrow>
     ('k \<times> 'a \<times> go_time \<times> ('k, 'e) range_order) list \<Rightarrow> 's" where
  "limiter_state call s [] = s"
| "limiter_state call s ((k, a, now, ord) # cs) = limiter_state call (fst (call ord k a now s)) cs"

fun key_machines ::
  "('a \<Rightarrow> go_time \<Rightarrow> 'e option \<Rightarrow> 'e \<times> 'd) \<Rightarrow> ('k \<Rightarrow> 'e option) \<Rightarrow>
     ('k \<times> 'a \<times> go_time \<times> 'o) list \<Rightarrow> 'd list" where
  "key_machines touch m [] = []"
| "key_machines touch m ((k, a, now, ord) # cs) =
     (let (e, d) = touch a now (m k) in d # key_machines touch (m(k := Some e)) cs)"

fun one_machine ::
  "('a \<Rightarrow> go_time \<Rightarrow> 'e option \<Rightarrow> 'e \<times> 'd) \<Rightarrow> 'e option \<Rightarrow> ('a \<times> go_time) list \<Rightarrow> 'd list" where
  "one_machine touch x [] = []"
| "one_machine touch x ((a, now) # cs) =
     (let (e, d) = touch a now x in d # one_machine touch (Some e) cs)"

fun calls_of :: "'k \<Rightarrow> ('k \<times> 'a \<times> go_time \<times> 'o) list \<Rightarrow> ('a \<times> go_time) list" where
  "calls_of k [] = []"
| "calls_of k ((k', a, now, ord) # cs) =
     (if k' = k then (a, now) # calls_of k cs else calls_of k cs)"

fun decisions_of :: "'k \<Rightarrow> ('k \<times> 'a \<times> go_time \<times> 'o) list \<Rightarrow> 'd list \<Rightarrow> 'd list" where
  "decisions_of k [] ds = []"
| "decisions_of k (c # cs) [] = []"
| "decisions_of k ((k', a, now, ord) # cs) (d # ds) =
     (if k' = k then d # decisions_of k cs ds else decisions_of k cs ds)"

fun granted :: "('a \<times> go_time) list \<Rightarrow> Decision list \<Rightarrow> go_time list" where
  "granted [] ds = []"
| "granted (c # cs) [] = []"
| "granted ((a, now) # cs) (d # ds) = (if Allowed d then now # granted cs ds else granted cs ds)"

definition in_span :: "go_time \<Rightarrow> go_time \<Rightarrow> go_time list \<Rightarrow> int" where
  "in_span a b ts = int (length (filter (\<lambda>t. a \<le> t \<and> t < b) ts))"

fun with_limit ::
  "'a \<Rightarrow> ('k \<times> go_time \<times> 'o) list \<Rightarrow> ('k \<times> 'a \<times> go_time \<times> 'o) list" where
  "with_limit limit [] = []"
| "with_limit limit ((key, now, ord) # cs) = (key, limit, now, ord) # with_limit limit cs"

definition call_key :: "'k \<times> 'a \<times> go_time \<times> 'o \<Rightarrow> 'k" where
  "call_key c = fst c"

definition call_time :: "'k \<times> 'a \<times> go_time \<times> 'o \<Rightarrow> go_time" where
  "call_time c = fst (snd (snd c))"

subsection \<open>The eviction loop\<close>

lemma oldest_scan_None_iff: "oldest_scan upd xs best = None \<longleftrightarrow> xs = [] \<and> best = None"
  by (induction upd xs best rule: oldest_scan.induct) (auto split: option.splits)

lemma oldest_scan_min:
  "oldest_scan upd xs best = Some (k, t) \<Longrightarrow>
     (\<forall>(k', e') \<in> set xs. t \<le> upd e') \<and> (\<forall>k0 t0. best = Some (k0, t0) \<longrightarrow> t \<le> t0)"
proof (induction upd xs best rule: oldest_scan.induct)
  case (2 upd k1 e1 rest best)
  then show ?case
    by (cases best) (auto split: if_splits)
qed simp

lemma make_room_id: "gomap_len m < maxKeys \<Longrightarrow> make_room upd ord maxKeys m = m"
  by (simp add: make_room.simps)

lemma make_room_bound: "0 < maxKeys \<Longrightarrow> gomap_len (make_room upd ord maxKeys m) < maxKeys"
proof (induction upd ord maxKeys m rule: make_room.induct)
  case (1 upd ord maxKeys m)
  show ?case
  proof (cases "oldest_scan upd (range_over ord m) None")
    case None
    then have "set (range_over ord m) = {}" by (simp add: oldest_scan_None_iff)
    with "1.prems" have "gomap_len m < maxKeys" by (simp add: gomap_len_def)
    then show ?thesis by (simp add: make_room_id)
  next
    case (Some kt)
    with 1 show ?thesis
      by (cases kt) (auto simp: make_room.simps [of upd ord maxKeys m])
  qed
qed

lemma make_room_subset: "set (make_room upd ord maxKeys m) \<subseteq> set m"
proof (induction upd ord maxKeys m rule: make_room.induct)
  case (1 upd ord maxKeys m)
  show ?case
  proof (cases "gomap_len m < maxKeys")
    case True
    then show ?thesis by (simp add: make_room_id)
  next
    case False
    have "set (make_room upd ord maxKeys (AList.delete k m)) \<subseteq> set m"
      if "oldest_scan upd (range_over ord m) None = Some (k, t)" for k t
      using 1 [of "(k, t)" k t] False that by (auto simp: AList.delete_eq)
    with False show ?thesis
      by (auto simp: make_room.simps [of upd ord maxKeys m] split: option.splits)
  qed
qed

lemma make_room_ok: "gomap_ok m \<Longrightarrow> gomap_ok (make_room upd ord maxKeys m)"
proof (induction upd ord maxKeys m rule: make_room.induct)
  case (1 upd ord maxKeys m)
  then show ?case
    by (subst make_room.simps) (auto split: option.splits)
qed

text \<open>When the map is exactly full, one entry goes, and no entry of the map is older.\<close>

lemma make_room_evicts_oldest:
  assumes full: "gomap_len m = maxKeys" and pos: "0 < maxKeys" and ok: "gomap_ok m"
  shows "\<exists>k e. (k, e) \<in> set m \<and> (\<forall>(k', e') \<in> set m. upd e \<le> upd e')
           \<and> make_room upd ord maxKeys m = AList.delete k m"
proof -
  have "m \<noteq> []" using full pos by (auto simp: gomap_len_def)
  then have "range_over ord m \<noteq> []" by (metis mset_range_over mset_zero_iff)
  then obtain k t where scan: "oldest_scan upd (range_over ord m) None = Some (k, t)"
    by (metis oldest_scan_None_iff not_None_eq surj_pair)
  then obtain e where ke: "(k, e) \<in> set m" "t = upd e"
    using oldest_scan_cases by fastforce
  have "gomap_len (AList.delete k m) < maxKeys"
    using length_delete_less [of k m] ke full by (force simp: gomap_len_def)
  then have "make_room upd ord maxKeys m = AList.delete k m"
    using full scan by (simp add: make_room.simps [of upd ord maxKeys m] make_room_id)
  moreover have "\<forall>(k', e') \<in> set m. upd e \<le> upd e'"
    using oldest_scan_min [OF scan] ke by simp
  ultimately show ?thesis using ke by blast
qed

subsection \<open>Pruning\<close>

lemma trim_map_keys: "fst ` set (trim_map trim m) \<subseteq> fst ` set m"
  by (induction trim m rule: trim_map.induct) (auto split: option.splits)

lemma trim_map_ok: "gomap_ok m \<Longrightarrow> gomap_ok (trim_map trim m)"
proof (induction trim m rule: trim_map.induct)
  case (2 trim k' e m)
  have "k' \<notin> fst ` set (trim_map trim m)"
    using "2.prems" trim_map_keys [of trim m] by (auto simp: gomap_ok_def gomap_keys_def)
  with 2 show ?case
    by (auto simp: gomap_ok_def gomap_keys_def split: option.splits)
qed simp

lemma trim_map_length: "length (trim_map trim m) \<le> length m"
  by (induction trim m rule: trim_map.induct) (auto split: option.splits)

lemma trim_map_lookup:
  "gomap_ok m \<Longrightarrow> map_of (trim_map trim m) k = Option.bind (map_of m k) trim"
proof (induction trim m rule: trim_map.induct)
  case (2 trim k' e m)
  have "k' \<notin> fst ` set (trim_map trim m)"
    using "2.prems" trim_map_keys [of trim m] by (auto simp: gomap_ok_def gomap_keys_def)
  with 2 show ?case
    by (auto simp: gomap_ok_def gomap_keys_def map_of_eq_None_iff split: option.splits)
qed simp

lemma trim_map_filter:
  "trim_map (\<lambda>e. if P e then None else Some e) m = filter (\<lambda>(k, e). \<not> P e) m"
  by (induction m) auto

subsection \<open>One machine per key\<close>

lemma call_key_simp [simp]: "call_key (k, a, now, ord) = k"
  by (simp add: call_key_def)

lemma call_time_simp [simp]: "call_time (k, a, now, ord) = now"
  by (simp add: call_time_def)

lemma decisions_of_key_machines:
  "decisions_of k cs (key_machines touch m cs) = one_machine touch (m k) (calls_of k cs)"
proof (induction cs arbitrary: m)
  case (Cons c cs)
  obtain k' a now ord where c: "c = (k', a, now, ord)" by (cases c)
  show ?case using Cons.IH by (auto simp: c split: prod.splits)
qed simp

lemma set_calls_of: "snd ` set (calls_of k cs) \<subseteq> call_time ` set cs"
  by (induction k cs rule: calls_of.induct) auto

lemma sorted_calls_of: "sorted (map call_time cs) \<Longrightarrow> sorted (map snd (calls_of k cs))"
proof (induction k cs rule: calls_of.induct)
  case (2 k k' a now ord cs)
  have "\<forall>t \<in> snd ` set (calls_of k cs). now \<le> t"
    using "2.prems" set_calls_of [of k cs] by fastforce
  with 2 show ?case by auto
qed simp

lemma with_limit_facts:
  "map call_time (with_limit limit cs) = map (\<lambda>(k, now, ord). now) cs"
  "call_key ` set (with_limit limit cs) = (\<lambda>(k, now, ord). k) ` set cs"
  by (induction limit cs rule: with_limit.induct) auto

lemma with_limit_fst: "set (map fst (calls_of k (with_limit limit cs))) \<subseteq> {limit}"
  by (induction limit cs rule: with_limit.induct) auto

lemma sorted_from_first: "sorted ts \<Longrightarrow> sorted ((case ts of [] \<Rightarrow> 0 | t # _ \<Rightarrow> t) # ts)"
  for ts :: "int list"
  by (cases ts) auto

lemma in_span_Nil [simp]: "in_span a b [] = 0"
  by (simp add: in_span_def)

lemma in_span_snoc [simp]:
  "in_span a b (ts @ [t]) = in_span a b ts + (if a \<le> t \<and> t < b then 1 else 0)"
  by (simp add: in_span_def)

lemma in_span_mono:
  "(\<And>t. t \<in> set ts \<Longrightarrow> a \<le> t \<Longrightarrow> t < b \<Longrightarrow> a' \<le> t \<and> t < b') \<Longrightarrow> in_span a b ts \<le> in_span a' b' ts"
  unfolding in_span_def of_nat_le_iff by (rule length_filter_mono) blast

lemma in_span_split:
  "a \<le> b \<Longrightarrow> b \<le> c \<Longrightarrow> in_span a c ts = in_span a b ts + in_span b c ts"
  by (induction ts) (auto simp: in_span_def)

lemma in_span_0: "(\<And>t. t \<in> set ts \<Longrightarrow> \<not> (a \<le> t \<and> t < b)) \<Longrightarrow> in_span a b ts = 0"
  by (auto simp: in_span_def filter_empty_conv)

lemma in_span_nonneg: "0 \<le> in_span a b ts"
  by (simp add: in_span_def)

subsection \<open>The contract of one call\<close>

locale keyed_store =
  fixes ents :: "'s \<Rightarrow> ('k, 'e) gomap"
    and cfg :: "'s \<Rightarrow> 'c"
    and cap :: "'c \<Rightarrow> int"
    and call :: "('k, 'e) range_order \<Rightarrow> 'k \<Rightarrow> 'a \<Rightarrow> go_time \<Rightarrow> 's \<Rightarrow> 's \<times> 'd"
    and trim :: "'c \<Rightarrow> go_time \<Rightarrow> 'e \<Rightarrow> 'e option"
    and touch :: "'c \<Rightarrow> 'a \<Rightarrow> go_time \<Rightarrow> 'e option \<Rightarrow> 'e \<times> 'd"
    and upd :: "'e \<Rightarrow> go_time"
  assumes call_cfg: "cfg (fst (call ord k a now s)) = cfg s"
    and call_shape:
      "\<exists>m. (m = ents s \<and> gomap_len (ents s) < cap (cfg s) \<or>
            m = trim_map (trim (cfg s) now) (ents s)) \<and>
         ents (fst (call ord k a now s)) =
           AList.update k (fst (touch (cfg s) a now (map_of m k)))
             (if map_of m k = None then make_room upd ord (cap (cfg s)) m else m) \<and>
         snd (call ord k a now s) = snd (touch (cfg s) a now (map_of m k))"
begin

lemma call_cases:
  obtains m where
    "m = ents s \<and> gomap_len (ents s) < cap (cfg s) \<or> m = trim_map (trim (cfg s) now) (ents s)"
    "ents (fst (call ord k a now s)) =
       AList.update k (fst (touch (cfg s) a now (map_of m k)))
         (if map_of m k = None then make_room upd ord (cap (cfg s)) m else m)"
    "snd (call ord k a now s) = snd (touch (cfg s) a now (map_of m k))"
proof -
  from call_shape [of s now ord k a] obtain m where
    "(m = ents s \<and> gomap_len (ents s) < cap (cfg s) \<or> m = trim_map (trim (cfg s) now) (ents s)) \<and>
     ents (fst (call ord k a now s)) =
       AList.update k (fst (touch (cfg s) a now (map_of m k)))
         (if map_of m k = None then make_room upd ord (cap (cfg s)) m else m) \<and>
     snd (call ord k a now s) = snd (touch (cfg s) a now (map_of m k))"
    by (rule exE)
  then show thesis by (elim conjE) (rule that)
qed

lemma call_bounded:
  assumes ok: "gomap_ok (ents s)" and pos: "0 < cap (cfg s)"
    and len: "gomap_len (ents s) \<le> cap (cfg s)"
  shows "gomap_ok (ents (fst (call ord k a now s)))"
    and "gomap_len (ents (fst (call ord k a now s))) \<le> cap (cfg s)"
proof -
  obtain m where m: "m = ents s \<or> m = trim_map (trim (cfg s) now) (ents s)"
    and e: "ents (fst (call ord k a now s)) =
       AList.update k (fst (touch (cfg s) a now (map_of m k)))
         (if map_of m k = None then make_room upd ord (cap (cfg s)) m else m)"
    using call_cases [of s now ord k a] by blast
  have okm: "gomap_ok m" using m ok by (auto intro: trim_map_ok)
  have lenm: "gomap_len m \<le> cap (cfg s)"
    using m len trim_map_length [of "trim (cfg s) now" "ents s"] by (auto simp: gomap_len_def)
  show "gomap_ok (ents (fst (call ord k a now s)))"
    unfolding e using okm by (simp add: make_room_ok)
  show "gomap_len (ents (fst (call ord k a now s))) \<le> cap (cfg s)"
  proof (cases "map_of m k")
    case None
    let ?r = "make_room upd ord (cap (cfg s)) m"
    have "k \<notin> fst ` set ?r"
      using None make_room_subset [of upd ord "cap (cfg s)" m]
      by (auto simp: map_of_eq_None_iff)
    moreover have "gomap_len ?r < cap (cfg s)" using pos by (rule make_room_bound)
    ultimately show ?thesis
      unfolding e using None by (simp add: gomap_len_def length_update_absent)
  next
    case (Some x)
    then have "k \<in> fst ` set m" by (metis map_of_eq_None_iff option.distinct(1))
    then show ?thesis
      unfolding e using Some lenm by (simp add: gomap_len_def length_update_present)
  qed
qed

lemma run_bounded:
  assumes "gomap_ok (ents s)" and "0 < cap (cfg s)" and "gomap_len (ents s) \<le> cap (cfg s)"
  shows "gomap_ok (ents (limiter_state call s cs)) \<and>
         gomap_len (ents (limiter_state call s cs)) \<le> cap (cfg s) \<and>
         cfg (limiter_state call s cs) = cfg s"
  using assms
proof (induction cs arbitrary: s)
  case (Cons c cs)
  obtain k a now ord where c: "c = (k, a, now, ord)" by (cases c)
  show ?case
    using Cons.IH [of "fst (call ord k a now s)"] call_bounded [OF Cons.prems] Cons.prems
    by (simp add: c call_cfg)
qed simp

text \<open>A call for one key changes the entry of another only by trimming or evicting it.\<close>

lemma call_other_keys:
  assumes "k' \<noteq> k" and ok: "gomap_ok (ents s)"
    and e': "map_of (ents (fst (call ord k a now s))) k' = Some e'"
  shows "map_of (ents s) k' = Some e' \<or>
         (\<exists>e. map_of (ents s) k' = Some e \<and> trim (cfg s) now e = Some e')"
proof -
  obtain m where m: "m = ents s \<or> m = trim_map (trim (cfg s) now) (ents s)"
    and e: "ents (fst (call ord k a now s)) =
       AList.update k (fst (touch (cfg s) a now (map_of m k)))
         (if map_of m k = None then make_room upd ord (cap (cfg s)) m else m)"
    using call_cases [of s now ord k a] by blast
  have okm: "gomap_ok m" using m ok by (auto intro: trim_map_ok)
  let ?r = "if map_of m k = None then make_room upd ord (cap (cfg s)) m else m"
  have "map_of ?r k' = Some e'"
    using e' assms(1) unfolding e by (simp add: map_of_update_gomap)
  then have "(k', e') \<in> set m"
    using make_room_subset [of upd ord "cap (cfg s)" m] by (auto dest!: map_of_SomeD split: if_splits)
  then have "map_of m k' = Some e'"
    using okm by (simp add: gomap_ok_def gomap_keys_def)
  then show ?thesis
    using m ok by (auto simp: trim_map_lookup Option.bind_eq_Some_conv)
qed

end

text \<open>
  The stronger contract: trimming an entry never changes what a later call makes of it.
  With room for every key in use, such a limiter cannot be told apart from one machine per key.
\<close>

locale keyed_limiter = keyed_store +
  assumes touch_trim:
    "t \<le> now \<Longrightarrow> touch c a now (Option.bind x (trim c t)) = touch c a now x"
begin

lemma call_result:
  assumes "gomap_ok (ents s)"
  shows "snd (call ord k a now s) = snd (touch (cfg s) a now (map_of (ents s) k))"
    and "map_of (ents (fst (call ord k a now s))) k = Some (fst (touch (cfg s) a now (map_of (ents s) k)))"
proof -
  obtain m where m: "m = ents s \<or> m = trim_map (trim (cfg s) now) (ents s)"
    and e: "ents (fst (call ord k a now s)) =
       AList.update k (fst (touch (cfg s) a now (map_of m k)))
         (if map_of m k = None then make_room upd ord (cap (cfg s)) m else m)"
    and d: "snd (call ord k a now s) = snd (touch (cfg s) a now (map_of m k))"
    using call_cases [of s now ord k a] by blast
  have "touch (cfg s) a now (map_of m k) = touch (cfg s) a now (map_of (ents s) k)"
    using m assms by (auto simp: trim_map_lookup touch_trim)
  then show "snd (call ord k a now s) = snd (touch (cfg s) a now (map_of (ents s) k))"
    and "map_of (ents (fst (call ord k a now s))) k = Some (fst (touch (cfg s) a now (map_of (ents s) k)))"
    by (simp_all add: d e map_of_update_gomap)
qed

lemma call_as_machine:
  assumes ok: "gomap_ok (ents s)" and K: "finite K" "k \<in> K" "fst ` set (ents s) \<subseteq> K"
    and room: "int (card K) \<le> cap (cfg s)" and t: "t \<le> now"
    and sim: "\<And>k a t'. t \<le> t' \<Longrightarrow>
      touch (cfg s) a t' (map_of (ents s) k) = touch (cfg s) a t' (m k)"
    and r: "call ord k a now s = (s', d)" and tm: "touch (cfg s) a now (m k) = (e, d')"
  shows "d = d' \<and> gomap_ok (ents s') \<and> fst ` set (ents s') \<subseteq> K \<and> cfg s' = cfg s \<and>
    (\<forall>k' b t'. now \<le> t' \<longrightarrow>
       touch (cfg s) b t' (map_of (ents s') k') = touch (cfg s) b t' ((m(k \<mapsto> e)) k'))"
proof -
  obtain p where p: "p = ents s \<or> p = trim_map (trim (cfg s) now) (ents s)"
    and e': "ents s' = AList.update k (fst (touch (cfg s) a now (map_of p k)))
         (if map_of p k = None then make_room upd ord (cap (cfg s)) p else p)"
    and d: "d = snd (touch (cfg s) a now (map_of p k))"
    using call_cases [of s now ord k a] unfolding r fst_conv snd_conv by blast
  have okp: "gomap_ok p" using p ok by (auto intro: trim_map_ok)
  have keysp: "fst ` set p \<subseteq> K" 
    using p K(3) trim_map_keys [of "trim (cfg s) now" "ents s"] by blast
  have same: "touch (cfg s) b t' (map_of p k') = touch (cfg s) b t' (m k')" if "now \<le> t'" for k' b t'
  proof -
    have "touch (cfg s) b t' (map_of p k') = touch (cfg s) b t' (map_of (ents s) k')"
      using p ok that by (auto simp: trim_map_lookup touch_trim)
    then show ?thesis using sim [of t' b k'] t that by simp
  qed
  have "make_room upd ord (cap (cfg s)) p = p" if "map_of p k = None"
  proof (rule make_room_id)
    have "fst ` set p \<subset> K" using keysp K(2) that by (auto simp: map_of_eq_None_iff)
    then have "card (fst ` set p) < card K" by (rule psubset_card_mono [OF K(1)])
    then show "gomap_len p < cap (cfg s)"
      using room okp by (simp add: gomap_len_def length_gomap_card)
  qed
  then have new: "ents s' = AList.update k e p"
    using e' same [of now a k] tm by auto
  have "cfg s' = cfg s" using call_cfg [of ord k a now s] r by simp
  moreover have "d = d'" using d same [of now a k] tm by simp
  moreover have "fst ` set (ents s') \<subseteq> K"
    using keysp K(2) by (auto simp: new dom_update)
  moreover have "touch (cfg s) b t' (map_of (ents s') k') = touch (cfg s) b t' ((m(k \<mapsto> e)) k')"
    if "now \<le> t'" for k' b t'
    using same [OF that] by (simp add: new map_of_update_gomap)
  ultimately show ?thesis using okp by (simp add: new)
qed

lemma run_independent:
  assumes "gomap_ok (ents s)" and "finite K" and "fst ` set (ents s) \<subseteq> K"
    and "call_key ` set cs \<subseteq> K" and "int (card K) \<le> cap (cfg s)"
    and "sorted (t # map call_time cs)"
    and "\<And>k a t'. t \<le> t' \<Longrightarrow>
      touch (cfg s) a t' (map_of (ents s) k) = touch (cfg s) a t' (m k)"
  shows "limiter_run call s cs = key_machines (touch (cfg s)) m cs"
  using assms
proof (induction cs arbitrary: s m t)
  case (Cons c cs)
  obtain k a now ord where c: "c = (k, a, now, ord)" by (cases c)
  obtain s' d where r: "call ord k a now s = (s', d)" by (cases "call ord k a now s")
  obtain e d' where tm: "touch (cfg s) a now (m k) = (e, d')"
    by (cases "touch (cfg s) a now (m k)")
  have k: "k \<in> K" and t: "t \<le> now"
    using Cons.prems(4,6) by (simp_all add: c)
  have step: "d = d' \<and> gomap_ok (ents s') \<and> fst ` set (ents s') \<subseteq> K \<and> cfg s' = cfg s \<and>
    (\<forall>k' b t'. now \<le> t' \<longrightarrow>
       touch (cfg s) b t' (map_of (ents s') k') = touch (cfg s) b t' ((m(k \<mapsto> e)) k'))"
    by (rule call_as_machine [OF Cons.prems(1,2) k Cons.prems(3,5) t Cons.prems(7) r tm])
  have "limiter_run call s' cs = key_machines (touch (cfg s')) (m(k \<mapsto> e)) cs"
  proof (rule Cons.IH [where t = now])
    show "sorted (now # map call_time cs)"
      using Cons.prems(6) by (simp add: c)
    show "call_key ` set cs \<subseteq> K" using Cons.prems(4) by simp
    show "int (card K) \<le> cap (cfg s')" using Cons.prems(5) step by simp
    show "touch (cfg s') b t' (map_of (ents s') k') = touch (cfg s') b t' ((m(k \<mapsto> e)) k')"
      if "now \<le> t'" for k' b t'
      using step that by simp
    show "gomap_ok (ents s')" "fst ` set (ents s') \<subseteq> K" "finite K"
      using step Cons.prems(2) by blast+
  qed
  then show ?case using step by (simp add: c r tm)
qed simp

end

end
