(* ===== verification/Ratelimit_Fixed.thy ===== *)
theory Ratelimit_Fixed
  imports Ratelimit_Store
begin

section \<open>FixedWindow (util/ratelimit/fixed.go)\<close>

text \<open>
  The limiter as the source has it, under the mutex: every exported method is one atomic step.
  \<open>Allow\<close> and \<open>AllowWithLimit\<close> are the timed variants at the current time. The janitor's
  goroutine is the operation \<open>fixed_PruneAt\<close>, which it may perform at any time while
  \<open>fx_janitor\<close> is running.
\<close>

record fixedEntry =
  fx_windowStart :: go_time
  fx_updatedAt :: go_time
  fx_count :: int

record 'k FixedWindow =
  fx_entries :: "('k, fixedEntry) gomap"
  fx_window :: duration
  fx_limit :: int
  fx_maxKeys :: int
  fx_gcEvery :: duration
  fx_lastGC :: go_time
  fx_janitor :: janitor

definition NewFixedWindow ::
  "duration \<Rightarrow> int \<Rightarrow> int \<Rightarrow> duration \<Rightarrow> string + 'k FixedWindow" where
  "NewFixedWindow window limit maxKeys gcEvery =
     (if window \<le> 0 then Inl ''ratelimit: fixed window must be positive''
      else if maxKeys \<le> 0 then Inl ''ratelimit: max keys must be positive''
      else Inr \<lparr>fx_entries = [], fx_window = window, fx_limit = limit, fx_maxKeys = maxKeys,
                fx_gcEvery = gcEvery, fx_lastGC = 0, fx_janitor = startJanitor gcEvery\<rparr>)"

definition fixed_pruneLocked :: "go_time \<Rightarrow> 'k FixedWindow \<Rightarrow> 'k FixedWindow" where
  "fixed_pruneLocked now l =
     l\<lparr>fx_entries := filter (\<lambda>(k, e). \<not> time_sub now (fx_windowStart e) \<ge> fx_window l) (fx_entries l),
       fx_lastGC := now\<rparr>"

definition fixed_maybePruneLocked :: "go_time \<Rightarrow> 'k FixedWindow \<Rightarrow> 'k FixedWindow" where
  "fixed_maybePruneLocked now l =
     (if prune_due (fx_entries l) (fx_maxKeys l) (fx_gcEvery l) (fx_lastGC l) now
      then fixed_pruneLocked now l else l)"

definition fixed_makeRoomLocked ::
  "('k, fixedEntry) range_order \<Rightarrow> 'k FixedWindow \<Rightarrow> 'k FixedWindow" where
  "fixed_makeRoomLocked ord l =
     l\<lparr>fx_entries := make_room fx_updatedAt ord (fx_maxKeys l) (fx_entries l)\<rparr>"

definition fixed_fresh :: "go_time \<Rightarrow> fixedEntry" where
  "fixed_fresh now = \<lparr>fx_windowStart = now, fx_updatedAt = 0, fx_count = 0\<rparr>"

definition fixed_AllowWithLimitAt ::
  "('k, fixedEntry) range_order \<Rightarrow> 'k \<Rightarrow> int \<Rightarrow> go_time \<Rightarrow> 'k FixedWindow \<Rightarrow> 'k FixedWindow \<times> Decision" where
  "fixed_AllowWithLimitAt ord key limit now l =
     (let l1 = fixed_maybePruneLocked now l;
          (l2, entry0) =
            (case map_of (fx_entries l1) key of
               None \<Rightarrow> (fixed_makeRoomLocked ord l1, fixed_fresh now)
             | Some e \<Rightarrow>
                 (if time_sub now (fx_windowStart e) \<ge> fx_window l1 then (l1, fixed_fresh now)
                  else (l1, e)));
          entry = entry0\<lparr>fx_updatedAt := now\<rparr>
      in if limit \<le> 0 \<or> fx_count entry \<ge> limit
         then (l2\<lparr>fx_entries := AList.update key entry (fx_entries l2)\<rparr>,
               \<lparr>Allowed = False,
                RetryAfter = retryAfter (fx_windowStart entry + fx_window l2) now (fx_window l2),
                Count = fx_count entry\<rparr>)
         else let entry' = entry\<lparr>fx_count := fx_count entry + 1\<rparr>
              in (l2\<lparr>fx_entries := AList.update key entry' (fx_entries l2)\<rparr>,
                  \<lparr>Allowed = True, RetryAfter = 0, Count = fx_count entry'\<rparr>))"

definition fixed_AllowAt ::
  "('k, fixedEntry) range_order \<Rightarrow> 'k \<Rightarrow> go_time \<Rightarrow> 'k FixedWindow \<Rightarrow> 'k FixedWindow \<times> Decision" where
  "fixed_AllowAt ord key now l = fixed_AllowWithLimitAt ord key (fx_limit l) now l"

definition fixed_Reset :: "'k \<Rightarrow> 'k FixedWindow \<Rightarrow> 'k FixedWindow" where
  "fixed_Reset key l = l\<lparr>fx_entries := AList.delete key (fx_entries l)\<rparr>"

definition fixed_ResetAll :: "'k FixedWindow \<Rightarrow> 'k FixedWindow" where
  "fixed_ResetAll l = l\<lparr>fx_entries := []\<rparr>"

definition fixed_Len :: "'k FixedWindow \<Rightarrow> int" where
  "fixed_Len l = gomap_len (fx_entries l)"

definition fixed_PruneAt :: "go_time \<Rightarrow> 'k FixedWindow \<Rightarrow> 'k FixedWindow" where
  "fixed_PruneAt now l = fixed_pruneLocked now l"

definition fixed_Close :: "'k FixedWindow \<Rightarrow> 'k FixedWindow" where
  "fixed_Close l = l\<lparr>fx_janitor := janitor_close (fx_janitor l)\<rparr>"

subsection \<open>The specification: one counter per key\<close>

definition fixed_cfg :: "'k FixedWindow \<Rightarrow> duration \<times> int" where
  "fixed_cfg l = (fx_window l, fx_maxKeys l)"

definition fixed_trim :: "duration \<times> int \<Rightarrow> go_time \<Rightarrow> fixedEntry \<Rightarrow> fixedEntry option" where
  "fixed_trim c now e = (if time_sub now (fx_windowStart e) \<ge> fst c then None else Some e)"

definition fixed_touch ::
  "duration \<times> int \<Rightarrow> int \<Rightarrow> go_time \<Rightarrow> fixedEntry option \<Rightarrow> fixedEntry \<times> Decision" where
  "fixed_touch c limit now x =
     (let e0 = (case x of None \<Rightarrow> fixed_fresh now
                | Some e \<Rightarrow> if time_sub now (fx_windowStart e) \<ge> fst c then fixed_fresh now else e);
          e = e0\<lparr>fx_updatedAt := now\<rparr>
      in if limit \<le> 0 \<or> fx_count e \<ge> limit
         then (e, \<lparr>Allowed = False,
                   RetryAfter = retryAfter (fx_windowStart e + fst c) now (fst c), Count = fx_count e\<rparr>)
         else (e\<lparr>fx_count := fx_count e + 1\<rparr>,
               \<lparr>Allowed = True, RetryAfter = 0, Count = fx_count e + 1\<rparr>))"

lemma fixed_prune_entries:
  "fx_entries (fixed_pruneLocked now l) = trim_map (fixed_trim (fixed_cfg l) now) (fx_entries l)"
proof -
  have "fixed_trim (fixed_cfg l) now =
      (\<lambda>e. if time_sub now (fx_windowStart e) \<ge> fx_window l then None else Some e)"
    by (auto simp: fixed_trim_def fixed_cfg_def)
  then show ?thesis by (simp add: fixed_pruneLocked_def trim_map_filter)
qed

lemma fixed_cfg_simps [simp]:
  "fx_window (fixed_pruneLocked now l) = fx_window l"
  "fx_maxKeys (fixed_pruneLocked now l) = fx_maxKeys l"
  "fx_window (fixed_maybePruneLocked now l) = fx_window l"
  "fx_maxKeys (fixed_maybePruneLocked now l) = fx_maxKeys l"
  "fx_window (fixed_makeRoomLocked ord l) = fx_window l"
  "fx_maxKeys (fixed_makeRoomLocked ord l) = fx_maxKeys l"
  by (simp_all add: fixed_pruneLocked_def fixed_maybePruneLocked_def fixed_makeRoomLocked_def)

lemma fixed_maybePrune_cases:
  "fx_entries (fixed_maybePruneLocked now l) = fx_entries l \<and> gomap_len (fx_entries l) < fx_maxKeys l \<or>
   fx_entries (fixed_maybePruneLocked now l) = trim_map (fixed_trim (fixed_cfg l) now) (fx_entries l)"
  by (auto simp: fixed_maybePruneLocked_def prune_due_def fixed_prune_entries)

lemma fixed_call_shape:
  "fx_entries (fst (fixed_AllowWithLimitAt ord k limit now l)) =
     (let m = fx_entries (fixed_maybePruneLocked now l) in
      AList.update k (fst (fixed_touch (fixed_cfg l) limit now (map_of m k)))
        (if map_of m k = None then make_room fx_updatedAt ord (fx_maxKeys l) m else m))"
  "snd (fixed_AllowWithLimitAt ord k limit now l) =
     snd (fixed_touch (fixed_cfg l) limit now (map_of (fx_entries (fixed_maybePruneLocked now l)) k))"
  "fixed_cfg (fst (fixed_AllowWithLimitAt ord k limit now l)) = fixed_cfg l"
  by (auto simp: fixed_AllowWithLimitAt_def fixed_touch_def fixed_cfg_def fixed_makeRoomLocked_def
      Let_def split: option.splits)

lemma fixed_touch_expired:
  "fst c \<le> time_sub now (fx_windowStart e) \<Longrightarrow>
     fixed_touch c a now (Some e) = fixed_touch c a now None"
  by (simp add: fixed_touch_def)

interpretation fixed: keyed_limiter fx_entries fixed_cfg snd fixed_AllowWithLimitAt
  fixed_trim fixed_touch fx_updatedAt
proof (unfold_locales, goal_cases)
  case (1 ord k a now s)
  show ?case by (rule fixed_call_shape(3))
next
  case (2 s now ord k a)
  show ?case
    using fixed_maybePrune_cases [of now s]
    by (intro exI [of _ "fx_entries (fixed_maybePruneLocked now s)"])
      (auto simp: fixed_call_shape Let_def fixed_cfg_def)
next
  case (3 t now c a x)
  then show ?case
    by (cases x) (auto simp: fixed_trim_def intro!: fixed_touch_expired [symmetric]
        intro: order_trans [OF _ time_sub_mono])
qed


subsection \<open>At most twice the limit in any span of one window\<close>

fun fixed_run ::
  "'k FixedWindow \<Rightarrow> ('k \<times> go_time \<times> ('k, fixedEntry) range_order) list \<Rightarrow> Decision list" where
  "fixed_run l [] = []"
| "fixed_run l ((key, now, ord) # cs) =
     (let (l', d) = fixed_AllowAt ord key now l in d # fixed_run l' cs)"

lemma fixed_limit_kept: "fx_limit (fst (fixed_AllowWithLimitAt ord k limit now l)) = fx_limit l"
  by (auto simp: fixed_AllowWithLimitAt_def fixed_makeRoomLocked_def fixed_maybePruneLocked_def
      fixed_pruneLocked_def Let_def split: option.splits)

lemma fixed_run_eq:
  "fixed_run l cs = limiter_run fixed_AllowWithLimitAt l (with_limit (fx_limit l) cs)"
proof (induction l cs rule: fixed_run.induct)
  case (2 l key now ord cs)
  show ?case
    using 2 fixed_limit_kept [of ord key "fx_limit l" now l]
    by (auto simp: fixed_AllowAt_def split: prod.splits)
qed simp

text \<open>
  What the entry of a key knows about the times granted to it: those since the start of its
  window are counted, those of one window before that are at most as many as the limit.
\<close>

definition fixed_hist :: "duration \<Rightarrow> int \<Rightarrow> go_time list \<Rightarrow> fixedEntry \<Rightarrow> bool" where
  "fixed_hist W limit H e \<longleftrightarrow>
     (\<forall>t \<in> set H. t < fx_windowStart e + W) \<and>
     in_span (fx_windowStart e) (fx_windowStart e + W) H = fx_count e \<and> fx_count e \<le> limit \<and>
     in_span (fx_windowStart e - W) (fx_windowStart e) H \<le> limit \<and>
     (\<forall>a. in_span a (a + W) H \<le> 2 * limit)"

lemma fixed_hist_fresh:
  "0 \<le> limit \<Longrightarrow> 0 < W \<Longrightarrow> fixed_hist W limit [] (fixed_fresh now)"
  by (simp add: fixed_hist_def fixed_fresh_def)

lemma fixed_hist_roll:
  assumes H: "fixed_hist W limit H e" and W: "0 < W" and roll: "fx_windowStart e + W \<le> now"
  shows "fixed_hist W limit H (fixed_fresh now)"
proof -
  let ?ws = "fx_windowStart e"
  have old: "t < now" if "t \<in> set H" for t using H roll that by (fastforce simp: fixed_hist_def)
  have "in_span now (now + W) H = 0" 
    by (rule in_span_0) (use old in fastforce)
  moreover have "in_span (now - W) now H \<le> in_span ?ws (?ws + W) H"
    using H roll by (intro in_span_mono) (auto simp: fixed_hist_def)
  ultimately show ?thesis
    using H W old in_span_nonneg [of ?ws "?ws + W" H]
    by (fastforce simp: fixed_hist_def fixed_fresh_def)
qed

lemma fixed_hist_count:
  assumes H: "fixed_hist W limit H e" and W: "0 < W"
    and now: "fx_windowStart e \<le> now" "now < fx_windowStart e + W" and room: "fx_count e < limit"
  shows "fixed_hist W limit (H @ [now]) (e\<lparr>fx_updatedAt := u, fx_count := fx_count e + 1\<rparr>)"
proof -
  let ?ws = "fx_windowStart e"
  have "in_span a (a + W) (H @ [now]) \<le> 2 * limit" for a
  proof (cases "a \<le> now \<and> now < a + W")
    case True
    then have "in_span a (a + W) H \<le> in_span (?ws - W) (?ws + W) H"
      using H now by (intro in_span_mono) (auto simp: fixed_hist_def)
    also have "\<dots> = in_span (?ws - W) ?ws H + in_span ?ws (?ws + W) H"
      using W by (intro in_span_split) auto
    also have "\<dots> < 2 * limit" using H room by (auto simp: fixed_hist_def)
    finally show ?thesis using True by simp
  next
    case False
    with H show ?thesis by (auto simp: fixed_hist_def)
  qed
  then show ?thesis using H W now room by (auto simp: fixed_hist_def)
qed

lemma fixed_hist_touch:
  assumes W: "0 < W" "W \<le> int64_max" and lim: "0 \<le> limit"
    and H: "case x of None \<Rightarrow> H = [] | Some e \<Rightarrow> fixed_hist W limit H e \<and> fx_windowStart e \<le> now"
    and t: "fixed_touch (W, K) limit now x = (e', d)"
  shows "fixed_hist W limit (H @ (if Allowed d then [now] else [])) e' \<and> fx_windowStart e' \<le> now"
proof -
  obtain e0 where e0: "fixed_hist W limit H e0" "fx_windowStart e0 \<le> now" "now < fx_windowStart e0 + W"
    and tt: "fixed_touch (W, K) limit now x =
      (let e = e0\<lparr>fx_updatedAt := now\<rparr> in if limit \<le> 0 \<or> fx_count e \<ge> limit
         then (e, \<lparr>Allowed = False, RetryAfter = retryAfter (fx_windowStart e + W) now W, Count = fx_count e\<rparr>)
         else (e\<lparr>fx_count := fx_count e + 1\<rparr>, \<lparr>Allowed = True, RetryAfter = 0, Count = fx_count e + 1\<rparr>))"
  proof (cases "\<exists>e. x = Some e \<and> now < fx_windowStart e + W")
    case True
    then obtain e where e: "x = Some e" "now < fx_windowStart e + W" by blast
    then have "\<not> W \<le> time_sub now (fx_windowStart e)"
      using W by (simp add: time_sub_ge_iff int64_min_def)
    with e H show ?thesis by (intro that [of e]) (auto simp: fixed_touch_def Let_def)
  next
    case False
    then have "fixed_touch (W, K) limit now x = fixed_touch (W, K) limit now None"
      using W by (cases x) (auto simp: time_sub_ge_iff int64_min_def intro!: fixed_touch_expired)
    moreover have "fixed_hist W limit H (fixed_fresh now)"
      using False H W lim by (cases x) (auto intro: fixed_hist_fresh fixed_hist_roll)
    ultimately show ?thesis
      using W by (intro that [of "fixed_fresh now"])
        (simp_all add: fixed_touch_def fixed_fresh_def Let_def)
  qed
  have kept: "fixed_hist W limit H (e0\<lparr>fx_updatedAt := now\<rparr>)"
    using e0(1) by (simp add: fixed_hist_def)
  show ?thesis
    using t kept e0 fixed_hist_count [OF e0(1) W(1) e0(2,3), of now]
    unfolding tt Let_def by (auto split: if_splits)
qed

lemma fixed_one_bound:
  assumes W: "0 < W" "W \<le> int64_max" and lim: "0 \<le> limit"
    and "case x of None \<Rightarrow> H = [] | Some e \<Rightarrow> fixed_hist W limit H e \<and> fx_windowStart e \<le> low"
    and "set (map fst cs) \<subseteq> {limit}" and "sorted (low # map snd cs)"
  shows "in_span a (a + W) (H @ granted cs (one_machine (fixed_touch (W, K)) x cs)) \<le> 2 * limit"
  using assms(4-)
proof (induction cs arbitrary: x H low)
  case Nil
  then show ?case using lim by (auto simp: fixed_hist_def split: option.splits)
next
  case (Cons c cs)
  obtain now where c: "c = (limit, now)" using Cons.prems(2) by (cases c) auto
  obtain e' d where t: "fixed_touch (W, K) limit now x = (e', d)"
    by (cases "fixed_touch (W, K) limit now x")
  have "case x of None \<Rightarrow> H = [] | Some e \<Rightarrow> fixed_hist W limit H e \<and> fx_windowStart e \<le> now"
    using Cons.prems(1,3) by (auto simp: c split: option.splits)
  from fixed_hist_touch [OF W lim this t]
  have "in_span a (a + W) ((H @ (if Allowed d then [now] else [])) @
      granted cs (one_machine (fixed_touch (W, K)) (Some e') cs)) \<le> 2 * limit"
    using Cons.prems by (intro Cons.IH [where low = now]) (auto simp: c)
  then show ?case by (auto simp: c t)
qed


subsection \<open>Every operation\<close>

datatype 'k fixed_event = FxAllow 'k int | FxReset 'k | FxResetAll | FxSweep | FxPrune | FxClose

fun fixed_step ::
  "('k, fixedEntry) range_order \<Rightarrow> go_time \<Rightarrow> 'k fixed_event \<Rightarrow> 'k FixedWindow \<Rightarrow> 'k FixedWindow" where
  "fixed_step ord now (FxAllow key limit) l = fst (fixed_AllowWithLimitAt ord key limit now l)"
| "fixed_step ord now (FxReset key) l = fixed_Reset key l"
| "fixed_step ord now FxResetAll l = fixed_ResetAll l"
| "fixed_step ord now FxSweep l = (if fx_janitor l = JanitorRunning then fixed_PruneAt now l else l)"
| "fixed_step ord now FxPrune l = fixed_PruneAt now l"
| "fixed_step ord now FxClose l = fixed_Close l"

fun fixed_exec ::
  "'k FixedWindow \<Rightarrow> ('k fixed_event \<times> go_time \<times> ('k, fixedEntry) range_order) list \<Rightarrow> 'k FixedWindow" where
  "fixed_exec l [] = l"
| "fixed_exec l ((ev, now, ord) # evs) = fixed_exec (fixed_step ord now ev l) evs"

lemma fixed_call_ok:
  "gomap_ok (fx_entries l) \<Longrightarrow> gomap_ok (fx_entries (fst (fixed_AllowWithLimitAt ord k limit now l)))"
  using fixed_maybePrune_cases [of now l]
  by (auto simp: fixed_call_shape Let_def make_room_ok trim_map_ok)

lemma fixed_step_bounded:
  assumes "gomap_ok (fx_entries l)" "0 < fx_maxKeys l" "gomap_len (fx_entries l) \<le> fx_maxKeys l"
  shows "gomap_ok (fx_entries (fixed_step ord now ev l)) \<and>
         gomap_len (fx_entries (fixed_step ord now ev l)) \<le> fx_maxKeys l \<and>
         fx_maxKeys (fixed_step ord now ev l) = fx_maxKeys l"
proof -
  have prune: "gomap_ok (fx_entries (fixed_pruneLocked now l))"
    "gomap_len (fx_entries (fixed_pruneLocked now l)) \<le> fx_maxKeys l"
    using assms trim_map_length [of "fixed_trim (fixed_cfg l) now" "fx_entries l"]
    by (simp_all add: fixed_prune_entries trim_map_ok gomap_len_def)
  have del: "gomap_len (AList.delete k (fx_entries l)) \<le> fx_maxKeys l" for k
    using assms(3) gomap_len_delete [of k "fx_entries l"] by simp
  show ?thesis
  proof (cases ev)
    case (FxAllow k limit)
    then show ?thesis
      using fixed.call_bounded [of l ord k limit now] assms fixed_call_shape(3) [of ord k limit now l]
      by (simp add: fixed_cfg_def)
  qed (use assms prune del in
      \<open>simp_all add: fixed_Reset_def fixed_ResetAll_def fixed_PruneAt_def fixed_Close_def gomap_len_def\<close>)
qed

lemma fixed_exec_bounded:
  assumes "gomap_ok (fx_entries l)" "0 < fx_maxKeys l" "gomap_len (fx_entries l) \<le> fx_maxKeys l"
  shows "gomap_ok (fx_entries (fixed_exec l evs)) \<and>
         gomap_len (fx_entries (fixed_exec l evs)) \<le> fx_maxKeys l"
  using assms
proof (induction evs arbitrary: l)
  case (Cons x evs)
  obtain ev now ord where x: "x = (ev, now, ord)" by (cases x)
  show ?case
    using Cons.IH [of "fixed_step ord now ev l"] fixed_step_bounded [OF Cons.prems, of ord now ev]
      Cons.prems(2) by (simp add: x)
qed simp

subsection \<open>Properties\<close>

text \<open>Whatever sequence of calls, resets, sweeps and closes a limiter built by
  \<open>NewFixedWindow\<close> goes through, in whatever order Go's \<open>range\<close> visits the map, its map
  has one entry per key and never more than \<open>maxKeys\<close> of them.\<close>

theorem fixed_memory_bounded:
  assumes "NewFixedWindow window limit maxKeys gcEvery = Inr l"
  shows "gomap_ok (fx_entries (fixed_exec l evs)) \<and> fixed_Len (fixed_exec l evs) \<le> maxKeys"
proof -
  from assms have "fx_entries l = []" "fx_maxKeys l = maxKeys" "0 < maxKeys"
    by (auto simp: NewFixedWindow_def split: if_splits)
  then show ?thesis
    using fixed_exec_bounded [of l evs] by (simp add: fixed_Len_def gomap_len_def)
qed

theorem fixed_memory_bounded_witness:
  "gomap_ok (fx_entries (fixed_exec
     \<lparr>fx_entries = [], fx_window = 10, fx_limit = 2, fx_maxKeys = 1, fx_gcEvery = 0, fx_lastGC = 0,
      fx_janitor = JanitorNil\<rparr> [(FxAllow (1::nat) 2, 5, \<lambda>m k. 0), (FxAllow 2 2, 6, \<lambda>m k. 0)])) \<and>
   fixed_Len (fixed_exec
     \<lparr>fx_entries = [], fx_window = 10, fx_limit = 2, fx_maxKeys = 1, fx_gcEvery = 0, fx_lastGC = 0,
      fx_janitor = JanitorNil\<rparr> [(FxAllow (1::nat) 2, 5, \<lambda>m k. 0), (FxAllow 2 2, 6, \<lambda>m k. 0)]) \<le> 1"
  by (rule fixed_memory_bounded [of 10 2 1 0]) (simp add: NewFixedWindow_def startJanitor_def)

lemma fixed_run_machines:
  assumes "NewFixedWindow window limit maxKeys gcEvery = Inr l"
    and "int (card ((\<lambda>(k, now, ord). k) ` set cs)) \<le> maxKeys"
    and "sorted (map (\<lambda>(k, now, ord). now) cs)"
  shows "fixed_run l cs =
         key_machines (fixed_touch (window, maxKeys)) Map.empty (with_limit limit cs)"
proof -
  from assms(1) have l: "fx_entries l = []" "fx_maxKeys l = maxKeys" "fx_limit l = limit"
    "fx_window l = window"
    by (auto simp: NewFixedWindow_def split: if_splits)
  have "limiter_run fixed_AllowWithLimitAt l (with_limit limit cs) =
      key_machines (fixed_touch (fixed_cfg l)) Map.empty (with_limit limit cs)"
    using assms(2) l
    by (intro fixed.run_independent [OF _ _ _ _ _ sorted_from_first,
          where K = "(\<lambda>(k, now, ord). k) ` set cs"])
      (auto simp: with_limit_facts fixed_cfg_def assms(3))
  then show ?thesis by (simp add: fixed_run_eq l fixed_cfg_def)
qed

text \<open>C23. The limiter refines one counter per key: as long as the calls use no more keys than
  the map has room for, and times do not go back, the decisions are exactly those of independent
  machines, each of which sees only the calls of its own key. Pruning and the sharing of the map are
  not observable.\<close>

theorem fixed_refines_counters:
  assumes "NewFixedWindow window limit maxKeys gcEvery = Inr l"
    and "int (card ((\<lambda>(k, now, ord). k) ` set cs)) \<le> maxKeys"
    and "sorted (map (\<lambda>(k, now, ord). now) cs)"
  shows "fixed_run l cs =
         key_machines (fixed_touch (window, maxKeys)) Map.empty (with_limit limit cs)"
  using assms by (rule fixed_run_machines)

theorem fixed_refines_counters_witness:
  "fixed_run \<lparr>fx_entries = [], fx_window = 10, fx_limit = 1, fx_maxKeys = 2, fx_gcEvery = 0,
      fx_lastGC = 0, fx_janitor = JanitorNil\<rparr> [(1::nat, 5, \<lambda>m k. 0), (2, 6, \<lambda>m k. 0), (1, 7, \<lambda>m k. 0)] =
   key_machines (fixed_touch (10, 2)) Map.empty
     (with_limit (1::int) [(1::nat, 5, (\<lambda>m k. 0) :: (nat, fixedEntry) range_order), (2, 6, \<lambda>m k. 0), (1, 7, \<lambda>m k. 0)])"
  by (rule fixed_refines_counters [of 10 1 2 0])
    (simp_all add: NewFixedWindow_def startJanitor_def insert_commute)

text \<open>C17. The rate the limiter enforces: in any span of one window's length, wherever it lies, a
  key is granted at most twice the limit (the bound of a fixed window, reached when the grants
  sit at the two sides of a window boundary).\<close>

theorem fixed_rate_bound:
  assumes "NewFixedWindow window limit maxKeys gcEvery = Inr l"
    and "int (card ((\<lambda>(k, now, ord). k) ` set cs)) \<le> maxKeys"
    and "sorted (map (\<lambda>(k, now, ord). now) cs)"
    and "window \<le> int64_max" and "0 \<le> limit"
  shows "in_span a (a + window)
     (granted (calls_of key (with_limit limit cs)) (decisions_of key (with_limit limit cs) (fixed_run l cs)))
     \<le> 2 * limit"
proof -
  have W: "0 < window" using assms(1) by (auto simp: NewFixedWindow_def split: if_splits)
  have run: "decisions_of key (with_limit limit cs) (fixed_run l cs) =
      one_machine (fixed_touch (window, maxKeys)) None (calls_of key (with_limit limit cs))"
    using fixed_run_machines [OF assms(1-3)] by (simp add: decisions_of_key_machines)
  have "sorted (map snd (calls_of key (with_limit limit cs)))"
    using assms(3) by (intro sorted_calls_of) (simp add: with_limit_facts)
  note low = sorted_from_first [OF this]
  show ?thesis
    using fixed_one_bound [OF W assms(4,5) _ with_limit_fst low, where x = None and H = "[]"]
    by (simp add: run)
qed

theorem fixed_rate_bound_witness:
  "in_span 0 (0 + 10)
     (granted (calls_of 1 (with_limit (1::int) [(1::nat, 5, (\<lambda>m k. 0) :: (nat, fixedEntry) range_order), (1, 7, \<lambda>m k. 0)]))
       (decisions_of 1 (with_limit (1::int) [(1::nat, 5, (\<lambda>m k. 0) :: (nat, fixedEntry) range_order), (1, 7, \<lambda>m k. 0)])
         (fixed_run \<lparr>fx_entries = [], fx_window = 10, fx_limit = 1, fx_maxKeys = 2, fx_gcEvery = 0,
            fx_lastGC = 0, fx_janitor = JanitorNil\<rparr> [(1::nat, 5, \<lambda>m k. 0), (1, 7, \<lambda>m k. 0)])))
   \<le> 2 * 1"
  by (rule fixed_rate_bound [of 10 1 2 0])
    (simp_all add: NewFixedWindow_def startJanitor_def int64_max_def)

text \<open>A refused caller is told the truth: the advertised \<open>RetryAfter\<close> is positive and at
  most one window, and a call made exactly that much later is granted.\<close>

theorem fixed_retry_succeeds:
  assumes ok: "gomap_ok (fx_entries l)" and W: "0 < fx_window l" "fx_window l \<le> int64_max"
    and lim: "0 < fx_limit l"
    and past: "\<And>e. map_of (fx_entries l) key = Some e \<Longrightarrow> fx_windowStart e \<le> now"
    and call: "fixed_AllowAt ord key now l = (l', d)" and no: "\<not> Allowed d"
  shows "0 < RetryAfter d \<and> RetryAfter d \<le> fx_window l \<and>
         Allowed (snd (fixed_AllowAt ord' key (now + RetryAfter d) l'))"
proof -
  let ?x = "map_of (fx_entries l) key" and ?c = "fixed_cfg l"
  have d: "d = snd (fixed_touch ?c (fx_limit l) now ?x)"
    and e: "map_of (fx_entries l') key = Some (fst (fixed_touch ?c (fx_limit l) now ?x))"
    using fixed.call_result [OF ok, of ord key "fx_limit l" now] call
    by (simp_all add: fixed_AllowAt_def)
  have l': "fixed_cfg l' = ?c" "fx_limit l' = fx_limit l"
    using fixed_call_shape(3) [of ord key "fx_limit l" now l] fixed_limit_kept [of ord key "fx_limit l" now l]
      call by (simp_all add: fixed_AllowAt_def)
  have ok': "gomap_ok (fx_entries l')"
    using fixed_call_ok [OF ok, of ord key "fx_limit l" now] call by (simp add: fixed_AllowAt_def)
  obtain e0 where x: "?x = Some e0" and e0: "\<not> fx_window l \<le> time_sub now (fx_windowStart e0)"
      "fx_limit l \<le> fx_count e0"
    using no lim unfolding d
    by (cases ?x) (auto simp: fixed_touch_def Let_def fixed_fresh_def fixed_cfg_def split: if_splits)
  have near: "now - fx_windowStart e0 < fx_window l"
    using e0(1) W by (simp add: time_sub_ge_iff int64_min_def)
  have "fixed_touch ?c (fx_limit l) now ?x = (e0\<lparr>fx_updatedAt := now\<rparr>,
      \<lparr>Allowed = False, RetryAfter = retryAfter (fx_windowStart e0 + fx_window l) now (fx_window l),
       Count = fx_count e0\<rparr>)"
    using e0 lim by (simp add: x fixed_touch_def fixed_cfg_def)
  moreover have "retryAfter (fx_windowStart e0 + fx_window l) now (fx_window l) =
      fx_windowStart e0 + fx_window l - now"
    using near past [OF x] W
    by (subst retryAfter_def) (simp add: time_sub_exact in_int64_def int64_min_def)
  ultimately have R: "RetryAfter d = fx_windowStart e0 + fx_window l - now"
    and e': "map_of (fx_entries l') key = Some (e0\<lparr>fx_updatedAt := now\<rparr>)"
    using d e by simp_all
  have "snd (fixed_AllowAt ord' key (now + RetryAfter d) l') =
      snd (fixed_touch ?c (fx_limit l) (now + RetryAfter d) (Some (e0\<lparr>fx_updatedAt := now\<rparr>)))"
    using fixed.call_result(1) [OF ok', of ord' key "fx_limit l" "now + RetryAfter d"] e' l'
    by (simp add: fixed_AllowAt_def)
  also have "\<dots> = snd (fixed_touch ?c (fx_limit l) (now + RetryAfter d) None)"
    using W by (subst fixed_touch_expired) (simp_all add: R fixed_cfg_def time_sub_ge_iff int64_min_def)
  finally show ?thesis
    using near past [OF x] R lim by (simp add: fixed_touch_def fixed_fresh_def)
qed

theorem fixed_retry_succeeds_witness:
  "0 < RetryAfter \<lparr>Allowed = False, RetryAfter = 8, Count = 1\<rparr> \<and>
   RetryAfter \<lparr>Allowed = False, RetryAfter = 8, Count = 1\<rparr> \<le> (10::int) \<and>
   Allowed (snd (fixed_AllowAt (\<lambda>m k. 0) (1::nat)
     (7 + RetryAfter \<lparr>Allowed = False, RetryAfter = 8, Count = 1\<rparr>)
     \<lparr>fx_entries = [(1, \<lparr>fx_windowStart = 5, fx_updatedAt = 7, fx_count = 1\<rparr>)], fx_window = 10,
      fx_limit = 1, fx_maxKeys = 2, fx_gcEvery = 0, fx_lastGC = 0, fx_janitor = JanitorNil\<rparr>))"
  by (rule fixed_retry_succeeds [of "\<lparr>fx_entries = [(1, \<lparr>fx_windowStart = 5, fx_updatedAt = 5, fx_count = 1\<rparr>)],
      fx_window = 10, fx_limit = 1, fx_maxKeys = 2, fx_gcEvery = 0, fx_lastGC = 0, fx_janitor = JanitorNil\<rparr>"
      1 7 "\<lambda>m k. 0", simplified])
    (simp_all add: fixed_AllowAt_def fixed_AllowWithLimitAt_def fixed_maybePruneLocked_def prune_due_def
      gomap_len_def time_sub_def int64_max_def int64_min_def retryAfter_def gomap_ok_def gomap_keys_def)

end
