(* ===== verification/Ratelimit_Sliding.thy ===== *)
theory Ratelimit_Sliding
  imports Ratelimit_Store
begin

section \<open>SlidingWindow (util/ratelimit/sliding.go)\<close>

text \<open>
  The limiter keeps, per key, the times of the calls it granted and drops those that are a
  window or more in the past. The last section shows that this is an exact rate limit: no
  interval of one window's length ever holds more grants of a key than the limit.
\<close>

record slidingEntry =
  sl_timestamps :: "go_time list"
  sl_updatedAt :: go_time

record 'k SlidingWindow =
  sl_entries :: "('k, slidingEntry) gomap"
  sl_window :: duration
  sl_limit :: int
  sl_maxKeys :: int
  sl_gcEvery :: duration
  sl_lastGC :: go_time

definition NewSlidingWindow ::
  "duration \<Rightarrow> int \<Rightarrow> int \<Rightarrow> duration \<Rightarrow> string + 'k SlidingWindow" where
  "NewSlidingWindow window limit maxKeys gcEvery =
     (if window \<le> 0 then Inl ''ratelimit: sliding window must be positive''
      else if maxKeys \<le> 0 then Inl ''ratelimit: max keys must be positive''
      else Inr \<lparr>sl_entries = [], sl_window = window, sl_limit = limit, sl_maxKeys = maxKeys,
                sl_gcEvery = gcEvery, sl_lastGC = 0\<rparr>)"

fun pruneTimestamps :: "go_time list \<Rightarrow> go_time \<Rightarrow> go_time list" where
  "pruneTimestamps [] cutoff = []"
| "pruneTimestamps (t # ts) cutoff = (if \<not> t > cutoff then pruneTimestamps ts cutoff else t # ts)"

definition sliding_trim_entry :: "go_time \<Rightarrow> slidingEntry \<Rightarrow> slidingEntry option" where
  "sliding_trim_entry cutoff e =
     (let ts = pruneTimestamps (sl_timestamps e) cutoff
      in if ts = [] then None else Some (e\<lparr>sl_timestamps := ts\<rparr>))"

definition sliding_pruneLocked :: "go_time \<Rightarrow> 'k SlidingWindow \<Rightarrow> 'k SlidingWindow" where
  "sliding_pruneLocked now l =
     l\<lparr>sl_entries := trim_map (sliding_trim_entry (now - sl_window l)) (sl_entries l),
       sl_lastGC := now\<rparr>"

definition sliding_maybePruneLocked :: "go_time \<Rightarrow> 'k SlidingWindow \<Rightarrow> 'k SlidingWindow" where
  "sliding_maybePruneLocked now l =
     (if prune_due (sl_entries l) (sl_maxKeys l) (sl_gcEvery l) (sl_lastGC l) now
      then sliding_pruneLocked now l else l)"

definition sliding_makeRoomLocked ::
  "('k, slidingEntry) range_order \<Rightarrow> 'k SlidingWindow \<Rightarrow> 'k SlidingWindow" where
  "sliding_makeRoomLocked ord l =
     l\<lparr>sl_entries := make_room sl_updatedAt ord (sl_maxKeys l) (sl_entries l)\<rparr>"

definition sliding_AllowWithLimitAt ::
  "('k, slidingEntry) range_order \<Rightarrow> 'k \<Rightarrow> int \<Rightarrow> go_time \<Rightarrow> 'k SlidingWindow \<Rightarrow>
     'k SlidingWindow \<times> Decision" where
  "sliding_AllowWithLimitAt ord key limit now l =
     (let l1 = sliding_maybePruneLocked now l;
          (l2, entry0) =
            (case map_of (sl_entries l1) key of
               None \<Rightarrow> (sliding_makeRoomLocked ord l1, \<lparr>sl_timestamps = [], sl_updatedAt = 0\<rparr>)
             | Some e \<Rightarrow> (l1, e));
          entry = \<lparr>sl_timestamps = pruneTimestamps (sl_timestamps entry0) (now - sl_window l2),
                   sl_updatedAt = now\<rparr>;
          n = int (length (sl_timestamps entry))
      in if limit \<le> 0 \<or> n \<ge> limit
         then let deadline = (case sl_timestamps entry of [] \<Rightarrow> now + sl_window l2
                              | t # _ \<Rightarrow> t + sl_window l2)
              in (l2\<lparr>sl_entries := AList.update key entry (sl_entries l2)\<rparr>,
                  \<lparr>Allowed = False, RetryAfter = retryAfter deadline now (sl_window l2), Count = n\<rparr>)
         else let entry' = entry\<lparr>sl_timestamps := sl_timestamps entry @ [now]\<rparr>
              in (l2\<lparr>sl_entries := AList.update key entry' (sl_entries l2)\<rparr>,
                  \<lparr>Allowed = True, RetryAfter = 0, Count = int (length (sl_timestamps entry'))\<rparr>))"

definition sliding_AllowAt ::
  "('k, slidingEntry) range_order \<Rightarrow> 'k \<Rightarrow> go_time \<Rightarrow> 'k SlidingWindow \<Rightarrow> 'k SlidingWindow \<times> Decision" where
  "sliding_AllowAt ord key now l = sliding_AllowWithLimitAt ord key (sl_limit l) now l"

definition sliding_ResetAll :: "'k SlidingWindow \<Rightarrow> 'k SlidingWindow" where
  "sliding_ResetAll l = l\<lparr>sl_entries := []\<rparr>"

subsection \<open>The specification: the times granted to each key\<close>

definition sliding_cfg :: "'k SlidingWindow \<Rightarrow> duration \<times> int" where
  "sliding_cfg l = (sl_window l, sl_maxKeys l)"

definition sliding_trim :: "duration \<times> int \<Rightarrow> go_time \<Rightarrow> slidingEntry \<Rightarrow> slidingEntry option" where
  "sliding_trim c now e = sliding_trim_entry (now - fst c) e"

definition sliding_touch ::
  "duration \<times> int \<Rightarrow> int \<Rightarrow> go_time \<Rightarrow> slidingEntry option \<Rightarrow> slidingEntry \<times> Decision" where
  "sliding_touch c limit now x =
     (let old = (case x of None \<Rightarrow> [] | Some e \<Rightarrow> sl_timestamps e);
          ts = pruneTimestamps old (now - fst c)
      in if limit \<le> 0 \<or> int (length ts) \<ge> limit
         then (\<lparr>sl_timestamps = ts, sl_updatedAt = now\<rparr>,
               \<lparr>Allowed = False,
                RetryAfter = retryAfter ((case ts of [] \<Rightarrow> now | t # _ \<Rightarrow> t) + fst c) now (fst c),
                Count = int (length ts)\<rparr>)
         else (\<lparr>sl_timestamps = ts @ [now], sl_updatedAt = now\<rparr>,
               \<lparr>Allowed = True, RetryAfter = 0, Count = int (length ts) + 1\<rparr>))"

lemma prune_prune:
  "c \<le> c' \<Longrightarrow> pruneTimestamps (pruneTimestamps ts c) c' = pruneTimestamps ts c'"
  by (induction ts c rule: pruneTimestamps.induct) auto

lemma prune_empty_later:
  "c \<le> c' \<Longrightarrow> pruneTimestamps ts c = [] \<Longrightarrow> pruneTimestamps ts c' = []"
  using prune_prune [of c c' ts] by simp

lemma prune_sorted_filter: "sorted ts \<Longrightarrow> pruneTimestamps ts c = filter (\<lambda>t. c < t) ts"
  by (induction ts c rule: pruneTimestamps.induct) (auto intro!: filter_True [symmetric])

lemma sliding_maybePrune_cases:
  "sl_entries (sliding_maybePruneLocked now l) = sl_entries l \<and> gomap_len (sl_entries l) < sl_maxKeys l \<or>
   sl_entries (sliding_maybePruneLocked now l) = trim_map (sliding_trim (sliding_cfg l) now) (sl_entries l)"
proof -
  have "sliding_trim (sliding_cfg l) now = sliding_trim_entry (now - sl_window l)"
    by (auto simp: sliding_trim_def sliding_cfg_def)
  then show ?thesis
    by (auto simp: sliding_maybePruneLocked_def prune_due_def sliding_pruneLocked_def)
qed

lemma sliding_cfg_simps [simp]:
  "sl_window (sliding_maybePruneLocked now l) = sl_window l"
  "sl_maxKeys (sliding_maybePruneLocked now l) = sl_maxKeys l"
  "sl_limit (sliding_maybePruneLocked now l) = sl_limit l"
  by (simp_all add: sliding_pruneLocked_def sliding_maybePruneLocked_def)

lemma sliding_call_shape:
  "sl_entries (fst (sliding_AllowWithLimitAt ord k limit now l)) =
     (let m = sl_entries (sliding_maybePruneLocked now l) in
      AList.update k (fst (sliding_touch (sliding_cfg l) limit now (map_of m k)))
        (if map_of m k = None then make_room sl_updatedAt ord (sl_maxKeys l) m else m))"
  "snd (sliding_AllowWithLimitAt ord k limit now l) =
     snd (sliding_touch (sliding_cfg l) limit now
            (map_of (sl_entries (sliding_maybePruneLocked now l)) k))"
  "sliding_cfg (fst (sliding_AllowWithLimitAt ord k limit now l)) = sliding_cfg l"
  "sl_limit (fst (sliding_AllowWithLimitAt ord k limit now l)) = sl_limit l"
  by (auto simp: sliding_AllowWithLimitAt_def sliding_touch_def sliding_cfg_def
      sliding_makeRoomLocked_def Let_def split: option.splits list.splits)

lemma sliding_touch_trim:
  assumes "t \<le> now"
  shows "sliding_touch c a now (Option.bind x (sliding_trim c t)) = sliding_touch c a now x"
proof (cases x)
  case (Some e)
  have le: "t - fst c \<le> now - fst c" using assms by simp
  show ?thesis
    using prune_prune [OF le, of "sl_timestamps e"] prune_empty_later [OF le, of "sl_timestamps e"]
    by (auto simp: Some sliding_trim_def sliding_trim_entry_def sliding_touch_def Let_def)
qed simp

interpretation sliding: keyed_limiter sl_entries sliding_cfg snd sliding_AllowWithLimitAt
  sliding_trim sliding_touch sl_updatedAt
proof (unfold_locales, goal_cases)
  case (1 ord k a now s)
  show ?case by (rule sliding_call_shape(3))
next
  case (2 s now ord k a)
  show ?case
    using sliding_maybePrune_cases [of now s]
    by (intro exI [of _ "sl_entries (sliding_maybePruneLocked now s)"])
      (auto simp: sliding_call_shape Let_def sliding_cfg_def)
next
  case (3 t now c a x)
  then show ?case by (rule sliding_touch_trim)
qed

subsection \<open>No interval of one window holds more than the limit\<close>

fun sliding_run ::
  "'k SlidingWindow \<Rightarrow> ('k \<times> go_time \<times> ('k, slidingEntry) range_order) list \<Rightarrow> Decision list" where
  "sliding_run l [] = []"
| "sliding_run l ((key, now, ord) # cs) =
     (let (l', d) = sliding_AllowAt ord key now l in d # sliding_run l' cs)"

lemma sliding_run_eq:
  "sliding_run l cs = limiter_run sliding_AllowWithLimitAt l (with_limit (sl_limit l) cs)"
proof (induction l cs rule: sliding_run.induct)
  case (2 l key now ord cs)
  show ?case
    using 2 sliding_call_shape(4) [of ord key "sl_limit l" now l]
    by (auto simp: sliding_AllowAt_def split: prod.splits)
qed simp

lemma sliding_run_machines:
  assumes "NewSlidingWindow window limit maxKeys gcEvery = Inr l"
    and "int (card ((\<lambda>(k, now, ord). k) ` set cs)) \<le> maxKeys"
    and "sorted (map (\<lambda>(k, now, ord). now) cs)"
  shows "sliding_run l cs =
         key_machines (sliding_touch (window, maxKeys)) Map.empty (with_limit limit cs)"
proof -
  from assms(1) have l: "sl_entries l = []" "sl_maxKeys l = maxKeys" "sl_limit l = limit"
    "sl_window l = window"
    by (auto simp: NewSlidingWindow_def split: if_splits)
  have "limiter_run sliding_AllowWithLimitAt l (with_limit limit cs) =
      key_machines (sliding_touch (sliding_cfg l)) Map.empty (with_limit limit cs)"
    using assms(2) l
    by (intro sliding.run_independent [OF _ _ _ _ _ sorted_from_first,
          where K = "(\<lambda>(k, now, ord). k) ` set cs"])
      (auto simp: with_limit_facts sliding_cfg_def assms(3))
  then show ?thesis by (simp add: sliding_run_eq l sliding_cfg_def)
qed

definition sliding_hist ::
  "duration \<Rightarrow> int \<Rightarrow> go_time \<Rightarrow> go_time list \<Rightarrow> slidingEntry option \<Rightarrow> bool" where
  "sliding_hist W limit low H x \<longleftrightarrow>
     sorted H \<and> (\<forall>t \<in> set H. t \<le> low) \<and> (\<forall>a. in_span a (a + W) H \<le> limit) \<and>
     (\<exists>c \<le> low - W. (case x of None \<Rightarrow> [] | Some e \<Rightarrow> sl_timestamps e) = pruneTimestamps H c)"

lemma sliding_hist_touch:
  assumes W: "0 < W" and H: "sliding_hist W limit low H x" and now: "low \<le> now"
    and t: "sliding_touch (W, K) limit now x = (e, d)"
  shows "sliding_hist W limit now (H @ (if Allowed d then [now] else [])) (Some e)"
proof -
  let ?old = "case x of None \<Rightarrow> [] | Some e \<Rightarrow> sl_timestamps e"
  let ?ts = "pruneTimestamps ?old (now - W)"
  obtain c where c: "c \<le> low - W" "?old = pruneTimestamps H c"
    using H by (auto simp: sliding_hist_def)
  have sH: "sorted H" "\<forall>t \<in> set H. t \<le> now" and span: "\<And>a. in_span a (a + W) H \<le> limit"
    using H now by (force simp: sliding_hist_def)+
  have ts: "?ts = pruneTimestamps H (now - W)"
    unfolding c(2) using c(1) now by (intro prune_prune) simp
  have recent: "int (length ?ts) = in_span (now - W + 1) (now + 1) H"
    using sH unfolding ts prune_sorted_filter [OF sH(1)] in_span_def
    by (intro arg_cong [where f = int] arg_cong [where f = length] filter_cong) auto
  show ?thesis
  proof (cases "limit \<le> 0 \<or> int (length ?ts) \<ge> limit")
    case True
    then have "e = \<lparr>sl_timestamps = ?ts, sl_updatedAt = now\<rparr>" "\<not> Allowed d"
      using t by (auto simp: sliding_touch_def Let_def)
    then show ?thesis
      using sH span ts by (auto simp: sliding_hist_def intro!: exI [of _ "now - W"])
  next
    case False
    then have e: "e = \<lparr>sl_timestamps = ?ts @ [now], sl_updatedAt = now\<rparr>" "Allowed d"
      using t by (auto simp: sliding_touch_def Let_def)
    have sorted': "sorted (H @ [now])" using sH by (simp add: sorted_append)
    have "in_span a (a + W) (H @ [now]) \<le> limit" for a
    proof (cases "a \<le> now \<and> now < a + W")
      case True
      then have "in_span a (a + W) H \<le> in_span (now - W + 1) (now + 1) H"
        using sH(2) by (intro in_span_mono) auto
      with False recent True show ?thesis by simp
    next
      case False
      with span [of a] show ?thesis by auto
    qed
    moreover have "?ts @ [now] = pruneTimestamps (H @ [now]) (now - W)"
      unfolding prune_sorted_filter [OF sorted'] using W by (simp add: ts prune_sorted_filter [OF sH(1)])
    ultimately show ?thesis
      using e sH sorted' by (auto simp: sliding_hist_def intro!: exI [of _ "now - W"])
  qed
qed

lemma sliding_one_bound:
  assumes "0 < W" and "sliding_hist W limit low H x"
    and "set (map fst cs) \<subseteq> {limit}" and "sorted (low # map snd cs)"
  shows "in_span a (a + W) (H @ granted cs (one_machine (sliding_touch (W, K)) x cs)) \<le> limit"
  using assms(2-)
proof (induction cs arbitrary: x H low)
  case Nil
  then show ?case by (auto simp: sliding_hist_def)
next
  case (Cons c cs)
  obtain now where c: "c = (limit, now)" using Cons.prems(2) by (cases c) auto
  obtain e d where t: "sliding_touch (W, K) limit now x = (e, d)"
    by (cases "sliding_touch (W, K) limit now x")
  have "low \<le> now" using Cons.prems(3) by (simp add: c)
  from sliding_hist_touch [OF assms(1) Cons.prems(1) this t]
  have "in_span a (a + W) ((H @ (if Allowed d then [now] else [])) @
      granted cs (one_machine (sliding_touch (W, K)) (Some e) cs)) \<le> limit"
    using Cons.prems by (intro Cons.IH) (auto simp: c)
  then show ?case by (auto simp: c t)
qed

subsection \<open>Properties\<close>

text \<open>C4. The sliding window is an exact rate limit: while the calls use no more keys than the
  map has room for and times do not go back, no interval of one window's length, wherever
  it lies, holds more than \<open>limit\<close> granted calls of a key.\<close>

theorem sliding_rate_bound:
  assumes "NewSlidingWindow window limit maxKeys gcEvery = Inr l"
    and "int (card ((\<lambda>(k, now, ord). k) ` set cs)) \<le> maxKeys"
    and "sorted (map (\<lambda>(k, now, ord). now) cs)" and "0 \<le> limit"
  shows "in_span a (a + window)
     (granted (calls_of key (with_limit limit cs)) (decisions_of key (with_limit limit cs) (sliding_run l cs)))
     \<le> limit"
proof -
  have W: "0 < window" using assms(1) by (auto simp: NewSlidingWindow_def split: if_splits)
  have run: "decisions_of key (with_limit limit cs) (sliding_run l cs) =
      one_machine (sliding_touch (window, maxKeys)) None (calls_of key (with_limit limit cs))"
    using sliding_run_machines [OF assms(1-3)] by (simp add: decisions_of_key_machines)
  have "sorted (map snd (calls_of key (with_limit limit cs)))"
    using assms(3) by (intro sorted_calls_of) (simp add: with_limit_facts)
  note low = sorted_from_first [OF this]
  have "sliding_hist window limit low [] None" for low
    using assms(4) by (auto simp: sliding_hist_def)
  from sliding_one_bound [OF W this with_limit_fst low]
  show ?thesis by (simp add: run)
qed

theorem sliding_rate_bound_witness:
  "in_span 0 (0 + 10)
     (granted (calls_of 1 (with_limit (1::int) [(1::nat, 5, (\<lambda>m k. 0) :: (nat, slidingEntry) range_order), (1, 7, \<lambda>m k. 0)]))
       (decisions_of 1 (with_limit (1::int) [(1::nat, 5, (\<lambda>m k. 0) :: (nat, slidingEntry) range_order), (1, 7, \<lambda>m k. 0)])
         (sliding_run \<lparr>sl_entries = [], sl_window = 10, sl_limit = 1, sl_maxKeys = 2, sl_gcEvery = 0,
            sl_lastGC = 0\<rparr> [(1::nat, 5, \<lambda>m k. 0), (1, 7, \<lambda>m k. 0)])))
   \<le> 1"
  by (rule sliding_rate_bound [of 10 1 2 0]) (simp_all add: NewSlidingWindow_def)

text \<open>C0. The limiter refines independent machines, one per key, that remember only the times
  granted to that key.\<close>

theorem sliding_refines_history:
  assumes "NewSlidingWindow window limit maxKeys gcEvery = Inr l"
    and "int (card ((\<lambda>(k, now, ord). k) ` set cs)) \<le> maxKeys"
    and "sorted (map (\<lambda>(k, now, ord). now) cs)"
  shows "sliding_run l cs =
         key_machines (sliding_touch (window, maxKeys)) Map.empty (with_limit limit cs)"
  using assms by (rule sliding_run_machines)

theorem sliding_refines_history_witness:
  "sliding_run \<lparr>sl_entries = [], sl_window = 10, sl_limit = 1, sl_maxKeys = 2, sl_gcEvery = 0,
      sl_lastGC = 0\<rparr> [(1::nat, 5, \<lambda>m k. 0), (2, 6, \<lambda>m k. 0), (1, 7, \<lambda>m k. 0)] =
   key_machines (sliding_touch (10, 2)) Map.empty
     (with_limit (1::int) [(1::nat, 5, (\<lambda>m k. 0) :: (nat, slidingEntry) range_order), (2, 6, \<lambda>m k. 0), (1, 7, \<lambda>m k. 0)])"
  by (rule sliding_refines_history [of 10 1 2 0]) (simp_all add: NewSlidingWindow_def insert_commute)

end
