(* ===== verification/Ratelimit_Threshold.thy ===== *)
theory Ratelimit_Threshold
  imports Ratelimit_Store
begin

section \<open>ThresholdWindow (util/ratelimit/threshold.go)\<close>

text \<open>
  A counter per key that reports, once per window, that the threshold was reached.
\<close>

record ThresholdDecision =
  td_Count :: int
  td_Triggered :: bool

record thresholdEntry =
  th_windowStart :: go_time
  th_updatedAt :: go_time
  th_count :: int
  th_triggered :: bool

record 'k ThresholdWindow =
  th_entries :: "('k, thresholdEntry) gomap"
  th_window :: duration
  th_threshold :: int
  th_maxKeys :: int
  th_gcEvery :: duration
  th_lastGC :: go_time

definition NewThresholdWindow ::
  "duration \<Rightarrow> int \<Rightarrow> int \<Rightarrow> duration \<Rightarrow> string + 'k ThresholdWindow" where
  "NewThresholdWindow window threshold maxKeys gcEvery =
     (if window \<le> 0 \<or> threshold \<le> 0 \<or> maxKeys \<le> 0
      then Inl ''ratelimit: invalid threshold window configuration''
      else Inr \<lparr>th_entries = [], th_window = window, th_threshold = threshold,
                th_maxKeys = maxKeys, th_gcEvery = gcEvery, th_lastGC = 0\<rparr>)"

definition threshold_pruneLocked :: "go_time \<Rightarrow> 'k ThresholdWindow \<Rightarrow> 'k ThresholdWindow" where
  "threshold_pruneLocked now l =
     l\<lparr>th_entries := filter (\<lambda>(k, e). \<not> time_sub now (th_windowStart e) \<ge> th_window l) (th_entries l),
       th_lastGC := now\<rparr>"

definition threshold_maybePruneLocked :: "go_time \<Rightarrow> 'k ThresholdWindow \<Rightarrow> 'k ThresholdWindow" where
  "threshold_maybePruneLocked now l =
     (if prune_due (th_entries l) (th_maxKeys l) (th_gcEvery l) (th_lastGC l) now
      then threshold_pruneLocked now l else l)"

definition threshold_makeRoomLocked ::
  "('k, thresholdEntry) range_order \<Rightarrow> 'k ThresholdWindow \<Rightarrow> 'k ThresholdWindow" where
  "threshold_makeRoomLocked ord l =
     l\<lparr>th_entries := make_room th_updatedAt ord (th_maxKeys l) (th_entries l)\<rparr>"

definition threshold_fresh :: "go_time \<Rightarrow> thresholdEntry" where
  "threshold_fresh now =
     \<lparr>th_windowStart = now, th_updatedAt = 0, th_count = 0, th_triggered = False\<rparr>"

definition threshold_AddAt ::
  "('k, thresholdEntry) range_order \<Rightarrow> 'k \<Rightarrow> go_time \<Rightarrow> 'k ThresholdWindow \<Rightarrow>
     'k ThresholdWindow \<times> ThresholdDecision" where
  "threshold_AddAt ord key now l =
     (let l1 = threshold_maybePruneLocked now l;
          (l2, entry0) =
            (case map_of (th_entries l1) key of
               None \<Rightarrow> (threshold_makeRoomLocked ord l1, threshold_fresh now)
             | Some e \<Rightarrow>
                 (if time_sub now (th_windowStart e) \<ge> th_window l1 then (l1, threshold_fresh now)
                  else (l1, e)));
          entry = entry0\<lparr>th_count := th_count entry0 + 1, th_updatedAt := now\<rparr>;
          trigger = (th_count entry \<ge> th_threshold l2 \<and> \<not> th_triggered entry);
          entry' = (if trigger then entry\<lparr>th_triggered := True\<rparr> else entry)
      in (l2\<lparr>th_entries := AList.update key entry' (th_entries l2)\<rparr>,
          \<lparr>td_Count = th_count entry', td_Triggered = trigger\<rparr>))"

subsection \<open>One machine per key\<close>

definition threshold_call ::
  "('k, thresholdEntry) range_order \<Rightarrow> 'k \<Rightarrow> unit \<Rightarrow> go_time \<Rightarrow> 'k ThresholdWindow \<Rightarrow>
     'k ThresholdWindow \<times> ThresholdDecision" where
  "threshold_call ord key u now l = threshold_AddAt ord key now l"

definition threshold_cfg :: "'k ThresholdWindow \<Rightarrow> duration \<times> int \<times> int" where
  "threshold_cfg l = (th_window l, th_threshold l, th_maxKeys l)"

definition threshold_trim :: "duration \<times> int \<times> int \<Rightarrow> go_time \<Rightarrow> thresholdEntry \<Rightarrow> thresholdEntry option" where
  "threshold_trim c now e = (if time_sub now (th_windowStart e) \<ge> fst c then None else Some e)"

definition threshold_touch ::
  "duration \<times> int \<times> int \<Rightarrow> unit \<Rightarrow> go_time \<Rightarrow> thresholdEntry option \<Rightarrow>
     thresholdEntry \<times> ThresholdDecision" where
  "threshold_touch c u now x =
     (let e0 = (case x of None \<Rightarrow> threshold_fresh now
                | Some e \<Rightarrow> if time_sub now (th_windowStart e) \<ge> fst c then threshold_fresh now else e);
          e = e0\<lparr>th_count := th_count e0 + 1, th_updatedAt := now\<rparr>;
          trigger = (th_count e \<ge> fst (snd c) \<and> \<not> th_triggered e)
      in (if trigger then e\<lparr>th_triggered := True\<rparr> else e,
          \<lparr>td_Count = th_count e, td_Triggered = trigger\<rparr>))"

lemma threshold_maybePrune_cases:
  "th_entries (threshold_maybePruneLocked now l) = th_entries l \<and> gomap_len (th_entries l) < th_maxKeys l \<or>
   th_entries (threshold_maybePruneLocked now l) =
     trim_map (threshold_trim (threshold_cfg l) now) (th_entries l)"
proof -
  have "threshold_trim (threshold_cfg l) now =
      (\<lambda>e. if time_sub now (th_windowStart e) \<ge> th_window l then None else Some e)"
    by (auto simp: threshold_trim_def threshold_cfg_def)
  then show ?thesis
    by (auto simp: threshold_maybePruneLocked_def prune_due_def threshold_pruneLocked_def trim_map_filter)
qed

lemma threshold_cfg_simps [simp]:
  "th_window (threshold_maybePruneLocked now l) = th_window l"
  "th_maxKeys (threshold_maybePruneLocked now l) = th_maxKeys l"
  "th_threshold (threshold_maybePruneLocked now l) = th_threshold l"
  by (simp_all add: threshold_pruneLocked_def threshold_maybePruneLocked_def)

lemma threshold_call_shape:
  "th_entries (fst (threshold_call ord k u now l)) =
     (let m = th_entries (threshold_maybePruneLocked now l) in
      AList.update k (fst (threshold_touch (threshold_cfg l) u now (map_of m k)))
        (if map_of m k = None then make_room th_updatedAt ord (th_maxKeys l) m else m))"
  "snd (threshold_call ord k u now l) =
     snd (threshold_touch (threshold_cfg l) u now (map_of (th_entries (threshold_maybePruneLocked now l)) k))"
  "threshold_cfg (fst (threshold_call ord k u now l)) = threshold_cfg l"
  by (auto simp: threshold_call_def threshold_AddAt_def threshold_touch_def threshold_cfg_def
      threshold_makeRoomLocked_def Let_def split: option.splits)

lemma threshold_touch_expired:
  "fst c \<le> time_sub now (th_windowStart e) \<Longrightarrow>
     threshold_touch c u now (Some e) = threshold_touch c u now None"
  by (simp add: threshold_touch_def)

interpretation threshold: keyed_limiter th_entries threshold_cfg "\<lambda>c. snd (snd c)" threshold_call
  threshold_trim threshold_touch th_updatedAt
proof (unfold_locales, goal_cases)
  case (1 ord k a now s)
  show ?case by (rule threshold_call_shape(3))
next
  case (2 s now ord k a)
  show ?case
    using threshold_maybePrune_cases [of now s]
    by (intro exI [of _ "th_entries (threshold_maybePruneLocked now s)"])
      (auto simp: threshold_call_shape Let_def threshold_cfg_def)
next
  case (3 t now c a x)
  then show ?case
    by (cases x) (auto simp: threshold_trim_def intro!: threshold_touch_expired [symmetric]
        intro: order_trans [OF _ time_sub_mono])
qed

fun threshold_run ::
  "'k ThresholdWindow \<Rightarrow> ('k \<times> go_time \<times> ('k, thresholdEntry) range_order) list \<Rightarrow> ThresholdDecision list" where
  "threshold_run l [] = []"
| "threshold_run l ((key, now, ord) # cs) =
     (let (l', d) = threshold_AddAt ord key now l in d # threshold_run l' cs)"

lemma threshold_run_eq: "threshold_run l cs = limiter_run threshold_call l (with_limit () cs)"
  by (induction l cs rule: threshold_run.induct) (auto simp: threshold_call_def split: prod.splits)

lemma threshold_run_machines:
  assumes "NewThresholdWindow window threshold maxKeys gcEvery = Inr l"
    and "int (card ((\<lambda>(k, now, ord). k) ` set cs)) \<le> maxKeys"
    and "sorted (map (\<lambda>(k, now, ord). now) cs)"
  shows "threshold_run l cs =
         key_machines (threshold_touch (window, threshold, maxKeys)) Map.empty (with_limit () cs)"
proof -
  from assms(1) have l: "th_entries l = []" "threshold_cfg l = (window, threshold, maxKeys)"
    by (auto simp: NewThresholdWindow_def threshold_cfg_def split: if_splits)
  have "limiter_run threshold_call l (with_limit () cs) =
      key_machines (threshold_touch (threshold_cfg l)) Map.empty (with_limit () cs)"
    using assms(2) l
    by (intro threshold.run_independent [OF _ _ _ _ _ sorted_from_first,
          where K = "(\<lambda>(k, now, ord). k) ` set cs"])
      (auto simp: with_limit_facts assms(3))
  then show ?thesis by (simp add: threshold_run_eq l)
qed

lemma threshold_one_window:
  assumes W: "0 < W" "W \<le> int64_max"
    and "th_triggered e \<longleftrightarrow> th_count e \<ge> thr"
    and "\<forall>t \<in> set (map snd cs). t < th_windowStart e + W"
  shows "one_machine (threshold_touch (W, thr, K)) (Some e) cs =
         map (\<lambda>i. \<lparr>td_Count = th_count e + int i + 1, td_Triggered = (th_count e + int i + 1 = thr)\<rparr>)
           [0..<length cs]"
  using assms(3-)
proof (induction cs arbitrary: e)
  case (Cons c cs)
  obtain now where c: "c = ((), now)" by (cases c) auto
  have "\<not> W \<le> time_sub now (th_windowStart e)"
    using Cons.prems(2) W by (auto simp: c time_sub_ge_iff int64_min_def)
  then have "threshold_touch (W, thr, K) () now (Some e) =
      (e\<lparr>th_count := th_count e + 1, th_updatedAt := now, th_triggered := (th_count e + 1 \<ge> thr)\<rparr>,
       \<lparr>td_Count = th_count e + 1, td_Triggered = (th_count e + 1 = thr)\<rparr>)"
    using Cons.prems(1) by (cases e) (auto simp: threshold_touch_def Let_def)
  then show ?case
    using Cons.prems
    by (simp add: c Cons.IH upt_conv_Cons map_Suc_upt [symmetric] algebra_simps del: upt_Suc)
qed simp

subsection \<open>Properties\<close>

text \<open>C27. The threshold is reported exactly once per window: of the calls of a key that fall into
  one window, the call that brings the count to the threshold triggers and no other does, and the
  counts are 1, 2, 3 and so on.\<close>

theorem threshold_triggers_once:
  assumes "NewThresholdWindow window threshold maxKeys gcEvery = Inr l"
    and "int (card ((\<lambda>(k, now, ord). k) ` set cs)) \<le> maxKeys"
    and "sorted (map (\<lambda>(k, now, ord). now) cs)" and "window \<le> int64_max"
    and "calls_of key (with_limit () cs) = ((), start) # later"
    and "\<forall>t \<in> set (map snd later). t < start + window"
  shows "decisions_of key (with_limit () cs) (threshold_run l cs) =
         map (\<lambda>i. \<lparr>td_Count = int i + 1, td_Triggered = (int i + 1 = threshold)\<rparr>) [0..<Suc (length later)]"
proof -
  from assms(1) have W: "0 < window" and thr: "0 < threshold"
    by (auto simp: NewThresholdWindow_def split: if_splits)
  let ?t = "threshold_touch (window, threshold, maxKeys)"
  let ?e = "(threshold_fresh start)\<lparr>th_count := 1, th_updatedAt := start, th_triggered := (threshold \<le> 1)\<rparr>"
  have "decisions_of key (with_limit () cs) (threshold_run l cs) = one_machine ?t None (((), start) # later)"
    using threshold_run_machines [OF assms(1-3)] assms(5) by (simp add: decisions_of_key_machines)
  also have "\<dots> = \<lparr>td_Count = 1, td_Triggered = (1 = threshold)\<rparr> # one_machine ?t (Some ?e) later"
    using thr by (auto simp: threshold_touch_def threshold_fresh_def Let_def)
  also have "one_machine ?t (Some ?e) later =
      map (\<lambda>i. \<lparr>td_Count = int i + 2, td_Triggered = (int i + 2 = threshold)\<rparr>) [0..<length later]"
    using threshold_one_window [OF W assms(4), of ?e threshold later maxKeys] assms(6)
    by (simp add: threshold_fresh_def add.commute)
  finally show ?thesis
    by (simp add: upt_conv_Cons map_Suc_upt [symmetric] algebra_simps del: upt_Suc)
qed

theorem threshold_triggers_once_witness:
  "decisions_of 1 (with_limit () [(1::nat, 5, (\<lambda>m k. 0) :: (nat, thresholdEntry) range_order), (1, 7, \<lambda>m k. 0)])
     (threshold_run \<lparr>th_entries = [], th_window = 10, th_threshold = 2, th_maxKeys = 2, th_gcEvery = 0,
        th_lastGC = 0\<rparr> [(1::nat, 5, \<lambda>m k. 0), (1, 7, \<lambda>m k. 0)]) =
   map (\<lambda>i. \<lparr>td_Count = int i + 1, td_Triggered = (int i + 1 = 2)\<rparr>) [0..<Suc (length [((), 7::int)])]"
  by (rule threshold_triggers_once [of 10 2 2 0]) (auto simp: NewThresholdWindow_def int64_max_def)

end
