(* ===== verification/Ratelimit_Failure.thy ===== *)
theory Ratelimit_Failure
  imports Ratelimit_Store
begin

section \<open>FailureWindow (util/ratelimit/failure.go)\<close>

text \<open>
  The login limiter: failures of a key are counted over a window, reaching the threshold blocks
  the key for a while, and a tarpit delay grows with the failures beyond the threshold. The
  product of the delay is taken in 64 bits, as \<open>time.Duration\<close> does.
\<close>

record failureEntry =
  fl_failures :: int
  fl_firstFailure :: go_time
  fl_blockedUntil :: go_time
  fl_updatedAt :: go_time

record 'k FailureWindow =
  fl_entries :: "('k, failureEntry) gomap"
  fl_window :: duration
  fl_threshold :: int
  fl_blockFor :: duration
  fl_maxKeys :: int
  fl_gcEvery :: duration
  fl_lastGC :: go_time
  fl_tarpitStep :: duration
  fl_tarpitMax :: duration

definition NewFailureWindow ::
  "duration \<Rightarrow> int \<Rightarrow> duration \<Rightarrow> int \<Rightarrow> duration \<Rightarrow> duration \<Rightarrow> duration \<Rightarrow>
     string + 'k FailureWindow" where
  "NewFailureWindow window threshold blockFor maxKeys gcEvery tarpitStep tarpitMax =
     (if window \<le> 0 \<or> threshold \<le> 0 \<or> blockFor \<le> 0 \<or> maxKeys \<le> 0
      then Inl ''ratelimit: invalid failure window configuration''
      else Inr \<lparr>fl_entries = [], fl_window = window, fl_threshold = threshold, fl_blockFor = blockFor,
                fl_maxKeys = maxKeys, fl_gcEvery = gcEvery, fl_lastGC = 0,
                fl_tarpitStep = tarpitStep, fl_tarpitMax = tarpitMax\<rparr>)"

definition entryExpired :: "failureEntry \<Rightarrow> go_time \<Rightarrow> duration \<Rightarrow> bool" where
  "entryExpired entry now window \<longleftrightarrow>
     (time_is_zero (fl_blockedUntil entry) \<or> \<not> now < fl_blockedUntil entry) \<and>
     (time_is_zero (fl_firstFailure entry) \<or> time_sub now (fl_firstFailure entry) \<ge> window)"

definition failure_pruneLocked :: "go_time \<Rightarrow> 'k FailureWindow \<Rightarrow> 'k FailureWindow" where
  "failure_pruneLocked now l =
     l\<lparr>fl_entries := filter (\<lambda>(k, e). \<not> entryExpired e now (fl_window l)) (fl_entries l),
       fl_lastGC := now\<rparr>"

definition failure_maybePruneLocked :: "go_time \<Rightarrow> 'k FailureWindow \<Rightarrow> 'k FailureWindow" where
  "failure_maybePruneLocked now l =
     (if prune_due (fl_entries l) (fl_maxKeys l) (fl_gcEvery l) (fl_lastGC l) now
      then failure_pruneLocked now l else l)"

definition failure_makeRoomLocked ::
  "('k, failureEntry) range_order \<Rightarrow> 'k FailureWindow \<Rightarrow> 'k FailureWindow" where
  "failure_makeRoomLocked ord l =
     l\<lparr>fl_entries := make_room fl_updatedAt ord (fl_maxKeys l) (fl_entries l)\<rparr>"

definition failure_zero :: failureEntry where
  "failure_zero = \<lparr>fl_failures = 0, fl_firstFailure = 0, fl_blockedUntil = 0, fl_updatedAt = 0\<rparr>"

definition failure_RecordFailureAt ::
  "('k, failureEntry) range_order \<Rightarrow> 'k \<Rightarrow> go_time \<Rightarrow> 'k FailureWindow \<Rightarrow> 'k FailureWindow \<times> int" where
  "failure_RecordFailureAt ord key now l =
     (let l1 = failure_maybePruneLocked now l;
          (l2, entry0) =
            (case map_of (fl_entries l1) key of
               None \<Rightarrow> (failure_makeRoomLocked ord l1, failure_zero)
             | Some e \<Rightarrow> (l1, e));
          entry1 = (if time_is_zero (fl_firstFailure entry0) \<or>
                       time_sub now (fl_firstFailure entry0) > fl_window l2
                    then failure_zero\<lparr>fl_firstFailure := now\<rparr> else entry0);
          entry2 = entry1\<lparr>fl_failures := fl_failures entry1 + 1, fl_updatedAt := now\<rparr>;
          entry3 = (if fl_failures entry2 \<ge> fl_threshold l2
                    then entry2\<lparr>fl_blockedUntil := now + fl_blockFor l2\<rparr> else entry2)
      in (l2\<lparr>fl_entries := AList.update key entry3 (fl_entries l2)\<rparr>, fl_failures entry3))"

text \<open>\<open>BlockedAt\<close> and \<open>TarpitDelayAt\<close> read the entry after dropping it when it has expired;
  the zero value stands for a missing entry, as in Go.\<close>

definition failure_read :: "'k \<Rightarrow> go_time \<Rightarrow> 'k FailureWindow \<Rightarrow> 'k FailureWindow \<times> failureEntry \<times> bool" where
  "failure_read key now l =
     (let l1 = failure_maybePruneLocked now l in
      case map_of (fl_entries l1) key of
        None \<Rightarrow> (l1, failure_zero, False)
      | Some e \<Rightarrow> if entryExpired e now (fl_window l1)
                  then (l1\<lparr>fl_entries := AList.delete key (fl_entries l1)\<rparr>, e, False)
                  else (l1, e, True))"

definition failure_BlockedAt :: "'k \<Rightarrow> go_time \<Rightarrow> 'k FailureWindow \<Rightarrow> 'k FailureWindow \<times> Decision" where
  "failure_BlockedAt key now l =
     (let (l', entry, exists) = failure_read key now l in
      if \<not> exists \<or> time_is_zero (fl_blockedUntil entry) \<or> \<not> now < fl_blockedUntil entry
      then (l', \<lparr>Allowed = True, RetryAfter = 0, Count = fl_failures entry\<rparr>)
      else (l', \<lparr>Allowed = False, RetryAfter = time_sub (fl_blockedUntil entry) now,
                 Count = fl_failures entry\<rparr>))"

definition failure_TarpitDelayAt :: "'k \<Rightarrow> go_time \<Rightarrow> 'k FailureWindow \<Rightarrow> 'k FailureWindow \<times> duration" where
  "failure_TarpitDelayAt key now l =
     (let (l', entry, exists) = failure_read key now l in
      if \<not> exists \<or> fl_failures entry < fl_threshold l' \<or> fl_tarpitStep l' \<le> 0 then (l', 0)
      else let over = fl_failures entry - fl_threshold l' + 1;
               delay = wrap64 (over * fl_tarpitStep l')
           in if fl_tarpitMax l' > 0 \<and> delay > fl_tarpitMax l' then (l', fl_tarpitMax l')
              else (l', delay))"

definition failure_Reset :: "'k \<Rightarrow> 'k FailureWindow \<Rightarrow> 'k FailureWindow" where
  "failure_Reset key l = l\<lparr>fl_entries := AList.delete key (fl_entries l)\<rparr>"

definition failure_ResetAll :: "'k FailureWindow \<Rightarrow> 'k FailureWindow" where
  "failure_ResetAll l = l\<lparr>fl_entries := []\<rparr>"

subsection \<open>RecordFailure as a call on a keyed store\<close>

definition failure_call ::
  "('k, failureEntry) range_order \<Rightarrow> 'k \<Rightarrow> unit \<Rightarrow> go_time \<Rightarrow> 'k FailureWindow \<Rightarrow> 'k FailureWindow \<times> int" where
  "failure_call ord key u now l = failure_RecordFailureAt ord key now l"

definition failure_cfg :: "'k FailureWindow \<Rightarrow> duration \<times> int \<times> duration \<times> int" where
  "failure_cfg l = (fl_window l, fl_threshold l, fl_blockFor l, fl_maxKeys l)"

definition failure_trim ::
  "duration \<times> int \<times> duration \<times> int \<Rightarrow> go_time \<Rightarrow> failureEntry \<Rightarrow> failureEntry option" where
  "failure_trim c now e = (if entryExpired e now (fst c) then None else Some e)"

definition failure_touch ::
  "duration \<times> int \<times> duration \<times> int \<Rightarrow> unit \<Rightarrow> go_time \<Rightarrow> failureEntry option \<Rightarrow> failureEntry \<times> int" where
  "failure_touch c u now x =
     (let (window, threshold, blockFor, maxKeys) = c;
          e0 = (case x of None \<Rightarrow> failure_zero | Some e \<Rightarrow> e);
          e1 = (if time_is_zero (fl_firstFailure e0) \<or> time_sub now (fl_firstFailure e0) > window
                then failure_zero\<lparr>fl_firstFailure := now\<rparr> else e0);
          e2 = e1\<lparr>fl_failures := fl_failures e1 + 1, fl_updatedAt := now\<rparr>;
          e3 = (if fl_failures e2 \<ge> threshold then e2\<lparr>fl_blockedUntil := now + blockFor\<rparr> else e2)
      in (e3, fl_failures e3))"

lemma failure_prune_entries:
  "fl_entries (failure_pruneLocked now l) = trim_map (failure_trim (failure_cfg l) now) (fl_entries l)"
proof -
  have "failure_trim (failure_cfg l) now = (\<lambda>e. if entryExpired e now (fl_window l) then None else Some e)"
    by (auto simp: failure_trim_def failure_cfg_def)
  then show ?thesis by (simp add: failure_pruneLocked_def trim_map_filter)
qed

lemma failure_maybePrune_cases:
  "fl_entries (failure_maybePruneLocked now l) = fl_entries l \<and> gomap_len (fl_entries l) < fl_maxKeys l \<or>
   fl_entries (failure_maybePruneLocked now l) = trim_map (failure_trim (failure_cfg l) now) (fl_entries l)"
  by (auto simp: failure_maybePruneLocked_def prune_due_def failure_prune_entries)

lemma failure_cfg_simps [simp]:
  "fl_window (failure_maybePruneLocked now l) = fl_window l"
  "fl_maxKeys (failure_maybePruneLocked now l) = fl_maxKeys l"
  "fl_threshold (failure_maybePruneLocked now l) = fl_threshold l"
  "fl_blockFor (failure_maybePruneLocked now l) = fl_blockFor l"
  "fl_tarpitStep (failure_maybePruneLocked now l) = fl_tarpitStep l"
  "fl_tarpitMax (failure_maybePruneLocked now l) = fl_tarpitMax l"
  by (simp_all add: failure_pruneLocked_def failure_maybePruneLocked_def)

lemma failure_call_shape:
  "fl_entries (fst (failure_call ord k u now l)) =
     (let m = fl_entries (failure_maybePruneLocked now l) in
      AList.update k (fst (failure_touch (failure_cfg l) u now (map_of m k)))
        (if map_of m k = None then make_room fl_updatedAt ord (fl_maxKeys l) m else m))"
  "snd (failure_call ord k u now l) =
     snd (failure_touch (failure_cfg l) u now (map_of (fl_entries (failure_maybePruneLocked now l)) k))"
  "failure_cfg (fst (failure_call ord k u now l)) = failure_cfg l"
  by (cases "map_of (fl_entries (failure_maybePruneLocked now l)) k";
      simp add: failure_call_def failure_RecordFailureAt_def failure_touch_def failure_cfg_def
        failure_makeRoomLocked_def Let_def)+

interpretation failure: keyed_store fl_entries failure_cfg "\<lambda>c. snd (snd (snd c))" failure_call
  failure_trim failure_touch fl_updatedAt
proof (unfold_locales, goal_cases)
  case (1 ord k a now s)
  show ?case by (rule failure_call_shape(3))
next
  case (2 s now ord k a)
  show ?case
    using failure_maybePrune_cases [of now s]
    by (intro exI [of _ "fl_entries (failure_maybePruneLocked now s)"])
      (auto simp: failure_call_shape Let_def failure_cfg_def)
qed

subsection \<open>Reading the entry of a key\<close>

lemma failure_lookup_live:
  assumes "gomap_ok (fl_entries l)" "map_of (fl_entries l) key = Some e"
    "\<not> entryExpired e now (fl_window l)"
  shows "map_of (fl_entries (failure_maybePruneLocked now l)) key = Some e"
  using failure_maybePrune_cases [of now l] assms
  by (auto simp: trim_map_lookup failure_trim_def failure_cfg_def)

lemma failure_read_live:
  assumes "gomap_ok (fl_entries l)" "map_of (fl_entries l) key = Some e"
    "\<not> entryExpired e now (fl_window l)"
  shows "failure_read key now l = (failure_maybePruneLocked now l, e, True)"
  using failure_lookup_live [OF assms] assms(3) by (simp add: failure_read_def Let_def)

lemma failure_read_entry:
  assumes "gomap_ok (fl_entries l)" "map_of (fl_entries l) key = Some e"
    "failure_read key now l = (l', e', True)"
  shows "e' = e"
  using assms failure_maybePrune_cases [of now l]
  by (auto simp: failure_read_def Let_def trim_map_lookup failure_trim_def failure_cfg_def
      split: option.splits if_splits)

lemma failure_record_entry:
  assumes "failure_RecordFailureAt ord key now l = (l', n)"
  shows "\<exists>x. map_of (fl_entries l') key = Some (fst (failure_touch (failure_cfg l) () now x)) \<and>
             n = snd (failure_touch (failure_cfg l) () now x) \<and>
             x = map_of (fl_entries (failure_maybePruneLocked now l)) key"
  using failure_call_shape [of ord key "()" now l] assms
  by (simp add: failure_call_def Let_def map_of_update_gomap)

lemma failure_touch_facts:
  assumes "failure_touch (W, thr, bf, K) u now x = (e, n)"
  shows "fl_failures e = n" and "n \<ge> thr \<Longrightarrow> fl_blockedUntil e = now + bf"
proof -
  define e0 where "e0 = (case x of None \<Rightarrow> failure_zero | Some e \<Rightarrow> e)"
  define e1 where "e1 = (if time_is_zero (fl_firstFailure e0) \<or> time_sub now (fl_firstFailure e0) > W
      then failure_zero\<lparr>fl_firstFailure := now\<rparr> else e0)"
  have "(e, n) = (let e2 = e1\<lparr>fl_failures := fl_failures e1 + 1, fl_updatedAt := now\<rparr>;
      e3 = (if fl_failures e2 \<ge> thr then e2\<lparr>fl_blockedUntil := now + bf\<rparr> else e2) in (e3, fl_failures e3))"
    unfolding assms [symmetric] by (simp add: failure_touch_def e0_def e1_def Let_def)
  then show "fl_failures e = n" and "n \<ge> thr \<Longrightarrow> fl_blockedUntil e = now + bf"
    by (auto simp: Let_def split: if_splits)
qed

lemma failure_record_frame:
  assumes "failure_RecordFailureAt ord key now l = (l', n)"
  shows "failure_cfg l' = failure_cfg l" and "gomap_ok (fl_entries l) \<Longrightarrow> gomap_ok (fl_entries l')"
  using failure_call_shape [of ord key "()" now l] assms failure_maybePrune_cases [of now l]
  by (auto simp: failure_call_def Let_def make_room_ok trim_map_ok)

subsection \<open>Properties\<close>

text \<open>C24. Reaching the threshold blocks: when recording a failure brings the count of a key to
  the threshold, every query before \<open>now + blockFor\<close> is refused with exactly the remaining
  time as \<open>RetryAfter\<close>, and every query from then on is allowed.\<close>

theorem failure_blocks_exactly:
  assumes ok: "gomap_ok (fl_entries l)" and bf: "0 < fl_blockFor l" "fl_blockFor l \<le> int64_max"
    and now: "0 < now" "now \<le> t"
    and rec: "failure_RecordFailureAt ord key now l = (l', n)" and n: "n \<ge> fl_threshold l"
  shows "snd (failure_BlockedAt key t l') =
           (if t < now + fl_blockFor l
            then \<lparr>Allowed = False, RetryAfter = now + fl_blockFor l - t, Count = n\<rparr>
            else \<lparr>Allowed = True, RetryAfter = 0, Count = Count (snd (failure_BlockedAt key t l'))\<rparr>)"
proof -
  obtain e where e: "map_of (fl_entries l') key = Some e" "fl_failures e = n"
      "fl_blockedUntil e = now + fl_blockFor l"
    using failure_record_entry [OF rec] n failure_touch_facts
    unfolding failure_cfg_def by (metis prod.collapse)
  have ok': "gomap_ok (fl_entries l')" using failure_record_frame(2) [OF rec ok] .
  show ?thesis
  proof (cases "t < now + fl_blockFor l")
    case True
    then have "\<not> entryExpired e t (fl_window l')"
      using now bf by (simp add: entryExpired_def e(3) time_is_zero_def)
    from failure_read_live [OF ok' e(1) this] True show ?thesis
      using now bf by (simp add: failure_BlockedAt_def e time_is_zero_def time_sub_exact in_int64_def int64_min_def)
  next
    case False
    then show ?thesis
      using failure_read_entry [OF ok' e(1), of t] e(3)
      by (auto simp: failure_BlockedAt_def split: prod.splits)
  qed
qed

theorem failure_blocks_exactly_witness:
  "snd (failure_BlockedAt (1::nat) 8
      \<lparr>fl_entries = [(1, \<lparr>fl_failures = 1, fl_firstFailure = 5, fl_blockedUntil = 15, fl_updatedAt = 5\<rparr>)],
       fl_window = 20, fl_threshold = 1, fl_blockFor = 10, fl_maxKeys = 4, fl_gcEvery = 0, fl_lastGC = 0,
       fl_tarpitStep = 0, fl_tarpitMax = 0\<rparr>) =
    \<lparr>Allowed = False, RetryAfter = 7, Count = 1\<rparr>"
proof -
  let ?l = "\<lparr>fl_entries = [], fl_window = 20, fl_threshold = 1, fl_blockFor = 10, fl_maxKeys = 4,
       fl_gcEvery = 0, fl_lastGC = 0, fl_tarpitStep = 0, fl_tarpitMax = 0\<rparr> :: nat FailureWindow"
  let ?l' = "?l\<lparr>fl_entries :=
      [(1, \<lparr>fl_failures = 1, fl_firstFailure = 5, fl_blockedUntil = 15, fl_updatedAt = 5\<rparr>)]\<rparr>"
  have "failure_RecordFailureAt (\<lambda>m k. 0) 1 5 ?l = (?l', 1)"
    by (simp add: failure_RecordFailureAt_def failure_maybePruneLocked_def prune_due_def gomap_len_def
        failure_makeRoomLocked_def make_room_id failure_zero_def time_is_zero_def)
  from failure_blocks_exactly [OF _ _ _ _ _ this, of 8] show ?thesis by (simp add: int64_max_def)
qed

text \<open>Recording a failure for one key leaves the block of another alone, as long as the map is
  not full: whatever a query for the other key would have answered at that time, it still answers.\<close>

theorem failure_isolates_keys:
  assumes ok: "gomap_ok (fl_entries l)" and room: "gomap_len (fl_entries l) < fl_maxKeys l"
    and ne: "other \<noteq> key" and e: "map_of (fl_entries l) other = Some e"
    and live: "\<not> entryExpired e now (fl_window l)"
    and rec: "failure_RecordFailureAt ord key now l = (l', n)"
  shows "map_of (fl_entries l') other = Some e \<and>
         snd (failure_BlockedAt other now l') = snd (failure_BlockedAt other now l)"
proof -
  let ?m = "fl_entries (failure_maybePruneLocked now l)"
  have "gomap_len ?m < fl_maxKeys l"
    using failure_maybePrune_cases [of now l] room
      trim_map_length [of "failure_trim (failure_cfg l) now" "fl_entries l"]
    by (auto simp: gomap_len_def)
  then have "fl_entries l' = AList.update key (fst (failure_touch (failure_cfg l) () now (map_of ?m key))) ?m"
    using failure_call_shape(1) [of ord key "()" now l] rec
    by (auto simp: failure_call_def Let_def make_room_id)
  then have e': "map_of (fl_entries l') other = Some e"
    using failure_lookup_live [OF ok e live] ne by (simp add: map_of_update_gomap)
  have "fl_window l' = fl_window l"
    using failure_record_frame(1) [OF rec] by (simp add: failure_cfg_def)
  with live have live': "\<not> entryExpired e now (fl_window l')" by simp
  from failure_read_live [OF ok e live] failure_read_live [OF failure_record_frame(2) [OF rec ok] e' live']
  show ?thesis using e' by (simp add: failure_BlockedAt_def)
qed

theorem failure_isolates_keys_witness:
  "map_of (fl_entries
      \<lparr>fl_entries = [(1::nat, \<lparr>fl_failures = 1, fl_firstFailure = 5, fl_blockedUntil = 15, fl_updatedAt = 5\<rparr>),
          (2, \<lparr>fl_failures = 1, fl_firstFailure = 6, fl_blockedUntil = 16, fl_updatedAt = 6\<rparr>)],
       fl_window = 20, fl_threshold = 1, fl_blockFor = 10, fl_maxKeys = 4, fl_gcEvery = 0, fl_lastGC = 0,
       fl_tarpitStep = 0, fl_tarpitMax = 0\<rparr>) 1 =
    Some \<lparr>fl_failures = 1, fl_firstFailure = 5, fl_blockedUntil = 15, fl_updatedAt = 5\<rparr>"
proof -
  let ?l = "\<lparr>fl_entries = [(1, \<lparr>fl_failures = 1, fl_firstFailure = 5, fl_blockedUntil = 15, fl_updatedAt = 5\<rparr>)],
       fl_window = 20, fl_threshold = 1, fl_blockFor = 10, fl_maxKeys = 4,
       fl_gcEvery = 0, fl_lastGC = 0, fl_tarpitStep = 0, fl_tarpitMax = 0\<rparr> :: nat FailureWindow"
  have "failure_RecordFailureAt (\<lambda>m k. 0) 2 6 ?l = (?l\<lparr>fl_entries :=
       [(1, \<lparr>fl_failures = 1, fl_firstFailure = 5, fl_blockedUntil = 15, fl_updatedAt = 5\<rparr>),
          (2, \<lparr>fl_failures = 1, fl_firstFailure = 6, fl_blockedUntil = 16, fl_updatedAt = 6\<rparr>)]\<rparr>, 1)"
    by (simp add: failure_RecordFailureAt_def failure_maybePruneLocked_def prune_due_def gomap_len_def
        failure_makeRoomLocked_def make_room_id failure_zero_def time_is_zero_def)
  from failure_isolates_keys [OF _ _ _ _ _ this, of 1] show ?thesis
    by (simp add: gomap_ok_def gomap_keys_def gomap_len_def entryExpired_def time_is_zero_def)
qed

text \<open>C25. A failure recorded while its key is blocked, but more than a window after the key's first
  failure, starts a new entry and so lifts the block: the query right after it is allowed although the
  one right before it was refused. (The block does not survive when it outlasts the window.)\<close>

theorem failure_record_lifts_block:
  assumes ok: "gomap_ok (fl_entries l)" and e: "map_of (fl_entries l) key = Some e"
    and blocked: "now < fl_blockedUntil e" "0 < now"
    and late: "fl_firstFailure e + fl_window l < now" "fl_window l < int64_max" "0 < fl_window l"
    and thr: "1 < fl_threshold l"
    and rec: "failure_RecordFailureAt ord key now l = (l', n)"
  shows "\<not> Allowed (snd (failure_BlockedAt key now l)) \<and> n = 1 \<and>
         Allowed (snd (failure_BlockedAt key now l'))"
proof -
  have live: "\<not> entryExpired e now (fl_window l)"
    using blocked by (simp add: entryExpired_def time_is_zero_def)
  have before: "\<not> Allowed (snd (failure_BlockedAt key now l))"
    using failure_read_live [OF ok e live] blocked by (simp add: failure_BlockedAt_def time_is_zero_def)
  have "fl_window l < time_sub now (fl_firstFailure e)"
    using late by (subst time_sub_gt_iff) (auto simp: int64_min_def)
  then have e': "map_of (fl_entries l') key =
      Some \<lparr>fl_failures = 1, fl_firstFailure = now, fl_blockedUntil = 0, fl_updatedAt = now\<rparr>" and n: "n = 1"
    using failure_record_entry [OF rec] failure_lookup_live [OF ok e live] thr
    by (auto simp: failure_touch_def failure_cfg_def failure_zero_def Let_def)
  have "\<not> entryExpired \<lparr>fl_failures = 1, fl_firstFailure = now, fl_blockedUntil = 0, fl_updatedAt = now\<rparr>
      now (fl_window l')"
    using failure_record_frame(1) [OF rec] blocked late
    by (simp add: entryExpired_def time_is_zero_def failure_cfg_def time_sub_def int64_max_def int64_min_def)
  from failure_read_live [OF failure_record_frame(2) [OF rec ok] e' this]
  show ?thesis using before n by (simp add: failure_BlockedAt_def time_is_zero_def)
qed

theorem failure_record_lifts_block_witness:
  "\<not> Allowed (snd (failure_BlockedAt (1::nat) 30
      \<lparr>fl_entries = [(1, \<lparr>fl_failures = 2, fl_firstFailure = 5, fl_blockedUntil = 35, fl_updatedAt = 15\<rparr>)],
       fl_window = 20, fl_threshold = 2, fl_blockFor = 20, fl_maxKeys = 4, fl_gcEvery = 0, fl_lastGC = 0,
       fl_tarpitStep = 0, fl_tarpitMax = 0\<rparr>)) \<and>
   Allowed (snd (failure_BlockedAt (1::nat) 30
      \<lparr>fl_entries = [(1, \<lparr>fl_failures = 1, fl_firstFailure = 30, fl_blockedUntil = 0, fl_updatedAt = 30\<rparr>)],
       fl_window = 20, fl_threshold = 2, fl_blockFor = 20, fl_maxKeys = 4, fl_gcEvery = 0, fl_lastGC = 0,
       fl_tarpitStep = 0, fl_tarpitMax = 0\<rparr>))"
proof -
  let ?l = "\<lparr>fl_entries = [(1, \<lparr>fl_failures = 2, fl_firstFailure = 5, fl_blockedUntil = 35, fl_updatedAt = 15\<rparr>)],
       fl_window = 20, fl_threshold = 2, fl_blockFor = 20, fl_maxKeys = 4,
       fl_gcEvery = 0, fl_lastGC = 0, fl_tarpitStep = 0, fl_tarpitMax = 0\<rparr> :: nat FailureWindow"
  have "failure_RecordFailureAt (\<lambda>m k. 0) 1 30 ?l = (?l\<lparr>fl_entries :=
       [(1, \<lparr>fl_failures = 1, fl_firstFailure = 30, fl_blockedUntil = 0, fl_updatedAt = 30\<rparr>)]\<rparr>, 1)"
    by (simp add: failure_RecordFailureAt_def failure_maybePruneLocked_def prune_due_def gomap_len_def
        failure_zero_def time_is_zero_def time_sub_def int64_max_def int64_min_def)
  from failure_record_lifts_block [OF _ _ _ _ _ _ _ _ this] show ?thesis
    by (simp add: gomap_ok_def gomap_keys_def int64_max_def)
qed

text \<open>C26. The tarpit: the delay never exceeds a configured maximum, even if the 64-bit product
  overflows; and where it does not overflow, the delay of a live entry at or over the threshold is
  the step times the excess, capped by the maximum.\<close>

theorem failure_tarpit_delay:
  assumes ok: "gomap_ok (fl_entries l)" and e: "map_of (fl_entries l) key = Some e"
    and live: "\<not> entryExpired e now (fl_window l)" and mx: "0 < fl_tarpitMax l"
  shows "snd (failure_TarpitDelayAt key now l) \<le> fl_tarpitMax l \<and>
    (fl_threshold l \<le> fl_failures e \<and> 0 < fl_tarpitStep l \<and>
     in_int64 ((fl_failures e - fl_threshold l + 1) * fl_tarpitStep l) \<longrightarrow>
       snd (failure_TarpitDelayAt key now l) =
         min (fl_tarpitMax l) ((fl_failures e - fl_threshold l + 1) * fl_tarpitStep l))"
  using failure_read_live [OF ok e live] mx
  by (auto simp: failure_TarpitDelayAt_def Let_def wrap64_id)

theorem failure_tarpit_delay_witness:
  "snd (failure_TarpitDelayAt (1::nat) 8
      \<lparr>fl_entries = [(1, \<lparr>fl_failures = 3, fl_firstFailure = 5, fl_blockedUntil = 15, fl_updatedAt = 5\<rparr>)],
       fl_window = 20, fl_threshold = 1, fl_blockFor = 10, fl_maxKeys = 4, fl_gcEvery = 0, fl_lastGC = 0,
       fl_tarpitStep = 2, fl_tarpitMax = 5\<rparr>) = 5"
  using failure_tarpit_delay [of
      "\<lparr>fl_entries = [(1, \<lparr>fl_failures = 3, fl_firstFailure = 5, fl_blockedUntil = 15, fl_updatedAt = 5\<rparr>)],
       fl_window = 20, fl_threshold = 1, fl_blockFor = 10, fl_maxKeys = 4, fl_gcEvery = 0, fl_lastGC = 0,
       fl_tarpitStep = 2, fl_tarpitMax = 5\<rparr>" "1::nat" _ 8]
  by (simp add: gomap_ok_def gomap_keys_def entryExpired_def time_is_zero_def in_int64_def
      int64_min_def int64_max_def)

end
