(* ===== verification/Go_Strings.thy ===== *)
theory Go_Strings
  imports Go_Prelude "HOL-Library.Char_ord" "HOL-Library.List_Lexorder" "HOL-Library.Sublist"
begin

text \<open>
  Go strings and the functions of the packages \<^verbatim>\<open>strings\<close> and \<^verbatim>\<open>strconv\<close> that the
  modelled sources call.  A Go string is a sequence of bytes; a HOL \<^typ>\<open>string\<close> is a
  list of 8-bit characters, so the two agree byte by byte, and \<open>len(s)\<close> is \<^term>\<open>length s\<close>.
  The order of HOL's \<open>Char_ord\<close> and \<open>List_Lexorder\<close> is the byte-wise order of Go's
  \<open><\<close> and of SQLite's default collation.
\<close>

section \<open>Splitting and joining\<close>

text \<open>\<open>strings.Split(s, sep)\<close> for a separator of one byte; the result is never empty.\<close>

fun Split :: "string \<Rightarrow> char \<Rightarrow> string list" where
  "Split [] sep = [[]]"
| "Split (c # s) sep =
     (if c = sep then [] # Split s sep
      else (case Split s sep of [] \<Rightarrow> [[c]] | w # ws \<Rightarrow> (c # w) # ws))"

text \<open>\<open>strings.Join(parts, sep)\<close>.\<close>

fun Join :: "string list \<Rightarrow> string \<Rightarrow> string" where
  "Join [] sep = []"
| "Join [w] sep = w"
| "Join (w # v # ws) sep = w @ sep @ Join (v # ws) sep"

text \<open>\<open>strings.Cut(s, sep)\<close> for a separator of one byte.\<close>

fun Cut :: "string \<Rightarrow> char \<Rightarrow> string \<times> string \<times> bool" where
  "Cut [] sep = ([], [], False)"
| "Cut (c # s) sep =
     (if c = sep then ([], s, True)
      else (case Cut s sep of (before, after, found) \<Rightarrow> (c # before, after, found)))"

definition HasPrefix :: "string \<Rightarrow> string \<Rightarrow> bool" where
  "HasPrefix s p = (take (length p) s = p)"

definition HasSuffix :: "string \<Rightarrow> string \<Rightarrow> bool" where
  "HasSuffix s p = (length p \<le> length s \<and> drop (length s - length p) s = p)"

definition TrimPrefix :: "string \<Rightarrow> string \<Rightarrow> string" where
  "TrimPrefix s p = (if HasPrefix s p then drop (length p) s else s)"

text \<open>\<open>strings.ToLower\<close>.  Two code points outside ASCII have a lower case inside it: the dotted capital
  I (U+0130) and the Kelvin sign (U+212A).  The others keep their bytes here; every caller treats
  all strings with bytes outside ASCII alike.\<close>

definition lower_char :: "char \<Rightarrow> char" where
  "lower_char c = (if CHR ''A'' \<le> c \<and> c \<le> CHR ''Z'' then char_of ((of_char c :: nat) + 32) else c)"

function ToLower :: "string \<Rightarrow> string" where
  "ToLower [] = []"
| "ToLower (c # s) =
     (if c = CHR 0xC4 \<and> HasPrefix s [CHR 0xB0] then CHR ''i'' # ToLower (drop 1 s)
      else if c = CHR 0xE2 \<and> HasPrefix s [CHR 0x84, CHR 0xAA] then CHR ''k'' # ToLower (drop 2 s)
      else lower_char c # ToLower s)"
  by pat_completeness auto
termination by (relation "measure length") auto

text \<open>\<open>strings.Contains\<close>.\<close>

fun Contains :: "string \<Rightarrow> string \<Rightarrow> bool" where
  "Contains [] p = (p = [])"
| "Contains (c # s) p = (HasPrefix (c # s) p \<or> Contains s p)"

lemma Split_nonempty [simp]: "Split s sep \<noteq> []"
  by (induction s sep rule: Split.induct) (auto split: list.splits)

lemma Split_clean: "sep \<notin> set w \<Longrightarrow> Split w sep = [w]"
  by (induction w) auto

lemma Split_append: "sep \<notin> set w \<Longrightarrow> Split (w @ sep # s) sep = w # Split s sep"
  by (induction w) auto

lemma Split_Join:
  assumes "ws \<noteq> []" and "\<forall>w\<in>set ws. sep \<notin> set w"
  shows "Split (Join ws [sep]) sep = ws"
  using assms by (induction ws "[sep]" rule: Join.induct) (auto simp: Split_clean Split_append)

lemma Join_Split: "Join (Split s sep) [sep] = s"
proof (induction s sep rule: Split.induct)
  case (2 c s sep)
  obtain w ws where ws: "Split s sep = w # ws"
    using Split_nonempty by (metis neq_Nil_conv)
  then show ?case
    using 2 by (cases ws) auto
qed simp

lemma Split_parts_clean: "w \<in> set (Split s sep) \<Longrightarrow> sep \<notin> set w"
  by (induction s sep arbitrary: w rule: Split.induct) (auto split: if_splits list.splits)

lemma set_Join: "set (Join ws [sep]) \<subseteq> insert sep (\<Union> (set ` set ws))"
  by (induction ws "[sep]" rule: Join.induct) auto

lemma set_Split_parts: "w \<in> set (Split s sep) \<Longrightarrow> set w \<subseteq> set s"
proof (induction s sep arbitrary: w rule: Split.induct)
  case (2 c s sep)
  then show ?case by (fastforce split: if_splits list.splits)
qed simp

lemma Cut_clean: "sep \<notin> set w \<Longrightarrow> Cut w sep = (w, [], False)"
  by (induction w) auto

lemma Cut_append: "sep \<notin> set w \<Longrightarrow> Cut (w @ sep # s) sep = (w, s, True)"
  by (induction w) auto

lemma Cut_parts:
  "Cut s sep = (b, a, f) \<Longrightarrow> s = (if f then b @ sep # a else b) \<and> sep \<notin> set b \<and> (\<not> f \<longrightarrow> a = [])"
  by (induction s sep arbitrary: b rule: Cut.induct) (auto split: if_splits prod.splits)

lemma HasPrefix_iff: "HasPrefix s p \<longleftrightarrow> prefix p s"
  by (auto simp: HasPrefix_def prefix_def) (metis append_take_drop_id)

lemma HasSuffix_iff: "HasSuffix s p \<longleftrightarrow> suffix p s"
proof -
  have "suffix p s" if "length p \<le> length s" "drop (length s - length p) s = p"
    using that(2) by (metis suffix_drop)
  then show ?thesis
    by (auto simp: HasSuffix_def suffix_def)
qed

section \<open>Trimming white space\<close>

text \<open>
  \<open>strings.TrimSpace\<close> removes the code points of \<open>unicode.IsSpace\<close> at both ends.  Their UTF-8
  encodings are the sequences below; since UTF-8 is self-synchronising, a space at the start
  (end) of the string is one of these sequences as a prefix (suffix).
\<close>

definition space_seqs :: "string list" where
  "space_seqs =
     [[CHR 0x09], [CHR 0x0A], [CHR 0x0B], [CHR 0x0C], [CHR 0x0D], [CHR 0x20],
      [CHR 0xC2, CHR 0x85], [CHR 0xC2, CHR 0xA0], [CHR 0xE1, CHR 0x9A, CHR 0x80]]
     @ map (\<lambda>c. [CHR 0xE2, CHR 0x80, c])
         [CHR 0x80, CHR 0x81, CHR 0x82, CHR 0x83, CHR 0x84, CHR 0x85, CHR 0x86, CHR 0x87,
          CHR 0x88, CHR 0x89, CHR 0x8A, CHR 0xA8, CHR 0xA9, CHR 0xAF]
     @ [[CHR 0xE2, CHR 0x81, CHR 0x9F], [CHR 0xE3, CHR 0x80, CHR 0x80]]"

text \<open>The first sequence of \<open>seqs\<close> that starts \<open>s\<close>.\<close>

definition leading_seq :: "string list \<Rightarrow> string \<Rightarrow> string option" where
  "leading_seq seqs s = find (\<lambda>p. p \<noteq> [] \<and> HasPrefix s p) seqs"

lemma leading_seq_Some:
  "leading_seq seqs s = Some p \<Longrightarrow> p \<noteq> [] \<and> HasPrefix s p \<and> p \<in> set seqs"
  by (auto simp: leading_seq_def find_Some_iff)

lemma leading_seq_None: "leading_seq seqs s = None \<longleftrightarrow> (\<forall>p\<in>set seqs. p = [] \<or> \<not> HasPrefix s p)"
  by (auto simp: leading_seq_def find_None_iff)

function strip_left :: "string list \<Rightarrow> string \<Rightarrow> string" where
  "strip_left seqs s =
     (case leading_seq seqs s of None \<Rightarrow> s | Some p \<Rightarrow> strip_left seqs (drop (length p) s))"
  by auto
termination
proof (relation "measure (\<lambda>(seqs, s). length s)")
  fix seqs s p
  assume "leading_seq seqs s = Some p"
  then have "p \<noteq> []" "prefix p s"
    using leading_seq_Some HasPrefix_iff by auto
  then show "((seqs, drop (length p) s), seqs, s) \<in> measure (\<lambda>(seqs, s). length s)"
    using prefix_length_le[of p s] by (cases p) auto
qed simp

declare strip_left.simps [simp del]

definition strip_right :: "string list \<Rightarrow> string \<Rightarrow> string" where
  "strip_right seqs s = rev (strip_left (map rev seqs) (rev s))"

definition TrimSpace :: "string \<Rightarrow> string" where
  "TrimSpace s = strip_right space_seqs (strip_left space_seqs s)"

lemma strip_left_fix: "leading_seq seqs s = None \<Longrightarrow> strip_left seqs s = s"
  by (subst strip_left.simps) simp

lemma strip_left_done: "leading_seq seqs (strip_left seqs s) = None"
proof (induction seqs s rule: strip_left.induct)
  case (1 seqs s)
  then show ?case
    by (subst strip_left.simps) (cases "leading_seq seqs s"; simp)
qed

lemma strip_left_suffix: "suffix (strip_left seqs s) s"
proof (induction seqs s rule: strip_left.induct)
  case (1 seqs s)
  show ?case
  proof (cases "leading_seq seqs s")
    case None
    then show ?thesis by (simp add: strip_left_fix)
  next
    case (Some p)
    then have "strip_left seqs s = strip_left seqs (drop (length p) s)"
      by (subst strip_left.simps) simp
    moreover have "suffix (strip_left seqs (drop (length p) s)) (drop (length p) s)"
      using 1 Some by blast
    ultimately show ?thesis
      using suffix_drop suffix_order.trans by metis
  qed
qed

lemma strip_right_prefix: "prefix (strip_right seqs s) s"
  using strip_left_suffix[of "map rev seqs" "rev s"]
  by (simp add: strip_right_def suffix_to_prefix)

lemma leading_seq_prefix:
  assumes "leading_seq seqs s = None" and "prefix t s"
  shows "leading_seq seqs t = None"
  using assms by (auto simp: leading_seq_None HasPrefix_iff)

text \<open>Trimming twice is trimming once.\<close>

lemma TrimSpace_idem [simp]: "TrimSpace (TrimSpace s) = TrimSpace s"
proof -
  let ?l = "strip_left space_seqs s" and ?r = "strip_right space_seqs (strip_left space_seqs s)"
  have "leading_seq space_seqs ?r = None"
    using leading_seq_prefix strip_left_done strip_right_prefix by blast
  then have "strip_left space_seqs ?r = ?r"
    by (rule strip_left_fix)
  moreover have "strip_right space_seqs ?r = ?r"
    unfolding strip_right_def
    by (simp add: strip_left_fix strip_left_done)
  ultimately show ?thesis
    by (simp add: TrimSpace_def)
qed

lemma TrimSpace_Nil [simp]: "TrimSpace [] = []"
  using strip_left_suffix[of space_seqs "[]"] strip_right_prefix[of space_seqs "[]"]
  by (simp add: TrimSpace_def)

text \<open>A string that starts and ends with a visible ASCII character is left alone.\<close>

definition visible :: "char \<Rightarrow> bool" where
  "visible c \<longleftrightarrow> 33 \<le> (of_char c :: nat) \<and> (of_char c :: nat) \<le> 126"

lemma space_seqs_ends:
  assumes "p \<in> set space_seqs"
  shows "p \<noteq> [] \<and> \<not> visible (hd p) \<and> \<not> visible (last p)"
  using assms by (auto simp: space_seqs_def visible_def)

lemma leading_seq_visible:
  assumes "\<forall>p\<in>set seqs. p \<noteq> [] \<longrightarrow> \<not> visible (hd p)" and "s = [] \<or> visible (hd s)"
  shows "leading_seq seqs s = None"
  using assms by (auto simp: leading_seq_None HasPrefix_iff prefix_def)

lemma TrimSpace_visible:
  assumes "s = [] \<or> visible (hd s) \<and> visible (last s)"
  shows "TrimSpace s = s"
proof -
  have "strip_left space_seqs s = s"
    using assms space_seqs_ends by (intro strip_left_fix leading_seq_visible) auto
  moreover have "strip_left (map rev space_seqs) (rev s) = rev s"
    using assms space_seqs_ends
    by (intro strip_left_fix leading_seq_visible) (auto simp: hd_rev)
  ultimately show ?thesis
    by (simp add: TrimSpace_def strip_right_def)
qed

section \<open>Decimal numbers\<close>

text \<open>\<open>strconv.Itoa\<close> and \<open>strconv.Atoi\<close>; the latter fails on an empty or non-decimal string
  and on a value outside the 64-bit range.\<close>

definition digit_char :: "nat \<Rightarrow> char" where
  "digit_char d = char_of (48 + d)"

definition is_digit :: "char \<Rightarrow> bool" where
  "is_digit c \<longleftrightarrow> CHR ''0'' \<le> c \<and> c \<le> CHR ''9''"

definition digit_val :: "char \<Rightarrow> nat" where
  "digit_val c = of_char c - 48"

fun nat_str :: "nat \<Rightarrow> string" where
  "nat_str n = (if n < 10 then [digit_char n] else nat_str (n div 10) @ [digit_char (n mod 10)])"

declare nat_str.simps [simp del]

definition Itoa :: "int \<Rightarrow> string" where
  "Itoa i = (if i < 0 then CHR ''-'' # nat_str (nat (- i)) else nat_str (nat i))"

definition digits_val :: "string \<Rightarrow> nat" where
  "digits_val s = foldl (\<lambda>a c. 10 * a + digit_val c) 0 s"

definition Atoi :: "string \<Rightarrow> int option" where
  "Atoi s =
     (let neg = HasPrefix s ''-''; d = (if HasPrefix s ''-'' \<or> HasPrefix s ''+'' then tl s else s);
          v = (if neg then - int (digits_val d) else int (digits_val d))
      in if d \<noteq> [] \<and> list_all is_digit d \<and> in_int64 v then Some v else None)"

lemma is_digit_iff: "is_digit c \<longleftrightarrow> 48 \<le> (of_char c :: nat) \<and> (of_char c :: nat) \<le> 57"
  by (simp add: is_digit_def less_eq_char_def)

lemma digit_char_facts:
  assumes "d < 10"
  shows "is_digit (digit_char d)" "digit_val (digit_char d) = d"
  using assms by (simp_all add: is_digit_iff digit_char_def digit_val_def)

lemma nat_str_digits: "list_all is_digit (nat_str n)"
  by (induction n rule: nat_str.induct)
     (subst nat_str.simps, auto simp: digit_char_facts)

lemma nat_str_nonempty [simp]: "nat_str n \<noteq> []"
  by (subst nat_str.simps) simp

lemma digits_val_snoc: "digits_val (s @ [c]) = 10 * digits_val s + digit_val c"
  by (simp add: digits_val_def)

lemma digits_val_nat_str [simp]: "digits_val (nat_str n) = n"
proof (induction n rule: nat_str.induct)
  case (1 n)
  then show ?case
    by (subst nat_str.simps) (auto simp: digits_val_snoc digit_char_facts digits_val_def)
qed

lemma hd_nat_str_digit: "is_digit (hd (nat_str n))"
  using nat_str_digits[of n] by (cases "nat_str n") auto

lemma digit_not_sign: "is_digit c \<Longrightarrow> c \<noteq> CHR ''-'' \<and> c \<noteq> CHR ''+'' \<and> c \<noteq> CHR ''.''"
  by (auto simp: is_digit_iff)

lemma digits_no_sign:
  assumes "list_all is_digit s" "s \<noteq> []"
  shows "\<not> HasPrefix s ''-''" "\<not> HasPrefix s ''+''"
  using assms digit_not_sign by (cases s; auto simp: HasPrefix_def)+

lemma Atoi_digits:
  assumes "list_all is_digit s" "s \<noteq> []"
  shows "Atoi s = (if int (digits_val s) \<le> int64_max then Some (int (digits_val s)) else None)"
  using assms digits_no_sign[OF assms] by (auto simp: Atoi_def in_int64_def int64_min_def)

lemma Atoi_Itoa: "in_int64 i \<Longrightarrow> Atoi (Itoa i) = Some i"
proof (cases "i < 0")
  case True
  assume "in_int64 i"
  then show ?thesis
    using True nat_str_digits by (simp add: Itoa_def Atoi_def HasPrefix_def)
next
  case False
  assume "in_int64 i"
  then show ?thesis
    using False nat_str_digits by (simp add: Itoa_def Atoi_digits in_int64_def)
qed

text \<open>The decimal string of a number without leading zeros is the number's \<^const>\<open>Itoa\<close>.\<close>

lemma hd_nat_str_zero: "n \<noteq> 0 \<Longrightarrow> hd (nat_str n) \<noteq> CHR ''0''"
proof (induction n rule: nat_str.induct)
  case (1 n)
  show ?case
  proof (cases "n < 10")
    case True
    have "digit_val CHR ''0'' = 0" by (simp add: digit_val_def)
    with True 1 show ?thesis
      by (subst nat_str.simps) (use digit_char_facts(2)[of n] in auto)
  next
    case False
    then show ?thesis
      using 1 by (subst nat_str.simps) simp
  qed
qed

lemma digits_val_zero:
  assumes "list_all is_digit s" "s \<noteq> []" "hd s \<noteq> CHR ''0''"
  shows "digits_val s \<noteq> 0"
proof -
  have zero: "digit_val c \<noteq> 0" if c: "is_digit c" "c \<noteq> CHR ''0''" for c
  proof -
    have "(of_char c :: nat) \<noteq> of_char CHR ''0''"
      using c(2) by (simp only: of_char_eq_iff not_False_eq_True)
    then show ?thesis using c(1) by (simp add: is_digit_iff digit_val_def)
  qed
  have grow: "n \<noteq> 0 \<Longrightarrow> foldl (\<lambda>a c. 10 * a + digit_val c) n t \<noteq> 0" for t and n :: nat
    by (induction t arbitrary: n) auto
  obtain c t where "s = c # t" using assms(2) by (cases s) auto
  then show ?thesis
    using assms zero[of c] grow[of "digit_val c" t] by (simp add: digits_val_def)
qed

text \<open>A decimal string without a superfluous leading zero is the rendering of its value.\<close>

lemma nat_str_digits_val:
  assumes "list_all is_digit s" "s \<noteq> []" "length s > 1 \<longrightarrow> hd s \<noteq> CHR ''0''"
  shows "nat_str (digits_val s) = s"
  using assms
proof (induction s rule: rev_induct)
  case (snoc c t)
  have c: "digit_val c < 10" "digit_char (digit_val c) = c"
    using snoc.prems by (auto simp: digit_val_def digit_char_def is_digit_iff)
  show ?case
  proof (cases "t = []")
    case True
    then show ?thesis using c by (simp add: digits_val_def nat_str.simps)
  next
    case False
    then have t: "hd t \<noteq> CHR ''0''" "list_all is_digit t"
      using snoc.prems by (cases t; auto)+
    then have "nat_str (digits_val t) = t" "digits_val t \<noteq> 0"
      using snoc.IH False digits_val_zero by auto
    then show ?thesis
      using c by (subst nat_str.simps) (simp add: digits_val_snoc)
  qed
qed simp

section \<open>Runes\<close>

text \<open>The number of code points of a string as \<open>len([]rune(s))\<close> counts them: a well-formed UTF-8
  sequence is one, and so is each byte that starts none.\<close>

definition byte_val :: "char \<Rightarrow> nat" where
  "byte_val c = of_char c"

definition continuation :: "char \<Rightarrow> bool" where
  "continuation c \<longleftrightarrow> 128 \<le> byte_val c \<and> byte_val c \<le> 191"

fun rune_size :: "string \<Rightarrow> nat" where
  "rune_size (a # b # c # d # s) =
     (let x = byte_val a; y = byte_val b
      in if 194 \<le> x \<and> x \<le> 223 \<and> continuation b then 2
         else if (x = 224 \<and> 160 \<le> y \<and> y \<le> 191 \<or> 225 \<le> x \<and> x \<le> 239 \<and> x \<noteq> 237 \<and> continuation b
                  \<or> x = 237 \<and> 128 \<le> y \<and> y \<le> 159) \<and> continuation c then 3
         else if (x = 240 \<and> 144 \<le> y \<and> y \<le> 191 \<or> 241 \<le> x \<and> x \<le> 243 \<and> continuation b
                  \<or> x = 244 \<and> 128 \<le> y \<and> y \<le> 143) \<and> continuation c \<and> continuation d then 4
         else 1)"
| "rune_size [a, b, c] =
     (let x = byte_val a; y = byte_val b
      in if 194 \<le> x \<and> x \<le> 223 \<and> continuation b then 2
         else if (x = 224 \<and> 160 \<le> y \<and> y \<le> 191 \<or> 225 \<le> x \<and> x \<le> 239 \<and> x \<noteq> 237 \<and> continuation b
                  \<or> x = 237 \<and> 128 \<le> y \<and> y \<le> 159) \<and> continuation c then 3
         else 1)"
| "rune_size [a, b] = (if 194 \<le> byte_val a \<and> byte_val a \<le> 223 \<and> continuation b then 2 else 1)"
| "rune_size s = 1"

lemma rune_size_pos: "0 < rune_size s"
  by (cases s rule: rune_size.cases) (auto simp: Let_def)

function RuneCount :: "string \<Rightarrow> nat" where
  "RuneCount s = (if s = [] then 0 else Suc (RuneCount (drop (rune_size s) s)))"
  by auto
termination
  by (relation "measure length") (auto simp: rune_size_pos)

declare RuneCount.simps [simp del]

end
