(* ===== verification/Version_Policy.thy ===== *)
theory Version_Policy
  imports Go_Strings "HOL-Library.Product_Lexorder" "HOL-Library.Option_ord"
begin

text \<open>
  The release-version policy (\<^verbatim>\<open>src/config/versionpolicy/policy.go\<close>): parsing, rendering,
  validation and precedence of versions.  The parser is shown to invert the renderer, and the
  hand-written comparison is shown to be the comparison of a key in a linear order, which
  makes \<open>VersionIsNewer\<close> a strict weak order on all strings.
\<close>

section \<open>Parsing\<close>

record Semver =
  sv_Major :: int
  sv_Minor :: int
  sv_Patch :: int
  sv_Prerelease :: "string list"
  sv_Build :: string

text \<open>The \<open>(int, bool)\<close> result is an option; every caller drops the number when the flag is false.
  Ranging over the runes of the string and over its bytes is the same test, as a byte of a
  multi-byte or invalid sequence is no digit and no rune decoded from one is.\<close>

definition parseNumericIdentifier :: "string \<Rightarrow> int option" where
  "parseNumericIdentifier value =
     (if value = '''' then None
      else if length value > 1 \<and> hd value = CHR ''0'' then None
      else if \<not> list_all is_digit value then None
      else case Atoi value of
        None \<Rightarrow> None
      | Some parsed \<Rightarrow> if parsed \<ge> 0 then Some parsed else None)"

definition isAllDigits :: "string \<Rightarrow> bool" where
  "isAllDigits value \<longleftrightarrow> list_all is_digit value \<and> value \<noteq> ''''"

definition id_char :: "char \<Rightarrow> bool" where
  "id_char r \<longleftrightarrow> (CHR ''0'' \<le> r \<and> r \<le> CHR ''9'') \<or> (CHR ''A'' \<le> r \<and> r \<le> CHR ''Z'')
     \<or> (CHR ''a'' \<le> r \<and> r \<le> CHR ''z'') \<or> r = CHR ''-''"

definition valid_id :: "bool \<Rightarrow> string \<Rightarrow> bool" where
  "valid_id rejectZeroPaddedNumbers ident \<longleftrightarrow>
     ident \<noteq> '''' \<and> list_all id_char ident
     \<and> \<not> (rejectZeroPaddedNumbers \<and> parseNumericIdentifier ident = None \<and> isAllDigits ident)"

definition validIdentifierList :: "string \<Rightarrow> bool \<Rightarrow> bool" where
  "validIdentifierList value rejectZeroPaddedNumbers \<longleftrightarrow>
     value \<noteq> '''' \<and> list_all (valid_id rejectZeroPaddedNumbers) (Split value CHR ''.'')"

text \<open>The loop over the core fields; \<open>None\<close> is its early return.\<close>

fun parse_fields :: "string list \<Rightarrow> int list option" where
  "parse_fields [] = Some []"
| "parse_fields (field # rest) =
     (case parseNumericIdentifier field of
        None \<Rightarrow> None
      | Some part \<Rightarrow> map_option ((#) part) (parse_fields rest))"

text \<open>A legacy \<open>MAJOR.MINOR\<close> core gets the patch number 0.\<close>

definition core_fields :: "string \<Rightarrow> bool \<Rightarrow> string list" where
  "core_fields corePart allowLegacyMinor =
     (let split = Split corePart CHR ''.''
      in if length split = 2 \<and> allowLegacyMinor then split @ [''0''] else split)"

definition parse_core :: "string \<Rightarrow> string \<Rightarrow> bool \<Rightarrow> Semver option" where
  "parse_core coreText build allowLegacyMinor =
     (case Cut coreText CHR ''-'' of (corePart, prerelease, found) \<Rightarrow>
        let coreFields = core_fields corePart allowLegacyMinor
        in if length coreFields \<noteq> 3 then None
           else case parse_fields coreFields of
             None \<Rightarrow> None
           | Some core \<Rightarrow>
               if prerelease \<noteq> '''' \<and> \<not> validIdentifierList prerelease True then None
               else Some \<lparr>sv_Major = core ! 0, sv_Minor = core ! 1, sv_Patch = core ! 2,
                   sv_Prerelease = (if prerelease \<noteq> '''' then Split prerelease CHR ''.'' else []),
                   sv_Build = build\<rparr>)"

definition parseVersion :: "string \<Rightarrow> bool \<Rightarrow> Semver option" where
  "parseVersion v allowLegacyMinor =
     (let version = TrimPrefix (TrimPrefix (TrimSpace v) ''v'') ''V'';
          coreAndBuild = Split version CHR ''+''
      in if version = '''' then None
         else if length coreAndBuild > 2 then None
         else if length coreAndBuild = 2 then
           (if validIdentifierList (coreAndBuild ! 1) False
            then parse_core (coreAndBuild ! 0) (coreAndBuild ! 1) allowLegacyMinor else None)
         else parse_core (coreAndBuild ! 0) '''' allowLegacyMinor)"

definition ParseSemver :: "string \<Rightarrow> Semver option" where
  "ParseSemver version = parseVersion version False"

section \<open>Rendering and validation\<close>

definition render :: "Semver \<Rightarrow> string" where
  "render semver =
     Itoa (sv_Major semver) @ ''.'' @ Itoa (sv_Minor semver) @ ''.'' @ Itoa (sv_Patch semver)
     @ (if sv_Prerelease semver \<noteq> [] then ''-'' @ Join (sv_Prerelease semver) ''.'' else '''')
     @ (if sv_Build semver \<noteq> '''' then ''+'' @ sv_Build semver else '''')"

definition NormalizeVersion :: "string \<Rightarrow> string" where
  "NormalizeVersion version =
     (case parseVersion version True of None \<Rightarrow> '''' | Some semver \<Rightarrow> render semver)"

datatype version_error = VersionEmpty | LeadingV | BuildMetadata | NotSemver | PrereleaseCase

definition ValidateReleaseVersion :: "string \<Rightarrow> version_error option" where
  "ValidateReleaseVersion version =
     (let trimmed = TrimSpace version
      in if trimmed = '''' then Some VersionEmpty
         else if HasPrefix trimmed ''v'' \<or> HasPrefix trimmed ''V'' then Some LeadingV
         else if CHR ''+'' \<in> set trimmed then Some BuildMetadata
         else case ParseSemver trimmed of
           None \<Rightarrow> Some NotSemver
         | Some semver \<Rightarrow>
             if list_all (\<lambda>ident. ident = ToLower ident) (sv_Prerelease semver) then None
             else Some PrereleaseCase)"

section \<open>Precedence\<close>

text \<open>\<open>strings.Compare\<close> and the three-way tests on integers.\<close>

definition three_way :: "'a::linorder \<Rightarrow> 'a \<Rightarrow> int" where
  "three_way l r = (if l > r then 1 else if l < r then -1 else 0)"

definition comparePrereleaseIdentifier :: "string \<Rightarrow> string \<Rightarrow> int" where
  "comparePrereleaseIdentifier l r =
     (case (parseNumericIdentifier l, parseNumericIdentifier r) of
        (Some leftNum, Some rightNum) \<Rightarrow> three_way leftNum rightNum
      | (Some leftNum, None) \<Rightarrow> -1
      | (None, Some rightNum) \<Rightarrow> 1
      | (None, None) \<Rightarrow> three_way l r)"

text \<open>The loop over the common length, and the comparison of the lengths after it.\<close>

fun compare_ids :: "string list \<Rightarrow> string list \<Rightarrow> int" where
  "compare_ids (l # ls) (r # rs) =
     (let cmp = comparePrereleaseIdentifier l r in if cmp \<noteq> 0 then cmp else compare_ids ls rs)"
| "compare_ids ls rs = three_way (length ls) (length rs)"

definition comparePrerelease :: "string list \<Rightarrow> string list \<Rightarrow> int" where
  "comparePrerelease l r =
     (if l = [] \<and> r = [] then 0
      else if l = [] then 1
      else if r = [] then -1
      else compare_ids l r)"

fun first_difference :: "(int \<times> int) list \<Rightarrow> int option" where
  "first_difference [] = None"
| "first_difference ((l, r) # pairs) =
     (if l > r then Some 1 else if l < r then Some (-1) else first_difference pairs)"

definition compareSemver :: "Semver \<Rightarrow> Semver \<Rightarrow> int" where
  "compareSemver l r =
     (case first_difference [(sv_Major l, sv_Major r), (sv_Minor l, sv_Minor r), (sv_Patch l, sv_Patch r)] of
        Some cmp \<Rightarrow> cmp
      | None \<Rightarrow> comparePrerelease (sv_Prerelease l) (sv_Prerelease r))"

definition CompareVersions :: "string \<Rightarrow> string \<Rightarrow> int option" where
  "CompareVersions l r =
     (case (parseVersion l True, parseVersion r True) of
        (Some leftVersion, Some rightVersion) \<Rightarrow> Some (compareSemver leftVersion rightVersion)
      | _ \<Rightarrow> None)"

definition VersionIsNewer :: "string \<Rightarrow> string \<Rightarrow> bool" where
  "VersionIsNewer candidate current =
     (case CompareVersions candidate current of
        None \<Rightarrow> NormalizeVersion candidate \<noteq> '''' \<and> NormalizeVersion candidate \<noteq> NormalizeVersion current
      | Some cmp \<Rightarrow> cmp > 0)"

section \<open>The parser inverts the renderer\<close>

text \<open>What every parsed version satisfies.\<close>

definition semver_ok :: "Semver \<Rightarrow> bool" where
  "semver_ok sv \<longleftrightarrow>
     0 \<le> sv_Major sv \<and> sv_Major sv \<le> int64_max \<and> 0 \<le> sv_Minor sv \<and> sv_Minor sv \<le> int64_max
     \<and> 0 \<le> sv_Patch sv \<and> sv_Patch sv \<le> int64_max
     \<and> (\<forall>ident\<in>set (sv_Prerelease sv). valid_id True ident)
     \<and> (sv_Build sv \<noteq> '''' \<longrightarrow> validIdentifierList (sv_Build sv) False)"

lemma id_char_facts:
  assumes "id_char c"
  shows "visible c" "c \<noteq> CHR ''+''" "c \<noteq> CHR ''.''"
  using assms by (auto simp: id_char_def visible_def less_eq_char_def)

lemma digit_visible: "is_digit c \<Longrightarrow> visible c \<and> c \<noteq> CHR ''+'' \<and> c \<noteq> CHR ''.'' \<and> c \<noteq> CHR ''-''"
  by (auto simp: is_digit_iff visible_def)

lemma parseNumeric_range: "parseNumericIdentifier s = Some n \<Longrightarrow> 0 \<le> n \<and> n \<le> int64_max"
  by (auto simp: parseNumericIdentifier_def Atoi_def in_int64_def Let_def split: if_splits option.splits)

lemma nat_str_no_leading_zero: "length (nat_str n) > 1 \<Longrightarrow> hd (nat_str n) \<noteq> CHR ''0''"
  by (cases "n = 0") (simp_all add: hd_nat_str_zero, simp add: nat_str.simps)

lemma parseNumeric_Itoa:
  assumes "0 \<le> n" "n \<le> int64_max"
  shows "parseNumericIdentifier (Itoa n) = Some n"
proof -
  have eq: "Itoa n = nat_str (nat n)" using assms by (simp add: Itoa_def)
  have "Atoi (nat_str (nat n)) = Some n"
    using assms Atoi_Itoa[of n] by (simp add: eq in_int64_def int64_min_def)
  then show ?thesis
    using assms nat_str_no_leading_zero[of "nat n"]
    by (auto simp: parseNumericIdentifier_def eq nat_str_digits)
qed

lemma parse_fields_length: "parse_fields fs = Some ns \<Longrightarrow> length ns = length fs"
  by (induction fs arbitrary: ns) (auto split: option.splits)

lemma parse_fields_range: "parse_fields fs = Some ns \<Longrightarrow> n \<in> set ns \<Longrightarrow> 0 \<le> n \<and> n \<le> int64_max"
  by (induction fs arbitrary: ns) (auto split: option.splits dest: parseNumeric_range)

lemma validIdentifierList_chars:
  assumes "validIdentifierList s r"
  shows "s \<noteq> ''''" "\<forall>c\<in>set s. visible c \<and> c \<noteq> CHR ''+''"
proof -
  show "s \<noteq> ''''" using assms by (simp add: validIdentifierList_def)
  let ?ws = "Split s CHR ''.''"
  have ids: "\<forall>w\<in>set ?ws. \<forall>c\<in>set w. id_char c"
    using assms by (auto simp: validIdentifierList_def list_all_iff valid_id_def)
  have "c = CHR ''.'' \<or> id_char c" if "c \<in> set s" for c
    using that ids set_Join[of ?ws "CHR ''.''"] Join_Split[of s "CHR ''.''"] by fastforce
  moreover have "visible CHR ''.''" by (simp add: visible_def)
  ultimately show "\<forall>c\<in>set s. visible c \<and> c \<noteq> CHR ''+''"
    using id_char_facts by fastforce
qed

lemma parse_core_ok:
  assumes "parse_core coreText build b = Some sv" and "build \<noteq> '''' \<longrightarrow> validIdentifierList build False"
  shows "semver_ok sv"
proof -
  obtain corePart prerelease found where cut: "Cut coreText CHR ''-'' = (corePart, prerelease, found)"
    by (cases "Cut coreText CHR ''-''")
  let ?fs = "core_fields corePart b"
  obtain core where fs: "length ?fs = 3" "parse_fields ?fs = Some core"
    and valid: "prerelease = '''' \<or> validIdentifierList prerelease True"
    and sv: "sv = \<lparr>sv_Major = core ! 0, sv_Minor = core ! 1, sv_Patch = core ! 2,
                   sv_Prerelease = (if prerelease \<noteq> '''' then Split prerelease CHR ''.'' else []),
                   sv_Build = build\<rparr>"
    using assms(1) cut by (auto simp: parse_core_def Let_def split: if_splits option.splits)
  have "core ! i \<in> set core" if "i < 3" for i
    using that fs parse_fields_length by fastforce
  then have "0 \<le> core ! i \<and> core ! i \<le> int64_max" if "i < 3" for i
    using that fs parse_fields_range by blast
  then have "0 \<le> core ! 0 \<and> core ! 0 \<le> int64_max" "0 \<le> core ! 1 \<and> core ! 1 \<le> int64_max"
    "0 \<le> core ! 2 \<and> core ! 2 \<le> int64_max"
    by auto
  then show ?thesis
    using sv valid assms(2) by (auto simp: semver_ok_def validIdentifierList_def list_all_iff)
qed

lemma parseVersion_ok: "parseVersion v b = Some sv \<Longrightarrow> semver_ok sv"
  by (auto simp: parseVersion_def Let_def parse_core_ok split: if_splits dest: parse_core_ok)

lemma Itoa_chars:
  assumes "0 \<le> n"
  shows "Itoa n \<noteq> ''''" "\<forall>c\<in>set (Itoa n). is_digit c"
  using assms nat_str_digits[of "nat n"] by (simp_all add: Itoa_def list_all_iff)

lemma Itoa_clean:
  assumes "0 \<le> n"
  shows "CHR ''.'' \<notin> set (Itoa n)" "CHR ''-'' \<notin> set (Itoa n)" "CHR ''+'' \<notin> set (Itoa n)"
  using Itoa_chars[OF assms] digit_visible by blast+

text \<open>The part of the rendering before the build metadata.\<close>

definition render_core :: "Semver \<Rightarrow> string" where
  "render_core sv = Itoa (sv_Major sv) @ ''.'' @ Itoa (sv_Minor sv) @ ''.'' @ Itoa (sv_Patch sv)"

definition render_pre :: "Semver \<Rightarrow> string" where
  "render_pre sv = Join (sv_Prerelease sv) ''.''"

lemma render_split:
  "render sv = render_core sv
     @ (if sv_Prerelease sv \<noteq> [] then ''-'' @ render_pre sv else '''')
     @ (if sv_Build sv \<noteq> '''' then ''+'' @ sv_Build sv else '''')"
  by (simp add: render_def render_core_def render_pre_def)

lemma render_core_facts:
  assumes "semver_ok sv"
  shows "Split (render_core sv) CHR ''.'' = [Itoa (sv_Major sv), Itoa (sv_Minor sv), Itoa (sv_Patch sv)]"
    "CHR ''-'' \<notin> set (render_core sv)" "CHR ''+'' \<notin> set (render_core sv)"
    "render_core sv \<noteq> ''''" "is_digit (hd (render_core sv))" "is_digit (last (render_core sv))"
proof -
  have pos: "0 \<le> sv_Major sv" "0 \<le> sv_Minor sv" "0 \<le> sv_Patch sv"
    using assms by (auto simp: semver_ok_def)
  note clean = Itoa_clean[OF pos(1)] Itoa_clean[OF pos(2)] Itoa_clean[OF pos(3)]
  show "Split (render_core sv) CHR ''.'' = [Itoa (sv_Major sv), Itoa (sv_Minor sv), Itoa (sv_Patch sv)]"
    using clean by (simp add: render_core_def Split_append Split_clean)
  show "CHR ''-'' \<notin> set (render_core sv)" "CHR ''+'' \<notin> set (render_core sv)"
    using clean by (simp_all add: render_core_def)
  show "render_core sv \<noteq> ''''" by (simp add: render_core_def)
  show "is_digit (hd (render_core sv))"
    using Itoa_chars[OF pos(1)] by (simp add: render_core_def)
  show "is_digit (last (render_core sv))"
    using Itoa_chars[OF pos(3)] by (simp add: render_core_def)
qed

lemma render_pre_facts:
  assumes "semver_ok sv" "sv_Prerelease sv \<noteq> []"
  shows "Split (render_pre sv) CHR ''.'' = sv_Prerelease sv"
    "validIdentifierList (render_pre sv) True"
proof -
  have ids: "\<forall>w\<in>set (sv_Prerelease sv). valid_id True w"
    using assms by (simp add: semver_ok_def)
  have "\<forall>w\<in>set (sv_Prerelease sv). CHR ''.'' \<notin> set w"
    using ids id_char_facts(3) by (fastforce simp: valid_id_def list_all_iff)
  then show split: "Split (render_pre sv) CHR ''.'' = sv_Prerelease sv"
    using assms by (simp add: render_pre_def Split_Join)
  have "render_pre sv \<noteq> ''''"
  proof
    assume "render_pre sv = ''''"
    then have "sv_Prerelease sv = [''''] " using split by simp
    then show False using ids by (simp add: valid_id_def)
  qed
  then show "validIdentifierList (render_pre sv) True"
    using split ids by (simp add: validIdentifierList_def list_all_iff)
qed

lemma parse_core_render:
  assumes "semver_ok sv"
  shows "parse_core (render_core sv @ (if sv_Prerelease sv \<noteq> [] then ''-'' @ render_pre sv else ''''))
           (sv_Build sv) b = Some sv"
proof -
  note core = render_core_facts[OF assms]
  have nums: "parse_fields [Itoa (sv_Major sv), Itoa (sv_Minor sv), Itoa (sv_Patch sv)]
      = Some [sv_Major sv, sv_Minor sv, sv_Patch sv]"
    using assms by (simp add: semver_ok_def parseNumeric_Itoa)
  show ?thesis
  proof (cases "sv_Prerelease sv = []")
    case True
    then have "Cut (render_core sv @ (if sv_Prerelease sv \<noteq> [] then ''-'' @ render_pre sv else '''')) CHR ''-''
        = (render_core sv, '''', False)"
      using core by (simp add: Cut_clean)
    then show ?thesis
      using True core nums by (simp add: parse_core_def core_fields_def)
  next
    case False
    then have "Cut (render_core sv @ (if sv_Prerelease sv \<noteq> [] then ''-'' @ render_pre sv else '''')) CHR ''-''
        = (render_core sv, render_pre sv, True)"
      using core by (simp add: Cut_append)
    moreover have "render_pre sv \<noteq> ''''"
      using render_pre_facts[OF assms False] by (auto simp: validIdentifierList_def)
    ultimately show ?thesis
      using False core nums render_pre_facts[OF assms False] by (simp add: parse_core_def core_fields_def)
  qed
qed

lemma render_pre_chars:
  assumes "semver_ok sv" "sv_Prerelease sv \<noteq> []"
  shows "render_pre sv \<noteq> ''''" "\<forall>c\<in>set (render_pre sv). visible c \<and> c \<noteq> CHR ''+''"
  using validIdentifierList_chars[OF render_pre_facts(2)[OF assms]] by auto

lemma render_visible:
  assumes "semver_ok sv"
  shows "render sv \<noteq> ''''" "is_digit (hd (render sv))" "visible (last (render sv))"
proof -
  note core = render_core_facts[OF assms]
  show "render sv \<noteq> ''''" "is_digit (hd (render sv))"
    using core by (simp_all add: render_split)
  have "visible (last (sv_Build sv))" if "sv_Build sv \<noteq> ''''"
    using that assms validIdentifierList_chars(2)[of "sv_Build sv" False] by (simp add: semver_ok_def)
  moreover have "visible (last (render_pre sv)) \<and> render_pre sv \<noteq> ''''" if "sv_Prerelease sv \<noteq> []"
    using that render_pre_chars[OF assms] by simp
  ultimately show "visible (last (render sv))"
    using core digit_visible by (simp add: render_split)
qed

lemma parse_render:
  assumes "semver_ok sv"
  shows "parseVersion (render sv) b = Some sv"
proof -
  let ?pre = "render_core sv @ (if sv_Prerelease sv \<noteq> [] then ''-'' @ render_pre sv else '''')"
  note vis = render_visible[OF assms]
  have trim: "TrimSpace (render sv) = render sv"
    using vis digit_visible by (intro TrimSpace_visible) auto
  have prefixes: "TrimPrefix (TrimPrefix (render sv) ''v'') ''V'' = render sv"
    using vis by (cases "render sv") (auto simp: TrimPrefix_def HasPrefix_def is_digit_iff)
  have clean: "CHR ''+'' \<notin> set ?pre"
    using render_core_facts(3)[OF assms] render_pre_chars(2)[OF assms] by auto
  have build: "sv_Build sv \<noteq> '''' \<Longrightarrow> validIdentifierList (sv_Build sv) False"
    using assms by (simp add: semver_ok_def)
  show ?thesis
  proof (cases "sv_Build sv = ''''")
    case True
    then have "Split (render sv) CHR ''+'' = [?pre]"
      using clean by (simp add: render_split Split_clean)
    then show ?thesis
      using vis True parse_core_render[OF assms, of b] by (simp add: parseVersion_def trim prefixes Let_def)
  next
    case False
    have "render sv = ?pre @ CHR ''+'' # sv_Build sv"
      using False by (simp add: render_split)
    moreover have "CHR ''+'' \<notin> set (sv_Build sv)"
      using validIdentifierList_chars(2)[OF build[OF False]] by blast
    ultimately have "Split (render sv) CHR ''+'' = [?pre, sv_Build sv]"
      using clean by (simp add: Split_append Split_clean del: append_assoc)
    then show ?thesis
      using vis parse_core_render[OF assms, of b] build[OF False]
      by (simp add: parseVersion_def trim prefixes Let_def)
  qed
qed

section \<open>The comparison is the comparison of a key\<close>

text \<open>A prerelease identifier is a number or a word; numbers come before words.\<close>

datatype prerelease_id = NumId int | WordId string

fun id_less :: "prerelease_id \<Rightarrow> prerelease_id \<Rightarrow> bool" where
  "id_less (NumId m) (NumId n) = (m < n)"
| "id_less (NumId m) (WordId w) = True"
| "id_less (WordId v) (NumId n) = False"
| "id_less (WordId v) (WordId w) = (v < w)"

instantiation prerelease_id :: linorder
begin

definition less_prerelease_id :: "prerelease_id \<Rightarrow> prerelease_id \<Rightarrow> bool" where
  "less_prerelease_id a b = id_less a b"

definition less_eq_prerelease_id :: "prerelease_id \<Rightarrow> prerelease_id \<Rightarrow> bool" where
  "less_eq_prerelease_id a b = (a = b \<or> id_less a b)"

instance
proof
  fix x y z :: prerelease_id
  show "(x < y) = (x \<le> y \<and> \<not> y \<le> x)"
    by (cases x; cases y) (auto simp: less_prerelease_id_def less_eq_prerelease_id_def)
  show "x \<le> x" by (simp add: less_eq_prerelease_id_def)
  show "x \<le> y \<Longrightarrow> y \<le> z \<Longrightarrow> x \<le> z"
    by (cases x; cases y; cases z) (auto simp: less_eq_prerelease_id_def)
  show "x \<le> y \<Longrightarrow> y \<le> x \<Longrightarrow> x = y"
    by (cases x; cases y) (auto simp: less_eq_prerelease_id_def)
  show "x \<le> y \<or> y \<le> x"
    by (cases x; cases y) (auto simp: less_eq_prerelease_id_def)
qed

end

definition id_key :: "string \<Rightarrow> prerelease_id" where
  "id_key s = (case parseNumericIdentifier s of Some n \<Rightarrow> NumId n | None \<Rightarrow> WordId s)"

text \<open>The precedence of a version: its core numbers, then a prerelease before the release, then
  the identifiers in lexicographic order.  The build metadata has no part in it.\<close>

definition precedence :: "Semver \<Rightarrow> int \<times> int \<times> int \<times> bool \<times> prerelease_id list" where
  "precedence sv = (sv_Major sv, sv_Minor sv, sv_Patch sv, sv_Prerelease sv = [], map id_key (sv_Prerelease sv))"

text \<open>The rank of an arbitrary string; a string that is no version ranks below all versions.\<close>

definition version_rank :: "string \<Rightarrow> (int \<times> int \<times> int \<times> bool \<times> prerelease_id list) option" where
  "version_rank v = map_option precedence (parseVersion v True)"

lemma three_way_simps [simp]:
  "three_way l r = 0 \<longleftrightarrow> l = r" "three_way l r > 0 \<longleftrightarrow> l > r" "three_way l r < 0 \<longleftrightarrow> l < r"
  by (auto simp: three_way_def)

lemma compare_identifier_key: "comparePrereleaseIdentifier l r = three_way (id_key l) (id_key r)"
  by (auto simp: comparePrereleaseIdentifier_def id_key_def three_way_def less_prerelease_id_def
      split: option.splits)

lemma compare_ids_key: "compare_ids l r = three_way (map id_key l) (map id_key r)"
proof (induction l r rule: compare_ids.induct [case_names both left_ends right_ends])
  case (both l ls r rs)
  show ?case
  proof (cases "id_key l = id_key r")
    case True
    then show ?thesis using both by (simp add: compare_identifier_key Let_def three_way_def)
  next
    case False
    then show ?thesis by (auto simp: compare_identifier_key Let_def three_way_def)
  qed
next
  case (left_ends rs)
  then show ?case by (cases rs) (auto simp: three_way_def)
next
  case (right_ends ls)
  then show ?case by (cases ls) (auto simp: three_way_def)
qed

lemma three_way_pair:
  "three_way (a, p) (b, q) = (if a > b then 1 else if a < b then -1 else three_way p q)"
  by (simp add: three_way_def less_prod_def')

lemma comparePrerelease_key:
  "comparePrerelease l r = three_way (l = [], map id_key l) (r = [], map id_key r)"
  by (cases l; cases r) (simp_all add: comparePrerelease_def compare_ids_key three_way_pair)

lemma compareSemver_precedence: "compareSemver l r = three_way (precedence l) (precedence r)"
  by (simp add: compareSemver_def precedence_def three_way_pair comparePrerelease_key)

lemma parseNumeric_inj:
  assumes "parseNumericIdentifier a = Some n" "parseNumericIdentifier b = Some n"
  shows "a = b"
proof -
  have canon: "s = nat_str (nat n)" if "parseNumericIdentifier s = Some n" for s
  proof -
    have s: "s \<noteq> ''''" "list_all is_digit s" "length s > 1 \<longrightarrow> hd s \<noteq> CHR ''0''"
      "int (digits_val s) = n"
      using that by (auto simp: parseNumericIdentifier_def Atoi_digits split: if_splits)
    then show ?thesis
      using nat_str_digits_val[of s] by auto
  qed
  show ?thesis
    using canon[OF assms(1)] canon[OF assms(2)] by simp
qed

lemma id_key_inj: "id_key a = id_key b \<Longrightarrow> a = b"
  by (auto simp: id_key_def dest: parseNumeric_inj split: option.splits)

lemma precedence_eq:
  "precedence a = precedence b \<longleftrightarrow> a\<lparr>sv_Build := ''''\<rparr> = b\<lparr>sv_Build := ''''\<rparr>"
proof -
  have "map id_key xs = map id_key ys \<longleftrightarrow> xs = ys" for xs ys
    using id_key_inj by (metis inj_map_eq_map injI)
  then show ?thesis
    by (cases a; cases b) (auto simp: precedence_def)
qed

lemma NormalizeVersion_parsed:
  "NormalizeVersion v \<noteq> '''' \<longleftrightarrow> parseVersion v True \<noteq> None"
  using render_visible(1) parseVersion_ok by (auto simp: NormalizeVersion_def split: option.splits)

lemma newer_rank: "VersionIsNewer a b \<longleftrightarrow> version_rank b < version_rank a"
proof (cases "parseVersion a True")
  case None
  then have "NormalizeVersion a = ''''"
    using NormalizeVersion_parsed[of a] by blast
  with None show ?thesis
    by (simp add: VersionIsNewer_def CompareVersions_def version_rank_def)
next
  case a: (Some x)
  show ?thesis
  proof (cases "parseVersion b True")
    case None
    then have "NormalizeVersion a \<noteq> ''''" "NormalizeVersion b = ''''"
      using a NormalizeVersion_parsed[of a] NormalizeVersion_parsed[of b] by auto
    then show ?thesis
      using a None by (simp add: VersionIsNewer_def CompareVersions_def version_rank_def)
  next
    case (Some y)
    then show ?thesis
      using a by (simp add: VersionIsNewer_def CompareVersions_def version_rank_def compareSemver_precedence)
  qed
qed

lemma parse_core_strict:
  assumes "parse_core t build False = Some sv"
  shows "parse_core t build b = Some sv"
proof -
  obtain corePart pre found where cut: "Cut t CHR ''-'' = (corePart, pre, found)"
    by (cases "Cut t CHR ''-''")
  have "length (core_fields corePart False) = 3"
    using assms by (simp add: parse_core_def cut Let_def split: if_splits)
  then have "core_fields corePart b = core_fields corePart False"
    by (simp add: core_fields_def Let_def)
  then show ?thesis
    using assms by (simp add: parse_core_def cut)
qed

lemma parseVersion_strict:
  assumes "parseVersion v False = Some sv"
  shows "parseVersion v b = Some sv"
proof -
  have "parse_core t build False = Some sv \<longrightarrow> parse_core t build b = Some sv" for t build
    using parse_core_strict by blast
  then show ?thesis
    using assms unfolding parseVersion_def Let_def by (simp split: if_splits)
qed

lemma parseNumeric_Itoa_inv:
  assumes "parseNumericIdentifier s = Some n"
  shows "s = Itoa n"
  using parseNumeric_inj[OF assms] parseNumeric_Itoa parseNumeric_range[OF assms] by blast

lemma parse_fields_Itoa: "parse_fields fs = Some ns \<Longrightarrow> fs = map Itoa ns"
  by (induction fs arbitrary: ns) (auto split: option.splits dest: parseNumeric_Itoa_inv)

lemma parse_core_text:
  assumes "parse_core t '''' False = Some sv"
  shows "t = render sv \<or> t = render sv @ ''-''"
proof -
  obtain corePart pre found where cut: "Cut t CHR ''-'' = (corePart, pre, found)"
    by (cases "Cut t CHR ''-''")
  let ?fs = "Split corePart CHR ''.''"
  obtain core where core: "length ?fs = 3" "parse_fields ?fs = Some core"
    and sv: "sv = \<lparr>sv_Major = core ! 0, sv_Minor = core ! 1, sv_Patch = core ! 2,
       sv_Prerelease = (if pre \<noteq> '''' then Split pre CHR ''.'' else []), sv_Build = ''''\<rparr>"
    using assms cut by (auto simp: parse_core_def core_fields_def Let_def split: if_splits option.splits)
  have "length core = 3" using core parse_fields_length by fastforce
  then obtain x y z where xyz: "core = [x, y, z]"
    by (auto simp: length_Suc_conv numeral_3_eq_3)
  have "?fs = [Itoa x, Itoa y, Itoa z]"
    using parse_fields_Itoa[OF core(2)] xyz by simp
  then have "corePart = Itoa x @ ''.'' @ Itoa y @ ''.'' @ Itoa z"
    using Join_Split[of corePart "CHR ''.''"] by simp
  then show ?thesis
    using Cut_parts[OF cut] sv xyz Join_Split[of pre "CHR ''.''"] by (auto simp: render_def)
qed

lemma validated_parse:
  assumes "ValidateReleaseVersion v = None"
  obtains sv where "parse_core (TrimSpace v) '''' False = Some sv" "parseVersion v True = Some sv"
proof -
  let ?t = "TrimSpace v"
  obtain sv where t: "?t \<noteq> ''''" "\<not> HasPrefix ?t ''v''" "\<not> HasPrefix ?t ''V''" "CHR ''+'' \<notin> set ?t"
    and sv: "parseVersion ?t False = Some sv"
    using assms by (auto simp: ValidateReleaseVersion_def ParseSemver_def Let_def
        split: if_splits option.splits)
  have same: "parseVersion ?t False = parseVersion v False"
    by (simp add: parseVersion_def)
  have "parse_core ?t '''' False = Some sv"
    using sv t by (simp add: parseVersion_def TrimPrefix_def Split_clean Let_def)
  moreover have "parseVersion v True = Some sv"
    using sv same parseVersion_strict[of v sv True] by simp
  ultimately show ?thesis by (rule that)
qed

section \<open>Properties\<close>

text \<open>C35. Parsing inverts rendering: whatever string parses (with the legacy
  \<open>MAJOR.MINOR\<close> form allowed), its normal form parses to the same version even under the
  strict grammar, so normalising again changes nothing, and the normal form has neither
  surrounding white space nor a leading \<open>v\<close>.\<close>

theorem version_round_trip:
  assumes "parseVersion v True = Some sv"
  shows "(ParseSemver (NormalizeVersion v) = Some sv)
    \<and> (NormalizeVersion (NormalizeVersion v) = NormalizeVersion v)
    \<and> (TrimSpace (NormalizeVersion v) = NormalizeVersion v \<and> is_digit (hd (NormalizeVersion v)))"
proof (rule conjI [OF _ conjI])
  have ok: "semver_ok sv" using assms by (rule parseVersion_ok)
  have n: "NormalizeVersion v = render sv" using assms by (simp add: NormalizeVersion_def)
  show "ParseSemver (NormalizeVersion v) = Some sv"
    using ok n by (simp add: ParseSemver_def parse_render)
  have "NormalizeVersion (render sv) = render sv"
    using parse_render[OF ok, of True] by (simp add: NormalizeVersion_def)
  then show "NormalizeVersion (NormalizeVersion v) = NormalizeVersion v"
    by (simp add: n)
  have "visible (hd (render sv))" using render_visible[OF ok] digit_visible by blast
  then show "TrimSpace (NormalizeVersion v) = NormalizeVersion v \<and> is_digit (hd (NormalizeVersion v))"
    using render_visible[OF ok] n by (simp add: TrimSpace_visible)
qed

theorem version_round_trip_witness:
  "ParseSemver (NormalizeVersion '' v2026.3-rc.1+ab.01 '')
     = Some \<lparr>sv_Major = 2026, sv_Minor = 3, sv_Patch = 0, sv_Prerelease = [''rc'', ''1''], sv_Build = ''ab.01''\<rparr>"
  by (rule version_round_trip [THEN conjunct1]) code_simp

text \<open>\<open>VersionIsNewer\<close> is a strict weak order on all strings: it is irreflexive,
  asymmetric and transitive, and two strings are incomparable exactly when both fail to parse
  or both parse to versions that differ at most in their build metadata.  So an update check
  cannot cycle, and no version is ever reported newer than itself.\<close>

theorem version_newer_order:
  "(\<not> VersionIsNewer a a)
    \<and> (VersionIsNewer a b \<longrightarrow> \<not> VersionIsNewer b a)
    \<and> (VersionIsNewer a b \<longrightarrow> VersionIsNewer b c \<longrightarrow> VersionIsNewer a c)
    \<and> (\<not> VersionIsNewer a b \<and> \<not> VersionIsNewer b a
     \<longleftrightarrow> map_option (sv_Build_update (\<lambda>_. '''')) (parseVersion a True)
       = map_option (sv_Build_update (\<lambda>_. '''')) (parseVersion b True))"
proof (rule conjI [OF _ conjI [OF _ conjI]])
  show "\<not> VersionIsNewer a a" by (simp add: newer_rank)
  show "VersionIsNewer a b \<longrightarrow> \<not> VersionIsNewer b a" by (auto simp: newer_rank)
  show "VersionIsNewer a b \<longrightarrow> VersionIsNewer b c \<longrightarrow> VersionIsNewer a c"
    by (auto simp: newer_rank)
  have "\<not> VersionIsNewer a b \<and> \<not> VersionIsNewer b a \<longleftrightarrow> version_rank a = version_rank b"
    by (auto simp: newer_rank)
  then show "\<not> VersionIsNewer a b \<and> \<not> VersionIsNewer b a
     \<longleftrightarrow> map_option (sv_Build_update (\<lambda>_. '''')) (parseVersion a True)
       = map_option (sv_Build_update (\<lambda>_. '''')) (parseVersion b True)"
    by (cases "parseVersion a True"; cases "parseVersion b True")
       (simp_all add: version_rank_def precedence_eq)
qed

theorem version_newer_order_witness:
  "VersionIsNewer ''2026.3.0'' ''v2026.3.0-rc.2'' \<and> VersionIsNewer ''2026.3.0'' ''2026.3.0-rc.1''"
proof
  show ab: "VersionIsNewer ''2026.3.0'' ''v2026.3.0-rc.2''" by code_simp
  have bc: "VersionIsNewer ''v2026.3.0-rc.2'' ''2026.3.0-rc.1''" by code_simp
  show "VersionIsNewer ''2026.3.0'' ''2026.3.0-rc.1''"
    using version_newer_order ab bc by blast
qed

text \<open>C36. A version accepted by \<open>ValidateReleaseVersion\<close> is, up to surrounding white space,
  its own normal form, with one exception: a single trailing dash (an empty prerelease, which
  the grammar in the error message does not have) is accepted and dropped.\<close>

theorem release_version_canonical:
  assumes "ValidateReleaseVersion v = None"
  shows "TrimSpace v = NormalizeVersion v \<or> TrimSpace v = NormalizeVersion v @ ''-''"
proof -
  obtain sv where "parse_core (TrimSpace v) '''' False = Some sv" "parseVersion v True = Some sv"
    using validated_parse[OF assms] .
  then show ?thesis
    using parse_core_text by (simp add: NormalizeVersion_def)
qed

theorem release_version_canonical_witness:
  "ValidateReleaseVersion '' 2026.3.0-'' = None \<and> TrimSpace '' 2026.3.0-'' = NormalizeVersion '' 2026.3.0-'' @ ''-''"
proof -
  have ok: "ValidateReleaseVersion '' 2026.3.0-'' = None" by code_simp
  have "TrimSpace '' 2026.3.0-'' \<noteq> NormalizeVersion '' 2026.3.0-''" by code_simp
  then show ?thesis using release_version_canonical[OF ok] ok by blast
qed

end
