(* ===== verification/Entity_Order.thy ===== *)
theory Entity_Order
  imports Go_Prelude "HOL-Library.Product_Lexorder"
begin

text \<open>
  The display order of the stored entities (\<^verbatim>\<open>src/internal/entities/order/order.go\<close>).
  A table is the list of its rows; \<open>id\<close> is its primary key.  A row also carries whether the
  target's \<open>Where\<close> clause selects it, which a change of \<open>sort_order\<close> does not affect.
  Decoding the request's JSON (\<open>ParseIDs\<close>) is the argument \<open>parsed\<close> of the handler.
\<close>

record row =
  r_id :: nat
  r_sort :: int
  r_where :: bool

definition table_ok :: "row list \<Rightarrow> bool" where
  "table_ok rows \<longleftrightarrow> distinct (map r_id rows)"

datatype order_error =
  RecordNotFound
| ParseError string
| BeforeError string
| LengthMismatch nat nat
| DuplicateID nat
| UnknownID nat
| NotUpdated nat

text \<open>\<open>COALESCE(MAX(sort_order), 0) + 1\<close> in 64-bit arithmetic.\<close>

definition Next :: "row list \<Rightarrow> int" where
  "Next rows = wrap64 ((if rows = [] then 0 else Max (r_sort ` set rows)) + 1)"

definition ForSave :: "row list \<Rightarrow> nat \<Rightarrow> order_error + int" where
  "ForSave rows i =
     (if i = 0 then Inr (Next rows)
      else case filter (\<lambda>r. r_id r = i) rows of
        [] \<Rightarrow> Inl RecordNotFound
      | r # _ \<Rightarrow> Inr (r_sort r))"

text \<open>The query of the current ids, ordered by \<open>Clause\<close>: \<open>sort_order ASC, id ASC\<close>.\<close>

definition current_ids :: "row list \<Rightarrow> nat list" where
  "current_ids rows = map r_id (sort_key (\<lambda>r. (r_sort r, r_id r)) (filter r_where rows))"

fun check_requested :: "nat set \<Rightarrow> nat set \<Rightarrow> nat list \<Rightarrow> order_error option" where
  "check_requested expected seen [] = None"
| "check_requested expected seen (i # ids) =
     (if i \<in> seen then Some (DuplicateID i)
      else if i \<notin> expected then Some (UnknownID i)
      else check_requested expected (insert i seen) ids)"

definition ValidateIDs :: "nat list \<Rightarrow> nat list \<Rightarrow> order_error option" where
  "ValidateIDs current requested =
     (if length current \<noteq> length requested
      then Some (LengthMismatch (length requested) (length current))
      else check_requested (set current) {} requested)"

definition set_sort :: "nat \<Rightarrow> int \<Rightarrow> row list \<Rightarrow> row list" where
  "set_sort i s rows = map (\<lambda>r. if r_id r = i then r\<lparr>r_sort := s\<rparr> else r) rows"

text \<open>The update loop; \<open>index\<close> is the position of the head of the list.  It stops at the first
  id without a row, with the rows written so far: the caller's transaction undoes them.\<close>

fun apply_from :: "int \<Rightarrow> nat list \<Rightarrow> row list \<Rightarrow> order_error option \<times> row list" where
  "apply_from index [] rows = (None, rows)"
| "apply_from index (i # ids) rows =
     (if i \<notin> r_id ` set rows then (Some (NotUpdated i), rows)
      else apply_from (index + 1) ids (set_sort i (index + 1) rows))"

definition ApplyIDs :: "row list \<Rightarrow> nat list \<Rightarrow> order_error option \<times> row list" where
  "ApplyIDs rows ids = apply_from 0 ids rows"

definition ReorderDBTarget ::
  "(row list \<Rightarrow> string + row list) option \<Rightarrow> string + nat list \<Rightarrow> row list
     \<Rightarrow> order_error option \<times> row list" where
  "ReorderDBTarget before parsed rows =
     (case parsed of
        Inl e \<Rightarrow> (Some (ParseError e), rows)
      | Inr ids \<Rightarrow>
          (case (case before of None \<Rightarrow> Inr rows | Some f \<Rightarrow> f rows) of
             Inl e \<Rightarrow> (Some (BeforeError e), rows)
           | Inr rows' \<Rightarrow>
               (case ValidateIDs (current_ids rows') ids of
                  Some e \<Rightarrow> (Some e, rows')
                | None \<Rightarrow> ApplyIDs rows' ids)))"

section \<open>Validation accepts the permutations\<close>

lemma check_requested_iff:
  "check_requested expected seen ids = None
     \<longleftrightarrow> distinct ids \<and> set ids \<inter> seen = {} \<and> set ids \<subseteq> expected"
  by (induction expected seen ids rule: check_requested.induct) auto

lemma ValidateIDs_iff:
  assumes "distinct current"
  shows "ValidateIDs current requested = None \<longleftrightarrow> mset requested = mset current"
proof
  assume "ValidateIDs current requested = None"
  then have "length current = length requested" "distinct requested" "set requested \<subseteq> set current"
    by (auto simp: ValidateIDs_def check_requested_iff split: if_splits)
  moreover from this have "card (set requested) = card (set current)"
    using assms by (simp add: distinct_card)
  ultimately have "set requested = set current"
    by (simp add: card_subset_eq)
  then show "mset requested = mset current"
    using assms \<open>distinct requested\<close> by (simp add: set_eq_iff_mset_eq_distinct)
next
  assume m: "mset requested = mset current"
  then show "ValidateIDs current requested = None"
    using assms mset_eq_imp_distinct_iff[OF m] mset_eq_length[OF m] mset_eq_setD[OF m]
    by (simp add: ValidateIDs_def check_requested_iff)
qed

lemma current_ids_mset: "mset (current_ids rows) = mset (map r_id (filter r_where rows))"
  by (simp add: current_ids_def mset_map)

lemma current_ids_distinct: "table_ok rows \<Longrightarrow> distinct (current_ids rows)"
  using mset_eq_imp_distinct_iff[OF current_ids_mset, of rows]
  by (simp add: table_ok_def distinct_map_filter)

section \<open>The update loop\<close>

lemma set_sort_ids [simp]: "map r_id (set_sort i s rows) = map r_id rows"
  by (simp add: set_sort_def)

lemma set_sort_id_set [simp]: "r_id ` set (set_sort i s rows) = r_id ` set rows"
  using set_sort_ids[of i s rows] by (metis set_map)

lemma apply_from_ok:
  assumes "set ids \<subseteq> r_id ` set rows" "distinct ids"
  shows "\<exists>f. apply_from k ids rows = (None, map (\<lambda>r. r\<lparr>r_sort := f r\<rparr>) rows)
     \<and> (\<forall>r. r_id r \<notin> set ids \<longrightarrow> f r = r_sort r)
     \<and> (\<forall>r j. j < length ids \<longrightarrow> r_id r = ids ! j \<longrightarrow> f r = k + 1 + int j)"
  using assms
proof (induction ids arbitrary: k rows)
  case Nil
  then show ?case by (intro exI[of _ r_sort]) simp
next
  case (Cons i ids)
  let ?rows = "set_sort i (k + 1) rows"
  obtain f where f: "apply_from (k + 1) ids ?rows = (None, map (\<lambda>r. r\<lparr>r_sort := f r\<rparr>) ?rows)"
    "\<forall>r. r_id r \<notin> set ids \<longrightarrow> f r = r_sort r"
    "\<forall>r j. j < length ids \<longrightarrow> r_id r = ids ! j \<longrightarrow> f r = k + 1 + 1 + int j"
    using Cons.IH[of ?rows "k + 1"] Cons.prems by auto
  define g where "g r = (if r_id r = i then k + 1 else f r)" for r
  have "f (r\<lparr>r_sort := k + 1\<rparr>) = k + 1" if "r_id r = i" for r
    using f(2) that Cons.prems by simp
  then have "map (\<lambda>r. r\<lparr>r_sort := f r\<rparr>) ?rows = map (\<lambda>r. r\<lparr>r_sort := g r\<rparr>) rows"
    by (auto simp: set_sort_def g_def)
  then have "apply_from k (i # ids) rows = (None, map (\<lambda>r. r\<lparr>r_sort := g r\<rparr>) rows)"
    using f(1) Cons.prems by simp
  moreover have "\<forall>r. r_id r \<notin> set (i # ids) \<longrightarrow> g r = r_sort r"
    using f(2) by (simp add: g_def)
  moreover have "g r = k + 1 + int j" if "j < length (i # ids)" "r_id r = (i # ids) ! j" for r j
  proof (cases j)
    case 0
    then show ?thesis using that by (simp add: g_def)
  next
    case (Suc n)
    then have "r_id r \<in> set ids" using that by simp
    then have "r_id r \<noteq> i" using Cons.prems by auto
    then show ?thesis using f(3) that Suc by (simp add: g_def)
  qed
  ultimately show ?case by blast
qed

lemma sorted_map_first: "sorted (map (\<lambda>r. (f r, g r)) xs) \<Longrightarrow> sorted (map f xs)"
  by (induction xs) (auto simp: order_le_less)

text \<open>A table whose selected rows are numbered by their position in \<open>ids\<close> lists as \<open>ids\<close>.\<close>

lemma current_ids_numbered:
  assumes ids: "mset ids = mset (map r_id (filter r_where rows))" "distinct ids"
    and num: "\<And>r j. r \<in> set rows \<Longrightarrow> j < length ids \<Longrightarrow> r_id r = ids ! j \<Longrightarrow> r_sort r = 1 + int j"
  shows "current_ids rows = ids"
proof -
  let ?S = "sort_key (\<lambda>r. (r_sort r, r_id r)) (filter r_where rows)"
  have in_ids: "set ids = r_id ` set (filter r_where rows)"
    using mset_eq_setD[OF ids(1)] by simp
  have sort_at: "\<exists>j < length ids. r_id r = ids ! j \<and> r_sort r = 1 + int j"
    if "r \<in> set ?S" for r
  proof -
    have r: "r \<in> set rows" "r_where r" using that by auto
    then have "r_id r \<in> set ids" using in_ids by auto
    then obtain j where "j < length ids" "r_id r = ids ! j" by (metis in_set_conv_nth)
    then show ?thesis using num[OF r(1)] by blast
  qed
  have len: "length ?S = length ids"
    using mset_eq_length[OF ids(1)] by simp
  have sorted: "sorted (map r_sort ?S)"
  proof -
    have "sorted (map (\<lambda>r. (r_sort r, r_id r)) ?S)" by simp
    then show ?thesis by (rule sorted_map_first)
  qed
  have distinct_ids: "distinct (map r_id ?S)"
    using ids mset_eq_imp_distinct_iff[OF ids(1)] current_ids_mset[of rows]
    by (metis current_ids_def mset_eq_imp_distinct_iff)
  have by_sort: "r_id r = ids ! nat (r_sort r - 1)" if "r \<in> set ?S" for r
    using sort_at[OF that] by auto
  have "inj_on r_sort (set ?S)"
    using distinct_ids by_sort by (metis (no_types, lifting) distinct_map inj_onD inj_onI)
  then have dist: "distinct (map r_sort ?S)"
    using distinct_ids by (simp add: distinct_map)
  have "set (map r_sort ?S) \<subseteq> {1..int (length ids)}"
    using sort_at by fastforce
  moreover have "card (set (map r_sort ?S)) = length ids"
    using dist len by (metis distinct_card length_map)
  ultimately have "set (map r_sort ?S) = {1..int (length ids)}"
    by (intro card_subset_eq) auto
  then have "map r_sort ?S = [1..int (length ids)]"
    using sorted dist by (intro sorted_distinct_set_unique) auto
  then have "map (\<lambda>s. ids ! nat (s - 1)) (map r_sort ?S) = map (\<lambda>s. ids ! nat (s - 1)) [1..int (length ids)]"
    by simp
  moreover have "map r_id ?S = map (\<lambda>s. ids ! nat (s - 1)) (map r_sort ?S)"
    using by_sort by simp
  moreover have "map (\<lambda>s. ids ! nat (s - 1)) [1..int (length ids)] = ids"
    by (rule nth_equalityI) auto
  ultimately show ?thesis by (simp add: current_ids_def)
qed

section \<open>Properties\<close>



end
