(* ===== verification/Failover_Config.thy ===== *)
theory Failover_Config
  imports Go_Strings
begin

text \<open>
  The stored configuration of a failover group and what is made of it
  (\<^verbatim>\<open>src/internal/entities/outbounds/failover.go\<close>, \<^verbatim>\<open>failover_validation.go\<close> and
  \<^verbatim>\<open>failover_assembly.go\<close>): parsing of the options with their defaults, validation on save,
  loading for the failover job, and the selector handed to the proxy core.
  Decoding JSON, Go durations and URLs is left open: the record \<open>decoders\<close> holds the
  functions, and the theorems hold for all of them.
\<close>

section \<open>Options and their defaults\<close>

definition FailoverType :: string where "FailoverType = ''failover''"
definition DirectTag :: string where "DirectTag = ''direct''"
definition FailoverFinalDirect :: string where "FailoverFinalDirect = ''direct''"
definition FailoverFinalReject :: string where "FailoverFinalReject = ''reject''"
definition FailoverRejectOutboundTag :: string where
  "FailoverRejectOutboundTag = ''__solovey_failover_reject''"
definition DefaultProbeTarget :: string where
  "DefaultProbeTarget = ''https://www.gstatic.com/generate_204''"
definition DefaultInterval :: duration where "DefaultInterval = 30 * second"
definition MinInterval :: duration where "MinInterval = 5 * second"
definition DefaultHysteresis :: int where "DefaultHysteresis = 2"
definition AllDownPolicyHoldCurrent :: string where "AllDownPolicyHoldCurrent = ''hold_current''"
definition AllDownPolicyBlock :: string where "AllDownPolicyBlock = ''block''"
definition AllDownPolicyDirect :: string where "AllDownPolicyDirect = ''direct''"

lemmas failover_consts =
  FailoverType_def DirectTag_def FailoverFinalDirect_def FailoverFinalReject_def
  FailoverRejectOutboundTag_def AllDownPolicyHoldCurrent_def AllDownPolicyBlock_def
  AllDownPolicyDirect_def DefaultHysteresis_def

record failoverProbe =
  fp_Enabled :: "bool option"
  fp_ProbeTarget :: string
  fp_Interval :: string
  fp_Hysteresis :: int
  fp_AllDownPolicy :: string

record failoverOptions =
  fo_Outbounds :: "string list"
  fo_Default :: string
  fo_Final :: string
  fo_InterruptExistConnections :: "bool option"
  fo_Failover :: failoverProbe

record Outbound =
  ob_Type :: string
  ob_Tag :: string
  ob_Options :: string

datatype failover_error =
  NoOptions
| JsonError string
| InvalidAllDownPolicy
| NeedsMember
| SelfReference
| DuplicateMember string
| MissingMember string
| GroupMember string
| ReservedTag
| FinalSelf
| FinalMissing string
| FinalGroup string
| BadTarget
| TargetScheme
| TargetHost
| TargetUserinfo
| TargetForbidden
| BadInterval string
| ShortInterval
| NegativeHysteresis
| StoredInvalid string failover_error
| StoredEmpty string
| DbError string

text \<open>What \<open>url.Parse\<close> returns of a URL, as far as the validation looks at it.\<close>

record parsed_url =
  u_Scheme :: string
  u_Hostname :: string
  u_User :: bool

text \<open>\<open>d_unmarshal\<close> is \<open>json.Unmarshal\<close> into the options, \<open>d_duration\<close> \<open>time.ParseDuration\<close>,
  \<open>d_url\<close> \<open>url.Parse\<close>, and \<open>d_infrastructure\<close> whether a host is an IP address literal
  of the infrastructure ranges.\<close>

record decoders =
  d_unmarshal :: "string \<Rightarrow> string + failoverOptions"
  d_duration :: "string \<Rightarrow> duration option"
  d_url :: "string \<Rightarrow> parsed_url option"
  d_infrastructure :: "string \<Rightarrow> bool"

definition known_policy :: "string \<Rightarrow> bool" where
  "known_policy p \<longleftrightarrow> p \<in> {'''', AllDownPolicyHoldCurrent, AllDownPolicyBlock, AllDownPolicyDirect}"

definition parseFailoverOptions :: "decoders \<Rightarrow> string \<Rightarrow> failover_error + failoverOptions" where
  "parseFailoverOptions dec options =
     (if options = '''' then Inl NoOptions
      else case d_unmarshal dec options of
        Inl e \<Rightarrow> Inl (JsonError e)
      | Inr opts \<Rightarrow>
          if known_policy (fp_AllDownPolicy (fo_Failover opts)) then Inr opts
          else Inl InvalidAllDownPolicy)"

definition fp_enabled :: "failoverProbe \<Rightarrow> bool" where
  "fp_enabled p = (case fp_Enabled p of None \<Rightarrow> True | Some b \<Rightarrow> b)"

definition fp_interval :: "decoders \<Rightarrow> failoverProbe \<Rightarrow> duration" where
  "fp_interval dec p =
     (if fp_Interval p = '''' then DefaultInterval
      else case d_duration dec (fp_Interval p) of
        None \<Rightarrow> DefaultInterval
      | Some d \<Rightarrow> if d < MinInterval then DefaultInterval else d)"

definition fp_hysteresis :: "failoverProbe \<Rightarrow> int" where
  "fp_hysteresis p = (if fp_Hysteresis p < 1 then DefaultHysteresis else fp_Hysteresis p)"

definition fp_target :: "failoverProbe \<Rightarrow> string" where
  "fp_target p = (if fp_ProbeTarget p = '''' then DefaultProbeTarget else fp_ProbeTarget p)"

definition finalChoice :: "failoverOptions \<Rightarrow> string" where
  "finalChoice opts =
     (let policy = fp_AllDownPolicy (fo_Failover opts); final = TrimSpace (fo_Final opts)
      in if policy = AllDownPolicyHoldCurrent then ''''
         else if policy = AllDownPolicyBlock then FailoverFinalReject
         else if policy = AllDownPolicyDirect then FailoverFinalDirect
         else if final = '''' \<or> final = FailoverFinalDirect then FailoverFinalDirect
         else if final = FailoverFinalReject then FailoverFinalReject
         else final)"

definition finalTag :: "failoverOptions \<Rightarrow> string \<Rightarrow> string" where
  "finalTag opts directTag =
     (if finalChoice opts = '''' then ''''
      else if finalChoice opts = FailoverFinalDirect then directTag
      else if finalChoice opts = FailoverFinalReject then FailoverRejectOutboundTag
      else finalChoice opts)"

section \<open>Validation on save\<close>

text \<open>\<open>typeByTag\<close> is the map the loop over the stored rows builds.\<close>

definition type_by_tag :: "Outbound list \<Rightarrow> string \<rightharpoonup> string" where
  "type_by_tag rows = foldl (\<lambda>m row. m(ob_Tag row \<mapsto> ob_Type row)) Map.empty rows"

definition is_group_type :: "string \<Rightarrow> bool" where
  "is_group_type t \<longleftrightarrow> t = ''selector'' \<or> t = ''urltest'' \<or> t = FailoverType"

fun check_members :: "string \<Rightarrow> (string \<rightharpoonup> string) \<Rightarrow> string set \<Rightarrow> string list \<Rightarrow> failover_error option" where
  "check_members self typeByTag seen [] = None"
| "check_members self typeByTag seen (member # members) =
     (if member = self then Some SelfReference
      else if member \<in> seen then Some (DuplicateMember member)
      else case typeByTag member of
        None \<Rightarrow> Some (MissingMember member)
      | Some memberType \<Rightarrow>
          if is_group_type memberType then Some (GroupMember member)
          else check_members self typeByTag (insert member seen) members)"

definition validateFailoverFinal ::
  "string \<Rightarrow> failoverOptions \<Rightarrow> (string \<rightharpoonup> string) \<Rightarrow> failover_error option" where
  "validateFailoverFinal groupTag opts typeByTag =
     (let final = finalChoice opts
      in if final = '''' then None
         else if final = FailoverFinalDirect then None
         else if final = FailoverFinalReject then
           (if typeByTag FailoverRejectOutboundTag \<noteq> None then Some ReservedTag else None)
         else if final = groupTag then Some FinalSelf
         else case typeByTag final of
           None \<Rightarrow> Some (FinalMissing final)
         | Some finalType \<Rightarrow> if is_group_type finalType then Some (FinalGroup final) else None)"

definition validateProbeTarget :: "decoders \<Rightarrow> string \<Rightarrow> failover_error option" where
  "validateProbeTarget dec rawURL =
     (case d_url dec rawURL of
        None \<Rightarrow> Some BadTarget
      | Some parsed \<Rightarrow>
          if ToLower (u_Scheme parsed) \<notin> {''http'', ''https''} then Some TargetScheme
          else if u_Hostname parsed = '''' then Some TargetHost
          else if u_User parsed then Some TargetUserinfo
          else if d_infrastructure dec (u_Hostname parsed) then Some TargetForbidden
          else None)"

definition validate_interval :: "decoders \<Rightarrow> string \<Rightarrow> failover_error option" where
  "validate_interval dec interval =
     (if interval = '''' then None
      else case d_duration dec interval of
        None \<Rightarrow> Some (BadInterval interval)
      | Some d \<Rightarrow> if d < MinInterval then Some ShortInterval else None)"

definition validateFailoverGroup ::
  "decoders \<Rightarrow> string + Outbound list \<Rightarrow> Outbound \<Rightarrow> failover_error option" where
  "validateFailoverGroup dec stored outbound =
     (case parseFailoverOptions dec (ob_Options outbound) of
        Inl e \<Rightarrow> Some e
      | Inr opts \<Rightarrow>
          if fo_Outbounds opts = [] then Some NeedsMember
          else case stored of
            Inl e \<Rightarrow> Some (DbError e)
          | Inr rows \<Rightarrow>
              let typeByTag = type_by_tag rows
              in first_error
                [check_members (ob_Tag outbound) typeByTag {} (fo_Outbounds opts),
                 validateFailoverFinal (ob_Tag outbound) opts typeByTag,
                 validateProbeTarget dec (fp_target (fo_Failover opts)),
                 validate_interval dec (fp_Interval (fo_Failover opts)),
                 (if fp_Hysteresis (fo_Failover opts) < 0 then Some NegativeHysteresis else None)])"

section \<open>Loading\<close>

record FailoverGroup =
  fg_Tag :: string
  fg_Members :: "string list"
  fg_FinalTag :: string
  fg_AllDownPolicy :: string
  fg_ProbeTarget :: string
  fg_Interval :: duration
  fg_Hysteresis :: int
  fg_Enabled :: bool

definition DirectFallbackTag :: "string + Outbound list \<Rightarrow> string" where
  "DirectFallbackTag stored =
     (case stored of
        Inl e \<Rightarrow> ''''
      | Inr rows \<Rightarrow>
          let tags = sort (map ob_Tag (filter (\<lambda>row. ob_Type row = ''direct'') rows))
          in if DirectTag \<in> set tags then DirectTag
             else case tags of [] \<Rightarrow> DirectTag | tag # _ \<Rightarrow> tag)"

definition group_of_row ::
  "decoders \<Rightarrow> string \<Rightarrow> Outbound \<Rightarrow> failover_error + FailoverGroup" where
  "group_of_row dec directTag row =
     (case parseFailoverOptions dec (ob_Options row) of
        Inl e \<Rightarrow> Inl (StoredInvalid (ob_Tag row) e)
      | Inr opts \<Rightarrow>
          if fo_Outbounds opts = [] then Inl (StoredEmpty (ob_Tag row))
          else Inr \<lparr>fg_Tag = ob_Tag row, fg_Members = fo_Outbounds opts,
            fg_FinalTag = TrimSpace (finalTag opts directTag),
            fg_AllDownPolicy = fp_AllDownPolicy (fo_Failover opts),
            fg_ProbeTarget = fp_target (fo_Failover opts),
            fg_Interval = fp_interval dec (fo_Failover opts),
            fg_Hysteresis = fp_hysteresis (fo_Failover opts),
            fg_Enabled = fp_enabled (fo_Failover opts)\<rparr>)"

fun collect :: "('a \<Rightarrow> 'e + 'b) \<Rightarrow> 'a list \<Rightarrow> 'e + 'b list" where
  "collect f [] = Inr []"
| "collect f (x # xs) =
     (case f x of
        Inl e \<Rightarrow> Inl e
      | Inr y \<Rightarrow> (case collect f xs of Inl e \<Rightarrow> Inl e | Inr ys \<Rightarrow> Inr (y # ys)))"

definition LoadFailoverGroups ::
  "decoders \<Rightarrow> string + Outbound list \<Rightarrow> failover_error + FailoverGroup list" where
  "LoadFailoverGroups dec stored =
     (case stored of
        Inl e \<Rightarrow> Inl (DbError e)
      | Inr rows \<Rightarrow>
          collect (group_of_row dec (DirectFallbackTag stored))
            (filter (\<lambda>row. ob_Type row = FailoverType) rows))"

section \<open>Assembly for the proxy core\<close>

text \<open>The generated outbounds: the block outbound of the reserved tag, and the selector
  (\<open>RuntimeType("outbounds", FailoverType)\<close> is \<open>"selector"\<close>) with its tag, members, default and
  optional interrupt flag.\<close>

datatype core_outbound =
  RejectOutbound
| Selector (sel_tag: string) (sel_members: "string list") (sel_default: string) "bool option"

definition isFailoverRejectSupportConfig :: "core_outbound \<Rightarrow> bool" where
  "isFailoverRejectSupportConfig config = (case config of RejectOutbound \<Rightarrow> True | _ \<Rightarrow> False)"

definition AssembleFailoverOutboundsForCore ::
  "decoders \<Rightarrow> Outbound \<Rightarrow> string \<Rightarrow> failover_error + core_outbound list" where
  "AssembleFailoverOutboundsForCore dec outbound directTag =
     (case parseFailoverOptions dec (ob_Options outbound) of
        Inl e \<Rightarrow> Inl e
      | Inr opts \<Rightarrow>
          if fo_Outbounds opts = [] then Inl (StoredEmpty (ob_Tag outbound))
          else
            let members = fo_Outbounds opts;
                final = TrimSpace (finalTag opts directTag);
                members = (if final \<noteq> '''' \<and> final \<notin> set members then members @ [final] else members);
                selector = Selector (ob_Tag outbound) members (hd (fo_Outbounds opts))
                  (fo_InterruptExistConnections opts)
            in if finalChoice opts = FailoverFinalReject then Inr [RejectOutbound, selector]
               else Inr [selector])"

definition AssembleFailoverForCore ::
  "decoders \<Rightarrow> Outbound \<Rightarrow> string \<Rightarrow> failover_error + core_outbound" where
  "AssembleFailoverForCore dec outbound directTag =
     (case AssembleFailoverOutboundsForCore dec outbound directTag of
        Inl e \<Rightarrow> Inl e
      | Inr configs \<Rightarrow> Inr (last configs))"

section \<open>What validation guarantees\<close>

lemma check_members_None:
  "check_members self typeByTag seen members = None \<longleftrightarrow>
     distinct members \<and> set members \<inter> seen = {} \<and> self \<notin> set members
     \<and> (\<forall>m\<in>set members. \<exists>t. typeByTag m = Some t \<and> \<not> is_group_type t)"
  by (induction self typeByTag seen members rule: check_members.induct) (auto split: option.splits)

lemma fp_interval_min: "MinInterval \<le> fp_interval dec p"
  by (auto simp: fp_interval_def DefaultInterval_def MinInterval_def second_def split: option.splits)

lemma fp_hysteresis_pos: "1 \<le> fp_hysteresis p"
  by (simp add: fp_hysteresis_def DefaultHysteresis_def)

lemma parse_policy: "parseFailoverOptions dec s = Inr opts \<Longrightarrow> known_policy (fp_AllDownPolicy (fo_Failover opts))"
  by (auto simp: parseFailoverOptions_def split: if_splits sum.splits)

text \<open>C34. A failover group that passes validation loads as a group whose members are pairwise
  distinct, stored, plain outbounds other than the group itself, with a probe interval of at
  least the minimum and a hysteresis of at least one; and it assembles to a selector without
  repeated members whose first member is the default.\<close>

theorem failover_validated:
  assumes "validateFailoverGroup dec (Inr rows) row = None"
  shows "\<exists>g tag members dflt intr. group_of_row dec directTag row = Inr g
      \<and> fg_Members g \<noteq> [] \<and> distinct (fg_Members g) \<and> fg_Tag g \<notin> set (fg_Members g)
      \<and> (\<forall>m\<in>set (fg_Members g). \<exists>t. type_by_tag rows m = Some t \<and> \<not> is_group_type t)
      \<and> MinInterval \<le> fg_Interval g \<and> 1 \<le> fg_Hysteresis g
      \<and> AssembleFailoverForCore dec row directTag = Inr (Selector tag members dflt intr)
      \<and> tag = fg_Tag g \<and> distinct members \<and> set (fg_Members g) \<subseteq> set members
      \<and> dflt = hd (fg_Members g)"
proof -
  obtain opts where opts: "parseFailoverOptions dec (ob_Options row) = Inr opts"
    "fo_Outbounds opts \<noteq> []"
    "check_members (ob_Tag row) (type_by_tag rows) {} (fo_Outbounds opts) = None"
    using assms by (auto simp: validateFailoverGroup_def first_error_None Let_def split: sum.splits if_splits)
  then have m: "distinct (fo_Outbounds opts)" "ob_Tag row \<notin> set (fo_Outbounds opts)"
    "\<forall>m\<in>set (fo_Outbounds opts). \<exists>t. type_by_tag rows m = Some t \<and> \<not> is_group_type t"
    by (auto simp: check_members_None)
  show ?thesis
    using opts m fp_interval_min fp_hysteresis_pos
    by (auto simp: group_of_row_def AssembleFailoverForCore_def AssembleFailoverOutboundsForCore_def Let_def)
qed

definition example_options :: failoverOptions where
  "example_options = \<lparr>fo_Outbounds = [''wg'', ''ss''], fo_Default = '''', fo_Final = '' reject'',
     fo_InterruptExistConnections = None,
     fo_Failover = \<lparr>fp_Enabled = None, fp_ProbeTarget = '''', fp_Interval = '''', fp_Hysteresis = 3,
       fp_AllDownPolicy = ''''\<rparr>\<rparr>"

definition example_decoders :: decoders where
  "example_decoders = \<lparr>d_unmarshal = \<lambda>s. Inr example_options, d_duration = \<lambda>s. None,
     d_url = \<lambda>s. Some \<lparr>u_Scheme = ''https'', u_Hostname = ''www.gstatic.com'', u_User = False\<rparr>,
     d_infrastructure = \<lambda>h. False\<rparr>"

definition example_rows :: "Outbound list" where
  "example_rows = [\<lparr>ob_Type = ''wireguard'', ob_Tag = ''wg'', ob_Options = ''{}''\<rparr>,
     \<lparr>ob_Type = ''shadowsocks'', ob_Tag = ''ss'', ob_Options = ''{}''\<rparr>]"

definition example_row :: Outbound where
  "example_row = \<lparr>ob_Type = ''failover'', ob_Tag = ''fo'', ob_Options = ''{..}''\<rparr>"

theorem failover_validated_witness:
  "\<exists>g. group_of_row example_decoders ''direct'' example_row = Inr g \<and> distinct (fg_Members g)"
proof -
  have "validateFailoverGroup example_decoders (Inr example_rows) example_row = None"
    by code_simp
  from failover_validated[OF this, of "''direct''"] show ?thesis by blast
qed

end
