(* ===== verification/Failover_Job.thy ===== *)
theory Failover_Job
  imports Failover_Config
begin

text \<open>
  The failover policy (\<^verbatim>\<open>src/service/failover/select.go\<close>), the persisted member states and the
  status read from them (\<^verbatim>\<open>state.go\<close>, \<^verbatim>\<open>live.go\<close>), and the periodic job that probes the
  members and switches the selector (\<^verbatim>\<open>src/cronjob/jobs/runtime/failover.go\<close>).  The probes, the
  clock and the proxy core are inputs of a run.
\<close>

section \<open>The policy\<close>

record MemberHealth =
  mh_ConsecutiveUp :: int
  mh_ConsecutiveDown :: int

type_synonym health_map = "string \<rightharpoonup> MemberHealth"

text \<open>Reading an absent key of a Go map gives the zero value.\<close>

definition health_of :: "health_map \<Rightarrow> string \<Rightarrow> MemberHealth" where
  "health_of h tag = (case h tag of None \<Rightarrow> \<lparr>mh_ConsecutiveUp = 0, mh_ConsecutiveDown = 0\<rparr> | Some x \<Rightarrow> x)"

record DecisionInput =
  di_Members :: "string list"
  di_Health :: health_map
  di_Current :: string
  di_Hysteresis :: int
  di_DirectFallback :: string
  di_AllDownPolicy :: string

record FailoverDecision =
  fd_Target :: string
  fd_ShouldSwitch :: bool
  fd_AllDown :: bool
  fd_Reason :: string

definition indexOf :: "string list \<Rightarrow> string \<Rightarrow> int" where
  "indexOf members tag =
     (if tag \<in> set members then int (length (takeWhile (\<lambda>m. m \<noteq> tag) members)) else -1)"

definition isUp :: "DecisionInput \<Rightarrow> string \<Rightarrow> bool" where
  "isUp inp tag = (mh_ConsecutiveUp (health_of (di_Health inp) tag) \<ge> 1)"

definition hysteresis_of :: "DecisionInput \<Rightarrow> int" where
  "hysteresis_of inp = (if di_Hysteresis inp < 1 then DefaultHysteresis else di_Hysteresis inp)"

definition isConfirmed :: "DecisionInput \<Rightarrow> string \<Rightarrow> bool" where
  "isConfirmed inp tag = (mh_ConsecutiveUp (health_of (di_Health inp) tag) \<ge> hysteresis_of inp)"

text \<open>The loop that remembers the first member that passes a test; the empty string means
  none so far, so a member with an empty tag is passed over.\<close>

definition first_member :: "(string \<Rightarrow> bool) \<Rightarrow> string list \<Rightarrow> string" where
  "first_member P members =
     foldl (\<lambda>best member. if best = '''' \<and> P member then member else best) '''' members"

definition decide :: "DecisionInput \<Rightarrow> string \<Rightarrow> string \<Rightarrow> bool \<Rightarrow> FailoverDecision" where
  "decide inp target reason allDown =
     \<lparr>fd_Target = target, fd_ShouldSwitch = (target \<noteq> di_Current inp), fd_AllDown = allDown, fd_Reason = reason\<rparr>"

definition select_all_down :: "DecisionInput \<Rightarrow> FailoverDecision" where
  "select_all_down inp =
     (if di_AllDownPolicy inp = AllDownPolicyHoldCurrent then
        (if indexOf (di_Members inp) (di_Current inp) \<ge> 0
         then decide inp (di_Current inp) ''all_down_hold'' True
         else decide inp (hd (di_Members inp)) ''all_down_hold'' True)
      else if di_AllDownPolicy inp = AllDownPolicyBlock then
        decide inp FailoverRejectOutboundTag ''all_down_block'' True
      else if di_AllDownPolicy inp = '''' \<or> di_AllDownPolicy inp = AllDownPolicyDirect then
        (if di_DirectFallback inp \<noteq> '''' then decide inp (di_DirectFallback inp) ''all_down_direct'' True
         else decide inp (hd (di_Members inp)) ''all_down_hold'' True)
      else \<lparr>fd_Target = '''', fd_ShouldSwitch = False, fd_AllDown = True, fd_Reason = ''invalid_policy''\<rparr>)"

definition SelectMember :: "DecisionInput \<Rightarrow> FailoverDecision" where
  "SelectMember inp =
     (if di_Members inp = []
      then \<lparr>fd_Target = '''', fd_ShouldSwitch = False, fd_AllDown = False, fd_Reason = ''no_members''\<rparr>
      else
        let bestUp = first_member (isUp inp) (di_Members inp);
            bestConfirmed = first_member (isConfirmed inp) (di_Members inp);
            currentIndex = indexOf (di_Members inp) (di_Current inp)
        in if bestUp = '''' then select_all_down inp
           else if di_Current inp = '''' then decide inp bestUp ''priority'' False
           else if currentIndex < 0 then decide inp bestUp ''failback'' False
           else if \<not> isUp inp (di_Current inp) then decide inp bestUp ''failover'' False
           else if bestConfirmed \<noteq> '''' \<and> indexOf (di_Members inp) bestConfirmed < currentIndex
             then decide inp bestConfirmed ''failback'' False
           else decide inp (di_Current inp) ''sticky'' False)"

section \<open>Persisted states and the status page\<close>

record FailoverMemberState =
  ms_GroupTag :: string
  ms_MemberTag :: string
  ms_Healthy :: bool
  ms_ConsecUp :: int
  ms_ConsecDown :: int
  ms_LastProbeAt :: int

text \<open>The table \<open>failover_state\<close> by its primary key.\<close>

type_synonym state_table = "string \<times> string \<rightharpoonup> FailoverMemberState"

text \<open>An insert with \<open>ON CONFLICT ... UPDATE\<close> of all columns; an empty list does nothing.\<close>

definition WriteMemberStates :: "state_table \<Rightarrow> FailoverMemberState list \<Rightarrow> state_table" where
  "WriteMemberStates db states =
     foldl (\<lambda>t s. t((ms_GroupTag s, ms_MemberTag s) \<mapsto> s)) db states"

text \<open>\<open>ReadMemberStates\<close>, and the map by member tag that \<open>Status\<close> builds of its rows.\<close>

definition ReadMemberStates :: "state_table \<Rightarrow> string \<Rightarrow> string \<rightharpoonup> FailoverMemberState" where
  "ReadMemberStates db groupTag = (\<lambda>member. db (groupTag, member))"

record MemberStatus =
  st_Tag :: string
  st_Healthy :: bool
  st_Priority :: nat

record StatusEntry =
  se_Tag :: string
  se_Active :: string
  se_AllDown :: bool
  se_Members :: "MemberStatus list"

definition member_statuses :: "(string \<Rightarrow> bool) \<Rightarrow> string list \<Rightarrow> MemberStatus list" where
  "member_statuses healthy members =
     map (\<lambda>(priority, member). \<lparr>st_Tag = member, st_Healthy = healthy member, st_Priority = priority\<rparr>)
       (enumerate 0 members)"

definition status_entry :: "state_table \<Rightarrow> (string \<Rightarrow> string) option \<Rightarrow> FailoverGroup \<Rightarrow> StatusEntry" where
  "status_entry db core grp =
     (let byTag = ReadMemberStates db (fg_Tag grp);
          healthy = (\<lambda>m. case byTag m of None \<Rightarrow> False | Some s \<Rightarrow> ms_Healthy s)
      in \<lparr>se_Tag = fg_Tag grp,
          se_Active = (case core of None \<Rightarrow> '''' | Some groupNow \<Rightarrow> groupNow (fg_Tag grp)),
          se_AllDown = (\<not> list_ex healthy (fg_Members grp)),
          se_Members = member_statuses healthy (fg_Members grp)\<rparr>)"

definition Status ::
  "failover_error + FailoverGroup list \<Rightarrow> state_table \<Rightarrow> (string \<Rightarrow> string) option
     \<Rightarrow> failover_error + StatusEntry list" where
  "Status loaded db core =
     (case loaded of Inl e \<Rightarrow> Inl e | Inr groups \<Rightarrow> Inr (map (status_entry db core) groups))"

section \<open>The job\<close>

record failoverGroupState =
  gs_lastProbe :: go_time
  gs_lastAllDown :: bool
  gs_health :: health_map

definition new_group_state :: failoverGroupState where
  "new_group_state = \<lparr>gs_lastProbe = 0, gs_lastAllDown = False, gs_health = Map.empty\<rparr>"

text \<open>The job's memory, and the table it writes to.\<close>

record FailoverJob =
  fj_states :: "string \<rightharpoonup> failoverGroupState"
  fj_db :: state_table

definition NewFailoverJob :: "state_table \<Rightarrow> FailoverJob" where
  "NewFailoverJob db = \<lparr>fj_states = Map.empty, fj_db = db\<rparr>"

text \<open>What a run observes: the three readings of the clock, the probe of each member, the
  member the core reports for a group, and the error of a switch, if any.\<close>

record run_env =
  e_due_now :: go_time
  e_probe_now :: go_time
  e_persist_now :: go_time
  e_probe :: "string \<Rightarrow> bool"
  e_active :: "string \<Rightarrow> string"
  e_switch :: "string \<Rightarrow> string \<Rightarrow> string option"

datatype job_effect =
  Switched string string
| SwitchFailed string string string
| Published StatusEntry
| AlertAllDown string

definition group_state :: "FailoverJob \<Rightarrow> string \<Rightarrow> failoverGroupState" where
  "group_state j tag = (case fj_states j tag of None \<Rightarrow> new_group_state | Some s \<Rightarrow> s)"

text \<open>The concurrent probes write to distinct keys of the result map under a mutex, so the map
  is the same for every schedule.\<close>

definition probeMembers :: "run_env \<Rightarrow> FailoverGroup \<Rightarrow> string \<rightharpoonup> bool" where
  "probeMembers env grp = map_of (map (\<lambda>tag. (tag, e_probe env tag)) (fg_Members grp))"

definition bump :: "bool \<Rightarrow> MemberHealth \<Rightarrow> MemberHealth" where
  "bump up h =
     (if up then \<lparr>mh_ConsecutiveUp = mh_ConsecutiveUp h + 1, mh_ConsecutiveDown = 0\<rparr>
      else \<lparr>mh_ConsecutiveUp = 0, mh_ConsecutiveDown = mh_ConsecutiveDown h + 1\<rparr>)"

definition update_health :: "(string \<rightharpoonup> bool) \<Rightarrow> string list \<Rightarrow> health_map \<Rightarrow> health_map" where
  "update_health results members h =
     foldl (\<lambda>hm m. hm(m \<mapsto> bump (results m = Some True) (health_of hm m))) h members"

definition unix_time :: "go_time \<Rightarrow> int" where
  "unix_time t = t div second - 62135596800"

definition persistState :: "run_env \<Rightarrow> FailoverGroup \<Rightarrow> health_map \<Rightarrow> state_table \<Rightarrow> state_table" where
  "persistState env grp snapshot db =
     WriteMemberStates db
       (map (\<lambda>m. let health = health_of snapshot m
                  in \<lparr>ms_GroupTag = fg_Tag grp, ms_MemberTag = m,
                      ms_Healthy = (mh_ConsecutiveUp health \<ge> 1), ms_ConsecUp = mh_ConsecutiveUp health,
                      ms_ConsecDown = mh_ConsecutiveDown health,
                      ms_LastProbeAt = unix_time (e_persist_now env)\<rparr>) (fg_Members grp))"

definition publishLiveStatus :: "FailoverGroup \<Rightarrow> health_map \<Rightarrow> string \<Rightarrow> bool \<Rightarrow> job_effect" where
  "publishLiveStatus grp snapshot active allDown =
     Published \<lparr>se_Tag = fg_Tag grp, se_Active = active, se_AllDown = allDown,
       se_Members = member_statuses (\<lambda>m. mh_ConsecutiveUp (health_of snapshot m) \<ge> 1) (fg_Members grp)\<rparr>"

definition recordAllDownEdge :: "string \<Rightarrow> bool \<Rightarrow> FailoverJob \<Rightarrow> bool \<times> FailoverJob" where
  "recordAllDownEdge groupTag allDown j =
     (let state = group_state j groupTag
      in (allDown \<and> \<not> gs_lastAllDown state,
          j\<lparr>fj_states := (fj_states j)(groupTag \<mapsto> state\<lparr>gs_lastAllDown := allDown\<rparr>)\<rparr>))"

definition fallback_tag :: "FailoverGroup \<Rightarrow> string \<Rightarrow> string" where
  "fallback_tag grp directTag =
     (if fg_FinalTag grp \<noteq> '''' then fg_FinalTag grp
      else if fg_AllDownPolicy grp = '''' \<and> directTag \<noteq> '''' \<and> directTag \<notin> set (fg_Members grp)
        then directTag
      else '''')"

definition group_input :: "FailoverGroup \<Rightarrow> string \<Rightarrow> health_map \<Rightarrow> string \<Rightarrow> DecisionInput" where
  "group_input grp directTag snapshot current =
     \<lparr>di_Members = fg_Members grp, di_Health = snapshot, di_Current = current,
      di_Hysteresis = fg_Hysteresis grp, di_DirectFallback = fallback_tag grp directTag,
      di_AllDownPolicy = fg_AllDownPolicy grp\<rparr>"

text \<open>The rest of a run after the probes have been counted.\<close>

definition act_on_probes ::
  "run_env \<Rightarrow> FailoverGroup \<Rightarrow> string \<Rightarrow> health_map \<Rightarrow> FailoverJob \<Rightarrow> FailoverJob \<times> job_effect list" where
  "act_on_probes env grp directTag snapshot j =
     (let current = e_active env (fg_Tag grp);
          d = SelectMember (group_input grp directTag snapshot current);
          finish = (\<lambda>active effects.
            let (alert, j') = recordAllDownEdge (fg_Tag grp) (fd_AllDown d) j
            in (j', effects @ [publishLiveStatus grp snapshot active (fd_AllDown d)]
                 @ (if alert then [AlertAllDown (fg_Tag grp)] else [])))
      in if fd_ShouldSwitch d then
           (case e_switch env (fg_Tag grp) (fd_Target d) of
              Some err \<Rightarrow> (j, [SwitchFailed (fg_Tag grp) (fd_Target d) err,
                              publishLiveStatus grp snapshot current (fd_AllDown d)])
            | None \<Rightarrow> finish (fd_Target d) [Switched (fg_Tag grp) (fd_Target d)])
         else finish current [])"

definition probe_due :: "run_env \<Rightarrow> FailoverGroup \<Rightarrow> FailoverJob \<Rightarrow> bool" where
  "probe_due env grp j =
     (let state = group_state j (fg_Tag grp)
      in time_is_zero (gs_lastProbe state)
         \<or> time_sub (e_due_now env) (gs_lastProbe state) \<ge> fg_Interval grp)"

definition runGroup ::
  "run_env \<Rightarrow> FailoverGroup \<Rightarrow> string \<Rightarrow> FailoverJob \<Rightarrow> FailoverJob \<times> job_effect list" where
  "runGroup env grp directTag j =
     (if \<not> fg_Enabled grp \<or> fg_Members grp = [] then (j, [])
      else
        let tag = fg_Tag grp;
            state = group_state j tag
        in if \<not> probe_due env grp j then (j\<lparr>fj_states := (fj_states j)(tag \<mapsto> state)\<rparr>, [])
           else
             let health = update_health (probeMembers env grp) (fg_Members grp) (gs_health state);
                 state = state\<lparr>gs_health := health, gs_lastProbe := e_probe_now env\<rparr>;
                 j = j\<lparr>fj_states := (fj_states j)(tag \<mapsto> state),
                       fj_db := persistState env grp health (fj_db j)\<rparr>
             in act_on_probes env grp directTag health j)"

text \<open>A run over all groups; a cancelled context, a closed database, a failed load or a stopped
  core ends it at once.\<close>

definition Run ::
  "bool \<Rightarrow> bool \<Rightarrow> bool \<Rightarrow> (string \<Rightarrow> run_env) \<Rightarrow> failover_error + FailoverGroup list \<Rightarrow> string \<Rightarrow> FailoverJob
     \<Rightarrow> FailoverJob \<times> job_effect list" where
  "Run cancelled dbOpen coreRunning env loaded directTag j =
     (if cancelled \<or> \<not> dbOpen then (j, [])
      else case loaded of
        Inl e \<Rightarrow> (j, [])
      | Inr groups \<Rightarrow>
          if groups = [] \<or> \<not> coreRunning then (j, [])
          else foldl (\<lambda>(j, effs) grp.
                 let (j', es) = runGroup (env (fg_Tag grp)) grp directTag j in (j', effs @ es)) (j, []) groups)"

section \<open>The first member that passes a test\<close>

lemma first_member_keep:
  "b \<noteq> '''' \<Longrightarrow> foldl (\<lambda>best member. if best = '''' \<and> P member then member else best) b members = b"
  by (induction members) auto

lemma first_member_Nil [simp]: "first_member P [] = ''''"
  by (simp add: first_member_def)

lemma first_member_Cons [simp]:
  "first_member P (m # ms) = (if m \<noteq> '''' \<and> P m then m else first_member P ms)"
  using first_member_keep[of m P ms] by (simp add: first_member_def)

lemma indexOf_simps [simp]:
  "indexOf [] y = -1"
  "indexOf (m # ms) y = (if y = m then 0 else if y \<in> set ms then 1 + indexOf ms y else -1)"
  by (auto simp: indexOf_def)

lemma indexOf_nonneg: "0 \<le> indexOf ms y \<longleftrightarrow> y \<in> set ms"
  by (simp add: indexOf_def)

lemma first_member_none: "first_member P ms = '''' \<longleftrightarrow> (\<forall>y\<in>set ms. y = '''' \<or> \<not> P y)"
  by (induction ms) auto

lemma first_member_in: "first_member P ms \<noteq> '''' \<Longrightarrow> first_member P ms \<in> set ms \<and> P (first_member P ms)"
  by (induction ms) auto

lemma first_member_least:
  assumes "first_member P ms \<noteq> ''''" "y \<in> set ms" "y \<noteq> ''''" "P y"
  shows "indexOf ms (first_member P ms) \<le> indexOf ms y"
  using assms
proof (induction ms)
  case (Cons m ms)
  show ?case
  proof (cases "m \<noteq> '''' \<and> P m")
    case True
    then show ?thesis using indexOf_nonneg[of "m # ms" y] Cons.prems by auto
  next
    case False
    then have y: "y \<in> set ms" "y \<noteq> m" and f: "first_member P ms \<noteq> ''''" using Cons.prems by auto
    then have "first_member P ms \<in> set ms" "first_member P ms \<noteq> m"
      using False first_member_in[OF f] by auto
    then show ?thesis
      using Cons.IH[OF f y(1)] Cons.prems y False by auto
  qed
qed simp

lemma confirmed_up:
  assumes "isConfirmed inp m"
  shows "isUp inp m"
  using assms by (auto simp: isConfirmed_def isUp_def hysteresis_of_def DefaultHysteresis_def split: if_splits)

lemma decide_simps [simp]:
  "fd_Target (decide inp t r a) = t" "fd_ShouldSwitch (decide inp t r a) = (t \<noteq> di_Current inp)"
  "fd_AllDown (decide inp t r a) = a"
  by (simp_all add: decide_def)

section \<open>Properties of the policy\<close>

text \<open>The decision while some member is up, with the best candidates named.\<close>

lemma select_up_cases:
  assumes "di_Members inp \<noteq> []" "first_member (isUp inp) (di_Members inp) \<noteq> ''''"
  shows "SelectMember inp =
    (if di_Current inp = '''' then decide inp (first_member (isUp inp) (di_Members inp)) ''priority'' False
     else if di_Current inp \<notin> set (di_Members inp)
       then decide inp (first_member (isUp inp) (di_Members inp)) ''failback'' False
     else if \<not> isUp inp (di_Current inp)
       then decide inp (first_member (isUp inp) (di_Members inp)) ''failover'' False
     else if first_member (isConfirmed inp) (di_Members inp) \<noteq> ''''
         \<and> indexOf (di_Members inp) (first_member (isConfirmed inp) (di_Members inp))
           < indexOf (di_Members inp) (di_Current inp)
       then decide inp (first_member (isConfirmed inp) (di_Members inp)) ''failback'' False
     else decide inp (di_Current inp) ''sticky'' False)"
  using assms indexOf_nonneg[of "di_Members inp" "di_Current inp"]
  by (auto simp: SelectMember_def Let_def)

lemma select_member_policy_confirmed:
  assumes "di_Current inp \<in> set (di_Members inp)" "di_Current inp \<noteq> ''''" "isUp inp (di_Current inp)"
    and "fd_ShouldSwitch (SelectMember inp)"
  shows "fd_Target (SelectMember inp) \<in> set (di_Members inp) \<and> isConfirmed inp (fd_Target (SelectMember inp))
    \<and> indexOf (di_Members inp) (fd_Target (SelectMember inp)) < indexOf (di_Members inp) (di_Current inp)"
proof -
  have "first_member (isUp inp) (di_Members inp) \<noteq> ''''"
    using assms first_member_none by metis
  moreover have "di_Members inp \<noteq> []" using assms(1) by auto
  ultimately show ?thesis
    using assms first_member_in[of "isConfirmed inp" "di_Members inp"]
    by (auto simp: select_up_cases split: if_splits)
qed

text \<open>C33. While some member is up, the policy selects a member that is up and never reports all
  members down.  It leaves a current member that is up only for a member of strictly higher
  priority that has been up for the whole hysteresis; otherwise it takes the member of highest
  priority that is up.\<close>

theorem select_member_policy:
  assumes "m \<in> set (di_Members inp)" "m \<noteq> ''''" "isUp inp m"
  shows "(fd_Target (SelectMember inp) \<in> set (di_Members inp))
    \<and> (isUp inp (fd_Target (SelectMember inp)) \<and> \<not> fd_AllDown (SelectMember inp))
    \<and> (fd_ShouldSwitch (SelectMember inp) \<longleftrightarrow> fd_Target (SelectMember inp) \<noteq> di_Current inp)
    \<and> (di_Current inp \<in> set (di_Members inp) \<and> di_Current inp \<noteq> '''' \<and> isUp inp (di_Current inp)
      \<longrightarrow> fd_ShouldSwitch (SelectMember inp)
      \<longrightarrow> isConfirmed inp (fd_Target (SelectMember inp))
        \<and> indexOf (di_Members inp) (fd_Target (SelectMember inp)) < indexOf (di_Members inp) (di_Current inp))
    \<and> (\<not> (di_Current inp \<in> set (di_Members inp) \<and> di_Current inp \<noteq> '''' \<and> isUp inp (di_Current inp))
      \<longrightarrow> indexOf (di_Members inp) (fd_Target (SelectMember inp)) \<le> indexOf (di_Members inp) m)"
proof (rule conjI [OF _ conjI [OF _ conjI [OF _ conjI]]])
  let ?ms = "di_Members inp" and ?c = "di_Current inp"
  let ?u = "first_member (isUp inp) ?ms" and ?k = "first_member (isConfirmed inp) ?ms"
  have u: "?u \<noteq> ''''" using assms first_member_none by metis
  note up = first_member_in[OF u] first_member_least[OF u]
  have k: "?k \<noteq> '''' \<Longrightarrow> ?k \<in> set ?ms \<and> isConfirmed inp ?k \<and> isUp inp ?k"
    using first_member_in confirmed_up by metis
  have ne: "?ms \<noteq> []" using assms(1) by auto
  have sel: "SelectMember inp =
      (if ?c = '''' then decide inp ?u ''priority'' False
       else if ?c \<notin> set ?ms then decide inp ?u ''failback'' False
       else if \<not> isUp inp ?c then decide inp ?u ''failover'' False
       else if ?k \<noteq> '''' \<and> indexOf ?ms ?k < indexOf ?ms ?c then decide inp ?k ''failback'' False
       else decide inp ?c ''sticky'' False)"
    using u ne by (rule select_up_cases[rotated])
  show "fd_Target (SelectMember inp) \<in> set ?ms"
    using up(1) k by (auto simp: sel)
  show "isUp inp (fd_Target (SelectMember inp)) \<and> \<not> fd_AllDown (SelectMember inp)"
    using up(1) k by (auto simp: sel)
  show "fd_ShouldSwitch (SelectMember inp) \<longleftrightarrow> fd_Target (SelectMember inp) \<noteq> ?c"
    by (simp add: sel)
  show "?c \<in> set ?ms \<and> ?c \<noteq> '''' \<and> isUp inp ?c \<longrightarrow> fd_ShouldSwitch (SelectMember inp) \<longrightarrow>
      isConfirmed inp (fd_Target (SelectMember inp)) \<and> indexOf ?ms (fd_Target (SelectMember inp)) < indexOf ?ms ?c"
    using select_member_policy_confirmed by blast
  show "\<not> (?c \<in> set ?ms \<and> ?c \<noteq> '''' \<and> isUp inp ?c)
      \<longrightarrow> indexOf ?ms (fd_Target (SelectMember inp)) \<le> indexOf ?ms m"
    using up(2)[OF assms(1,2,3)] by (auto simp: sel)
qed

definition example_input :: "string \<Rightarrow> DecisionInput" where
  "example_input current = \<lparr>di_Members = [''a'', ''b''],
     di_Health = [''a'' \<mapsto> \<lparr>mh_ConsecutiveUp = 2, mh_ConsecutiveDown = 0\<rparr>,
                  ''b'' \<mapsto> \<lparr>mh_ConsecutiveUp = 7, mh_ConsecutiveDown = 0\<rparr>],
     di_Current = current, di_Hysteresis = 0, di_DirectFallback = ''direct'', di_AllDownPolicy = ''''\<rparr>"

theorem select_member_policy_witness:
  "isConfirmed (example_input ''b'') (fd_Target (SelectMember (example_input ''b'')))"
proof -
  have "''b'' \<in> set (di_Members (example_input ''b''))" "''b'' \<noteq> ''''"
    "isUp (example_input ''b'') ''b''"
    by (simp_all add: example_input_def isUp_def health_of_def)
  note policy = select_member_policy[OF this]
  have "di_Current (example_input ''b'') \<in> set (di_Members (example_input ''b''))
    \<and> di_Current (example_input ''b'') \<noteq> '''' \<and> isUp (example_input ''b'') (di_Current (example_input ''b''))"
    by (simp add: example_input_def isUp_def health_of_def)
  moreover have "fd_ShouldSwitch (SelectMember (example_input ''b''))" by code_simp
  ultimately show ?thesis using policy by blast
qed

text \<open>The policy does not oscillate: deciding again with the same health and the selected
  target as the current member never asks for a switch, under every all-down policy and for
  every input.\<close>

theorem select_member_stable:
  "\<not> fd_ShouldSwitch (SelectMember (inp\<lparr>di_Current := fd_Target (SelectMember inp)\<rparr>))"
proof -
  let ?inp = "\<lambda>t. inp\<lparr>di_Current := t\<rparr>"
  let ?ms = "di_Members inp" and ?c = "di_Current inp"
  let ?u = "first_member (isUp inp) ?ms" and ?k = "first_member (isConfirmed inp) ?ms"
  have same: "isUp (?inp t) = isUp inp" "isConfirmed (?inp t) = isConfirmed inp" for t
    by (auto simp: isUp_def isConfirmed_def hysteresis_of_def fun_eq_iff)
  have up: "?u \<in> set ?ms \<and> isUp inp ?u" if "?u \<noteq> ''''"
    using first_member_in[OF that] .
  have k: "?k \<in> set ?ms \<and> isUp inp ?k \<and> indexOf ?ms ?u \<le> indexOf ?ms ?k" if "?k \<noteq> ''''" "?u \<noteq> ''''"
    using first_member_in[OF that(1)] first_member_least[OF that(2), of ?k] that confirmed_up by blast
  consider "?ms = []" | "?ms \<noteq> []" "?u = ''''" | "?ms \<noteq> []" "?u \<noteq> ''''" by blast
  then show ?thesis
  proof cases
    case 1
    then show ?thesis by (simp add: SelectMember_def)
  next
    case 2
    then show ?thesis
      by (simp add: SelectMember_def Let_def same select_all_down_def indexOf_nonneg)
  next
    case 3
    have sel: "SelectMember (?inp t) =
      (if t = '''' then decide (?inp t) ?u ''priority'' False
       else if t \<notin> set ?ms then decide (?inp t) ?u ''failback'' False
       else if \<not> isUp inp t then decide (?inp t) ?u ''failover'' False
       else if ?k \<noteq> '''' \<and> indexOf ?ms ?k < indexOf ?ms t then decide (?inp t) ?k ''failback'' False
       else decide (?inp t) t ''sticky'' False)" for t
      using 3 indexOf_nonneg[of ?ms t] by (auto simp: SelectMember_def Let_def same)
    have noop: "?inp ?c = inp" by simp
    consider "fd_Target (SelectMember inp) = ?u"
      | "fd_Target (SelectMember inp) = ?k" "?k \<noteq> ''''"
      | "fd_Target (SelectMember inp) = ?c" "\<not> fd_ShouldSwitch (SelectMember inp)"
      using sel[of ?c] unfolding noop by (auto split: if_splits)
    then show ?thesis
    proof cases
      case 1
      then show ?thesis using sel[of ?u] 3 up k by auto
    next
      case 2
      then show ?thesis using sel[of ?k] 3 k by auto
    next
      case 3
      then show ?thesis by simp
    qed
  qed
qed

lemma select_all_down_target:
  assumes "fd_ShouldSwitch (select_all_down inp)"
  shows "fd_Target (select_all_down inp) = hd (di_Members inp)
    \<or> di_AllDownPolicy inp = AllDownPolicyBlock \<and> fd_Target (select_all_down inp) = FailoverRejectOutboundTag
    \<or> di_DirectFallback inp \<noteq> '''' \<and> fd_Target (select_all_down inp) = di_DirectFallback inp"
  using assms unfolding select_all_down_def by (auto split: if_splits)

section \<open>Properties of the job\<close>

text \<open>Whatever the probes say, the target of a switch is an option of the selector that was
  assembled for the core from the same row and the same direct tag, so the core never rejects
  it as a member it does not know.  (A direct tag of white space alone is excluded: the
  assembly trims it, the job does not.)\<close>

theorem failover_target_selectable:
  assumes "group_of_row dec directTag row = Inr g"
    and "AssembleFailoverForCore dec row directTag = Inr (Selector tag members dflt intr)"
    and "directTag = '''' \<or> TrimSpace directTag \<noteq> ''''"
    and "fd_ShouldSwitch (SelectMember (group_input g directTag health current))"
  shows "fd_Target (SelectMember (group_input g directTag health current)) \<in> set members"
proof -
  obtain opts where opts: "parseFailoverOptions dec (ob_Options row) = Inr opts" "fo_Outbounds opts \<noteq> []"
    using assms(1) by (auto simp: group_of_row_def split: sum.splits if_splits)
  let ?final = "TrimSpace (finalTag opts directTag)" and ?policy = "fp_AllDownPolicy (fo_Failover opts)"
  let ?inp = "group_input g directTag health current"
  have g: "fg_Members g = fo_Outbounds opts" "fg_FinalTag g = ?final" "fg_AllDownPolicy g = ?policy"
    using assms(1) opts by (auto simp: group_of_row_def)
  have members: "set members = set (fo_Outbounds opts) \<union> (if ?final = '''' then {} else {?final})"
    using assms(2) opts
    by (auto simp: AssembleFailoverForCore_def AssembleFailoverOutboundsForCore_def Let_def split: if_splits)
  have inp: "di_Members ?inp = fo_Outbounds opts" "di_AllDownPolicy ?inp = ?policy"
    "di_DirectFallback ?inp = fallback_tag g directTag"
    by (simp_all add: group_input_def g)
  have trim: "TrimSpace FailoverRejectOutboundTag = FailoverRejectOutboundTag"
    by (rule TrimSpace_visible) (simp add: FailoverRejectOutboundTag_def visible_def)
  have block: "FailoverRejectOutboundTag \<in> set members" if "?policy = AllDownPolicyBlock"
  proof -
    have "?final = FailoverRejectOutboundTag"
      using that trim by (simp add: finalTag_def finalChoice_def failover_consts)
    then show ?thesis using members by (simp add: FailoverRejectOutboundTag_def)
  qed
  have fallback: "fallback_tag g directTag \<in> set members" if "fallback_tag g directTag \<noteq> ''''"
  proof (cases "?final = ''''")
    case False
    then show ?thesis using members g by (simp add: fallback_tag_def)
  next
    case True
    then have d: "?policy = ''''" "directTag \<noteq> ''''"
      using that g by (auto simp: fallback_tag_def split: if_splits)
    then have "TrimSpace directTag \<noteq> ''''" using assms(3) by simp
    moreover have "finalChoice opts \<noteq> '''' \<and> TrimSpace (finalChoice opts) = finalChoice opts"
      using d by (auto simp: finalChoice_def failover_consts Let_def TrimSpace_visible visible_def)
    ultimately have "?final \<noteq> ''''"
      using trim by (auto simp: finalTag_def failover_consts)
    then show ?thesis using True by simp
  qed
  have hd: "hd (fo_Outbounds opts) \<in> set members" using opts(2) members by simp
  show ?thesis
  proof (cases "first_member (isUp ?inp) (di_Members ?inp) = ''''")
    case True
    then have "SelectMember ?inp = select_all_down ?inp"
      using opts(2) inp by (simp add: SelectMember_def)
    then show ?thesis
      using assms(4) select_all_down_target[of ?inp] block fallback hd unfolding inp by metis
  next
    case False
    then have "first_member (isUp ?inp) (di_Members ?inp) \<in> set (di_Members ?inp)"
      using first_member_in by blast
    moreover have "first_member (isConfirmed ?inp) (di_Members ?inp) \<noteq> ''''
        \<Longrightarrow> first_member (isConfirmed ?inp) (di_Members ?inp) \<in> set (di_Members ?inp)"
      using first_member_in by blast
    ultimately have "fd_Target (SelectMember ?inp) \<in> set (di_Members ?inp)
        \<or> fd_Target (SelectMember ?inp) = di_Current ?inp"
      using False opts(2) inp by (auto simp: SelectMember_def Let_def)
    moreover have "fd_Target (SelectMember ?inp) \<noteq> di_Current ?inp"
      using assms(4) False opts(2) inp by (auto simp: SelectMember_def Let_def split: if_splits)
    ultimately show ?thesis using inp members by auto
  qed
qed

definition example_group :: FailoverGroup where
  "example_group = \<lparr>fg_Tag = ''fo'', fg_Members = [''wg'', ''ss''],
     fg_FinalTag = ''__solovey_failover_reject'', fg_AllDownPolicy = '''',
     fg_ProbeTarget = DefaultProbeTarget, fg_Interval = 30 * second, fg_Hysteresis = 3, fg_Enabled = True\<rparr>"

theorem failover_target_selectable_witness:
  "fd_Target (SelectMember (group_input example_group ''direct'' Map.empty ''ss''))
     \<in> set [''wg'', ''ss'', ''__solovey_failover_reject'']"
proof (rule failover_target_selectable)
  show "group_of_row example_decoders ''direct'' example_row = Inr example_group" by code_simp
  show "AssembleFailoverForCore example_decoders example_row ''direct''
      = Inr (Selector ''fo'' [''wg'', ''ss'', ''__solovey_failover_reject''] ''wg'' None)"
    by code_simp
  show "''direct'' = '''' \<or> TrimSpace ''direct'' \<noteq> ''''" by code_simp
  show "fd_ShouldSwitch (SelectMember (group_input example_group ''direct'' Map.empty ''ss''))"
    by code_simp
qed

subsection \<open>Counters and probe history\<close>

text \<open>The probes of a group over a sequence of runs: those of the runs in which it was due.\<close>

fun probe_history :: "FailoverGroup \<Rightarrow> string \<Rightarrow> FailoverJob \<Rightarrow> run_env list \<Rightarrow> (string \<Rightarrow> bool) list" where
  "probe_history grp directTag j [] = []"
| "probe_history grp directTag j (env # envs) =
     (if probe_due env grp j then [e_probe env] else [])
     @ probe_history grp directTag (fst (runGroup env grp directTag j)) envs"

definition run_all :: "FailoverGroup \<Rightarrow> string \<Rightarrow> run_env list \<Rightarrow> FailoverJob \<Rightarrow> FailoverJob" where
  "run_all grp directTag envs j = foldl (\<lambda>j env. fst (runGroup env grp directTag j)) j envs"

text \<open>How many of the latest probes of a member in a row succeeded.\<close>

definition recent_ups :: "string \<Rightarrow> (string \<Rightarrow> bool) list \<Rightarrow> nat" where
  "recent_ups m hist = length (takeWhile (\<lambda>p. p m) (rev hist))"

lemma recent_ups_simps [simp]:
  "recent_ups m [] = 0"
  "recent_ups m (hist @ [p]) = (if p m then Suc (recent_ups m hist) else 0)"
  by (simp_all add: recent_ups_def)

lemma probeMembers_member: "m \<in> set (fg_Members grp) \<Longrightarrow> probeMembers env grp m = Some (e_probe env m)"
  by (auto simp: probeMembers_def map_of_map_restrict comp_def)

lemma update_health_member:
  assumes "distinct ms" "m \<in> set ms"
  shows "health_of (update_health res ms h) m = bump (res m = Some True) (health_of h m)"
proof -
  have other: "health_of (update_health res xs h) x = health_of h x" if "x \<notin> set xs" for xs x h
    using that by (induction xs arbitrary: h) (auto simp: update_health_def health_of_def)
  show ?thesis
    using assms
  proof (induction ms arbitrary: h)
    case (Cons y ys)
    let ?h = "h(y \<mapsto> bump (res y = Some True) (health_of h y))"
    have step: "update_health res (y # ys) h = update_health res ys ?h"
      by (simp add: update_health_def)
    show ?case
    proof (cases "m = y")
      case True
      then show ?thesis using other[of m ys ?h] Cons.prems step by (simp add: health_of_def)
    next
      case False
      then have "health_of ?h m = health_of h m" by (simp add: health_of_def)
      then show ?thesis using Cons False step by simp
    qed
  qed simp
qed

lemma act_on_probes_state:
  "gs_health (group_state (fst (act_on_probes env grp directTag h j)) (fg_Tag grp))
     = gs_health (group_state j (fg_Tag grp))"
  by (simp add: act_on_probes_def Let_def recordAllDownEdge_def group_state_def split: option.splits)

lemma runGroup_health:
  assumes "fg_Enabled grp" "fg_Members grp \<noteq> []"
  shows "gs_health (group_state (fst (runGroup env grp directTag j)) (fg_Tag grp))
    = (if probe_due env grp j
       then update_health (probeMembers env grp) (fg_Members grp) (gs_health (group_state j (fg_Tag grp)))
       else gs_health (group_state j (fg_Tag grp)))"
  using assms by (simp add: runGroup_def Let_def act_on_probes_state) (simp add: group_state_def)

lemma counters_are_history:
  assumes "fg_Enabled grp" "distinct (fg_Members grp)" "m \<in> set (fg_Members grp)"
    and "mh_ConsecutiveUp (health_of (gs_health (group_state j (fg_Tag grp))) m) = int (recent_ups m hist)"
  shows "mh_ConsecutiveUp (health_of (gs_health (group_state (run_all grp directTag envs j) (fg_Tag grp))) m)
    = int (recent_ups m (hist @ probe_history grp directTag j envs))"
  using assms(4)
proof (induction envs arbitrary: j hist)
  case Nil
  then show ?case by (simp add: run_all_def)
next
  case (Cons env envs)
  let ?j = "fst (runGroup env grp directTag j)"
  let ?hist = "hist @ (if probe_due env grp j then [e_probe env] else [])"
  have "fg_Members grp \<noteq> []" using assms(3) by auto
  then have "mh_ConsecutiveUp (health_of (gs_health (group_state ?j (fg_Tag grp))) m) = int (recent_ups m ?hist)"
    using Cons.prems assms
    by (simp add: runGroup_health update_health_member probeMembers_member bump_def)
  from Cons.IH[OF this] show ?case by (simp add: run_all_def)
qed

lemma fresh_counters: "mh_ConsecutiveUp (health_of (gs_health (group_state (NewFailoverJob db) tag)) m) = 0"
  by (simp add: NewFailoverJob_def group_state_def new_group_state_def health_of_def)

lemma act_on_probes_switch:
  assumes "Switched tag target \<in> set (snd (act_on_probes env grp directTag h j))"
  shows "fd_ShouldSwitch (SelectMember (group_input grp directTag h (e_active env (fg_Tag grp))))
    \<and> target = fd_Target (SelectMember (group_input grp directTag h (e_active env (fg_Tag grp))))"
  using assms
  by (auto simp: act_on_probes_def Let_def recordAllDownEdge_def publishLiveStatus_def
      split: if_splits option.splits)

lemma runGroup_switch:
  assumes "Switched tag target \<in> set (snd (runGroup env grp directTag j))"
  shows "probe_due env grp j \<and> fg_Enabled grp \<and> fg_Members grp \<noteq> []
    \<and> (let h = update_health (probeMembers env grp) (fg_Members grp) (gs_health (group_state j (fg_Tag grp)));
           d = SelectMember (group_input grp directTag h (e_active env (fg_Tag grp)))
       in fd_ShouldSwitch d \<and> target = fd_Target d)"
  using assms act_on_probes_switch[of tag target env grp directTag]
  unfolding runGroup_def Let_def by (auto split: if_splits)

text \<open>C8. A job started afresh leaves a member that has just answered its probe only for a
  member that has answered at least \<open>Hysteresis\<close> probes in a row, whatever happened in the
  earlier runs: a flapping member is not switched back to.\<close>

theorem failover_hysteresis:
  assumes "fg_Enabled grp" "distinct (fg_Members grp)" "1 \<le> fg_Hysteresis grp"
    and "j = run_all grp directTag envs (NewFailoverJob db)"
    and "Switched (fg_Tag grp) target \<in> set (snd (runGroup env grp directTag j))"
    and "e_active env (fg_Tag grp) \<in> set (fg_Members grp)" "e_active env (fg_Tag grp) \<noteq> ''''"
    and "e_probe env (e_active env (fg_Tag grp))"
  shows "target \<in> set (fg_Members grp)
    \<and> fg_Hysteresis grp \<le> int (recent_ups target
        (probe_history grp directTag (NewFailoverJob db) envs @ [e_probe env]))"
proof -
  let ?hist = "probe_history grp directTag (NewFailoverJob db) envs"
  let ?h = "update_health (probeMembers env grp) (fg_Members grp) (gs_health (group_state j (fg_Tag grp)))"
  let ?c = "e_active env (fg_Tag grp)"
  let ?inp = "group_input grp directTag ?h ?c"
  have sw: "fd_ShouldSwitch (SelectMember ?inp)" "target = fd_Target (SelectMember ?inp)"
    using runGroup_switch[OF assms(5)] by (simp_all add: Let_def)
  have count: "mh_ConsecutiveUp (health_of ?h m) = int (recent_ups m (?hist @ [e_probe env]))"
    if "m \<in> set (fg_Members grp)" for m
    using counters_are_history[OF assms(1,2) that, of "NewFailoverJob db" "[]" directTag envs]
      fresh_counters[of db "fg_Tag grp" m] that assms(2,4)
    by (simp add: update_health_member probeMembers_member bump_def)
  have inp: "di_Members ?inp = fg_Members grp" "di_Current ?inp = ?c" "di_Health ?inp = ?h"
    "hysteresis_of ?inp = fg_Hysteresis grp"
    using assms(3) by (simp_all add: group_input_def hysteresis_of_def)
  have up: "isUp ?inp ?c"
    using count[OF assms(6)] assms(8) by (simp add: isUp_def inp)
  have c: "?c \<in> set (di_Members ?inp)" "?c \<noteq> ''''" using assms(6,7) by (simp_all add: inp)
  have "isConfirmed ?inp target"
    using select_member_policy_confirmed[of ?inp] c up sw inp by simp
  moreover have "target \<in> set (fg_Members grp)"
    using select_member_policy_confirmed[of ?inp] c up sw inp by simp
  ultimately show ?thesis
    using count[of target] by (simp add: isConfirmed_def inp)
qed

definition example_env :: "go_time \<Rightarrow> bool \<Rightarrow> string \<Rightarrow> run_env" where
  "example_env now wgUp active =
     \<lparr>e_due_now = now, e_probe_now = now, e_persist_now = now,
      e_probe = (\<lambda>m. m = ''ss'' \<or> m = ''wg'' \<and> wgUp), e_active = (\<lambda>g. active), e_switch = (\<lambda>g m. None)\<rparr>"

theorem failover_hysteresis_witness:
  "2 \<le> int (recent_ups ''wg''
     (probe_history (example_group\<lparr>fg_Hysteresis := 2\<rparr>) ''direct'' (NewFailoverJob Map.empty)
        [example_env (60 * second) True ''ss'']
      @ [e_probe (example_env (120 * second) True ''ss'')]))"
proof -
  let ?g = "example_group\<lparr>fg_Hysteresis := 2\<rparr>" and ?envs = "[example_env (60 * second) True ''ss'']"
  have "Switched (fg_Tag ?g) ''wg'' \<in> set (snd (runGroup (example_env (120 * second) True ''ss'')
      ?g ''direct'' (run_all ?g ''direct'' ?envs (NewFailoverJob Map.empty))))"
    by code_simp
  from failover_hysteresis[OF _ _ _ refl this] show ?thesis
    by (simp add: example_group_def example_env_def)
qed

subsection \<open>Alerts\<close>

text \<open>The effects of a sequence of runs of a group, run by run.\<close>

fun run_effects :: "FailoverGroup \<Rightarrow> string \<Rightarrow> run_env list \<Rightarrow> FailoverJob \<Rightarrow> job_effect list list" where
  "run_effects grp directTag [] j = []"
| "run_effects grp directTag (env # envs) j =
     (case runGroup env grp directTag j of (j', es) \<Rightarrow> es # run_effects grp directTag envs j')"

text \<open>The all-down flag of a completed run: one that probed and whose switch, if any, worked.\<close>

definition completed_flag :: "job_effect list \<Rightarrow> bool option" where
  "completed_flag es =
     (if list_ex (\<lambda>e. case e of SwitchFailed _ _ _ \<Rightarrow> True | _ \<Rightarrow> False) es then None
      else case concat (map (\<lambda>e. case e of Published s \<Rightarrow> [se_AllDown s] | _ \<Rightarrow> []) es) of
        [] \<Rightarrow> None
      | b # _ \<Rightarrow> Some b)"

fun rising_edges :: "bool \<Rightarrow> bool list \<Rightarrow> bool list" where
  "rising_edges before [] = []"
| "rising_edges before (b # bs) = (b \<and> \<not> before) # rising_edges b bs"

lemma act_on_probes_flag:
  assumes "act_on_probes env grp directTag h j = (j', es)"
  shows "(case completed_flag es of
      None \<Rightarrow> gs_lastAllDown (group_state j' (fg_Tag grp)) = gs_lastAllDown (group_state j (fg_Tag grp))
        \<and> AlertAllDown (fg_Tag grp) \<notin> set es
    | Some b \<Rightarrow> gs_lastAllDown (group_state j' (fg_Tag grp)) = b
        \<and> (AlertAllDown (fg_Tag grp) \<in> set es \<longleftrightarrow> b \<and> \<not> gs_lastAllDown (group_state j (fg_Tag grp))))"
  using assms
  by (auto simp: act_on_probes_def Let_def recordAllDownEdge_def publishLiveStatus_def completed_flag_def
      group_state_def split: if_splits option.splits)

lemma runGroup_flag:
  assumes "runGroup env grp directTag j = (j', es)"
  shows "(case completed_flag es of
      None \<Rightarrow> gs_lastAllDown (group_state j' (fg_Tag grp)) = gs_lastAllDown (group_state j (fg_Tag grp))
        \<and> AlertAllDown (fg_Tag grp) \<notin> set es
    | Some b \<Rightarrow> gs_lastAllDown (group_state j' (fg_Tag grp)) = b
        \<and> (AlertAllDown (fg_Tag grp) \<in> set es \<longleftrightarrow> b \<and> \<not> gs_lastAllDown (group_state j (fg_Tag grp))))"
proof (cases "fg_Enabled grp \<and> fg_Members grp \<noteq> [] \<and> probe_due env grp j")
  case False
  then have "es = [] \<and> group_state j' (fg_Tag grp) = group_state j (fg_Tag grp)"
    using assms by (auto simp: runGroup_def Let_def group_state_def split: if_splits)
  then show ?thesis by (simp add: completed_flag_def)
next
  case True
  let ?state = "group_state j (fg_Tag grp)"
  let ?h = "update_health (probeMembers env grp) (fg_Members grp) (gs_health ?state)"
  let ?j = "j\<lparr>fj_states := (fj_states j)(fg_Tag grp \<mapsto> ?state\<lparr>gs_health := ?h, gs_lastProbe := e_probe_now env\<rparr>),
      fj_db := persistState env grp ?h (fj_db j)\<rparr>"
  have "act_on_probes env grp directTag ?h ?j = (j', es)"
    using assms True by (simp add: runGroup_def Let_def)
  note flag = act_on_probes_flag[OF this]
  have "gs_lastAllDown (group_state ?j (fg_Tag grp)) = gs_lastAllDown ?state"
    by (simp add: group_state_def)
  then show ?thesis using flag by presburger
qed

text \<open>The all-down alert is edge triggered: over any sequence of runs of a fresh job, the
  completed runs that raise it are those at which the group turns from not all-down to
  all-down, and no other run raises it.\<close>

theorem failover_alerts_on_edges:
  "map (\<lambda>es. AlertAllDown (fg_Tag grp) \<in> set es)
     (filter (\<lambda>es. completed_flag es \<noteq> None) (run_effects grp directTag envs (NewFailoverJob db)))
   = rising_edges False (map (the \<circ> completed_flag)
       (filter (\<lambda>es. completed_flag es \<noteq> None) (run_effects grp directTag envs (NewFailoverJob db))))
   \<and> list_all (\<lambda>es. completed_flag es \<noteq> None \<or> AlertAllDown (fg_Tag grp) \<notin> set es)
       (run_effects grp directTag envs (NewFailoverJob db))"
proof -
  have general: "map (\<lambda>es. AlertAllDown (fg_Tag grp) \<in> set es)
       (filter (\<lambda>es. completed_flag es \<noteq> None) (run_effects grp directTag envs j))
     = rising_edges (gs_lastAllDown (group_state j (fg_Tag grp))) (map (the \<circ> completed_flag)
         (filter (\<lambda>es. completed_flag es \<noteq> None) (run_effects grp directTag envs j)))
     \<and> list_all (\<lambda>es. completed_flag es \<noteq> None \<or> AlertAllDown (fg_Tag grp) \<notin> set es)
         (run_effects grp directTag envs j)" for j
  proof (induction envs arbitrary: j)
    case (Cons env envs)
    obtain j' es where run: "runGroup env grp directTag j = (j', es)" by fastforce
    show ?case
      using runGroup_flag[OF run] Cons.IH[of j'] run by (auto split: option.splits)
  qed simp
  show ?thesis
    using general[of "NewFailoverJob db"]
    by (simp add: NewFailoverJob_def group_state_def new_group_state_def)
qed

subsection \<open>The status page\<close>

theorem failover_alerts_on_edges_witness:
  "map (\<lambda>es. AlertAllDown (fg_Tag example_group) \<in> set es)
     (filter (\<lambda>es. completed_flag es \<noteq> None) (run_effects example_group ''direct''
       [example_env second True ''wg'', example_env (1000 * second) False ''wg''] (NewFailoverJob Map.empty)))
   = rising_edges False (map (the \<circ> completed_flag)
       (filter (\<lambda>es. completed_flag es \<noteq> None) (run_effects example_group ''direct''
         [example_env second True ''wg'', example_env (1000 * second) False ''wg''] (NewFailoverJob Map.empty))))"
  by (rule failover_alerts_on_edges [THEN conjunct1])

lemma WriteMemberStates_member:
  assumes "\<And>x. ms_GroupTag (f x) = g \<and> ms_MemberTag (f x) = x"
  shows "WriteMemberStates db (map f ms) (g, m) = (if m \<in> set ms then Some (f m) else db (g, m))"
proof (induction ms rule: rev_induct)
  case (snoc x xs)
  then show ?case using assms[of x] by (auto simp: WriteMemberStates_def)
qed (simp add: WriteMemberStates_def)

lemma persisted_health:
  assumes "m \<in> set (fg_Members grp)"
  shows "\<exists>s. persistState env grp h db (fg_Tag grp, m) = Some s
    \<and> ms_Healthy s = (mh_ConsecutiveUp (health_of h m) \<ge> 1)"
  using assms unfolding persistState_def Let_def
  by (subst WriteMemberStates_member) auto

lemma act_on_probes_db: "fj_db (fst (act_on_probes env grp directTag h j)) = fj_db j"
  by (simp add: act_on_probes_def Let_def recordAllDownEdge_def split: option.splits)

lemma act_on_probes_publishes:
  "\<exists>s. Published s \<in> set (snd (act_on_probes env grp directTag h j))
     \<and> se_Members s = member_statuses (\<lambda>m. mh_ConsecutiveUp (health_of h m) \<ge> 1) (fg_Members grp)"
  by (auto simp: act_on_probes_def Let_def recordAllDownEdge_def publishLiveStatus_def split: option.splits)

lemma member_statuses_cong:
  assumes "\<And>m. m \<in> set ms \<Longrightarrow> f m = g m"
  shows "member_statuses f ms = member_statuses g ms"
  using assms by (auto simp: member_statuses_def in_set_enumerate_eq)

text \<open>After a run that probed, the status page built from the table and the status the run
  published both show each member as its probe answered, and the page shows the group all-down
  exactly if no member answered.\<close>

theorem failover_status_current:
  assumes "fg_Enabled grp" "fg_Members grp \<noteq> []" "distinct (fg_Members grp)"
    and "j = run_all grp directTag envs (NewFailoverJob db)" "probe_due env grp j"
    and "runGroup env grp directTag j = (j', effects)"
  shows "(se_Members (status_entry (fj_db j') core grp) = member_statuses (e_probe env) (fg_Members grp))
    \<and> (se_AllDown (status_entry (fj_db j') core grp) \<longleftrightarrow> (\<forall>m\<in>set (fg_Members grp). \<not> e_probe env m))
    \<and> (\<exists>s. Published s \<in> set effects \<and> se_Members s = member_statuses (e_probe env) (fg_Members grp))"
proof (rule conjI [OF _ conjI])
  let ?old = "gs_health (group_state j (fg_Tag grp))"
  let ?h = "update_health (probeMembers env grp) (fg_Members grp) ?old"
  have up: "mh_ConsecutiveUp (health_of ?h m) \<ge> 1 \<longleftrightarrow> e_probe env m" if m: "m \<in> set (fg_Members grp)" for m
  proof -
    have "mh_ConsecutiveUp (health_of ?old m) \<ge> 0"
      using counters_are_history[OF assms(1,3) m, of "NewFailoverJob db" "[]" directTag envs]
        fresh_counters[of db "fg_Tag grp" m] assms(4) by simp
    then show ?thesis
      using m assms(3) by (simp add: update_health_member probeMembers_member bump_def)
  qed
  obtain j1 where run: "act_on_probes env grp directTag ?h j1 = (j', effects)"
    and db: "fj_db j1 = persistState env grp ?h (fj_db j)"
    using assms by (simp add: runGroup_def Let_def)
  have db': "fj_db j' = persistState env grp ?h (fj_db j)"
    using act_on_probes_db[of env grp directTag ?h j1] run db by simp
  have healthy: "(case ReadMemberStates (fj_db j') (fg_Tag grp) m of None \<Rightarrow> False | Some s \<Rightarrow> ms_Healthy s)
      = e_probe env m" if "m \<in> set (fg_Members grp)" for m
    using persisted_health[OF that, of env ?h "fj_db j"] up[OF that] db'
    by (auto simp: ReadMemberStates_def)
  show "se_Members (status_entry (fj_db j') core grp) = member_statuses (e_probe env) (fg_Members grp)"
    using healthy by (simp add: status_entry_def Let_def cong: member_statuses_cong)
  show "se_AllDown (status_entry (fj_db j') core grp) \<longleftrightarrow> (\<forall>m\<in>set (fg_Members grp). \<not> e_probe env m)"
    using healthy by (auto simp: status_entry_def Let_def list_ex_iff)
  show "\<exists>s. Published s \<in> set effects \<and> se_Members s = member_statuses (e_probe env) (fg_Members grp)"
    using act_on_probes_publishes[of env grp directTag ?h j1] run up by (simp cong: member_statuses_cong)
qed

theorem failover_status_current_witness:
  "se_AllDown (status_entry (fj_db (fst (runGroup (example_env second True ''wg'') example_group ''direct''
     (NewFailoverJob Map.empty)))) None example_group) = False"
proof -
  have facts: "fg_Enabled example_group" "fg_Members example_group \<noteq> []" "distinct (fg_Members example_group)"
    "probe_due (example_env second True ''wg'') example_group (NewFailoverJob Map.empty)"
    by (simp_all add: example_group_def probe_due_def NewFailoverJob_def group_state_def
        new_group_state_def time_is_zero_def)
  have start: "NewFailoverJob Map.empty = run_all example_group ''direct'' [] (NewFailoverJob Map.empty)"
    by (simp add: run_all_def)
  have run: "runGroup (example_env second True ''wg'') example_group ''direct'' (NewFailoverJob Map.empty)
    = (fst (runGroup (example_env second True ''wg'') example_group ''direct'' (NewFailoverJob Map.empty)),
       snd (runGroup (example_env second True ''wg'') example_group ''direct'' (NewFailoverJob Map.empty)))"
    by simp
  have "se_AllDown (status_entry (fj_db (fst (runGroup (example_env second True ''wg'')
       example_group ''direct'' (NewFailoverJob Map.empty)))) None example_group)
     = (\<forall>m\<in>set (fg_Members example_group). \<not> e_probe (example_env second True ''wg'') m)"
    by (rule failover_status_current[OF facts(1-3) start facts(4) run, THEN conjunct2, THEN conjunct1])
  then show ?thesis by (simp add: example_group_def example_env_def)
qed

end
