(* ===== verification/Restart_Manager.thy ===== *)
theory Restart_Manager
  imports Go_Prelude
begin

text \<open>
  The restart manager (\<^verbatim>\<open>src/internal/singbox/restart/manager.go\<close>): the single owner of
  the proxy core's restarts and applies, shared by any number of goroutines and by the timers
  that send the restart signal.  The critical sections under \<open>m.mu\<close> are functions on the
  manager's fields; a step relation interleaves them for all goroutines and timers, with
  \<open>cond.Wait\<close> as a sleeping state that a broadcast ends.
\<close>

section \<open>The manager's critical sections\<close>

type_synonym tid = nat
type_synonym timer_id = nat

record Manager =
  rm_inFlight :: bool
  rm_pendingTimer :: "timer_id option"
  rm_signalDelay :: duration

definition NewManager :: "duration \<Rightarrow> Manager" where
  "NewManager signalDelay = \<lparr>rm_inFlight = False, rm_pendingTimer = None, rm_signalDelay = signalDelay\<rparr>"

definition begin_op :: "Manager \<Rightarrow> bool \<times> Manager" where
  "begin_op m = (if rm_inFlight m then (False, m) else (True, m\<lparr>rm_inFlight := True\<rparr>))"

text \<open>\<open>end\<close> and the release half of \<open>endPending\<close>; the broadcast is part of the step below.\<close>

definition end_op :: "Manager \<Rightarrow> Manager" where
  "end_op m = m\<lparr>rm_inFlight := False\<rparr>"

definition endPending :: "timer_id \<Rightarrow> Manager \<Rightarrow> Manager" where
  "endPending timer m =
     (let m = (if rm_pendingTimer m = Some timer then m\<lparr>rm_pendingTimer := None\<rparr> else m)
      in m\<lparr>rm_inFlight := False\<rparr>)"

text \<open>One pass of a waiting loop, between taking the lock and sleeping or leaving.\<close>

datatype pass = Sleep | Return | Fail | Acquire Manager

definition beginBlocking_pass :: "Manager \<Rightarrow> pass" where
  "beginBlocking_pass m = (if rm_inFlight m then Sleep else Acquire (m\<lparr>rm_inFlight := True\<rparr>))"

definition beginBlockingContext_pass :: "bool \<Rightarrow> Manager \<Rightarrow> pass" where
  "beginBlockingContext_pass ctxErr m =
     (if rm_inFlight m then (if ctxErr then Fail else Sleep)
      else if ctxErr then Fail
      else Acquire (m\<lparr>rm_inFlight := True\<rparr>))"

definition ScheduleRestartBlocking_pass :: "Manager \<Rightarrow> pass" where
  "ScheduleRestartBlocking_pass m =
     (if rm_inFlight m then (if rm_pendingTimer m \<noteq> None then Return else Sleep)
      else Acquire (m\<lparr>rm_inFlight := True\<rparr>))"

definition effective_delay :: "Manager \<Rightarrow> duration \<Rightarrow> duration" where
  "effective_delay m delay = (if delay \<le> 0 then rm_signalDelay m else delay)"

definition armRestartTimer :: "timer_id \<Rightarrow> Manager \<Rightarrow> Manager" where
  "armRestartTimer timer m = m\<lparr>rm_pendingTimer := Some timer\<rparr>"

text \<open>\<open>stopped\<close> is the result of \<open>timer.Stop()\<close>: whether the timer had not fired.  The first
  component of the result says whether the waiters are woken.\<close>

definition CancelPending :: "(timer_id \<Rightarrow> bool) \<Rightarrow> Manager \<Rightarrow> bool \<times> Manager" where
  "CancelPending stopped m =
     (case rm_pendingTimer m of
        None \<Rightarrow> (False, m)
      | Some timer \<Rightarrow>
          let m = m\<lparr>rm_pendingTimer := None\<rparr>
          in if stopped timer then (True, m\<lparr>rm_inFlight := False\<rparr>) else (False, m))"

section \<open>Goroutines and timers\<close>

datatype call =
  CallRun
| CallRunBlocking
| CallRunBlockingContext
| CallSchedule duration
| CallScheduleBlocking duration
| CallCancel

text \<open>A goroutine is outside the manager, about to take the lock for a call, asleep in
  \<open>cond.Wait\<close>, running its operation as the owner, or about to arm the timer as the owner.\<close>

datatype pc =
  Outside
| AtLock call
| Asleep call
| Running
| Arming duration

text \<open>A timer is armed; has fired, its callback not yet past \<open>endPending\<close>; is about to signal;
  or is over (signalled or stopped).\<close>

datatype timer_state = Unused | Armed duration | Fired | Signalling | Signalled | Stopped

record system =
  sy_mgr :: Manager
  sy_thread :: "tid \<Rightarrow> pc"
  sy_timer :: "timer_id \<Rightarrow> timer_state"
  sy_next :: timer_id
  sy_cancelled :: "tid \<Rightarrow> bool"

definition initial :: "duration \<Rightarrow> system" where
  "initial signalDelay = \<lparr>sy_mgr = NewManager signalDelay, sy_thread = (\<lambda>_. Outside),
     sy_timer = (\<lambda>_. Unused), sy_next = 0, sy_cancelled = (\<lambda>_. False)\<rparr>"

text \<open>\<open>cond.Broadcast\<close>: every sleeper goes back to the lock.\<close>

definition wake :: "pc \<Rightarrow> pc" where
  "wake p = (case p of Asleep c \<Rightarrow> AtLock c | _ \<Rightarrow> p)"

definition broadcast :: "system \<Rightarrow> system" where
  "broadcast s = s\<lparr>sy_thread := wake \<circ> sy_thread s\<rparr>"

definition at_pc :: "tid \<Rightarrow> pc \<Rightarrow> system \<Rightarrow> system" where
  "at_pc t p s = s\<lparr>sy_thread := (sy_thread s)(t := p)\<rparr>"

definition with_mgr :: "Manager \<Rightarrow> system \<Rightarrow> system" where
  "with_mgr m s = s\<lparr>sy_mgr := m\<rparr>"

definition set_timer :: "timer_id \<Rightarrow> timer_state \<Rightarrow> system \<Rightarrow> system" where
  "set_timer k x s = s\<lparr>sy_timer := (sy_timer s)(k := x)\<rparr>"

definition is_armed :: "system \<Rightarrow> timer_id \<Rightarrow> bool" where
  "is_armed s k = (case sy_timer s k of Armed _ \<Rightarrow> True | _ \<Rightarrow> False)"

definition after_pass :: "tid \<Rightarrow> call \<Rightarrow> pc \<Rightarrow> pass \<Rightarrow> system \<Rightarrow> system" where
  "after_pass t c owner p s =
     (case p of
        Sleep \<Rightarrow> at_pc t (Asleep c) s
      | Return \<Rightarrow> at_pc t Outside s
      | Fail \<Rightarrow> at_pc t Outside s
      | Acquire m \<Rightarrow> at_pc t owner (with_mgr m s))"

text \<open>What a goroutine at the lock does in its critical section.\<close>

definition locked_step :: "tid \<Rightarrow> call \<Rightarrow> system \<Rightarrow> system" where
  "locked_step t c s =
     (case c of
        CallRun \<Rightarrow>
          (case begin_op (sy_mgr s) of (ok, m) \<Rightarrow> at_pc t (if ok then Running else Outside) (with_mgr m s))
      | CallRunBlocking \<Rightarrow> after_pass t c Running (beginBlocking_pass (sy_mgr s)) s
      | CallRunBlockingContext \<Rightarrow>
          after_pass t c Running (beginBlockingContext_pass (sy_cancelled s t) (sy_mgr s)) s
      | CallSchedule delay \<Rightarrow>
          (case begin_op (sy_mgr s) of (ok, m) \<Rightarrow>
             at_pc t (if ok then Arming (effective_delay (sy_mgr s) delay) else Outside) (with_mgr m s))
      | CallScheduleBlocking delay \<Rightarrow>
          after_pass t c (Arming (effective_delay (sy_mgr s) delay)) (ScheduleRestartBlocking_pass (sy_mgr s)) s
      | CallCancel \<Rightarrow>
          (case CancelPending (is_armed s) (sy_mgr s) of (woken, m) \<Rightarrow>
             let s' = at_pc t Outside (with_mgr m s);
                 s' = (case rm_pendingTimer (sy_mgr s) of
                         Some k \<Rightarrow> if is_armed s k then set_timer k Stopped s' else s'
                       | None \<Rightarrow> s')
             in if woken then broadcast s' else s'))"

inductive step :: "system \<Rightarrow> system \<Rightarrow> bool" where
  call: "sy_thread s t = Outside \<Longrightarrow> step s (at_pc t (AtLock c) (s\<lparr>sy_cancelled := (sy_cancelled s)(t := False)\<rparr>))"
| locked: "sy_thread s t = AtLock c \<Longrightarrow> step s (locked_step t c s)"
| finish: "sy_thread s t = Running
    \<Longrightarrow> step s (broadcast (at_pc t Outside (with_mgr (end_op (sy_mgr s)) s)))"
| arm: "sy_thread s t = Arming delay
    \<Longrightarrow> step s (at_pc t Outside (set_timer (sy_next s) (Armed delay)
          (with_mgr (armRestartTimer (sy_next s) (sy_mgr s)) (s\<lparr>sy_next := Suc (sy_next s)\<rparr>))))"
| fire: "sy_timer s k = Armed delay \<Longrightarrow> step s (set_timer k Fired s)"
| end_pending: "sy_timer s k = Fired
    \<Longrightarrow> step s (broadcast (set_timer k Signalling (with_mgr (endPending k (sy_mgr s)) s)))"
| signal: "sy_timer s k = Signalling \<Longrightarrow> step s (set_timer k Signalled s)"
| cancel_ctx: "step s (s\<lparr>sy_cancelled := (sy_cancelled s)(t := True)\<rparr>)"
| wake_ctx: "sy_thread s t = Asleep CallRunBlockingContext \<Longrightarrow> sy_cancelled s t \<Longrightarrow> step s (broadcast s)"

inductive reachable :: "duration \<Rightarrow> system \<Rightarrow> bool" for delay where
  init: "reachable delay (initial delay)"
| next_step: "reachable delay s \<Longrightarrow> step s s' \<Longrightarrow> reachable delay s'"

inductive_cases stepE: "step s s'"

section \<open>Ownership\<close>

text \<open>Who holds \<open>inFlight\<close>: a goroutine that runs its operation or is about to arm the timer, or
  a timer from its arming to its \<open>endPending\<close>.\<close>

datatype owner = Goroutine tid | Timer timer_id

definition owner_pc :: "pc \<Rightarrow> bool" where
  "owner_pc p = (case p of Running \<Rightarrow> True | Arming _ \<Rightarrow> True | _ \<Rightarrow> False)"

definition owner_timer :: "timer_state \<Rightarrow> bool" where
  "owner_timer x = (case x of Armed _ \<Rightarrow> True | Fired \<Rightarrow> True | _ \<Rightarrow> False)"

definition owners :: "system \<Rightarrow> owner set" where
  "owners s = Goroutine ` {t. owner_pc (sy_thread s t)} \<union> Timer ` {k. owner_timer (sy_timer s k)}"

definition asleep :: "system \<Rightarrow> tid \<Rightarrow> bool" where
  "asleep s t = (\<exists>c. sy_thread s t = Asleep c)"

lemma owner_pc_simps [simp]:
  "owner_pc Running" "owner_pc (Arming d)" "\<not> owner_pc Outside" "\<not> owner_pc (AtLock c)" "\<not> owner_pc (Asleep c)"
  by (simp_all add: owner_pc_def)

lemma owner_timer_simps [simp]:
  "owner_timer (Armed d)" "owner_timer Fired" "\<not> owner_timer Unused" "\<not> owner_timer Signalling"
  "\<not> owner_timer Signalled" "\<not> owner_timer Stopped"
  by (simp_all add: owner_timer_def)

lemma owner_wake [simp]: "owner_pc (wake p) = owner_pc p"
  by (cases p) (auto simp: wake_def)

lemma fields [simp]:
  "sy_mgr (at_pc t p s) = sy_mgr s" "sy_timer (at_pc t p s) = sy_timer s" "sy_next (at_pc t p s) = sy_next s"
  "sy_thread (at_pc t p s) = (sy_thread s)(t := p)" "sy_cancelled (at_pc t p s) = sy_cancelled s"
  "sy_mgr (with_mgr m s) = m" "sy_timer (with_mgr m s) = sy_timer s" "sy_thread (with_mgr m s) = sy_thread s"
  "sy_next (with_mgr m s) = sy_next s" "sy_cancelled (with_mgr m s) = sy_cancelled s"
  "sy_mgr (set_timer k x s) = sy_mgr s" "sy_timer (set_timer k x s) = (sy_timer s)(k := x)"
  "sy_thread (set_timer k x s) = sy_thread s" "sy_next (set_timer k x s) = sy_next s"
  "sy_cancelled (set_timer k x s) = sy_cancelled s"
  "sy_mgr (broadcast s) = sy_mgr s" "sy_timer (broadcast s) = sy_timer s" "sy_next (broadcast s) = sy_next s"
  "sy_thread (broadcast s) = wake \<circ> sy_thread s" "sy_cancelled (broadcast s) = sy_cancelled s"
  by (simp_all add: at_pc_def with_mgr_def set_timer_def broadcast_def)

lemma owners_change [simp]:
  "owners (at_pc t p s) = owners s - {Goroutine t} \<union> (if owner_pc p then {Goroutine t} else {})"
  "owners (set_timer k x s) = owners s - {Timer k} \<union> (if owner_timer x then {Timer k} else {})"
  "owners (with_mgr m s) = owners s" "owners (broadcast s) = owners s"
  "owners (s\<lparr>sy_next := n\<rparr>) = owners s" "owners (s\<lparr>sy_cancelled := f\<rparr>) = owners s"
  by (auto simp: owners_def)

lemma asleep_change [simp]:
  "asleep (at_pc t p s) u = (if u = t then \<exists>c. p = Asleep c else asleep s u)"
  "asleep (set_timer k x s) u = asleep s u" "asleep (with_mgr m s) u = asleep s u"
  "asleep (s\<lparr>sy_next := n\<rparr>) u = asleep s u" "asleep (s\<lparr>sy_cancelled := f\<rparr>) u = asleep s u"
  "\<not> asleep (broadcast s) u"
  by (auto simp: asleep_def wake_def split: pc.splits)

text \<open>The invariant: the flag is set exactly while there is an owner, and there is never more
  than one; the pending timer owns it and an armed timer is the pending one; and nobody sleeps
  while the flag is clear.\<close>

definition inv :: "system \<Rightarrow> bool" where
  "inv s \<longleftrightarrow>
     (if rm_inFlight (sy_mgr s) then \<exists>own. owners s = {own} else owners s = {} \<and> (\<forall>t. \<not> asleep s t))
     \<and> (\<forall>k. rm_pendingTimer (sy_mgr s) = Some k \<longrightarrow> Timer k \<in> owners s)
     \<and> (\<forall>k. is_armed s k \<longrightarrow> rm_pendingTimer (sy_mgr s) = Some k)
     \<and> (\<forall>k\<ge>sy_next s. sy_timer s k = Unused)"

lemma owners_iff:
  "Goroutine t \<in> owners s \<longleftrightarrow> owner_pc (sy_thread s t)" "Timer k \<in> owners s \<longleftrightarrow> owner_timer (sy_timer s k)"
  by (auto simp: owners_def)

lemma is_armed_owner: "is_armed s k \<Longrightarrow> Timer k \<in> owners s"
  by (auto simp: is_armed_def owners_iff split: timer_state.splits)

lemma is_armed_change [simp]:
  "is_armed (at_pc t p s) k = is_armed s k" "is_armed (with_mgr m s) k = is_armed s k"
  "is_armed (broadcast s) k = is_armed s k" "is_armed (s\<lparr>sy_next := n\<rparr>) k = is_armed s k"
  "is_armed (s\<lparr>sy_cancelled := f\<rparr>) k = is_armed s k"
  "is_armed (set_timer k' x s) k = (if k = k' then \<exists>d. x = Armed d else is_armed s k)"
  by (auto simp: is_armed_def split: timer_state.splits)

lemma inv_cancelled: "inv (s\<lparr>sy_cancelled := f\<rparr>) = inv s"
  by (simp add: inv_def)

lemma inv_used:
  assumes "inv s" "sy_timer s k \<noteq> Unused"
  shows "\<not> sy_next s \<le> k"
  using assms by (auto simp: inv_def)

lemma inv_initial: "inv (initial delay)"
  by (auto simp: inv_def initial_def NewManager_def owners_def is_armed_def asleep_def)

text \<open>A goroutine at the lock owns nothing, so a pass that acquires finds the flag clear.\<close>

lemma inv_acquire:
  assumes "inv s" "\<not> rm_inFlight (sy_mgr s)" "owner_pc p"
  shows "inv (at_pc t p (with_mgr ((sy_mgr s)\<lparr>rm_inFlight := True\<rparr>) s))"
  using assms is_armed_owner by (auto simp: inv_def asleep_def)

lemma inv_stay:
  assumes "inv s" "\<not> owner_pc (sy_thread s t)" "\<not> owner_pc p" "rm_inFlight (sy_mgr s) \<or> (\<forall>c. p \<noteq> Asleep c)"
  shows "inv (at_pc t p s)"
proof -
  have "owners (at_pc t p s) = owners s"
    using assms(2,3) by (auto simp: owners_iff)
  then show ?thesis
    using assms by (auto simp: inv_def)
qed

lemma inv_pass:
  assumes "inv s" "\<not> owner_pc (sy_thread s t)" "owner_pc own"
    and "p = Sleep \<Longrightarrow> rm_inFlight (sy_mgr s)"
    and "\<And>m. p = Acquire m \<Longrightarrow> \<not> rm_inFlight (sy_mgr s) \<and> m = (sy_mgr s)\<lparr>rm_inFlight := True\<rparr>"
  shows "inv (after_pass t c own p s)"
  using assms inv_acquire[of s own t] inv_stay[of s t]
  by (cases p) (auto simp: after_pass_def)

lemma inv_cancel:
  assumes "inv s" "\<not> owner_pc (sy_thread s t)"
  shows "inv (locked_step t CallCancel s)"
proof (cases "rm_pendingTimer (sy_mgr s)")
  case None
  then have "locked_step t CallCancel s = at_pc t Outside s"
    by (simp add: locked_step_def CancelPending_def with_mgr_def)
  then show ?thesis using assms by (simp add: inv_stay)
next
  case (Some k)
  then have k: "owners s = {Timer k}" "rm_inFlight (sy_mgr s)"
    using assms(1) by (auto simp: inv_def split: if_splits)
  have only: "is_armed s k' \<Longrightarrow> k' = k" for k'
    using assms(1) Some by (auto simp: inv_def)
  have used: "\<not> sy_next s \<le> k"
  proof -
    have "owner_timer (sy_timer s k)" using owners_iff(2)[of k s] k(1) by simp
    then have "sy_timer s k \<noteq> Unused" by auto
    then show ?thesis by (rule inv_used[OF assms(1)])
  qed
  show ?thesis
  proof (cases "is_armed s k")
    case True
    then have "locked_step t CallCancel s = broadcast (set_timer k Stopped (at_pc t Outside
        (with_mgr ((sy_mgr s)\<lparr>rm_pendingTimer := None, rm_inFlight := False\<rparr>) s)))"
      using Some by (simp add: locked_step_def CancelPending_def)
    then show ?thesis
      using assms(1) k only used by (auto simp: inv_def)
  next
    case False
    then have "locked_step t CallCancel s = at_pc t Outside
        (with_mgr ((sy_mgr s)\<lparr>rm_pendingTimer := None\<rparr>) s)"
      using Some by (simp add: locked_step_def CancelPending_def)
    then show ?thesis
      using assms(1) k only False by (auto simp: inv_def)
  qed
qed

lemma inv_locked:
  assumes "inv s" "sy_thread s t = AtLock c"
  shows "inv (locked_step t c s)"
proof -
  have not_owner: "\<not> owner_pc (sy_thread s t)" using assms(2) by simp
  have begin_op: "inv (case begin_op (sy_mgr s) of (ok, m) \<Rightarrow> at_pc t (if ok then own else Outside) (with_mgr m s))"
    if "owner_pc own" for own
    using inv_acquire[OF assms(1) _ that, of t] inv_stay[OF assms(1) not_owner, of Outside]
    by (simp add: begin_op_def with_mgr_def)
  show ?thesis
  proof (cases c)
    case CallRun
    then show ?thesis using begin_op[of Running] by (simp add: locked_step_def)
  next
    case (CallSchedule delay)
    then show ?thesis using begin_op[of "Arming (effective_delay (sy_mgr s) delay)"] by (simp add: locked_step_def)
  next
    case CallCancel
    then show ?thesis using inv_cancel assms(1) not_owner by simp
  next
    case CallRunBlocking
    then show ?thesis
      using inv_pass[OF assms(1) not_owner, of Running]
      by (auto simp: locked_step_def beginBlocking_pass_def split: if_splits)
  next
    case CallRunBlockingContext
    then show ?thesis
      using inv_pass[OF assms(1) not_owner, of Running]
      by (auto simp: locked_step_def beginBlockingContext_pass_def split: if_splits)
  next
    case (CallScheduleBlocking delay)
    then show ?thesis
      using inv_pass[OF assms(1) not_owner, of "Arming (effective_delay (sy_mgr s) delay)"]
      by (auto simp: locked_step_def ScheduleRestartBlocking_pass_def split: if_splits)
  qed
qed

lemma sole_owner:
  assumes "inv s" "own \<in> owners s"
  shows "owners s = {own}" "rm_inFlight (sy_mgr s)"
  using assms by (auto simp: inv_def split: if_splits)

lemma inv_release:
  assumes "inv s" "sy_thread s t = Running"
  shows "inv (broadcast (at_pc t Outside (with_mgr (end_op (sy_mgr s)) s)))"
proof -
  have "owners s = {Goroutine t}"
    using sole_owner[OF assms(1), of "Goroutine t"] assms(2) by (simp add: owners_iff)
  then show ?thesis
    using assms(1) is_armed_owner[of s] by (auto simp: inv_def end_op_def)
qed

lemma inv_arm:
  assumes "inv s" "sy_thread s t = Arming delay"
  shows "inv (at_pc t Outside (set_timer (sy_next s) (Armed delay)
          (with_mgr (armRestartTimer (sy_next s) (sy_mgr s)) (s\<lparr>sy_next := Suc (sy_next s)\<rparr>))))"
proof -
  have own: "owners s = {Goroutine t}" "rm_inFlight (sy_mgr s)"
    using sole_owner[OF assms(1), of "Goroutine t"] assms(2) by (simp_all add: owners_iff)
  moreover have "\<not> is_armed s k" for k
    using is_armed_owner[of s k] own by auto
  ultimately show ?thesis
    using assms(1) by (auto simp: inv_def armRestartTimer_def)
qed

lemma inv_fire:
  assumes "inv s" "sy_timer s k = Armed delay"
  shows "inv (set_timer k Fired s)"
proof -
  have "owners s = {Timer k}" "rm_inFlight (sy_mgr s)"
    using sole_owner[OF assms(1), of "Timer k"] assms(2) by (simp_all add: owners_iff)
  then show ?thesis
    using assms by (auto simp: inv_def)
qed

lemma inv_end_pending:
  assumes "inv s" "sy_timer s k = Fired"
  shows "inv (broadcast (set_timer k Signalling (with_mgr (endPending k (sy_mgr s)) s)))"
proof -
  have own: "owners s = {Timer k}"
    using sole_owner[OF assms(1), of "Timer k"] assms(2) by (simp add: owners_iff)
  have fired: "\<not> is_armed s k" using assms(2) by (simp add: is_armed_def)
  have unarmed: "\<not> is_armed s k'" for k'
  proof
    assume "is_armed s k'"
    then have "k' = k" using is_armed_owner[of s k'] own by simp
    with \<open>is_armed s k'\<close> fired show False by simp
  qed
  have pending: "rm_pendingTimer (endPending k (sy_mgr s)) = None"
    using assms(1) own by (auto simp: inv_def endPending_def)
  have flag: "\<not> rm_inFlight (endPending k (sy_mgr s))"
    by (simp add: endPending_def)
  show ?thesis
    using assms(1) own unarmed pending flag inv_used[OF assms(1), of k] assms(2)
    by (auto simp: inv_def)
qed

lemma inv_signal:
  assumes "inv s" "sy_timer s k = Signalling"
  shows "inv (set_timer k Signalled s)"
proof -
  have "Timer k \<notin> owners s" using assms(2) by (simp add: owners_iff)
  then show ?thesis using assms by (auto simp: inv_def)
qed

lemma inv_step: "step s s' \<Longrightarrow> inv s \<Longrightarrow> inv s'"
proof (induction rule: step.induct)
  case (call s t c)
  then show ?case using inv_stay[of "s\<lparr>sy_cancelled := (sy_cancelled s)(t := False)\<rparr>" t "AtLock c"]
    by (simp add: inv_cancelled)
next
  case (wake_ctx s t)
  then show ?case by (auto simp: inv_def)
next
  case (cancel_ctx s t)
  then show ?case by (simp add: inv_cancelled)
qed (simp_all add: inv_locked inv_release inv_arm inv_fire inv_end_pending inv_signal)

lemma inv_reachable: "reachable delay s \<Longrightarrow> inv s"
  by (induction rule: reachable.induct) (auto simp: inv_initial inv_step)

section \<open>Properties\<close>


lemma reachable_start:
  "reachable d (at_pc t (AtLock c) ((initial d)\<lparr>sy_cancelled := (sy_cancelled (initial d))(t := False)\<rparr>))"
  by (rule next_step[OF init]) (rule step.call, simp add: initial_def)

lemma reachable_running:
  "reachable d (locked_step 0 CallRun (at_pc 0 (AtLock CallRun)
     ((initial d)\<lparr>sy_cancelled := (sy_cancelled (initial d))(0 := False)\<rparr>)))"
  by (rule next_step[OF reachable_start]) (rule step.locked, simp)


text \<open>The steps that take an owner to its release.\<close>

lemma finish_wakes:
  assumes "sy_thread s t = Running"
  shows "\<exists>s'. step\<^sup>*\<^sup>* s s' \<and> \<not> rm_inFlight (sy_mgr s') \<and> (\<forall>u. \<not> asleep s' u)"
  using step.finish[OF assms]
  by (intro exI[of _ "broadcast (at_pc t Outside (with_mgr (end_op (sy_mgr s)) s))"])
     (auto simp: end_op_def)

lemma fired_wakes:
  assumes "sy_timer s k = Fired"
  shows "\<exists>s'. step\<^sup>*\<^sup>* s s' \<and> \<not> rm_inFlight (sy_mgr s') \<and> (\<forall>u. \<not> asleep s' u)"
  using step.end_pending[OF assms]
  by (intro exI[of _ "broadcast (set_timer k Signalling (with_mgr (endPending k (sy_mgr s)) s))"])
     (auto simp: endPending_def Let_def)

lemma armed_wakes:
  assumes "sy_timer s k = Armed d"
  shows "\<exists>s'. step\<^sup>*\<^sup>* s s' \<and> \<not> rm_inFlight (sy_mgr s') \<and> (\<forall>u. \<not> asleep s' u)"
proof -
  have "step s (set_timer k Fired s)" using assms by (rule step.fire)
  moreover obtain s' where "step\<^sup>*\<^sup>* (set_timer k Fired s) s'" "\<not> rm_inFlight (sy_mgr s')" "\<forall>u. \<not> asleep s' u"
    using fired_wakes[of "set_timer k Fired s" k] by auto
  ultimately show ?thesis by (meson converse_rtranclp_into_rtranclp)
qed

lemma arming_wakes:
  assumes "sy_thread s t = Arming d"
  shows "\<exists>s'. step\<^sup>*\<^sup>* s s' \<and> \<not> rm_inFlight (sy_mgr s') \<and> (\<forall>u. \<not> asleep s' u)"
proof -
  let ?s = "at_pc t Outside (set_timer (sy_next s) (Armed d)
          (with_mgr (armRestartTimer (sy_next s) (sy_mgr s)) (s\<lparr>sy_next := Suc (sy_next s)\<rparr>)))"
  have "step s ?s" using assms by (rule step.arm)
  moreover obtain s' where "step\<^sup>*\<^sup>* ?s s'" "\<not> rm_inFlight (sy_mgr s')" "\<forall>u. \<not> asleep s' u"
    using armed_wakes[of ?s "sy_next s" d] by auto
  ultimately show ?thesis by (meson converse_rtranclp_into_rtranclp)
qed

text \<open>C18. Nobody sleeps forever by a lost wake-up: while a goroutine sleeps in \<open>cond.Wait\<close> the
  flag is held by an owner, and the owner can always be run to its release (finishing the
  operation, or arming the timer and letting it fire), which clears the flag and leaves no
  goroutine asleep.\<close>

theorem restart_no_lost_wakeup:
  assumes "reachable delay s" "sy_thread s t = Asleep c"
  shows "(rm_inFlight (sy_mgr s))
    \<and> (\<exists>s'. step\<^sup>*\<^sup>* s s' \<and> \<not> rm_inFlight (sy_mgr s') \<and> (\<forall>u. \<not> asleep s' u))"
proof (rule conjI)
  note i = inv_reachable[OF assms(1)]
  have "asleep s t" using assms(2) by (simp add: asleep_def)
  then show flag: "rm_inFlight (sy_mgr s)"
    using i by (auto simp: inv_def split: if_splits)
  then obtain own where own: "own \<in> owners s"
    using i by (auto simp: inv_def)
  show "\<exists>s'. step\<^sup>*\<^sup>* s s' \<and> \<not> rm_inFlight (sy_mgr s') \<and> (\<forall>u. \<not> asleep s' u)"
  proof (cases own)
    case (Goroutine u)
    then have "owner_pc (sy_thread s u)" using own by (simp add: owners_iff)
    then show ?thesis
      using finish_wakes arming_wakes by (cases "sy_thread s u") auto
  next
    case (Timer k)
    then have "owner_timer (sy_timer s k)" using own by (simp add: owners_iff)
    then show ?thesis
      using armed_wakes fired_wakes by (cases "sy_timer s k") auto
  qed
qed

theorem restart_no_lost_wakeup_witness:
  "\<exists>s. reachable 5 s \<and> sy_thread s 1 = Asleep CallRunBlocking \<and> rm_inFlight (sy_mgr s)"
proof -
  let ?s = "locked_step 0 CallRun (at_pc 0 (AtLock CallRun)
     ((initial 5)\<lparr>sy_cancelled := (sy_cancelled (initial 5))(0 := False)\<rparr>))"
  let ?q = "at_pc 1 (AtLock CallRunBlocking) (?s\<lparr>sy_cancelled := (sy_cancelled ?s)(1 := False)\<rparr>)"
  have s: "rm_inFlight (sy_mgr ?s)" "sy_thread ?s 1 = Outside"
    by (simp_all add: locked_step_def begin_op_def initial_def NewManager_def)
  have "reachable 5 ?q"
    by (rule next_step[OF reachable_running]) (rule step.call[OF s(2)])
  then have r: "reachable 5 (locked_step 1 CallRunBlocking ?q)"
    by (rule next_step) (rule step.locked, simp)
  have a: "sy_thread (locked_step 1 CallRunBlocking ?q) 1 = Asleep CallRunBlocking"
    using s by (subst locked_step_def) (simp add: after_pass_def beginBlocking_pass_def)
  show ?thesis
    using restart_no_lost_wakeup[OF r a] r a by blast
qed

lemma locked_other:
  assumes "t \<noteq> u"
  shows "sy_thread (locked_step u c s) t = sy_thread s t \<or> sy_thread (locked_step u c s) t = wake (sy_thread s t)"
proof -
  have pass: "sy_thread (after_pass u c' own p s) t = sy_thread s t" for c' own p
    using assms by (cases p) (simp_all add: after_pass_def)
  show ?thesis
    using assms by (cases c) (simp_all add: locked_step_def pass split_beta Let_def split: option.split)
qed

text \<open>\<open>ScheduleRestartBlocking\<close> keeps its promise: at the step by which such a call leaves
  the manager, whether it armed a timer itself or found one, a restart timer is pending, and
  that timer is armed or its callback is on the way to the signal.\<close>

theorem schedule_blocking_pending:
  assumes "reachable delay s" "step s s'"
    and "sy_thread s t = AtLock (CallScheduleBlocking d) \<or> sy_thread s t = Arming d"
    and "sy_thread s' t = Outside"
  shows "\<exists>k. rm_pendingTimer (sy_mgr s') = Some k \<and> owner_timer (sy_timer s' k)"
proof -
  have keep: "wake p = Outside \<longleftrightarrow> p = Outside" for p by (cases p) (auto simp: wake_def)
  note i = inv_reachable[OF assms(1)]
  from assms(2) show ?thesis
  proof cases
    case (locked u c)
    show ?thesis
    proof (cases "u = t")
      case True
      then have c: "c = CallScheduleBlocking d" using locked assms(3) by auto
      have p: "ScheduleRestartBlocking_pass (sy_mgr s) = Return"
        using locked assms(4) True c
        by (auto simp: locked_step_def after_pass_def ScheduleRestartBlocking_pass_def split: if_splits)
      then obtain k where "rm_pendingTimer (sy_mgr s) = Some k"
        by (auto simp: ScheduleRestartBlocking_pass_def split: if_splits)
      moreover from this have "owner_timer (sy_timer s k)"
        using i by (auto simp: inv_def owners_iff)
      ultimately show ?thesis
        using locked True c p by (simp add: locked_step_def after_pass_def)
    next
      case False
      then have "sy_thread s' t = sy_thread s t \<or> sy_thread s' t = wake (sy_thread s t)"
        using locked locked_other[of t u] by simp
      then have "sy_thread s t = Outside" using assms(4) keep by metis
      then show ?thesis using assms(3) by auto
    qed
  next
    case (arm u delay')
    then have "rm_pendingTimer (sy_mgr s') = Some (sy_next s)" "sy_timer s' (sy_next s) = Armed delay'"
      by (simp_all add: armRestartTimer_def)
    then show ?thesis by simp
  qed (use assms(3,4) keep in \<open>auto split: if_splits\<close>)
qed

theorem schedule_blocking_pending_witness:
  "\<exists>s' k. step (locked_step 0 (CallScheduleBlocking 3) (at_pc 0 (AtLock (CallScheduleBlocking 3))
       ((initial 5)\<lparr>sy_cancelled := (sy_cancelled (initial 5))(0 := False)\<rparr>))) s'
     \<and> rm_pendingTimer (sy_mgr s') = Some k"
proof -
  let ?start = "at_pc 0 (AtLock (CallScheduleBlocking 3))
       ((initial 5)\<lparr>sy_cancelled := (sy_cancelled (initial 5))(0 := False)\<rparr>)"
  let ?s = "locked_step 0 (CallScheduleBlocking 3) ?start"
  have r: "reachable 5 ?s"
    by (rule next_step[OF reachable_start]) (rule step.locked, simp)
  have pc: "sy_thread ?s 0 = Arming 3"
    by (simp add: locked_step_def after_pass_def ScheduleRestartBlocking_pass_def initial_def
        NewManager_def effective_delay_def)
  let ?s' = "at_pc 0 Outside (set_timer (sy_next ?s) (Armed 3)
          (with_mgr (armRestartTimer (sy_next ?s) (sy_mgr ?s)) (?s\<lparr>sy_next := Suc (sy_next ?s)\<rparr>)))"
  have st: "step ?s ?s'" using pc by (rule step.arm)
  have out: "sy_thread ?s' 0 = Outside" by simp
  have "\<exists>k. rm_pendingTimer (sy_mgr ?s') = Some k \<and> owner_timer (sy_timer ?s' k)"
    using schedule_blocking_pending[OF r st _ out] pc by blast
  with st show ?thesis by blast
qed

end
