(* ===== verification/Paid_Model.thy ===== *)
theory Paid_Model
  imports Go_Strings
begin

text \<open>
  The data of the paid-subscription component
  (\<^verbatim>\<open>src/components/paid-subscriptions/internal/paid/model.go\<close>, the tables and unique indexes of
  \<^verbatim>\<open>schema.go\<close>) and the database it is kept in.  A table is the list of its rows.  Statements
  are functions on the database that may fail: by a violated unique index, or at any point by
  a fault of the storage, which the field \<open>faults\<close> schedules and the theorems quantify over.
  A transaction restores the tables when its body fails.
\<close>

section \<open>Rows\<close>

datatype order_status =
  StatusPending | StatusPaid | StatusFailed | StatusExpired | StatusRefunded
| StatusInvoiceCreating | StatusRecoverable | StatusManualReview | StatusRefundPending
| StatusOther string

datatype provider_kind =
  ProviderStars | ProviderYooKassa | ProviderStripe | ProviderPayMaster | ProviderCryptoBot
| ProviderExternal | ProviderOther string

text \<open>The stored provider payload by what the code reads of it: whether it is empty, and the field
  \<open>ref\<close> of the JSON document (empty if the document has none).\<close>

datatype payload = NoPayload | Saved string

record Tariff =
  ta_Id :: nat
  ta_Name :: string
  ta_Description :: string
  ta_Price :: int
  ta_Currency :: string
  ta_StarsAmount :: int
  ta_AddDays :: int
  ta_AddTrafficBytes :: int
  ta_Sort :: int
  ta_Enabled :: bool
  ta_CreatedAt :: int
  ta_UpdatedAt :: int

record PaymentOrder =
  po_Id :: nat
  po_ClientId :: nat
  po_TariffId :: nat
  po_Provider :: provider_kind
  po_Amount :: int
  po_Currency :: string
  po_Status :: order_status
  po_TelegramUserId :: int
  po_IdempotencyKey :: string
  po_ProviderChargeID :: string
  po_ProviderPayload :: payload
  po_ProviderRef :: string
  po_ReviewReason :: string
  po_LegacyResolved :: bool
  po_RefundRevoke :: bool
  po_RefundClaim :: string
  po_RefundClaimUntil :: int
  po_ExternalURL :: string
  po_CreatedAt :: int
  po_PaidAt :: int
  po_ExpiresAt :: int
  po_GrantAddDays :: int
  po_GrantTraffic :: int
  po_GrantSnapshot :: bool
  po_GrantedUp :: int
  po_GrantedDown :: int

record InvoiceCancellation =
  ic_Id :: nat
  ic_OrderID :: nat
  ic_Ref :: string
  ic_Completed :: bool

record Binding =
  bi_Id :: nat
  bi_ClientId :: nat
  bi_TgUserId :: int
  bi_CreatedAt :: int
  bi_UpdatedAt :: int

text \<open>The columns of a client that the component reads or writes.\<close>

record Client =
  cl_Id :: nat
  cl_Name :: string
  cl_Enable :: bool
  cl_AccessDisableReason :: string
  cl_Inbounds :: "nat list"
  cl_Volume :: int
  cl_Expiry :: int
  cl_Up :: int
  cl_Down :: int
  cl_TotalUp :: int
  cl_TotalDown :: int

record Change =
  ch_DateTime :: int
  ch_Actor :: string
  ch_Action :: string
  ch_Obj :: string

record tables =
  t_orders :: "PaymentOrder list"
  t_clients :: "Client list"
  t_tariffs :: "Tariff list"
  t_bindings :: "Binding list"
  t_cancellations :: "InvoiceCancellation list"
  t_cursors :: "string \<rightharpoonup> nat"
  t_changes :: "Change list"
  t_next_order :: nat
  t_next_binding :: nat
  t_next_cancellation :: nat
  t_next_tariff :: nat

record db =
  db_tables :: tables
  db_faults :: "bool list"

datatype paid_error =
  StorageFault | UniqueViolation | RecordNotFound | OrderAlreadyFinalized | RefundInProgress
| EmptyCharge | GrantInvalid | GrantOverflow | ClaimIdentityMissing | ChargeIdentityInvalid
| EmptyInvoice | CancellationConflict | InvalidData | TariffInvalid string | TariffReferenced | MissingWhere
| PurchaseIdentityMissing | ProviderUnavailable | InvalidTTL | TariffUnavailable | NoPrice
| RandomFailure | NilOrder | RefundNotApplicable | SenderUnavailable | RemoteRefundFailed

section \<open>Unique indexes\<close>

text \<open>\<open>idx_payment_orders_active_purchase\<close>: at most one active CryptoBot order per client, tariff
  and Telegram user.\<close>

definition active_status :: "order_status \<Rightarrow> bool" where
  "active_status s \<longleftrightarrow> s \<in> {StatusPending, StatusInvoiceCreating, StatusRecoverable}"

definition active_purchase :: "PaymentOrder \<Rightarrow> bool" where
  "active_purchase r \<longleftrightarrow> po_Provider r = ProviderCryptoBot \<and> active_status (po_Status r)"

definition purchase_key :: "PaymentOrder \<Rightarrow> nat \<times> nat \<times> int \<times> provider_kind" where
  "purchase_key r = (po_ClientId r, po_TariffId r, po_TelegramUserId r, po_Provider r)"

text \<open>A unique index on \<open>key\<close> over the rows that satisfy its condition.\<close>

definition unique_on :: "('r \<Rightarrow> bool) \<Rightarrow> ('r \<Rightarrow> 'k) \<Rightarrow> 'r list \<Rightarrow> bool" where
  "unique_on cond key rows \<longleftrightarrow> distinct (map key (filter cond rows))"

definition orders_ok :: "PaymentOrder list \<Rightarrow> bool" where
  "orders_ok rows \<longleftrightarrow>
     unique_on (\<lambda>_. True) po_Id rows
     \<and> unique_on (\<lambda>_. True) po_IdempotencyKey rows
     \<and> unique_on (\<lambda>r. po_ProviderChargeID r \<noteq> '''') (\<lambda>r. (po_Provider r, po_ProviderChargeID r)) rows
     \<and> unique_on (\<lambda>r. po_ProviderRef r \<noteq> '''') (\<lambda>r. (po_Provider r, po_ProviderRef r)) rows
     \<and> unique_on active_purchase purchase_key rows"

definition bindings_ok :: "Binding list \<Rightarrow> bool" where
  "bindings_ok rows \<longleftrightarrow>
     unique_on (\<lambda>_. True) bi_Id rows \<and> unique_on (\<lambda>_. True) bi_ClientId rows
     \<and> unique_on (\<lambda>_. True) bi_TgUserId rows"

definition cancellations_ok :: "InvoiceCancellation list \<Rightarrow> bool" where
  "cancellations_ok rows \<longleftrightarrow> unique_on (\<lambda>_. True) ic_Id rows \<and> unique_on (\<lambda>_. True) ic_Ref rows"

definition tables_ok :: "tables \<Rightarrow> bool" where
  "tables_ok t \<longleftrightarrow> orders_ok (t_orders t) \<and> bindings_ok (t_bindings t)
     \<and> cancellations_ok (t_cancellations t) \<and> unique_on (\<lambda>_. True) cl_Id (t_clients t)
     \<and> unique_on (\<lambda>_. True) ta_Id (t_tariffs t)
     \<and> (\<forall>r\<in>set (t_orders t). po_Id r < t_next_order t)
     \<and> (\<forall>r\<in>set (t_bindings t). bi_Id r < t_next_binding t)
     \<and> (\<forall>r\<in>set (t_cancellations t). ic_Id r < t_next_cancellation t)
     \<and> (\<forall>r\<in>set (t_tariffs t). ta_Id r < t_next_tariff t)"

section \<open>Statements and transactions\<close>

type_synonym 'a stmt = "db \<Rightarrow> (paid_error + 'a) \<times> db"

definition ret :: "'a \<Rightarrow> 'a stmt" where
  "ret x d = (Inr x, d)"

definition fail :: "paid_error \<Rightarrow> 'a stmt" where
  "fail e d = (Inl e, d)"

definition andThen :: "'a stmt \<Rightarrow> ('a \<Rightarrow> 'b stmt) \<Rightarrow> 'b stmt" where
  "andThen m f d = (case m d of (Inl e, d') \<Rightarrow> (Inl e, d') | (Inr x, d') \<Rightarrow> f x d')"

text \<open>Running one SQL statement: it fails if a fault is scheduled, else it transforms the tables
  or reports its own error, which leaves them unchanged.\<close>

definition exec :: "(tables \<Rightarrow> paid_error + ('a \<times> tables)) \<Rightarrow> 'a stmt" where
  "exec f d =
     (let d' = d\<lparr>db_faults := tl (db_faults d)\<rparr>
      in if db_faults d \<noteq> [] \<and> hd (db_faults d) then (Inl StorageFault, d')
         else case f (db_tables d) of
           Inl e \<Rightarrow> (Inl e, d')
         | Inr (x, t) \<Rightarrow> (Inr x, d'\<lparr>db_tables := t\<rparr>))"

definition transaction :: "'a stmt \<Rightarrow> 'a stmt" where
  "transaction body d =
     (case body d of
        (Inl e, d') \<Rightarrow> (Inl e, d'\<lparr>db_tables := db_tables d\<rparr>)
      | (Inr x, d') \<Rightarrow> (Inr x, d'))"

text \<open>\<open>UPDATE ... WHERE\<close>: all matching rows; the result is the number of matched rows.\<close>

definition update_orders :: "(PaymentOrder \<Rightarrow> bool) \<Rightarrow> (PaymentOrder \<Rightarrow> PaymentOrder) \<Rightarrow> nat stmt" where
  "update_orders P f = exec (\<lambda>t.
     let rows = map (\<lambda>r. if P r then f r else r) (t_orders t)
     in if orders_ok rows then Inr (length (filter P (t_orders t)), t\<lparr>t_orders := rows\<rparr>)
        else Inl UniqueViolation)"

text \<open>\<open>SELECT ... ORDER BY id LIMIT 1\<close>.\<close>

definition first_order :: "(PaymentOrder \<Rightarrow> bool) \<Rightarrow> PaymentOrder stmt" where
  "first_order P = exec (\<lambda>t.
     case sort_key po_Id (filter P (t_orders t)) of
       [] \<Rightarrow> Inl RecordNotFound
     | r # _ \<Rightarrow> Inr (r, t))"

text \<open>\<open>INSERT ... ON CONFLICT DO NOTHING\<close> of an order with the next id: \<open>None\<close> on a conflict.\<close>

definition insert_order_or_nothing :: "PaymentOrder \<Rightarrow> PaymentOrder option stmt" where
  "insert_order_or_nothing r = exec (\<lambda>t.
     let r' = r\<lparr>po_Id := t_next_order t\<rparr>; rows = t_orders t @ [r']
     in if orders_ok rows then Inr (Some r', t\<lparr>t_orders := rows, t_next_order := Suc (t_next_order t)\<rparr>)
        else Inr (None, t))"

definition insert_order :: "PaymentOrder \<Rightarrow> PaymentOrder stmt" where
  "insert_order r = exec (\<lambda>t.
     let r' = r\<lparr>po_Id := t_next_order t\<rparr>; rows = t_orders t @ [r']
     in if orders_ok rows then Inr (r', t\<lparr>t_orders := rows, t_next_order := Suc (t_next_order t)\<rparr>)
        else Inl UniqueViolation)"

definition first_client :: "nat \<Rightarrow> Client stmt" where
  "first_client i = exec (\<lambda>t.
     case filter (\<lambda>c. cl_Id c = i) (t_clients t) of
       [] \<Rightarrow> Inl RecordNotFound
     | c # _ \<Rightarrow> Inr (c, t))"

definition update_client :: "nat \<Rightarrow> (Client \<Rightarrow> Client) \<Rightarrow> unit stmt" where
  "update_client i f = exec (\<lambda>t.
     Inr ((), t\<lparr>t_clients := map (\<lambda>c. if cl_Id c = i then f c else c) (t_clients t)\<rparr>))"

definition record_change :: "Change \<Rightarrow> unit stmt" where
  "record_change c = exec (\<lambda>t. Inr ((), t\<lparr>t_changes := t_changes t @ [c]\<rparr>))"

section \<open>Reasoning about statements\<close>

text \<open>A statement keeps a property of the tables if it does so whenever it succeeds or fails.\<close>

definition keeps :: "(tables \<Rightarrow> bool) \<Rightarrow> 'a stmt \<Rightarrow> bool" where
  "keeps I m \<longleftrightarrow> (\<forall>d. I (db_tables d) \<longrightarrow> I (db_tables (snd (m d))))"

named_theorems keeps_intros \<open>statements that keep a property of the tables\<close>

lemma keeps_ret [keeps_intros]: "keeps I (ret x)"
  by (simp add: keeps_def ret_def)

lemma keeps_fail [keeps_intros]: "keeps I (fail e)"
  by (simp add: keeps_def fail_def)

lemma keeps_andThen [keeps_intros]: "keeps I m \<Longrightarrow> (\<And>x. keeps I (f x)) \<Longrightarrow> keeps I (andThen m f)"
  by (auto simp: keeps_def andThen_def split: prod.splits sum.splits)

lemma keeps_if [keeps_intros]: "keeps I m \<Longrightarrow> keeps I n \<Longrightarrow> keeps I (if b then m else n)"
  by simp

lemma keeps_transaction [keeps_intros]: "keeps I m \<Longrightarrow> keeps I (transaction m)"
  by (auto simp: keeps_def transaction_def split: prod.splits sum.splits)

lemma keeps_exec:
  assumes "\<And>t x t'. I t \<Longrightarrow> f t = Inr (x, t') \<Longrightarrow> I t'"
  shows "keeps I (exec f)"
  using assms by (auto simp: keeps_def exec_def Let_def split: sum.splits)

text \<open>A failed transaction leaves the tables as they were.\<close>

lemma transaction_error: "transaction m d = (Inl e, d') \<Longrightarrow> db_tables d' = db_tables d"
  by (auto simp: transaction_def split: prod.splits sum.splits)

lemma andThen_Inr:
  "andThen m f d = (Inr y, d') \<longleftrightarrow> (\<exists>x d1. m d = (Inr x, d1) \<and> f x d1 = (Inr y, d'))"
  by (auto simp: andThen_def split: prod.splits sum.splits)

lemma transaction_Inr: "transaction m d = (Inr y, d') \<longleftrightarrow> m d = (Inr y, d')"
  by (auto simp: transaction_def split: prod.splits sum.splits)

lemma exec_Inr:
  "exec f d = (Inr x, d') \<longleftrightarrow>
     \<not> (db_faults d \<noteq> [] \<and> hd (db_faults d))
     \<and> (\<exists>t. f (db_tables d) = Inr (x, t) \<and> d' = d\<lparr>db_faults := tl (db_faults d), db_tables := t\<rparr>)"
  by (auto simp: exec_def Let_def split: sum.splits)

lemma ret_Inr: "ret x d = (Inr y, d') \<longleftrightarrow> y = x \<and> d' = d"
  by (auto simp: ret_def)

lemma fail_Inr: "fail e d = (Inr y, d') \<longleftrightarrow> False"
  by (simp add: fail_def)

lemmas stmt_Inr = andThen_Inr transaction_Inr ret_Inr fail_Inr

end
