(* ===== verification/Paid_Grant.thy ===== *)
theory Paid_Grant
  imports Paid_Model
begin

text \<open>
  Granting a paid order and taking the grant back
  (\<^verbatim>\<open>src/components/paid-subscriptions/internal/paid/grant.go\<close>,
  \<^verbatim>\<open>store/order_grant_store.go\<close> and \<^verbatim>\<open>store/refund_claim_store.go\<close>), with the 64-bit
  arithmetic of expiry, quota and usage.
\<close>

section \<open>What a purchase adds to a client\<close>

definition ClientDisabledQuota :: string where "ClientDisabledQuota = ''QUOTA_EXHAUSTED''"
definition ClientDisabledExpired :: string where "ClientDisabledExpired = ''EXPIRED''"

text \<open>The update maps; a column that is not set is not in the map.\<close>

record client_updates =
  cu_enable :: "bool option"
  cu_reason :: "string option"
  cu_expiry :: "int option"
  cu_volume :: "int option"
  cu_total_up :: "int option"
  cu_total_down :: "int option"
  cu_up :: "int option"
  cu_down :: "int option"

definition no_updates :: client_updates where
  "no_updates = \<lparr>cu_enable = None, cu_reason = None, cu_expiry = None, cu_volume = None,
     cu_total_up = None, cu_total_down = None, cu_up = None, cu_down = None\<rparr>"

definition pick :: "'a option \<Rightarrow> 'a \<Rightarrow> 'a" where
  "pick u old = (case u of None \<Rightarrow> old | Some new \<Rightarrow> new)"

definition apply_updates :: "client_updates \<Rightarrow> Client \<Rightarrow> Client" where
  "apply_updates u c = c\<lparr>
     cl_Enable := pick (cu_enable u) (cl_Enable c),
     cl_AccessDisableReason := pick (cu_reason u) (cl_AccessDisableReason c),
     cl_Expiry := pick (cu_expiry u) (cl_Expiry c),
     cl_Volume := pick (cu_volume u) (cl_Volume c),
     cl_TotalUp := pick (cu_total_up u) (cl_TotalUp c),
     cl_TotalDown := pick (cu_total_down u) (cl_TotalDown c),
     cl_Up := pick (cu_up u) (cl_Up c),
     cl_Down := pick (cu_down u) (cl_Down c)\<rparr>"

definition addNonNegative :: "int \<Rightarrow> int \<Rightarrow> paid_error + int" where
  "addNonNegative l r =
     (if l < 0 \<or> r < 0 \<or> l > int64_max - r then Inl GrantOverflow else Inr (wrap64 (l + r)))"

definition paid_expiry :: "Client \<Rightarrow> int \<Rightarrow> int \<Rightarrow> paid_error + int option" where
  "paid_expiry client addDays now =
     (if addDays > 0 then
        (if addDays > int64_max div 86400 then Inl GrantOverflow
         else
           let base = (if cl_Expiry client < now then now else cl_Expiry client);
               extension = wrap64 (addDays * 86400)
           in if base < 0 \<or> base > int64_max - extension then Inl GrantOverflow
              else Inr (Some (wrap64 (base + extension))))
      else Inr None)"

text \<open>The client's updates, and the usage recorded in the order when traffic is granted.\<close>

definition BuildPaidClientUpdates ::
  "Client \<Rightarrow> Tariff \<Rightarrow> int \<Rightarrow> paid_error + client_updates \<times> (int \<times> int) option" where
  "BuildPaidClientUpdates client tariff now =
     (let blocked = (cl_AccessDisableReason client \<noteq> ''''
            \<and> cl_AccessDisableReason client \<noteq> ClientDisabledQuota
            \<and> cl_AccessDisableReason client \<noteq> ClientDisabledExpired);
          u = no_updates\<lparr>cu_enable := Some (\<not> blocked),
            cu_reason := Some (if blocked then cl_AccessDisableReason client else '''')\<rparr>
      in case paid_expiry client (ta_AddDays tariff) now of
           Inl e \<Rightarrow> Inl e
         | Inr expiry \<Rightarrow>
             let u = u\<lparr>cu_expiry := expiry\<rparr>
             in if ta_AddTrafficBytes tariff > 0 then
                  (case (addNonNegative (cl_Volume client) (ta_AddTrafficBytes tariff),
                         addNonNegative (cl_TotalUp client) (cl_Up client),
                         addNonNegative (cl_TotalDown client) (cl_Down client)) of
                     (Inr volume, Inr totalUp, Inr totalDown) \<Rightarrow>
                       Inr (u\<lparr>cu_volume := Some volume, cu_total_up := Some totalUp,
                              cu_total_down := Some totalDown, cu_up := Some 0, cu_down := Some 0\<rparr>,
                            Some (cl_Up client, cl_Down client))
                   | _ \<Rightarrow> Inl GrantOverflow)
                else Inr (u, None))"

definition BuildRefundClientUpdates ::
  "Client \<Rightarrow> PaymentOrder \<Rightarrow> Tariff \<Rightarrow> int \<Rightarrow> bool \<Rightarrow> client_updates" where
  "BuildRefundClientUpdates client order tariff now restoreLiveUsage =
     (let u = (if ta_AddDays tariff > 0 \<and> cl_Expiry client > 0 then
                 let newExpiry = wrap64 (cl_Expiry client - wrap64 (ta_AddDays tariff * 86400))
                 in no_updates\<lparr>cu_expiry := Some (if newExpiry < now then now else newExpiry)\<rparr>
               else no_updates)
      in if ta_AddTrafficBytes tariff > 0 then
           let newVolume = wrap64 (cl_Volume client - ta_AddTrafficBytes tariff);
               newTotalUp = wrap64 (cl_TotalUp client - po_GrantedUp order);
               newTotalDown = wrap64 (cl_TotalDown client - po_GrantedDown order);
               u = u\<lparr>cu_volume := Some (if newVolume < 0 then 0 else newVolume)\<rparr>;
               u = (if restoreLiveUsage then u\<lparr>cu_up := Some (po_GrantedUp order), cu_down := Some (po_GrantedDown order)\<rparr> else u)
           in u\<lparr>cu_total_up := Some (if newTotalUp < 0 then 0 else newTotalUp),
                cu_total_down := Some (if newTotalDown < 0 then 0 else newTotalDown)\<rparr>
         else u)"

definition empty_tariff :: Tariff where
  "empty_tariff = \<lparr>ta_Id = 0, ta_Name = '''', ta_Description = '''', ta_Price = 0, ta_Currency = '''',
     ta_StarsAmount = 0, ta_AddDays = 0, ta_AddTrafficBytes = 0, ta_Sort = 0, ta_Enabled = False,
     ta_CreatedAt = 0, ta_UpdatedAt = 0\<rparr>"

definition grantForOrder :: "PaymentOrder \<Rightarrow> paid_error + Tariff" where
  "grantForOrder order =
     (if po_GrantSnapshot order then
        (if po_Amount order \<le> 0 \<or> po_GrantAddDays order < 0 \<or> po_GrantAddDays order > int64_max div 86400
            \<or> po_GrantTraffic order < 0
         then Inl GrantInvalid
         else Inr (empty_tariff\<lparr>ta_AddDays := po_GrantAddDays order, ta_AddTrafficBytes := po_GrantTraffic order\<rparr>))
      else Inl GrantInvalid)"

definition ValidateOrderGrant :: "PaymentOrder \<Rightarrow> paid_error option" where
  "ValidateOrderGrant order = (case grantForOrder order of Inl e \<Rightarrow> Some e | Inr g \<Rightarrow> None)"

definition lift_result :: "paid_error + 'a \<Rightarrow> 'a stmt" where
  "lift_result r = (case r of Inl e \<Rightarrow> fail e | Inr x \<Rightarrow> ret x)"

section \<open>Applying a payment\<close>

record AppliedOrderResult =
  ar_Applied :: bool
  ar_TelegramUserID :: int
  ar_InboundIDs :: "nat list"

definition not_applied :: AppliedOrderResult where
  "not_applied = \<lparr>ar_Applied = False, ar_TelegramUserID = 0, ar_InboundIDs = []\<rparr>"

text \<open>The two \<open>CASE\<close> expressions of the client update, evaluated on the stored row.\<close>

definition renew_access :: "Client \<Rightarrow> Client" where
  "renew_access c = c\<lparr>
     cl_Enable := (cl_AccessDisableReason c = ''''
       \<or> cl_AccessDisableReason c \<in> {ClientDisabledQuota, ClientDisabledExpired}),
     cl_AccessDisableReason :=
       (if cl_AccessDisableReason c \<in> {ClientDisabledQuota, ClientDisabledExpired} then ''''
        else cl_AccessDisableReason c)\<rparr>"

definition apply_grant :: "client_updates \<Rightarrow> Client \<Rightarrow> Client" where
  "apply_grant u c = renew_access (apply_updates (u\<lparr>cu_enable := None, cu_reason := None\<rparr>) c)"

definition set_granted :: "int \<times> int \<Rightarrow> PaymentOrder \<Rightarrow> PaymentOrder" where
  "set_granted ud r = r\<lparr>po_GrantedUp := fst ud, po_GrantedDown := snd ud\<rparr>"

definition update_granted :: "nat \<Rightarrow> (int \<times> int) option \<Rightarrow> unit stmt" where
  "update_granted orderID usage =
     (case usage of
        None \<Rightarrow> ret ()
      | Some ud \<Rightarrow> andThen (update_orders (\<lambda>r. po_Id r = orderID) (set_granted ud)) (\<lambda>n. ret ()))"

definition ApplyPaidOrderGrant :: "nat \<Rightarrow> string \<Rightarrow> int \<Rightarrow> string \<Rightarrow> AppliedOrderResult stmt" where
  "ApplyPaidOrderGrant orderID chargeID now actor =
     (if chargeID = '''' then fail EmptyCharge
      else transaction (
        andThen (update_orders (\<lambda>r. po_Id r = orderID \<and> po_Status r = StatusPending)
                   (\<lambda>r. r\<lparr>po_Status := StatusPaid, po_PaidAt := now, po_ProviderChargeID := chargeID\<rparr>))
        (\<lambda>affected. if affected \<noteq> 1 then fail OrderAlreadyFinalized else
        andThen (first_order (\<lambda>r. po_Id r = orderID)) (\<lambda>order.
        andThen (lift_result (grantForOrder order)) (\<lambda>grant.
        andThen (first_client (po_ClientId order)) (\<lambda>client.
        andThen (lift_result (BuildPaidClientUpdates client grant now)) (\<lambda>(updates, orderUpdates).
        andThen (update_granted orderID orderUpdates) (\<lambda>_.
        andThen (update_client (cl_Id client) (apply_grant updates)) (\<lambda>_.
        andThen (record_change \<lparr>ch_DateTime = now, ch_Actor = actor, ch_Action = ''renew'', ch_Obj = cl_Name client\<rparr>)
        (\<lambda>_. ret \<lparr>ar_Applied = True, ar_TelegramUserID = po_TelegramUserId order,
                  ar_InboundIDs = cl_Inbounds client\<rparr>))))))))))"

section \<open>Refunds\<close>

text \<open>The count of later traffic orders of the client that are still paid.\<close>

definition newer_traffic_orders :: "PaymentOrder \<Rightarrow> nat stmt" where
  "newer_traffic_orders order = exec (\<lambda>t.
     Inr (length (filter (\<lambda>r. po_ClientId r = po_ClientId order \<and> po_Id r > po_Id order
        \<and> po_Status r \<in> {StatusPaid, StatusRefundPending} \<and> po_GrantSnapshot r \<and> po_GrantTraffic r > 0)
        (t_orders t)), t))"

definition revoke_grant :: "PaymentOrder \<Rightarrow> int \<Rightarrow> string \<Rightarrow> nat list stmt" where
  "revoke_grant order now actor =
     andThen (lift_result (grantForOrder order)) (\<lambda>grant.
     andThen (first_client (po_ClientId order)) (\<lambda>client.
     andThen (if ta_AddTrafficBytes grant > 0
              then andThen (newer_traffic_orders order) (\<lambda>n. ret (n = 0)) else ret True) (\<lambda>restoreLiveUsage.
     let updates = BuildRefundClientUpdates client order grant now restoreLiveUsage
     in if updates = no_updates then ret []
        else andThen (update_client (cl_Id client) (apply_updates updates)) (\<lambda>_.
             andThen (record_change \<lparr>ch_DateTime = now, ch_Actor = actor, ch_Action = ''refund'', ch_Obj = cl_Name client\<rparr>)
             (\<lambda>_. ret (cl_Inbounds client))))))"

definition finalizeRefundGrant ::
  "nat \<Rightarrow> order_status \<Rightarrow> string \<Rightarrow> bool \<Rightarrow> int \<Rightarrow> string \<Rightarrow> nat list stmt" where
  "finalizeRefundGrant orderID status token revoke now actor =
     transaction (
       andThen (update_orders
           (\<lambda>r. po_Id r = orderID \<and> po_Status r = status \<and> (token \<noteq> '''' \<longrightarrow> po_RefundClaim r = token))
           (\<lambda>r. r\<lparr>po_Status := StatusRefunded, po_RefundClaim := '''', po_RefundClaimUntil := 0\<rparr>))
       (\<lambda>affected. if affected \<noteq> 1 then fail OrderAlreadyFinalized else
       andThen (first_order (\<lambda>r. po_Id r = orderID)) (\<lambda>order.
       if \<not> (if token \<noteq> '''' then po_RefundRevoke order else revoke)
       then andThen (lift_result (grantForOrder order)) (\<lambda>_. ret [])
       else revoke_grant order now actor)))"

definition FinalizeRefundGrant :: "nat \<Rightarrow> bool \<Rightarrow> int \<Rightarrow> string \<Rightarrow> nat list stmt" where
  "FinalizeRefundGrant orderID revoke now actor = finalizeRefundGrant orderID StatusPaid '''' revoke now actor"

definition FinalizeClaimedRefundGrant :: "nat \<Rightarrow> string \<Rightarrow> int \<Rightarrow> string \<Rightarrow> nat list stmt" where
  "FinalizeClaimedRefundGrant orderID token now actor =
     (if token = '''' then fail RefundInProgress
      else finalizeRefundGrant orderID StatusRefundPending token False now actor)"

definition refundClaimSeconds :: int where
  "refundClaimSeconds = 120"

definition charge_identity_ok :: "PaymentOrder \<Rightarrow> bool" where
  "charge_identity_ok order \<longleftrightarrow>
     po_Currency order = ''XTR'' \<and> po_TelegramUserId order > 0
     \<and> HasPrefix (po_ProviderChargeID order) ''tg:'' \<and> TrimPrefix (po_ProviderChargeID order) ''tg:'' \<noteq> ''''"

definition ClaimStarsRefund :: "nat \<Rightarrow> bool \<Rightarrow> string \<Rightarrow> int \<Rightarrow> PaymentOrder stmt" where
  "ClaimStarsRefund i revoke token now =
     (if token = '''' then fail ClaimIdentityMissing
      else transaction (
        andThen (update_orders
            (\<lambda>r. po_Id r = i \<and> po_Status r = StatusPaid \<and> po_Provider r = ProviderStars)
            (\<lambda>r. r\<lparr>po_Status := StatusRefundPending, po_RefundRevoke := revoke, po_RefundClaim := token,
                   po_RefundClaimUntil := wrap64 (now + refundClaimSeconds)\<rparr>))
        (\<lambda>affected.
        andThen (if affected = 0 then
            andThen (update_orders
              (\<lambda>r. po_Id r = i \<and> po_Status r = StatusRefundPending \<and> po_Provider r = ProviderStars
                   \<and> po_RefundClaimUntil r \<le> now)
              (\<lambda>r. r\<lparr>po_RefundClaim := token, po_RefundClaimUntil := wrap64 (now + refundClaimSeconds)\<rparr>))
            (\<lambda>n. if n = 0 then fail RefundInProgress else ret ())
          else ret ())
        (\<lambda>_.
        andThen (first_order (\<lambda>r. po_Id r = i)) (\<lambda>order.
        case ValidateOrderGrant order of
          Some e \<Rightarrow> fail e
        | None \<Rightarrow> if charge_identity_ok order then ret order else fail ChargeIdentityInvalid)))))"

definition ReleaseRefundClaim :: "nat \<Rightarrow> string \<Rightarrow> unit stmt" where
  "ReleaseRefundClaim i token =
     andThen (update_orders
       (\<lambda>r. po_Id r = i \<and> po_Status r = StatusRefundPending \<and> po_RefundClaim r = token)
       (\<lambda>r. r\<lparr>po_RefundClaim := '''', po_RefundClaimUntil := 0\<rparr>)) (\<lambda>n. ret ())"

section \<open>What a grant does to a client\<close>

lemma addNonNegative_Inr: "addNonNegative l r = Inr s \<longleftrightarrow> 0 \<le> l \<and> 0 \<le> r \<and> l + r \<le> int64_max \<and> s = l + r"
proof -
  have "in_int64 (l + r)" if "0 \<le> l" "0 \<le> r" "l \<le> int64_max - r"
    using that by (simp add: in_int64_def int64_min_def)
  then show ?thesis by (auto simp: addNonNegative_def wrap64_id not_less)
qed

lemma paid_expiry_Inr:
  assumes "paid_expiry c days now = Inr e"
  shows "e = (if days > 0 then Some (max (cl_Expiry c) now + days * 86400) else None)"
    and "days > 0 \<Longrightarrow> 0 \<le> max (cl_Expiry c) now \<and> max (cl_Expiry c) now + days * 86400 \<le> int64_max"
proof -
  define b where "b = max (cl_Expiry c) now"
  have base: "(if cl_Expiry c < now then now else cl_Expiry c) = b" by (simp add: b_def)
  have r: "e = Some (b + days * 86400)" "0 \<le> b \<and> b + days * 86400 \<le> int64_max" if "days > 0"
  proof -
    have d: "\<not> days > int64_max div 86400"
      using assms that by (simp add: paid_expiry_def split: if_splits)
    then have ext: "wrap64 (days * 86400) = days * 86400"
      using that by (intro wrap64_id) (simp add: in_int64_def int64_max_def int64_min_def)
    have g: "(if b < 0 \<or> b > int64_max - days * 86400 then Inl GrantOverflow
          else Inr (Some (wrap64 (b + days * 86400)))) = Inr e"
      using assms that d by (simp add: paid_expiry_def base ext Let_def)
    then have c: "\<not> (b < 0 \<or> b > int64_max - days * 86400)" by (auto split: if_splits)
    then show "0 \<le> b \<and> b + days * 86400 \<le> int64_max" by simp
    have "wrap64 (b + days * 86400) = b + days * 86400"
      using c that by (intro wrap64_id) (simp add: in_int64_def int64_min_def)
    then show "e = Some (b + days * 86400)" using g c by simp
  qed
  show "e = (if days > 0 then Some (max (cl_Expiry c) now + days * 86400) else None)"
    using r(1) assms unfolding b_def by (auto simp: paid_expiry_def)
  show "0 \<le> max (cl_Expiry c) now \<and> max (cl_Expiry c) now + days * 86400 \<le> int64_max" if "days > 0"
    using r(2)[OF that] unfolding b_def .
qed

text \<open>The client after a grant, as arithmetic on the integers.\<close>

definition granted_client :: "Tariff \<Rightarrow> int \<Rightarrow> Client \<Rightarrow> Client" where
  "granted_client g now c = renew_access (
     let e = (if ta_AddDays g > 0 then max (cl_Expiry c) now + ta_AddDays g * 86400 else cl_Expiry c)
     in if ta_AddTrafficBytes g > 0
        then c\<lparr>cl_Expiry := e, cl_Volume := cl_Volume c + ta_AddTrafficBytes g,
               cl_TotalUp := cl_TotalUp c + cl_Up c, cl_TotalDown := cl_TotalDown c + cl_Down c,
               cl_Up := 0, cl_Down := 0\<rparr>
        else c\<lparr>cl_Expiry := e\<rparr>)"

definition grant_in_range :: "Tariff \<Rightarrow> int \<Rightarrow> Client \<Rightarrow> bool" where
  "grant_in_range g now c \<longleftrightarrow>
     (ta_AddDays g > 0 \<longrightarrow> 0 \<le> max (cl_Expiry c) now
          \<and> max (cl_Expiry c) now + ta_AddDays g * 86400 \<le> int64_max)
     \<and> (ta_AddTrafficBytes g > 0 \<longrightarrow> cl_Volume c + ta_AddTrafficBytes g \<le> int64_max
          \<and> cl_TotalUp c + cl_Up c \<le> int64_max \<and> cl_TotalDown c + cl_Down c \<le> int64_max
          \<and> 0 \<le> cl_Volume c \<and> 0 \<le> cl_Up c \<and> 0 \<le> cl_Down c \<and> 0 \<le> cl_TotalUp c \<and> 0 \<le> cl_TotalDown c)"

text \<open>The updates a successful computation returns.\<close>

lemma BuildPaidClientUpdates_Inr:
  assumes "BuildPaidClientUpdates c g now = Inr (u, usage)"
  shows "paid_expiry c (ta_AddDays g) now = Inr (cu_expiry u)"
    and "ta_AddTrafficBytes g > 0 \<Longrightarrow>
      addNonNegative (cl_Volume c) (ta_AddTrafficBytes g) = Inr (the (cu_volume u))
      \<and> addNonNegative (cl_TotalUp c) (cl_Up c) = Inr (the (cu_total_up u))
      \<and> addNonNegative (cl_TotalDown c) (cl_Down c) = Inr (the (cu_total_down u))
      \<and> cu_volume u \<noteq> None \<and> cu_total_up u \<noteq> None \<and> cu_total_down u \<noteq> None
      \<and> cu_up u = Some 0 \<and> cu_down u = Some 0 \<and> usage = Some (cl_Up c, cl_Down c)"
    and "\<not> ta_AddTrafficBytes g > 0 \<Longrightarrow>
      cu_volume u = None \<and> cu_total_up u = None \<and> cu_total_down u = None \<and> cu_up u = None
      \<and> cu_down u = None \<and> usage = None"
  using assms
  by (auto simp: BuildPaidClientUpdates_def Let_def no_updates_def split: sum.splits if_splits)

lemma grant_effect:
  assumes b: "BuildPaidClientUpdates c g now = Inr (u, usage)"
  shows "apply_grant u c = granted_client g now c" and "grant_in_range g now c"
    and "usage = (if ta_AddTrafficBytes g > 0 then Some (cl_Up c, cl_Down c) else None)"
proof -
  note ex = paid_expiry_Inr[OF BuildPaidClientUpdates_Inr(1)[OF b]]
  note yes = BuildPaidClientUpdates_Inr(2)[OF b, unfolded addNonNegative_Inr]
  note no = BuildPaidClientUpdates_Inr(3)[OF b]
  show "usage = (if ta_AddTrafficBytes g > 0 then Some (cl_Up c, cl_Down c) else None)"
    using yes no by simp
  show "grant_in_range g now c"
    using yes ex(2) by (simp add: grant_in_range_def)
  show "apply_grant u c = granted_client g now c"
  proof (cases "ta_AddTrafficBytes g > 0")
    case True
    then have "cu_volume u = Some (cl_Volume c + ta_AddTrafficBytes g)"
      "cu_total_up u = Some (cl_TotalUp c + cl_Up c)" "cu_total_down u = Some (cl_TotalDown c + cl_Down c)"
      "cu_up u = Some 0" "cu_down u = Some 0"
      using yes by (metis option.collapse)+
    then show ?thesis using True ex(1)
      by (simp add: apply_grant_def granted_client_def apply_updates_def pick_def Let_def)
  next
    case False
    then show ?thesis using no ex(1)
      by (simp add: apply_grant_def granted_client_def apply_updates_def pick_def Let_def)
  qed
qed

section \<open>Successful statements\<close>

lemma update_orders_Inr:
  assumes "update_orders P f d = (Inr n, d')"
  shows "db_tables d' = (db_tables d)\<lparr>t_orders := map (\<lambda>r. if P r then f r else r) (t_orders (db_tables d))\<rparr>"
    and "orders_ok (t_orders (db_tables d'))" and "n = length (filter P (t_orders (db_tables d)))"
  using assms by (auto simp: update_orders_def exec_Inr Let_def split: if_splits)

lemma update_none: "(\<And>r. r \<in> set rows \<Longrightarrow> \<not> P r) \<Longrightarrow> map (\<lambda>r. if P r then f r else r) rows = rows"
  by (induction rows) auto

lemma update_orders_zero:
  assumes "update_orders P f d = (Inr 0, d')"
  shows "db_tables d' = db_tables d"
proof -
  have "\<not> P r" if "r \<in> set (t_orders (db_tables d))" for r
    using update_orders_Inr(3)[OF assms] that by (auto simp: filter_empty_conv)
  then show ?thesis using update_orders_Inr(1)[OF assms] update_none[of "t_orders (db_tables d)" P f] by simp
qed

lemma first_order_Inr:
  assumes "first_order P d = (Inr r, d')"
  shows "r \<in> set (t_orders (db_tables d))" "P r" "db_tables d' = db_tables d"
proof -
  obtain rs where s: "sort_key po_Id (filter P (t_orders (db_tables d))) = r # rs"
    and "db_tables d' = db_tables d"
    using assms by (auto simp: first_order_def exec_Inr split: list.splits)
  then show "db_tables d' = db_tables d" by simp
  have "r \<in> set (sort_key po_Id (filter P (t_orders (db_tables d))))" by (simp only: s) simp
  then show "r \<in> set (t_orders (db_tables d))" "P r" by auto
qed

lemma first_client_Inr:
  assumes "first_client i d = (Inr c, d')"
  shows "c \<in> set (t_clients (db_tables d))" "cl_Id c = i" "db_tables d' = db_tables d"
proof -
  obtain cs where s: "filter (\<lambda>c. cl_Id c = i) (t_clients (db_tables d)) = c # cs"
    and "db_tables d' = db_tables d"
    using assms by (auto simp: first_client_def exec_Inr split: list.splits)
  then show "db_tables d' = db_tables d" by simp
  have "c \<in> set (filter (\<lambda>c. cl_Id c = i) (t_clients (db_tables d)))" by (simp only: s) simp
  then show "c \<in> set (t_clients (db_tables d))" "cl_Id c = i" by auto
qed

lemma update_client_Inr:
  assumes "update_client i f d = (Inr x, d')"
  shows "db_tables d' = (db_tables d)\<lparr>t_clients := map (\<lambda>c. if cl_Id c = i then f c else c) (t_clients (db_tables d))\<rparr>"
  using assms by (auto simp: update_client_def exec_Inr)

lemma record_change_Inr:
  assumes "record_change c d = (Inr x, d')"
  shows "db_tables d' = (db_tables d)\<lparr>t_changes := t_changes (db_tables d) @ [c]\<rparr>"
  using assms by (auto simp: record_change_def exec_Inr)

lemma lift_result_Inr: "lift_result r d = (Inr x, d') \<longleftrightarrow> r = Inr x \<and> d' = d"
  by (auto simp: lift_result_def ret_def fail_def split: sum.splits)

lemma update_granted_Inr:
  assumes "update_granted i usage d = (Inr x, d')"
  shows "db_tables d' = (db_tables d)\<lparr>t_orders := map (\<lambda>r. if po_Id r = i \<and> usage \<noteq> None
      then set_granted (the usage) r else r) (t_orders (db_tables d))\<rparr>"
proof (cases usage)
  case None
  then show ?thesis using assms by (simp add: update_granted_def ret_Inr)
next
  case (Some ud)
  then obtain n d1 where "update_orders (\<lambda>r. po_Id r = i) (set_granted ud) d = (Inr n, d1)" "d' = d1"
    using assms by (auto simp: update_granted_def andThen_Inr ret_Inr)
  then show ?thesis using update_orders_Inr(1) Some by fastforce
qed

text \<open>The order after its grant.\<close>

definition granted_order :: "Tariff \<Rightarrow> string \<Rightarrow> int \<Rightarrow> Client \<Rightarrow> PaymentOrder \<Rightarrow> PaymentOrder" where
  "granted_order g chargeID now c r =
     (let p = r\<lparr>po_Status := StatusPaid, po_PaidAt := now, po_ProviderChargeID := chargeID\<rparr>
      in if ta_AddTrafficBytes g > 0 then p\<lparr>po_GrantedUp := cl_Up c, po_GrantedDown := cl_Down c\<rparr> else p)"

lemma unique_onD: "unique_on (\<lambda>_. True) key rows \<Longrightarrow> x \<in> set rows \<Longrightarrow> y \<in> set rows \<Longrightarrow> key x = key y \<Longrightarrow> x = y"
  unfolding unique_on_def by (auto simp: distinct_map inj_on_def)

text \<open>A conditional update of one row, read back by its id.\<close>

lemma update_then_first:
  assumes ok: "tables_ok (db_tables d)" and u: "update_orders P f d = (Inr n, d1)" and n: "n \<noteq> 0"
    and s: "first_order (\<lambda>r. po_Id r = i) d1 = (Inr ord, d2)"
    and P: "\<And>r. P r \<Longrightarrow> po_Id r = i" and f: "\<And>r. po_Id (f r) = po_Id r"
  shows "\<exists>r\<in>set (t_orders (db_tables d)). P r \<and> ord = f r \<and> (\<forall>q\<in>set (t_orders (db_tables d)). po_Id q = i \<longrightarrow> q = r)"
proof -
  let ?rows = "t_orders (db_tables d)"
  have "filter P ?rows \<noteq> []" using update_orders_Inr(3)[OF u] n by auto
  then obtain r where r: "r \<in> set ?rows" "P r" by (auto simp: filter_empty_conv)
  have only: "q = r" if "q \<in> set ?rows" "po_Id q = i" for q
    using unique_onD[of po_Id ?rows q r] that r P ok by (simp add: tables_ok_def orders_ok_def)
  have "ord \<in> (\<lambda>r. if P r then f r else r) ` set ?rows"
    using first_order_Inr(1)[OF s] by (simp add: update_orders_Inr(1)[OF u])
  then obtain q where q: "q \<in> set ?rows" "ord = (if P q then f q else q)" by (elim imageE)
  have "po_Id q = i" using first_order_Inr(2)[OF s] q(2) f by (simp split: if_splits)
  then have "ord = f r" using only[OF q(1)] q(2) r by simp
  then show ?thesis using r only by blast
qed

text \<open>What a successful grant did, all of it.\<close>

lemma ApplyPaidOrderGrant_Inr:
  assumes ok: "tables_ok (db_tables d)" and a: "ApplyPaidOrderGrant i chargeID now actor d = (Inr res, d')"
  obtains r c g where "chargeID \<noteq> ''''" "r \<in> set (t_orders (db_tables d))" "po_Id r = i" "po_Status r = StatusPending"
    "c \<in> set (t_clients (db_tables d))" "cl_Id c = po_ClientId r" "grantForOrder r = Inr g" "grant_in_range g now c"
    "res = \<lparr>ar_Applied = True, ar_TelegramUserID = po_TelegramUserId r, ar_InboundIDs = cl_Inbounds c\<rparr>"
    "db_tables d' = (db_tables d)\<lparr>
       t_orders := map (\<lambda>q. if po_Id q = i then granted_order g chargeID now c q else q) (t_orders (db_tables d)),
       t_clients := map (\<lambda>x. if cl_Id x = cl_Id c then granted_client g now x else x) (t_clients (db_tables d)),
       t_changes := t_changes (db_tables d) @ [\<lparr>ch_DateTime = now, ch_Actor = actor, ch_Action = ''renew'', ch_Obj = cl_Name c\<rparr>]\<rparr>"
proof -
  let ?pay = "\<lambda>r. r\<lparr>po_Status := StatusPaid, po_PaidAt := now, po_ProviderChargeID := chargeID\<rparr>"
  let ?P = "\<lambda>r. po_Id r = i \<and> po_Status r = StatusPending"
  let ?T = "db_tables d"
  from a obtain n d1 ord d2 g c d3 u usage d4 d5 where ch: "chargeID \<noteq> ''''"
    and s1: "update_orders ?P ?pay d = (Inr n, d1)" and n: "n = 1"
    and s2: "first_order (\<lambda>r. po_Id r = i) d1 = (Inr ord, d2)"
    and g: "grantForOrder ord = Inr g"
    and s3: "first_client (po_ClientId ord) d2 = (Inr c, d3)"
    and b: "BuildPaidClientUpdates c g now = Inr (u, usage)"
    and s4: "update_granted i usage d3 = (Inr (), d4)"
    and s5: "update_client (cl_Id c) (apply_grant u) d4 = (Inr (), d5)"
    and s6: "record_change \<lparr>ch_DateTime = now, ch_Actor = actor, ch_Action = ''renew'', ch_Obj = cl_Name c\<rparr> d5 = (Inr (), d')"
    and res: "res = \<lparr>ar_Applied = True, ar_TelegramUserID = po_TelegramUserId ord, ar_InboundIDs = cl_Inbounds c\<rparr>"
    unfolding ApplyPaidOrderGrant_def
    by (auto simp: stmt_Inr lift_result_Inr split: if_splits)
  have uid: "unique_on (\<lambda>_. True) po_Id (t_orders ?T)" and uc: "unique_on (\<lambda>_. True) cl_Id (t_clients ?T)"
    using ok by (simp_all add: tables_ok_def orders_ok_def)
  note t1 = update_orders_Inr(1)[OF s1]
  have n0: "n \<noteq> 0" using n by simp
  have "\<exists>r\<in>set (t_orders ?T). ?P r \<and> ord = ?pay r \<and> (\<forall>q\<in>set (t_orders ?T). po_Id q = i \<longrightarrow> q = r)"
    by (rule update_then_first[OF ok s1 n0 s2]) simp_all
  then obtain r where r: "r \<in> set (t_orders ?T)" "po_Id r = i" "po_Status r = StatusPending" and ord: "ord = ?pay r"
    and only: "\<forall>q\<in>set (t_orders ?T). po_Id q = i \<longrightarrow> q = r" by blast
  have t3: "db_tables d3 = db_tables d1" using first_order_Inr(3)[OF s2] first_client_Inr(3)[OF s3] by simp
  have c: "c \<in> set (t_clients ?T)" "cl_Id c = po_ClientId r"
    using first_client_Inr[OF s3] first_order_Inr(3)[OF s2] by (simp_all add: t1 ord)
  note eff = grant_effect[OF b]
  have cs: "map (\<lambda>x. if cl_Id x = cl_Id c then apply_grant u x else x) (t_clients ?T)
      = map (\<lambda>x. if cl_Id x = cl_Id c then granted_client g now x else x) (t_clients ?T)"
    using unique_onD[OF uc _ c(1)] eff(1) by (intro map_cong) auto
  have os: "map (\<lambda>r. if po_Id r = i \<and> usage \<noteq> None then set_granted (the usage) r else r)
       (map (\<lambda>r. if ?P r then ?pay r else r) (t_orders ?T))
      = map (\<lambda>q. if po_Id q = i then granted_order g chargeID now c q else q) (t_orders ?T)"
    using only r(3) by (auto simp: eff(3) granted_order_def set_granted_def Let_def)
  have "db_tables d' = ?T\<lparr>t_orders := map (\<lambda>q. if po_Id q = i then granted_order g chargeID now c q else q) (t_orders ?T),
       t_clients := map (\<lambda>x. if cl_Id x = cl_Id c then granted_client g now x else x) (t_clients ?T),
       t_changes := t_changes ?T @ [\<lparr>ch_DateTime = now, ch_Actor = actor, ch_Action = ''renew'', ch_Obj = cl_Name c\<rparr>]\<rparr>"
    using record_change_Inr[OF s6] update_client_Inr[OF s5] update_granted_Inr[OF s4]
    by (simp add: t3 t1 cs os del: map_map not_None_eq)
  moreover have "grantForOrder r = Inr g" using g by (simp add: ord grantForOrder_def cong: if_cong)
  ultimately show ?thesis using that[OF ch r c] eff(2) res by (simp add: ord)
qed

end
