(* ===== verification/Paid_Orders.thy ===== *)
theory Paid_Orders
  imports Paid_Grant
begin

text \<open>
  The life of an order (\<^verbatim>\<open>src/components/paid-subscriptions/internal/paid/store\<close>:
  \<^verbatim>\<open>order_store.go\<close>, \<^verbatim>\<open>provider_work_store.go\<close>, \<^verbatim>\<open>bindings.go\<close>, \<^verbatim>\<open>tariff_store.go\<close>) and the
  coordinator above it (\<^verbatim>\<open>telegram/payment.go\<close>): creation, invoices, recovery of uncertain
  invoices, cancellation of their siblings, expiry, refunds.  The remote payment provider is
  an input: the invoice it returned, the candidates it listed, whether it confirmed a refund.
\<close>

section \<open>Creating orders and invoices\<close>

definition NewPendingOrder ::
  "Client \<Rightarrow> Tariff \<Rightarrow> provider_kind \<Rightarrow> int \<Rightarrow> string \<Rightarrow> int \<Rightarrow> string \<Rightarrow> int \<Rightarrow> int \<Rightarrow> PaymentOrder" where
  "NewPendingOrder client tariff kind amount currency tgUserID idempotencyKey now ttlMinutes =
     \<lparr>po_Id = 0, po_ClientId = cl_Id client, po_TariffId = ta_Id tariff, po_Provider = kind,
      po_Amount = amount, po_Currency = currency, po_Status = StatusPending,
      po_TelegramUserId = tgUserID, po_IdempotencyKey = idempotencyKey, po_ProviderChargeID = '''',
      po_ProviderPayload = NoPayload, po_ProviderRef = '''', po_ReviewReason = '''',
      po_LegacyResolved = False, po_RefundRevoke = False, po_RefundClaim = '''', po_RefundClaimUntil = 0,
      po_ExternalURL = '''', po_CreatedAt = now, po_PaidAt = 0,
      po_ExpiresAt = wrap64 (now + wrap64 (ttlMinutes * 60)),
      po_GrantAddDays = ta_AddDays tariff, po_GrantTraffic = ta_AddTrafficBytes tariff,
      po_GrantSnapshot = True, po_GrantedUp = 0, po_GrantedDown = 0\<rparr>"

definition same_purchase :: "PaymentOrder \<Rightarrow> PaymentOrder \<Rightarrow> bool" where
  "same_purchase order r \<longleftrightarrow> po_ClientId r = po_ClientId order \<and> po_TariffId r = po_TariffId order
     \<and> po_TelegramUserId r = po_TelegramUserId order \<and> po_Provider r = po_Provider order"

definition ActiveCryptoBotOrder :: "nat \<Rightarrow> nat \<Rightarrow> int \<Rightarrow> PaymentOrder option stmt" where
  "ActiveCryptoBotOrder clientID tariffID tgID = exec (\<lambda>t.
     Inr (case sort_key po_Id (filter (\<lambda>r. po_ClientId r = clientID \<and> po_TariffId r = tariffID
              \<and> po_TelegramUserId r = tgID \<and> po_Provider r = ProviderCryptoBot
              \<and> po_Status r \<in> {StatusPending, StatusInvoiceCreating, StatusRecoverable, StatusManualReview})
            (t_orders t)) of
          [] \<Rightarrow> None
        | r # _ \<Rightarrow> Some r, t))"

definition CreateInvoiceIntent :: "PaymentOrder \<Rightarrow> (PaymentOrder option \<times> bool) stmt" where
  "CreateInvoiceIntent order0 =
     (let order = order0\<lparr>po_Status := StatusInvoiceCreating\<rparr>
      in transaction (
        andThen (update_orders (\<lambda>r. same_purchase order r \<and> po_Status r = StatusManualReview)
                   (\<lambda>r. r\<lparr>po_Status := StatusManualReview\<rparr>))
        (\<lambda>held. if held > 0
           then andThen (ActiveCryptoBotOrder (po_ClientId order) (po_TariffId order) (po_TelegramUserId order))
                  (\<lambda>found. ret (found, False))
           else andThen (insert_order_or_nothing order) (\<lambda>inserted.
             case inserted of
               Some created \<Rightarrow> ret (Some created, True)
             | None \<Rightarrow>
                 andThen (first_order (\<lambda>r. same_purchase order r \<and> active_status (po_Status r)))
                   (\<lambda>existing. ret (Some existing, False))))))"

definition MarkInvoiceRecoverable :: "nat \<Rightarrow> unit stmt" where
  "MarkInvoiceRecoverable i =
     andThen (update_orders (\<lambda>r. po_Id r = i \<and> po_Status r = StatusInvoiceCreating)
       (\<lambda>r. r\<lparr>po_Status := StatusRecoverable, po_ReviewReason := ''invoice_creation_uncertain''\<rparr>)) (\<lambda>n. ret ())"

record Invoice =
  in_PayURL :: string
  in_ProviderRef :: string

definition save_invoice :: "Invoice \<Rightarrow> PaymentOrder \<Rightarrow> PaymentOrder" where
  "save_invoice invoice r =
     (let r = r\<lparr>po_Status := StatusPending, po_ReviewReason := ''''\<rparr>;
          r = (if in_PayURL invoice \<noteq> '''' then r\<lparr>po_ExternalURL := in_PayURL invoice\<rparr> else r)
      in if in_ProviderRef invoice \<noteq> ''''
         then r\<lparr>po_ProviderRef := in_ProviderRef invoice, po_ProviderPayload := Saved (in_ProviderRef invoice)\<rparr>
         else r)"

definition SaveInvoiceResult :: "nat \<Rightarrow> Invoice option \<Rightarrow> unit stmt" where
  "SaveInvoiceResult orderID invoice =
     (case invoice of
        None \<Rightarrow> fail EmptyInvoice
      | Some got \<Rightarrow>
          andThen (update_orders
              (\<lambda>r. po_Id r = orderID \<and> po_Status r \<in> {StatusPending, StatusInvoiceCreating}
                   \<and> (po_ProviderRef r = '''' \<or> po_ProviderRef r = in_ProviderRef got))
              (save_invoice got))
          (\<lambda>affected. if affected \<noteq> 1 then fail OrderAlreadyFinalized else ret ()))"

definition GetOrder :: "nat \<Rightarrow> PaymentOrder stmt" where
  "GetOrder i = first_order (\<lambda>r. po_Id r = i)"

definition FindOrderByPayload :: "string \<Rightarrow> PaymentOrder stmt" where
  "FindOrderByPayload key =
     (if key = '''' then fail RecordNotFound else first_order (\<lambda>r. po_IdempotencyKey r = key))"

definition MarkOrderFailed :: "nat \<Rightarrow> unit stmt" where
  "MarkOrderFailed i =
     andThen (update_orders (\<lambda>r. po_Id r = i \<and> po_Status r = StatusPending) (\<lambda>r. r\<lparr>po_Status := StatusFailed\<rparr>))
     (\<lambda>affected. if affected \<noteq> 1 then fail OrderAlreadyFinalized else ret ())"

definition ReviewProviderOrders :: "nat list \<Rightarrow> unit stmt" where
  "ReviewProviderOrders ids =
     (if ids = [] then ret ()
      else andThen (update_orders (\<lambda>r. po_Id r \<in> set ids \<and> active_status (po_Status r))
        (\<lambda>r. r\<lparr>po_Status := StatusManualReview, po_ReviewReason := ''provider_metadata_or_identity_conflict''\<rparr>))
        (\<lambda>n. ret ()))"

definition ExpireStaleOrders :: "int \<Rightarrow> unit stmt" where
  "ExpireStaleOrders now =
     andThen (update_orders
       (\<lambda>r. po_Status r = StatusPending \<and> po_Provider r \<noteq> ProviderCryptoBot
            \<and> po_ExpiresAt r > 0 \<and> po_ExpiresAt r < now)
       (\<lambda>r. r\<lparr>po_Status := StatusExpired\<rparr>)) (\<lambda>n. ret ())"

definition OrdersForTelegramUser :: "int \<Rightarrow> int \<Rightarrow> PaymentOrder list stmt" where
  "OrdersForTelegramUser tgUserID limit =
     (if tgUserID \<le> 0 then ret []
      else exec (\<lambda>t. Inr (take (nat (if limit \<le> 0 then 20 else limit))
        (rev (sort_key po_Id (filter (\<lambda>r. po_TelegramUserId r = tgUserID) (t_orders t)))), t)))"

definition RefundableOrdersForTelegramUser :: "int \<Rightarrow> int \<Rightarrow> PaymentOrder list stmt" where
  "RefundableOrdersForTelegramUser tgUserID limit =
     (if tgUserID \<le> 0 then ret []
      else exec (\<lambda>t. Inr (take (nat (if limit \<le> 0 then 20 else limit))
        (rev (sort_key po_Id (filter (\<lambda>r. po_TelegramUserId r = tgUserID
           \<and> po_Status r \<in> {StatusPaid, StatusRefundPending}) (t_orders t)))), t)))"

definition PendingOrdersByProvider :: "provider_kind \<Rightarrow> PaymentOrder list stmt" where
  "PendingOrdersByProvider kind =
     exec (\<lambda>t. Inr (filter (\<lambda>r. po_Provider r = kind \<and> po_Status r = StatusPending) (t_orders t), t))"

section \<open>Provider work: polling, recovery, cancellation\<close>

definition work_eligible :: "string \<Rightarrow> PaymentOrder \<Rightarrow> bool" where
  "work_eligible kind r \<longleftrightarrow> po_Provider r = ProviderCryptoBot \<and>
     (if kind = ''poll'' then po_Status r = StatusPending \<and> po_ProviderRef r \<noteq> ''''
      else po_Status r \<in> {StatusInvoiceCreating, StatusRecoverable}
           \<or> po_Status r = StatusPending \<and> po_ProviderRef r = '''')"

text \<open>The next batch after a cursor, or from the start when none is left after it.\<close>

definition next_batch :: "('r \<Rightarrow> nat) \<Rightarrow> ('r \<Rightarrow> bool) \<Rightarrow> nat \<Rightarrow> nat \<Rightarrow> 'r list \<Rightarrow> 'r list" where
  "next_batch rid P cursor limit rows =
     (let work = sort_key rid (filter P rows);
          first = take limit (filter (\<lambda>r. rid r > cursor) work)
      in if first = [] \<and> cursor > 0 then take limit work else first)"

definition cursor_of :: "string \<Rightarrow> tables \<Rightarrow> nat" where
  "cursor_of kind t = (case t_cursors t kind of None \<Rightarrow> 0 | Some c \<Rightarrow> c)"

definition WorkOrders :: "string \<Rightarrow> nat \<Rightarrow> PaymentOrder list stmt" where
  "WorkOrders kind limit =
     andThen (exec (\<lambda>t. Inr (cursor_of kind t, t))) (\<lambda>cursor.
       exec (\<lambda>t. Inr (next_batch po_Id (work_eligible kind) cursor limit (t_orders t), t)))"

definition AdvanceProviderCursor :: "string \<Rightarrow> nat \<Rightarrow> unit stmt" where
  "AdvanceProviderCursor kind after = exec (\<lambda>t. Inr ((), t\<lparr>t_cursors := (t_cursors t)(kind \<mapsto> after)\<rparr>))"

definition CancellationWork :: "nat \<Rightarrow> InvoiceCancellation list stmt" where
  "CancellationWork limit =
     andThen (exec (\<lambda>t. Inr (cursor_of ''cancel'' t, t))) (\<lambda>cursor.
       exec (\<lambda>t. Inr (next_batch ic_Id (\<lambda>w. \<not> ic_Completed w) cursor limit (t_cancellations t), t)))"

definition complete_cancellation :: "nat \<Rightarrow> nat stmt" where
  "complete_cancellation i = exec (\<lambda>t.
     Inr (length (filter (\<lambda>w. ic_Id w = i \<and> \<not> ic_Completed w) (t_cancellations t)),
          t\<lparr>t_cancellations := map (\<lambda>w. if ic_Id w = i then w\<lparr>ic_Completed := True\<rparr> else w) (t_cancellations t)\<rparr>))"

definition first_cancellation :: "(InvoiceCancellation \<Rightarrow> bool) \<Rightarrow> InvoiceCancellation stmt" where
  "first_cancellation P = exec (\<lambda>t.
     case filter P (t_cancellations t) of [] \<Rightarrow> Inl RecordNotFound | w # _ \<Rightarrow> Inr (w, t))"

definition outstanding_cancellations :: "nat \<Rightarrow> nat stmt" where
  "outstanding_cancellations orderID = exec (\<lambda>t.
     Inr (length (filter (\<lambda>w. ic_OrderID w = orderID \<and> \<not> ic_Completed w) (t_cancellations t)), t))"

definition CompleteCancellation :: "nat \<Rightarrow> unit stmt" where
  "CompleteCancellation i =
     transaction (andThen (complete_cancellation i) (\<lambda>affected.
       if affected = 0 then ret ()
       else andThen (first_cancellation (\<lambda>w. ic_Id w = i)) (\<lambda>work.
         andThen (outstanding_cancellations (ic_OrderID work)) (\<lambda>outstanding.
         if outstanding = 0 then
           andThen (update_orders
             (\<lambda>r. po_Id r = ic_OrderID work \<and> \<not> po_GrantSnapshot r \<and> po_Status r = StatusRecoverable
                  \<and> po_ReviewReason r = ''legacy_cancel_pending'')
             (\<lambda>r. r\<lparr>po_Status := StatusFailed, po_LegacyResolved := True, po_ReviewReason := ''legacy_cancelled''\<rparr>))
             (\<lambda>n. ret ())
         else ret ()))))"

datatype InvoiceState = InvoiceActive | InvoicePaid | InvoiceTerminal | InvoiceUnknown

record RecoveredInvoice =
  ri_Ref :: string
  ri_State :: InvoiceState
  ri_Verified :: bool
  ri_PayURL :: string

record Reconciliation =
  rc_OrderID :: nat
  rc_Candidates :: "RecoveredInvoice list"
  rc_ReviewReason :: string

definition insert_cancellation :: "nat \<Rightarrow> string \<Rightarrow> bool stmt" where
  "insert_cancellation orderID ref = exec (\<lambda>t.
     let rows = t_cancellations t
           @ [\<lparr>ic_Id = t_next_cancellation t, ic_OrderID = orderID, ic_Ref = ref, ic_Completed = False\<rparr>]
     in if cancellations_ok rows
        then Inr (True, t\<lparr>t_cancellations := rows, t_next_cancellation := Suc (t_next_cancellation t)\<rparr>)
        else Inr (False, t))"

fun queueCancellations :: "nat \<Rightarrow> RecoveredInvoice list \<Rightarrow> unit stmt" where
  "queueCancellations orderID [] = ret ()"
| "queueCancellations orderID (candidate # candidates) =
     (if ri_State candidate \<noteq> InvoiceActive then queueCancellations orderID candidates
      else andThen (insert_cancellation orderID (ri_Ref candidate)) (\<lambda>inserted.
        if inserted then queueCancellations orderID candidates
        else andThen (first_cancellation (\<lambda>w. ic_Ref w = ri_Ref candidate)) (\<lambda>existing.
          if ic_OrderID existing \<noteq> orderID then fail CancellationConflict
          else queueCancellations orderID candidates)))"

text \<open>The loop over the candidates: \<open>None\<close> is the early return for review, else the active and
  the paid invoices.\<close>

fun scan_candidates ::
  "string set \<Rightarrow> RecoveredInvoice list \<Rightarrow> (RecoveredInvoice list \<times> RecoveredInvoice list) option" where
  "scan_candidates seen [] = Some ([], [])"
| "scan_candidates seen (c # cs) =
     (if \<not> ri_Verified c \<or> ri_Ref c = '''' \<or> ri_Ref c \<in> seen \<or> ri_State c = InvoiceUnknown then None
      else map_option (\<lambda>(active, paidInvoices).
             (if ri_State c = InvoiceActive then c # active else active,
              if ri_State c = InvoicePaid then c # paidInvoices else paidInvoices))
           (scan_candidates (insert (ri_Ref c) seen) cs))"

definition update_order :: "nat \<Rightarrow> (PaymentOrder \<Rightarrow> PaymentOrder) \<Rightarrow> unit stmt" where
  "update_order i f = andThen (update_orders (\<lambda>r. po_Id r = i) f) (\<lambda>n. ret ())"

definition review_order :: "nat \<Rightarrow> string \<Rightarrow> AppliedOrderResult stmt" where
  "review_order i reason =
     andThen (update_order i (\<lambda>r. r\<lparr>po_Status := StatusManualReview, po_ReviewReason := reason\<rparr>))
       (\<lambda>_. ret not_applied)"

definition invoiceEvidence :: "string \<Rightarrow> string \<Rightarrow> payload" where
  "invoiceEvidence originalRef canonicalRef = Saved (if originalRef = '''' then canonicalRef else originalRef)"

definition keep_evidence :: "PaymentOrder \<Rightarrow> string \<Rightarrow> PaymentOrder \<Rightarrow> PaymentOrder" where
  "keep_evidence order ref r =
     (if po_ProviderPayload order = NoPayload
      then r\<lparr>po_ProviderPayload := invoiceEvidence (po_ProviderRef order) ref\<rparr> else r)"

definition recover_legacy ::
  "PaymentOrder \<Rightarrow> RecoveredInvoice list \<Rightarrow> RecoveredInvoice list \<Rightarrow> AppliedOrderResult stmt" where
  "recover_legacy order active paidInvoices =
     andThen (queueCancellations (po_Id order) active) (\<lambda>_.
     andThen (case paidInvoices of
        paidInvoice # _ \<Rightarrow>
          update_order (po_Id order) (keep_evidence order (ri_Ref paidInvoice) \<circ>
            (\<lambda>r. r\<lparr>po_Status := StatusManualReview, po_ReviewReason := ''legacy_snapshot_missing'',
                  po_ProviderRef := ri_Ref paidInvoice,
                  po_ProviderChargeID := ''cryptobot:'' @ ri_Ref paidInvoice\<rparr>))
      | [] \<Rightarrow>
          (if active \<noteq> [] then update_order (po_Id order) (\<lambda>r. r\<lparr>po_ReviewReason := ''legacy_cancel_pending''\<rparr>)
           else update_order (po_Id order) (\<lambda>r. r\<lparr>po_Status := StatusFailed, po_LegacyResolved := True,
                  po_ReviewReason := ''legacy_terminal''\<rparr>)))
     (\<lambda>_. ret not_applied))"

definition recover_canonical ::
  "PaymentOrder \<Rightarrow> RecoveredInvoice \<Rightarrow> RecoveredInvoice list \<Rightarrow> int \<Rightarrow> AppliedOrderResult stmt" where
  "recover_canonical order canonical active now =
     (if ri_State canonical = InvoiceActive \<and> ri_PayURL canonical = ''''
      then review_order (po_Id order) ''provider_invoice_url_missing''
      else andThen (update_order (po_Id order) (keep_evidence order (ri_Ref canonical) \<circ>
             (\<lambda>r. r\<lparr>po_Status := StatusPending, po_ProviderRef := ri_Ref canonical,
                   po_ExternalURL := ri_PayURL canonical, po_ReviewReason := ''''\<rparr>)))
        (\<lambda>_. if ri_State canonical \<noteq> InvoicePaid then ret not_applied
             else andThen (queueCancellations (po_Id order) active) (\<lambda>_.
               ApplyPaidOrderGrant (po_Id order) (''cryptobot:'' @ ri_Ref canonical) now ''PaidSubBot'')))"

definition recover_scanned ::
  "PaymentOrder \<Rightarrow> RecoveredInvoice list \<Rightarrow> RecoveredInvoice list \<Rightarrow> int \<Rightarrow> int \<Rightarrow> AppliedOrderResult stmt" where
  "recover_scanned order active paidInvoices now grace =
     (if length paidInvoices > 1 then review_order (po_Id order) ''multiple_paid_invoices''
      else if \<not> po_GrantSnapshot order then recover_legacy order active paidInvoices
      else if ValidateOrderGrant order \<noteq> None then review_order (po_Id order) ''purchase_snapshot_invalid''
      else case paidInvoices of
        paidInvoice # _ \<Rightarrow> recover_canonical order paidInvoice active now
      | [] \<Rightarrow>
          (case active of
             [one] \<Rightarrow> recover_canonical order one active now
           | _ # _ # _ \<Rightarrow> review_order (po_Id order) ''multiple_active_invoices''
           | [] \<Rightarrow>
               if po_CreatedAt order > 0 \<and> po_CreatedAt order < wrap64 (now - grace)
               then andThen (update_order (po_Id order)
                      (\<lambda>r. r\<lparr>po_Status := StatusExpired, po_ReviewReason := ''provider_terminal''\<rparr>)) (\<lambda>_. ret not_applied)
               else ret not_applied))"

definition recover_body :: "Reconciliation \<Rightarrow> int \<Rightarrow> int \<Rightarrow> AppliedOrderResult stmt" where
  "recover_body recovered now grace =
     andThen (update_orders
        (\<lambda>r. po_Id r = rc_OrderID recovered \<and> po_Provider r = ProviderCryptoBot
             \<and> (po_Status r \<in> {StatusInvoiceCreating, StatusRecoverable}
                \<or> po_Status r = StatusPending \<and> po_ProviderRef r = ''''))
        (\<lambda>r. r\<lparr>po_Status := StatusRecoverable\<rparr>))
     (\<lambda>affected. if affected \<noteq> 1 then fail OrderAlreadyFinalized else
      andThen (first_order (\<lambda>r. po_Id r = rc_OrderID recovered)) (\<lambda>order.
        if rc_ReviewReason recovered \<noteq> '''' then review_order (po_Id order) (rc_ReviewReason recovered)
        else if rc_Candidates recovered = [] then ret not_applied
        else case scan_candidates {} (rc_Candidates recovered) of
          None \<Rightarrow> review_order (po_Id order) ''provider_metadata_or_identity_conflict''
        | Some (active, paidInvoices) \<Rightarrow> recover_scanned order active paidInvoices now grace))"

definition RecoverProviderOrder :: "Reconciliation \<Rightarrow> int \<Rightarrow> int \<Rightarrow> AppliedOrderResult stmt" where
  "RecoverProviderOrder recovered now grace d =
     (case transaction (recover_body recovered now grace) d of
        (Inl e, d') \<Rightarrow> if e = OrderAlreadyFinalized then (Inr not_applied, d') else (Inl e, d')
      | (Inr applied, d') \<Rightarrow> (Inr applied, d'))"

definition ExpireVerifiedProviderOrders :: "nat list \<Rightarrow> int \<Rightarrow> int \<Rightarrow> unit stmt" where
  "ExpireVerifiedProviderOrders ids now grace =
     (if ids = [] then ret ()
      else andThen (update_orders
        (\<lambda>r. po_Id r \<in> set ids \<and> po_Provider r = ProviderCryptoBot \<and> po_Status r = StatusPending
             \<and> po_CreatedAt r > 0 \<and> po_CreatedAt r < wrap64 (now - grace))
        (\<lambda>r. r\<lparr>po_Status := StatusExpired, po_ReviewReason := ''provider_terminal''\<rparr>)) (\<lambda>n. ret ()))"

end
