(* ===== verification/Paid_Service.thy ===== *)
theory Paid_Service
  imports Paid_Orders
begin

text \<open>
  The payment coordinator (\<^verbatim>\<open>src/components/paid-subscriptions/telegram/payment.go\<close>), the
  Telegram bindings (\<^verbatim>\<open>internal/paid/store/bindings.go\<close>) and the tariffs
  (\<^verbatim>\<open>internal/paid/store/tariff_store.go\<close>).  Random tokens, settings and the answers of the
  payment provider and of Telegram are arguments.
\<close>

section \<open>Buying\<close>

datatype create_result =
  Invoiced PaymentOrder Invoice
| NeedsReconciliation PaymentOrder
| InvoiceFailed PaymentOrder

definition reusableInvoice :: "PaymentOrder \<Rightarrow> create_result" where
  "reusableInvoice order =
     (if po_Status order \<noteq> StatusPending \<or> \<not> po_GrantSnapshot order \<or> po_ProviderRef order = ''''
         \<or> po_ExternalURL order = ''''
      then NeedsReconciliation order
      else Invoiced order \<lparr>in_PayURL = po_ExternalURL order, in_ProviderRef = po_ProviderRef order\<rparr>)"

definition GetTariff :: "nat \<Rightarrow> Tariff stmt" where
  "GetTariff i = exec (\<lambda>t.
     case filter (\<lambda>r. ta_Id r = i) (t_tariffs t) of [] \<Rightarrow> Inl RecordNotFound | r # _ \<Rightarrow> Inr (r, t))"

text \<open>Running a statement for its effect, its error joined to one already being returned.\<close>

definition despite :: "'a stmt \<Rightarrow> 'b \<Rightarrow> 'b stmt" where
  "despite m x d = (Inr x, snd (m d))"

text \<open>Reporting one error for any failure of a statement.\<close>

definition replace_error :: "paid_error \<Rightarrow> 'a stmt \<Rightarrow> 'a stmt" where
  "replace_error e m d = (case m d of (Inl _, d') \<Rightarrow> (Inl e, d') | (Inr x, d') \<Rightarrow> (Inr x, d'))"

definition price_for :: "provider_kind \<Rightarrow> Tariff \<Rightarrow> paid_error + int \<times> string" where
  "price_for kind tariff =
     (if kind = ProviderStars then
        (if ta_StarsAmount tariff \<le> 0 then Inl NoPrice else Inr (ta_StarsAmount tariff, ''XTR''))
      else if ta_Price tariff \<le> 0 then Inl NoPrice
      else Inr (ta_Price tariff, ta_Currency tariff))"

text \<open>After the order exists: the provider's invoice (\<open>None\<close> for an error or an empty invoice) is
  checked and saved; a CryptoBot order without a saved invoice becomes recoverable, any other
  one failed.\<close>

definition finish_invoice ::
  "provider_kind \<Rightarrow> (PaymentOrder \<Rightarrow> Invoice option) \<Rightarrow> PaymentOrder \<Rightarrow> create_result stmt" where
  "finish_invoice kind createInvoice order =
     (let give_up = (if kind = ProviderCryptoBot
            then despite (MarkInvoiceRecoverable (po_Id order)) (InvoiceFailed order)
            else despite (MarkOrderFailed (po_Id order)) (InvoiceFailed order))
      in case createInvoice order of
           None \<Rightarrow> give_up
         | Some got \<Rightarrow>
             if kind = ProviderCryptoBot \<and> (in_ProviderRef got = '''' \<or> in_PayURL got = '''') then give_up
             else (\<lambda>d. case SaveInvoiceResult (po_Id order) (Some got) d of
                 (Inl e, d') \<Rightarrow> give_up d'
               | (Inr _, d') \<Rightarrow>
                   (Inr (Invoiced (order\<lparr>po_Status := StatusPending, po_ProviderRef := in_ProviderRef got,
                      po_ExternalURL := in_PayURL got\<rparr>) got), d')))"

definition create_new ::
  "provider_kind \<Rightarrow> nat \<Rightarrow> nat \<Rightarrow> int \<Rightarrow> int option \<Rightarrow> string option \<Rightarrow> int
     \<Rightarrow> (PaymentOrder \<Rightarrow> Invoice option) \<Rightarrow> create_result stmt" where
  "create_new kind clientId tariffId tgUserId ttl key now createInvoice =
     (case ttl of
        None \<Rightarrow> fail InvalidTTL
      | Some ttlMin \<Rightarrow>
          if ttlMin < 1 then fail InvalidTTL else
          andThen (replace_error TariffUnavailable (GetTariff tariffId)) (\<lambda>tariff.
          if \<not> ta_Enabled tariff then fail TariffUnavailable else
          andThen (first_client clientId) (\<lambda>client.
          andThen (lift_result (price_for kind tariff)) (\<lambda>(amount, currency).
          case key of
            None \<Rightarrow> fail RandomFailure
          | Some payload \<Rightarrow>
              let order = NewPendingOrder client tariff kind amount currency tgUserId payload now ttlMin
              in case ValidateOrderGrant order of
                   Some e \<Rightarrow> fail e
                 | None \<Rightarrow>
                     if kind = ProviderCryptoBot then
                       andThen (CreateInvoiceIntent order) (\<lambda>(resolved, created).
                         case resolved of
                           None \<Rightarrow> fail NilOrder
                         | Some ord \<Rightarrow>
                             if created then finish_invoice kind createInvoice ord
                             else ret (reusableInvoice ord))
                     else andThen (insert_order order) (\<lambda>ord. finish_invoice kind createInvoice ord)))))"

definition CreateOrder ::
  "provider_kind \<Rightarrow> bool \<Rightarrow> nat \<Rightarrow> nat \<Rightarrow> int \<Rightarrow> int option \<Rightarrow> string option \<Rightarrow> int
     \<Rightarrow> (PaymentOrder \<Rightarrow> Invoice option) \<Rightarrow> create_result stmt" where
  "CreateOrder kind available clientId tariffId tgUserId ttl key now createInvoice =
     (if clientId = 0 \<or> tariffId = 0 then fail PurchaseIdentityMissing
      else if \<not> available then fail ProviderUnavailable
      else if kind = ProviderCryptoBot then
        andThen (ActiveCryptoBotOrder clientId tariffId tgUserId) (\<lambda>existing.
          case existing of
            Some order \<Rightarrow> ret (reusableInvoice order)
          | None \<Rightarrow> create_new kind clientId tariffId tgUserId ttl key now createInvoice)
      else create_new kind clientId tariffId tgUserId ttl key now createInvoice)"

text \<open>A confirmation of an order that is already final is no error.\<close>

definition ApplyPaidOrder :: "nat \<Rightarrow> string \<Rightarrow> int \<Rightarrow> (bool \<times> int) stmt" where
  "ApplyPaidOrder orderID chargeID now d =
     (case ApplyPaidOrderGrant orderID chargeID now ''PaidSubBot'' d of
        (Inl e, d') \<Rightarrow> if e = OrderAlreadyFinalized then (Inr (False, 0), d') else (Inl e, d')
      | (Inr result, d') \<Rightarrow> (Inr (ar_Applied result, ar_TelegramUserID result), d'))"

section \<open>Refunding\<close>

datatype refund_result = Refunded | RefundedManual

definition finally_do :: "'a stmt \<Rightarrow> 'b stmt \<Rightarrow> 'a stmt" where
  "finally_do m cleanup d = (case m d of (r, d') \<Rightarrow> (r, snd (cleanup d')))"

definition stars_refund ::
  "nat \<Rightarrow> bool \<Rightarrow> string option \<Rightarrow> int \<Rightarrow> int \<Rightarrow> bool \<Rightarrow> (PaymentOrder \<Rightarrow> bool) \<Rightarrow> refund_result stmt" where
  "stars_refund orderID revoke token claimNow finalNow senderOk remoteRefund =
     (case token of
        None \<Rightarrow> fail RandomFailure
      | Some tok \<Rightarrow>
          andThen (ClaimStarsRefund orderID revoke tok claimNow) (\<lambda>claimed.
            finally_do
              (if \<not> senderOk then fail SenderUnavailable
               else if TrimPrefix (po_ProviderChargeID claimed) ''tg:'' = '''' then fail ChargeIdentityInvalid
               else if \<not> remoteRefund claimed then fail RemoteRefundFailed
               else andThen (FinalizeClaimedRefundGrant orderID tok finalNow ''PaidSubBot'') (\<lambda>_. ret Refunded))
              (ReleaseRefundClaim orderID tok)))"

definition refundOrder ::
  "nat \<Rightarrow> bool \<Rightarrow> string option \<Rightarrow> int \<Rightarrow> int \<Rightarrow> bool \<Rightarrow> (PaymentOrder \<Rightarrow> bool) \<Rightarrow> refund_result stmt" where
  "refundOrder orderID revoke token claimNow finalNow senderOk remoteRefund =
     andThen (GetOrder orderID) (\<lambda>order.
       if po_Status order \<noteq> StatusPaid \<and> po_Status order \<noteq> StatusRefundPending then fail RefundNotApplicable
       else if po_Amount order \<le> 0 then fail RefundNotApplicable
       else if ValidateOrderGrant order \<noteq> None then fail RefundNotApplicable
       else if po_Provider order = ProviderStars then
         (if \<not> HasPrefix (po_ProviderChargeID order) ''tg:'' \<or> TrimPrefix (po_ProviderChargeID order) ''tg:'' = ''''
          then fail RefundNotApplicable
          else stars_refund orderID revoke token claimNow finalNow senderOk remoteRefund)
       else if po_Status order \<noteq> StatusPaid then fail RefundNotApplicable
       else (\<lambda>d. case FinalizeRefundGrant orderID revoke finalNow ''PaidSubBot'' d of
            (Inl e, d') \<Rightarrow> if e = OrderAlreadyFinalized then (Inr RefundedManual, d') else (Inl e, d')
          | (Inr _, d') \<Rightarrow> (Inr RefundedManual, d')))"

section \<open>Bindings\<close>

definition SetBinding :: "nat \<Rightarrow> int \<Rightarrow> int \<Rightarrow> unit stmt" where
  "SetBinding clientID tgUserID now =
     (if clientID = 0 \<or> tgUserID \<le> 0 then fail InvalidData
      else transaction (
        andThen (exec (\<lambda>t. Inr ((), t\<lparr>t_bindings :=
            filter (\<lambda>b. \<not> (bi_TgUserId b = tgUserID \<or> bi_ClientId b = clientID)) (t_bindings t)\<rparr>)))
        (\<lambda>_. exec (\<lambda>t.
          let rows = t_bindings t @ [\<lparr>bi_Id = t_next_binding t, bi_ClientId = clientID, bi_TgUserId = tgUserID,
                bi_CreatedAt = now, bi_UpdatedAt = now\<rparr>]
          in if bindings_ok rows then Inr ((), t\<lparr>t_bindings := rows, t_next_binding := Suc (t_next_binding t)\<rparr>)
             else Inl UniqueViolation))))"

definition UnbindClient :: "nat \<Rightarrow> unit stmt" where
  "UnbindClient clientID = exec (\<lambda>t.
     Inr ((), t\<lparr>t_bindings := filter (\<lambda>b. bi_ClientId b \<noteq> clientID) (t_bindings t)\<rparr>))"

definition ClientByTelegramUserID :: "int \<Rightarrow> Client stmt" where
  "ClientByTelegramUserID tgUserID =
     (if tgUserID \<le> 0 then fail RecordNotFound
      else exec (\<lambda>t.
        case sort_key cl_Id (filter (\<lambda>c. \<exists>b\<in>set (t_bindings t). bi_ClientId b = cl_Id c \<and> bi_TgUserId b = tgUserID)
               (t_clients t)) of
          [] \<Rightarrow> Inl RecordNotFound
        | c # _ \<Rightarrow> Inr (c, t)))"

definition BindingForClient :: "nat \<Rightarrow> Binding stmt" where
  "BindingForClient clientID = exec (\<lambda>t.
     case sort_key bi_Id (filter (\<lambda>b. bi_ClientId b = clientID) (t_bindings t)) of
       [] \<Rightarrow> Inl RecordNotFound
     | b # _ \<Rightarrow> Inr (b, t))"

definition ListTelegramUserIDs :: "int list stmt" where
  "ListTelegramUserIDs = exec (\<lambda>t.
     Inr (map bi_TgUserId (sort_key bi_Id (filter (\<lambda>b. bi_TgUserId b > 0) (t_bindings t))), t))"

section \<open>Tariffs\<close>

definition asciiLetters :: "string \<Rightarrow> bool" where
  "asciiLetters = list_all (\<lambda>c. CHR ''A'' \<le> c \<and> c \<le> CHR ''Z'')"

text \<open>\<open>upper\<close> is \<open>strings.ToUpper\<close>.  The checks normalise the name and the currency on the way.\<close>

definition normalize_tariff :: "(string \<Rightarrow> string) \<Rightarrow> Tariff \<Rightarrow> Tariff" where
  "normalize_tariff upper t =
     (let currency = upper (TrimSpace (ta_Currency t))
      in t\<lparr>ta_Name := TrimSpace (ta_Name t), ta_Currency := (if currency = '''' then ''RUB'' else currency)\<rparr>)"

definition ValidateTariff :: "(string \<Rightarrow> string) \<Rightarrow> Tariff \<Rightarrow> paid_error + Tariff" where
  "ValidateTariff upper t =
     (let n = normalize_tariff upper t
      in if ta_Price t < 0 \<or> ta_StarsAmount t < 0 \<or> ta_AddDays t < 0 \<or> ta_AddTrafficBytes t < 0 \<or> ta_Sort t < 0
           then Inl (TariffInvalid ''negative'')
         else if ta_Name n = '''' \<or> RuneCount (ta_Name n) > 120 then Inl (TariffInvalid ''name'')
         else if RuneCount (ta_Description t) > 2000 then Inl (TariffInvalid ''description'')
         else if length (ta_Currency n) \<noteq> 3 \<or> \<not> asciiLetters (ta_Currency n) then Inl (TariffInvalid ''currency'')
         else if ta_Price t > 1000000000000000 \<or> ta_StarsAmount t > 1000000000 \<or> ta_AddDays t > 36500
             \<or> ta_AddTrafficBytes t > 2 ^ 60 \<or> ta_Sort t > 1000000
           then Inl (TariffInvalid ''limits'')
         else Inr n)"

text \<open>The decoded request of \<open>SaveTariff\<close>, by action.\<close>

datatype tariff_request =
  TariffNew Tariff | TariffEdit Tariff | TariffDel nat | TariffDelBulk "nat list"
| TariffBadPayload | TariffBadAction

text \<open>An insert through the object mapper: a column with a declared default and a zero value in
  the struct takes the default, so \<open>Enabled\<close> (default true) is stored as true either way.\<close>

definition create_tariff :: "Tariff \<Rightarrow> unit stmt" where
  "create_tariff tariff = exec (\<lambda>t.
     Inr ((), t\<lparr>t_tariffs := t_tariffs t @ [tariff\<lparr>ta_Id := t_next_tariff t, ta_Enabled := True\<rparr>],
                t_next_tariff := Suc (t_next_tariff t)\<rparr>))"

definition update_tariff :: "Tariff \<Rightarrow> nat stmt" where
  "update_tariff n = exec (\<lambda>t.
     Inr (length (filter (\<lambda>r. ta_Id r = ta_Id n) (t_tariffs t)),
          t\<lparr>t_tariffs := map (\<lambda>r. if ta_Id r = ta_Id n then n\<lparr>ta_CreatedAt := ta_CreatedAt r\<rparr> else r) (t_tariffs t)\<rparr>))"

definition deleteTariffsWithoutOrders :: "nat list \<Rightarrow> unit stmt" where
  "deleteTariffsWithoutOrders ids =
     andThen (exec (\<lambda>t. Inr (length (filter (\<lambda>r. po_TariffId r \<in> set ids) (t_orders t)), t))) (\<lambda>orders.
       if orders > 0 then fail TariffReferenced
       else exec (\<lambda>t. Inr ((), t\<lparr>t_tariffs := filter (\<lambda>r. ta_Id r \<notin> set ids) (t_tariffs t)\<rparr>)))"

definition SaveTariff :: "(string \<Rightarrow> string) \<Rightarrow> tariff_request \<Rightarrow> int \<Rightarrow> unit stmt" where
  "SaveTariff upper request now =
     (case request of
        TariffNew tariff \<Rightarrow>
          andThen (lift_result (ValidateTariff upper (tariff\<lparr>ta_Id := 0, ta_CreatedAt := now, ta_UpdatedAt := now\<rparr>)))
            create_tariff
      | TariffEdit tariff \<Rightarrow>
          if ta_Id tariff = 0 then fail MissingWhere
          else andThen (lift_result (ValidateTariff upper tariff)) (\<lambda>n.
            andThen (update_tariff (n\<lparr>ta_UpdatedAt := now\<rparr>)) (\<lambda>affected.
              if affected \<noteq> 1 then fail RecordNotFound else ret ()))
      | TariffDel i \<Rightarrow> if i = 0 then fail MissingWhere else deleteTariffsWithoutOrders [i]
      | TariffDelBulk ids \<Rightarrow>
          if ids = [] then ret ()
          else if length ids > 1000 \<or> 0 \<in> set ids then fail InvalidData
          else deleteTariffsWithoutOrders ids
      | TariffBadPayload \<Rightarrow> fail InvalidData
      | TariffBadAction \<Rightarrow> fail InvalidData)"

definition ListTariffs :: "Tariff list stmt" where
  "ListTariffs = exec (\<lambda>t. Inr (sort_key ta_Sort (sort_key ta_Id (t_tariffs t)), t))"

definition ListEnabledTariffs :: "Tariff list stmt" where
  "ListEnabledTariffs = exec (\<lambda>t. Inr (sort_key ta_Sort (sort_key ta_Id (filter ta_Enabled (t_tariffs t))), t))"

end
