(* ===== verification/Paid_Schema.thy ===== *)
theory Paid_Schema
  imports Paid_Orders
begin

text \<open>
  The migration of stored orders (\<^verbatim>\<open>src/components/paid-subscriptions/internal/paid/schema.go\<close>):
  reclassification of orders whose outcome is not proven, extraction of stored invoice
  references, and quarantine of conflicting orders before the unique indexes are created.
  The statements that create tables, columns and non-unique indexes have no effect on rows.
\<close>

definition update_where :: "(PaymentOrder \<Rightarrow> bool) \<Rightarrow> (PaymentOrder \<Rightarrow> PaymentOrder) \<Rightarrow> PaymentOrder list \<Rightarrow> PaymentOrder list" where
  "update_where P f rows = map (\<lambda>r. if P r then f r else r) rows"

definition reclassify :: "order_status \<Rightarrow> string \<Rightarrow> PaymentOrder \<Rightarrow> PaymentOrder" where
  "reclassify s reason r = r\<lparr>po_Status := s, po_ReviewReason := reason\<rparr>"

definition uncertain_outcome :: "PaymentOrder \<Rightarrow> bool" where
  "uncertain_outcome r \<longleftrightarrow> po_Provider r = ProviderCryptoBot \<and> \<not> po_LegacyResolved r \<and> po_ReviewReason r = ''''
     \<and> po_Status r \<in> {StatusExpired, StatusFailed}"

definition legacy_paid :: "PaymentOrder \<Rightarrow> bool" where
  "legacy_paid r \<longleftrightarrow> \<not> po_GrantSnapshot r \<and> \<not> po_LegacyResolved r \<and> po_Status r = StatusPaid"

definition legacy_crypto :: "PaymentOrder \<Rightarrow> bool" where
  "legacy_crypto r \<longleftrightarrow> \<not> po_GrantSnapshot r \<and> \<not> po_LegacyResolved r \<and> po_Provider r = ProviderCryptoBot
     \<and> po_Status r \<in> {StatusPending, StatusFailed, StatusExpired, StatusInvoiceCreating}"

definition legacy_other :: "PaymentOrder \<Rightarrow> bool" where
  "legacy_other r \<longleftrightarrow> \<not> po_GrantSnapshot r \<and> \<not> po_LegacyResolved r \<and> po_Provider r \<noteq> ProviderCryptoBot
     \<and> po_Status r \<in> {StatusPending, StatusInvoiceCreating}"

definition reclassify_row :: "PaymentOrder \<Rightarrow> PaymentOrder" where
  "reclassify_row r =
     (let r = (if uncertain_outcome r then reclassify StatusRecoverable ''historical_provider_outcome_uncertain'' r else r);
          r = (if legacy_paid r then reclassify StatusManualReview ''legacy_snapshot_missing'' r else r);
          r = (if legacy_crypto r then reclassify StatusRecoverable ''legacy_snapshot_missing'' r else r)
      in if legacy_other r then reclassify StatusManualReview ''legacy_snapshot_missing'' r else r)"

definition reclassify_orders :: "PaymentOrder list \<Rightarrow> PaymentOrder list" where
  "reclassify_orders rows =
     update_where legacy_other (reclassify StatusManualReview ''legacy_snapshot_missing'')
       (update_where legacy_crypto (reclassify StatusRecoverable ''legacy_snapshot_missing'')
         (update_where legacy_paid (reclassify StatusManualReview ''legacy_snapshot_missing'')
           (update_where uncertain_outcome
              (reclassify StatusRecoverable ''historical_provider_outcome_uncertain'') rows)))"

text \<open>The reference stored with an order: the payload's, else the one in the charge id, if it is
  the canonical decimal form of a positive number.\<close>

definition stored_ref :: "PaymentOrder \<Rightarrow> string" where
  "stored_ref r =
     (let saved = (case po_ProviderPayload r of NoPayload \<Rightarrow> '''' | Saved ref \<Rightarrow> ref)
      in if saved = '''' \<and> HasPrefix (po_ProviderChargeID r) ''cryptobot:''
         then TrimPrefix (po_ProviderChargeID r) ''cryptobot:'' else saved)"

definition valid_ref :: "string \<Rightarrow> bool" where
  "valid_ref ref = (case Atoi ref of None \<Rightarrow> False | Some i \<Rightarrow> i > 0 \<and> Itoa i = ref)"

definition extract_ref :: "PaymentOrder \<Rightarrow> PaymentOrder" where
  "extract_ref r =
     (if po_ProviderRef r \<noteq> '''' \<or> po_ReviewReason r = ''provider_identity_conflict'' then r
      else if valid_ref (stored_ref r) then r\<lparr>po_ProviderRef := stored_ref r\<rparr>
      else r)"

text \<open>The batch loop: 256 CryptoBot orders after the cursor at a time.\<close>

definition ref_batch :: "nat \<Rightarrow> PaymentOrder list \<Rightarrow> PaymentOrder list" where
  "ref_batch cursor rows =
     take 256 (sort_key po_Id (filter (\<lambda>r. po_Provider r = ProviderCryptoBot \<and> po_Id r > cursor) rows))"

definition extract_batch :: "PaymentOrder list \<Rightarrow> PaymentOrder list \<Rightarrow> PaymentOrder list" where
  "extract_batch batch rows =
     update_where (\<lambda>r. po_Id r \<in> po_Id ` set batch \<and> po_Provider r = ProviderCryptoBot) extract_ref rows"

lemma extract_ref_fixes [simp]:
  "po_Id (extract_ref r) = po_Id r" "po_Provider (extract_ref r) = po_Provider r"
  "po_ReviewReason (extract_ref r) = po_ReviewReason r" "po_Status (extract_ref r) = po_Status r"
  by (simp_all add: extract_ref_def)

definition left_after :: "nat \<Rightarrow> PaymentOrder list \<Rightarrow> nat" where
  "left_after cursor rows = length (filter (\<lambda>r. po_Provider r = ProviderCryptoBot \<and> po_Id r > cursor) rows)"

lemma left_after_batch [simp]: "left_after cursor (extract_batch batch rows) = left_after cursor rows"
  by (auto simp: left_after_def extract_batch_def update_where_def filter_map comp_def
      intro!: arg_cong[where f = length] filter_cong)

lemma ref_batch_progress:
  assumes "ref_batch cursor rows \<noteq> []"
  shows "left_after (po_Id (last (ref_batch cursor rows))) rows < left_after cursor rows"
proof -
  let ?b = "ref_batch cursor rows"
  have "last ?b \<in> set ?b" using assms by simp
  then have "last ?b \<in> set (filter (\<lambda>r. po_Provider r = ProviderCryptoBot \<and> po_Id r > cursor) rows)"
    by (auto simp: ref_batch_def dest: in_set_takeD)
  then have l: "last ?b \<in> set rows" "po_Provider (last ?b) = ProviderCryptoBot" "po_Id (last ?b) > cursor"
    by auto
  have sub: "filter (\<lambda>r. po_Provider r = ProviderCryptoBot \<and> po_Id r > po_Id (last ?b)) rows
      = filter (\<lambda>r. po_Id r > po_Id (last ?b)) (filter (\<lambda>r. po_Provider r = ProviderCryptoBot \<and> po_Id r > cursor) rows)"
    using l(3) by (auto intro: filter_cong)
  show ?thesis
    unfolding left_after_def sub
    by (rule length_filter_less[of "last ?b"]) (use l in auto)
qed

function extract_refs :: "nat \<Rightarrow> PaymentOrder list \<Rightarrow> PaymentOrder list" where
  "extract_refs cursor rows =
     (let batch = ref_batch cursor rows
      in if batch = [] then rows
         else extract_refs (po_Id (last batch)) (extract_batch batch rows))"
  by auto
termination
  by (relation "measure (\<lambda>(cursor, rows). left_after cursor rows)") (auto simp: ref_batch_progress)

declare extract_refs.simps [simp del]

definition conflicting :: "('r \<Rightarrow> bool) \<Rightarrow> ('r \<Rightarrow> 'k) \<Rightarrow> 'r list \<Rightarrow> 'r \<Rightarrow> bool" where
  "conflicting cond key rows r \<longleftrightarrow>
     cond r \<and> length (filter (\<lambda>q. cond q \<and> key q = key r) rows) > 1"

definition has_ref :: "PaymentOrder \<Rightarrow> bool" where
  "has_ref r \<longleftrightarrow> po_ProviderRef r \<noteq> ''''"

definition ref_key :: "PaymentOrder \<Rightarrow> provider_kind \<times> string" where
  "ref_key r = (po_Provider r, po_ProviderRef r)"

definition quarantine_refs :: "PaymentOrder list \<Rightarrow> PaymentOrder list" where
  "quarantine_refs rows = update_where (conflicting has_ref ref_key rows)
     (\<lambda>r. r\<lparr>po_Status := StatusManualReview, po_ReviewReason := ''provider_identity_conflict'', po_ProviderRef := ''''\<rparr>) rows"

definition quarantine_purchases :: "PaymentOrder list \<Rightarrow> PaymentOrder list" where
  "quarantine_purchases rows = update_where (conflicting active_purchase purchase_key rows)
     (\<lambda>r. r\<lparr>po_Status := StatusManualReview, po_ReviewReason := ''active_purchase_conflict''\<rparr>) rows"

definition migrateOrders :: "PaymentOrder list \<Rightarrow> PaymentOrder list" where
  "migrateOrders rows = quarantine_purchases (quarantine_refs (extract_refs 0 (reclassify_orders rows)))"

text \<open>The indexes that exist before the migration, and those it creates afterwards.\<close>

definition base_indexes :: "PaymentOrder list \<Rightarrow> bool" where
  "base_indexes rows \<longleftrightarrow>
     unique_on (\<lambda>_. True) po_Id rows
     \<and> unique_on (\<lambda>_. True) po_IdempotencyKey rows
     \<and> unique_on (\<lambda>r. po_ProviderChargeID r \<noteq> '''') (\<lambda>r. (po_Provider r, po_ProviderChargeID r)) rows"

definition ensureSchema :: "unit stmt" where
  "ensureSchema = exec (\<lambda>t.
     if \<not> base_indexes (t_orders t) then Inl UniqueViolation
     else let rows = migrateOrders (t_orders t)
          in if orders_ok rows then Inr ((), t\<lparr>t_orders := rows\<rparr>) else Inl UniqueViolation)"

definition EnsureSchema :: "unit stmt" where
  "EnsureSchema = transaction ensureSchema"

section \<open>The loop is a map\<close>

lemma stored_ref_upd [simp]: "stored_ref (r\<lparr>po_ProviderRef := x\<rparr>) = stored_ref r"
  by (simp add: stored_ref_def Let_def)

lemma valid_ref_nonempty [simp]: "\<not> valid_ref ''''"
  by (simp add: valid_ref_def Atoi_def HasPrefix_def)

lemma extract_ref_idem [simp]: "extract_ref (extract_ref r) = extract_ref r"
  by (simp add: extract_ref_def)

lemma extract_batch_ids [simp]: "map po_Id (extract_batch batch rows) = map po_Id rows"
  by (simp add: extract_batch_def update_where_def)

lemma map_after_batch:
  assumes "distinct (map po_Id rows)" "\<forall>b\<in>set batch. b \<in> set rows"
    and "\<And>r. r \<in> set rows \<Longrightarrow> po_Provider r = ProviderCryptoBot \<Longrightarrow> po_Id r > cursor
           \<Longrightarrow> po_Id r \<notin> po_Id ` set batch \<Longrightarrow> po_Id r > last_id"
    and "\<And>b. b \<in> set batch \<Longrightarrow> po_Id b > cursor \<and> po_Id b \<le> last_id \<and> po_Provider b = ProviderCryptoBot"
    and "cursor \<le> last_id"
  shows "update_where (\<lambda>r. po_Provider r = ProviderCryptoBot \<and> po_Id r > last_id) extract_ref (extract_batch batch rows)
    = update_where (\<lambda>r. po_Provider r = ProviderCryptoBot \<and> po_Id r > cursor) extract_ref rows"
proof -
  define f where "f r = (if po_Id r \<in> po_Id ` set batch \<and> po_Provider r = ProviderCryptoBot
     then extract_ref r else r)" for r
  have f: "po_Id (f r) = po_Id r" "po_Provider (f r) = po_Provider r" for r
    by (simp_all add: f_def)
  have "(if po_Provider r = ProviderCryptoBot \<and> po_Id r > last_id then extract_ref (f r) else f r)
      = (if po_Provider r = ProviderCryptoBot \<and> po_Id r > cursor then extract_ref r else r)"
    if r: "r \<in> set rows" for r
  proof (cases "po_Id r \<in> po_Id ` set batch")
    case True
    then obtain b where "b \<in> set batch" "po_Id b = po_Id r" by auto
    moreover from this have "b = r" using assms(1,2) r by (auto simp: distinct_map inj_on_def)
    ultimately show ?thesis using assms(4)[of b] by (auto simp: f_def)
  next
    case False
    then show ?thesis using assms(3)[OF r] assms(5) by (auto simp: f_def)
  qed
  then show ?thesis
    unfolding update_where_def extract_batch_def f_def[symmetric] by (simp add: f)
qed

lemma ref_batch_facts:
  assumes "b \<in> set (ref_batch cursor rows)"
  shows "b \<in> set rows" "po_Provider b = ProviderCryptoBot" "po_Id b > cursor"
    "po_Id b \<le> po_Id (last (ref_batch cursor rows))"
proof -
  let ?all = "sort_key po_Id (filter (\<lambda>r. po_Provider r = ProviderCryptoBot \<and> po_Id r > cursor) rows)"
  have "b \<in> set ?all" using assms by (auto simp: ref_batch_def dest: in_set_takeD)
  then show "b \<in> set rows" "po_Provider b = ProviderCryptoBot" "po_Id b > cursor" by auto
  have "sorted (map po_Id (ref_batch cursor rows))"
    by (simp add: ref_batch_def sorted_wrt_take take_map[symmetric])
  then show "po_Id b \<le> po_Id (last (ref_batch cursor rows))"
    using assms by (cases "ref_batch cursor rows" rule: rev_cases) (auto simp: sorted_append)
qed

lemma ref_batch_complete:
  assumes "r \<in> set rows" "po_Provider r = ProviderCryptoBot" "po_Id r > cursor"
    and "po_Id r \<notin> po_Id ` set (ref_batch cursor rows)"
  shows "ref_batch cursor rows \<noteq> []" "po_Id (last (ref_batch cursor rows)) < po_Id r"
proof -
  let ?all = "sort_key po_Id (filter (\<lambda>r. po_Provider r = ProviderCryptoBot \<and> po_Id r > cursor) rows)"
  have all: "r \<in> set ?all" using assms by simp
  then have "?all \<noteq> []" by (metis empty_iff empty_set)
  then have "take 256 ?all \<noteq> []" by simp
  then show ne: "ref_batch cursor rows \<noteq> []" by (simp add: ref_batch_def)
  obtain rest where split: "?all = ref_batch cursor rows @ rest"
    using append_take_drop_id[of 256 ?all, symmetric] unfolding ref_batch_def[symmetric] by (rule that)
  have "set ?all = set (ref_batch cursor rows) \<union> set rest"
    by (simp only: split set_append)
  then have r: "r \<in> set rest"
    using all assms(4) by blast
  have "sorted (map po_Id ?all)" by (rule sorted_sort_key)
  then have "sorted (map po_Id (ref_batch cursor rows @ rest))"
    by (simp only: split)
  then have "po_Id (last (ref_batch cursor rows)) \<le> po_Id r"
    using r ne by (simp add: sorted_append)
  moreover have "po_Id (last (ref_batch cursor rows)) \<noteq> po_Id r"
    using assms(4) ne by (metis image_eqI last_in_set)
  ultimately show "po_Id (last (ref_batch cursor rows)) < po_Id r" by simp
qed

lemma extract_refs_map:
  assumes "distinct (map po_Id rows)"
  shows "extract_refs cursor rows
    = update_where (\<lambda>r. po_Provider r = ProviderCryptoBot \<and> po_Id r > cursor) extract_ref rows"
  using assms
proof (induction cursor rows rule: extract_refs.induct)
  case (1 cursor rows)
  let ?b = "ref_batch cursor rows"
  show ?case
  proof (cases "?b = []")
    case True
    then have "\<not> (po_Provider r = ProviderCryptoBot \<and> po_Id r > cursor)" if "r \<in> set rows" for r
      using ref_batch_complete(1)[OF that, of cursor] by auto
    then have "update_where (\<lambda>r. po_Provider r = ProviderCryptoBot \<and> po_Id r > cursor) extract_ref rows = rows"
      unfolding update_where_def by (intro map_idI) auto
    then show ?thesis
      using True by (subst extract_refs.simps) simp
  next
    case False
    then have "extract_refs cursor rows = extract_refs (po_Id (last ?b)) (extract_batch ?b rows)"
      by (subst extract_refs.simps) (simp add: Let_def)
    also have "\<dots> = update_where (\<lambda>r. po_Provider r = ProviderCryptoBot \<and> po_Id r > po_Id (last ?b)) extract_ref
        (extract_batch ?b rows)"
      using "1.IH"[OF refl False] "1.prems" by simp
    also have "\<dots> = update_where (\<lambda>r. po_Provider r = ProviderCryptoBot \<and> po_Id r > cursor) extract_ref rows"
    proof (rule map_after_batch)
      show "cursor \<le> po_Id (last ?b)" using ref_batch_facts(3)[of "last ?b" cursor rows] False by simp
    qed (use "1.prems" ref_batch_facts ref_batch_complete in auto)
    finally show ?thesis .
  qed
qed

lemma reclassify_orders_map: "reclassify_orders rows = map reclassify_row rows"
  by (simp add: reclassify_orders_def update_where_def reclassify_row_def Let_def comp_def)

section \<open>Unique indexes after quarantine\<close>

lemma distinct_map_count:
  assumes "\<And>r. r \<in> set xs \<Longrightarrow> length (filter (\<lambda>q. key q = key r) xs) \<le> 1"
  shows "distinct (map key xs)"
  using assms
proof (induction xs)
  case (Cons x xs)
  have "filter (\<lambda>q. key q = key x) xs = []"
    using Cons.prems[of x] by simp
  then have "key x \<notin> key ` set xs"
    by (auto simp: filter_empty_conv)
  moreover have "distinct (map key xs)"
  proof (rule Cons.IH)
    fix r
    assume "r \<in> set xs"
    then show "length (filter (\<lambda>q. key q = key r) xs) \<le> 1"
      using Cons.prems[of r] by (simp split: if_splits)
  qed
  ultimately show ?case by simp
qed simp

lemma filter_map_keep:
  assumes "\<And>r. P r \<Longrightarrow> \<not> cond (f r)"
  shows "filter cond (map (\<lambda>r. if P r then f r else r) rows) = filter (\<lambda>r. cond r \<and> \<not> P r) rows"
  using assms by (induction rows) auto

lemma unique_after_quarantine:
  assumes "\<And>r. \<not> cond (f r)"
  shows "unique_on cond key (update_where (conflicting cond key rows) f rows)"
proof -
  let ?xs = "filter (\<lambda>r. cond r \<and> \<not> conflicting cond key rows r) rows"
  have "filter cond (update_where (conflicting cond key rows) f rows) = ?xs"
    using assms filter_map_keep[of "conflicting cond key rows" cond f rows] by (simp add: update_where_def)
  moreover have "distinct (map key ?xs)"
  proof (rule distinct_map_count)
    fix r
    assume r: "r \<in> set ?xs"
    have "length (filter (\<lambda>q. key q = key r) ?xs) \<le> length (filter (\<lambda>q. cond q \<and> key q = key r) rows)"
      by (simp add: filter_filter conj_ac) (rule length_filter_mono, auto)
    moreover have "length (filter (\<lambda>q. cond q \<and> key q = key r) rows) \<le> 1"
      using r by (auto simp: conflicting_def)
    ultimately show "length (filter (\<lambda>q. key q = key r) ?xs) \<le> 1" by simp
  qed
  ultimately show ?thesis by (simp add: unique_on_def)
qed

lemma unique_on_map:
  assumes "\<And>r. r \<in> set rows \<Longrightarrow> cond (f r) = cond r \<and> (cond r \<longrightarrow> key (f r) = key r)"
  shows "unique_on cond key (map f rows) = unique_on cond key rows"
proof -
  have "map key (filter cond (map f rows)) = map key (filter cond rows)"
    using assms by (induction rows) auto
  then show ?thesis by (simp add: unique_on_def)
qed

text \<open>What a migration may not touch: everything but the status, its reason and the reference.\<close>

definition evidence :: "PaymentOrder \<Rightarrow> PaymentOrder" where
  "evidence r = r\<lparr>po_Status := StatusPending, po_ReviewReason := '''', po_ProviderRef := ''''\<rparr>"

lemma evidence_update_where:
  assumes "\<And>r. evidence (f r) = evidence r"
  shows "map evidence (update_where P f rows) = map evidence rows"
  using assms by (simp add: update_where_def)

lemma evidence_extract: "evidence (extract_ref r) = evidence r"
  by (simp add: evidence_def extract_ref_def)

lemma evidence_reclassify: "evidence (reclassify s reason r) = evidence r"
  by (simp add: evidence_def reclassify_def)

lemma evidence_ids:
  assumes "map evidence rows = map evidence rows'"
  shows "map po_Id rows = map po_Id rows'"
proof -
  have "po_Id r = po_Id (evidence r)" for r by (simp add: evidence_def)
  then have "map po_Id rows = map po_Id (map evidence rows)" for rows :: "PaymentOrder list" by simp
  then show ?thesis using assms by metis
qed

lemma evidence_base_indexes:
  assumes "map evidence rows = map evidence rows'"
  shows "base_indexes rows = base_indexes rows'"
proof -
  have "base_indexes rows = base_indexes (map evidence rows)" for rows :: "PaymentOrder list"
    unfolding base_indexes_def by (subst (1 2 3) unique_on_map) (simp_all add: evidence_def)
  then show ?thesis using assms by metis
qed

lemma migrate_evidence:
  assumes "distinct (map po_Id rows)"
  shows "map evidence (migrateOrders rows) = map evidence rows"
proof -
  have r: "map evidence (reclassify_orders rows) = map evidence rows"
    by (simp add: reclassify_orders_def evidence_update_where evidence_reclassify)
  then have d: "distinct (map po_Id (reclassify_orders rows))"
    using assms evidence_ids by metis
  have "map evidence (extract_refs 0 (reclassify_orders rows)) = map evidence rows"
    using r by (simp add: extract_refs_map[OF d] evidence_update_where evidence_extract)
  then show ?thesis
    unfolding migrateOrders_def quarantine_purchases_def quarantine_refs_def
    by (subst evidence_update_where, simp add: evidence_def)+ simp
qed

lemma migrate_unique:
  shows "unique_on active_purchase purchase_key (migrateOrders rows)"
    and "unique_on has_ref ref_key (migrateOrders rows)"
proof -
  show "unique_on active_purchase purchase_key (migrateOrders rows)"
    unfolding migrateOrders_def quarantine_purchases_def
    by (rule unique_after_quarantine) (simp add: active_purchase_def active_status_def)
  let ?x = "quarantine_refs (extract_refs 0 (reclassify_orders rows))"
  have "unique_on has_ref ref_key ?x"
    unfolding quarantine_refs_def by (rule unique_after_quarantine) (simp add: has_ref_def)
  then show "unique_on has_ref ref_key (migrateOrders rows)"
    unfolding migrateOrders_def quarantine_purchases_def update_where_def
    by (subst unique_on_map) (auto simp: has_ref_def ref_key_def)
qed

lemma orders_ok_split:
  "orders_ok rows \<longleftrightarrow> base_indexes rows \<and> unique_on has_ref ref_key rows \<and> unique_on active_purchase purchase_key rows"
  by (simp add: orders_ok_def base_indexes_def has_ref_def[abs_def] ref_key_def[abs_def])

lemma migrate_orders_ok: "base_indexes rows \<Longrightarrow> orders_ok (migrateOrders rows)"
  using migrate_unique[of rows] migrate_evidence[of rows] evidence_base_indexes[of "migrateOrders rows" rows]
  by (simp add: orders_ok_split base_indexes_def unique_on_def)

section \<open>Migrating twice\<close>

definition settled :: "PaymentOrder \<Rightarrow> bool" where
  "settled r \<longleftrightarrow> \<not> uncertain_outcome r \<and> \<not> legacy_paid r \<and> \<not> legacy_crypto r \<and> \<not> legacy_other r"

lemmas migration_tests = uncertain_outcome_def legacy_paid_def legacy_crypto_def legacy_other_def

lemma settled_reclassified: "settled (reclassify_row r)"
  by (cases "po_Status r"; cases "po_Provider r = ProviderCryptoBot"; cases "po_GrantSnapshot r";
      cases "po_LegacyResolved r"; cases "po_ReviewReason r = ''''")
     (simp_all add: settled_def migration_tests reclassify_row_def reclassify_def)

lemma settled_fixed: "settled r \<Longrightarrow> reclassify_row r = r"
  by (simp add: settled_def reclassify_row_def)

lemma settled_review: "po_Status r = StatusManualReview \<Longrightarrow> settled r"
  by (simp add: settled_def migration_tests)

lemma settled_extract: "settled r \<Longrightarrow> settled (extract_ref r)"
  by (simp add: settled_def migration_tests extract_ref_def)

lemma no_conflicts:
  assumes "unique_on cond key rows" "r \<in> set rows"
  shows "\<not> conflicting cond key rows r"
proof
  assume c: "conflicting cond key rows r"
  have same: "filter (\<lambda>q. cond q \<and> key q = key r) rows = filter (\<lambda>q. key q = key r) (filter cond rows)"
    by (simp add: conj_commute)
  have "length (filter (\<lambda>q. key q = k) xs) \<le> 1" if "distinct (map key xs)" for xs k
    using that by (induction xs) (auto simp: filter_empty_conv image_iff)
  then have "length (filter (\<lambda>q. cond q \<and> key q = key r) rows) \<le> 1"
    unfolding same using assms(1) by (simp only: unique_on_def)
  then show False using c by (simp add: conflicting_def)
qed

lemma quarantine_nothing:
  assumes "unique_on cond key rows"
  shows "update_where (conflicting cond key rows) f rows = rows"
  unfolding update_where_def using no_conflicts[OF assms] by (intro map_idI) auto

text \<open>An order quarantined for its identity is under review, so a later migration skips it.\<close>

definition conflict_reviewed :: "PaymentOrder \<Rightarrow> bool" where
  "conflict_reviewed r \<longleftrightarrow> (po_ReviewReason r = ''provider_identity_conflict'' \<longrightarrow> po_Status r = StatusManualReview)"

definition fixed_row :: "PaymentOrder \<Rightarrow> bool" where
  "fixed_row r \<longleftrightarrow> settled r \<and> conflict_reviewed r
     \<and> (po_Provider r = ProviderCryptoBot \<and> po_Id r > 0 \<longrightarrow> extract_ref r = r)"

lemma reviewed_reclassified: "conflict_reviewed r \<Longrightarrow> conflict_reviewed (reclassify_row r)"
  by (cases "po_Status r")
     (auto simp: conflict_reviewed_def reclassify_row_def reclassify_def migration_tests Let_def)

lemma fixed_extract:
  assumes "settled r" "conflict_reviewed r"
  shows "fixed_row (if po_Provider r = ProviderCryptoBot \<and> po_Id r > 0 then extract_ref r else r)"
  using assms settled_extract[OF assms(1)] by (auto simp: fixed_row_def conflict_reviewed_def)

lemma fixed_conflict:
  "fixed_row (r\<lparr>po_Status := StatusManualReview, po_ReviewReason := ''provider_identity_conflict'', po_ProviderRef := ''''\<rparr>)"
  by (simp add: fixed_row_def settled_review conflict_reviewed_def extract_ref_def)

lemma fixed_purchase:
  assumes "fixed_row r" "active_purchase r"
  shows "fixed_row (r\<lparr>po_Status := StatusManualReview, po_ReviewReason := ''active_purchase_conflict''\<rparr>)"
proof -
  let ?q = "r\<lparr>po_Status := StatusManualReview, po_ReviewReason := ''active_purchase_conflict''\<rparr>"
  have reason: "po_ReviewReason r \<noteq> ''provider_identity_conflict''"
    using assms by (auto simp: fixed_row_def conflict_reviewed_def active_purchase_def active_status_def)
  have stored: "stored_ref ?q = stored_ref r" by (simp add: stored_ref_def Let_def)
  have "extract_ref ?q = ?q" if "po_Provider r = ProviderCryptoBot" "po_Id r > 0"
  proof -
    have "extract_ref r = r" using assms(1) that by (simp add: fixed_row_def)
    then have "po_ProviderRef r \<noteq> '''' \<or> \<not> valid_ref (stored_ref r)"
      using reason by (auto simp: extract_ref_def split: if_splits) (metis PaymentOrder.select_convs(12) PaymentOrder.update_convs(12) PaymentOrder.surjective valid_ref_nonempty)
    then show ?thesis using stored by (auto simp: extract_ref_def)
  qed
  then show ?thesis
    by (simp add: fixed_row_def settled_review conflict_reviewed_def)
qed

lemma migrate_fixed:
  assumes "distinct (map po_Id rows)" "\<forall>r\<in>set rows. conflict_reviewed r"
  shows "\<forall>r\<in>set (migrateOrders rows). fixed_row r"
proof -
  let ?x = "extract_refs 0 (reclassify_orders rows)"
  have "map po_Id (reclassify_orders rows) = map po_Id rows"
    by (rule evidence_ids) (simp add: reclassify_orders_def evidence_update_where evidence_reclassify)
  then have "distinct (map po_Id (reclassify_orders rows))" using assms(1) by simp
  then have "?x = update_where (\<lambda>r. po_Provider r = ProviderCryptoBot \<and> po_Id r > 0) extract_ref (map reclassify_row rows)"
    by (simp only: extract_refs_map reclassify_orders_map)
  then have "set ?x = (\<lambda>r. if po_Provider (reclassify_row r) = ProviderCryptoBot \<and> po_Id (reclassify_row r) > 0
      then extract_ref (reclassify_row r) else reclassify_row r) ` set rows"
    by (simp only: update_where_def set_map image_image)
  then have x: "\<forall>r\<in>set ?x. fixed_row r"
    using assms(2) fixed_extract[OF settled_reclassified reviewed_reclassified] by (simp only: ball_simps) blast
  then have "\<forall>r\<in>set (quarantine_refs ?x). fixed_row r"
    using fixed_conflict by (auto simp: quarantine_refs_def update_where_def)
  then show ?thesis
    using fixed_purchase by (auto simp: migrateOrders_def quarantine_purchases_def update_where_def conflicting_def)
qed

lemma migrate_fixed_rows:
  assumes "distinct (map po_Id rows)" "\<forall>r\<in>set rows. fixed_row r"
    and "unique_on has_ref ref_key rows" "unique_on active_purchase purchase_key rows"
  shows "migrateOrders rows = rows"
proof -
  have r: "reclassify_orders rows = rows"
    unfolding reclassify_orders_map using assms(2) settled_fixed by (intro map_idI) (simp add: fixed_row_def)
  have e: "extract_refs 0 rows = rows"
    unfolding extract_refs_map[OF assms(1)] update_where_def
    using assms(2) by (intro map_idI) (simp add: fixed_row_def)
  show ?thesis
    by (simp add: migrateOrders_def r e quarantine_refs_def quarantine_purchases_def quarantine_nothing assms(3,4))
qed

section \<open>Properties\<close>


text \<open>The migration runs at every start and is idempotent: on its own result it changes
  nothing, so an order is reclassified at most once.\<close>

theorem migration_idempotent:
  assumes "base_indexes rows" "\<forall>r\<in>set rows. conflict_reviewed r"
  shows "migrateOrders (migrateOrders rows) = migrateOrders rows"
proof (rule migrate_fixed_rows)
  have d: "distinct (map po_Id rows)" using assms(1) by (simp add: base_indexes_def unique_on_def)
  show "distinct (map po_Id (migrateOrders rows))"
    using evidence_ids[OF migrate_evidence[OF d]] d by simp
  show "\<forall>r\<in>set (migrateOrders rows). fixed_row r" by (rule migrate_fixed[OF d assms(2)])
qed (rule migrate_unique)+

text \<open>C31. The migration's batch loop ends and, however the orders fall into batches of 256, does
  what one pass over the table does: every CryptoBot order, and no other row, gets its stored
  invoice reference.\<close>

theorem extract_refs_one_pass:
  assumes "distinct (map po_Id rows)" "\<forall>r\<in>set rows. po_Id r > 0"
  shows "extract_refs 0 rows = map (\<lambda>r. if po_Provider r = ProviderCryptoBot then extract_ref r else r) rows"
  unfolding extract_refs_map[OF assms(1)] update_where_def using assms(2) by auto

definition legacy_row :: "nat \<Rightarrow> string \<Rightarrow> PaymentOrder" where
  "legacy_row i key = (NewPendingOrder
     \<lparr>cl_Id = 1, cl_Name = ''ann'', cl_Enable = True, cl_AccessDisableReason = '''', cl_Inbounds = [],
      cl_Volume = 0, cl_Expiry = 0, cl_Up = 0, cl_Down = 0, cl_TotalUp = 0, cl_TotalDown = 0\<rparr>
     empty_tariff ProviderCryptoBot 500 ''RUB'' 7 key 100 60)\<lparr>po_Id := i, po_Status := StatusFailed,
       po_ProviderPayload := Saved ''42''\<rparr>"

definition legacy_db :: db where
  "legacy_db = \<lparr>db_tables = \<lparr>t_orders = [legacy_row 1 ''k1'', legacy_row 2 ''k2''], t_clients = [], t_tariffs = [],
     t_bindings = [], t_cancellations = [], t_cursors = Map.empty, t_changes = [], t_next_order = 3,
     t_next_binding = 1, t_next_cancellation = 1, t_next_tariff = 1\<rparr>, db_faults = []\<rparr>"

lemma legacy_base: "base_indexes (t_orders (db_tables legacy_db))"
  by (simp add: base_indexes_def unique_on_def legacy_db_def legacy_row_def NewPendingOrder_def)

theorem extract_refs_one_pass_witness:
  "extract_refs 0 (t_orders (db_tables legacy_db))
     = map (\<lambda>r. if po_Provider r = ProviderCryptoBot then extract_ref r else r) (t_orders (db_tables legacy_db))"
  by (rule extract_refs_one_pass) (simp_all add: legacy_db_def legacy_row_def NewPendingOrder_def)


theorem migration_idempotent_witness:
  "migrateOrders (migrateOrders (t_orders (db_tables legacy_db))) = migrateOrders (t_orders (db_tables legacy_db))"
  by (rule migration_idempotent[OF legacy_base])
     (simp add: legacy_db_def legacy_row_def NewPendingOrder_def conflict_reviewed_def)

end
