(* ===== verification/Paid_Safety.thy ===== *)
theory Paid_Safety
  imports Paid_Service Paid_Schema
begin

text \<open>
  Safety of the paid-subscription store across operations: the unique indexes as an invariant
  of every operation, and exactly-once granting over arbitrary sequences of operations with
  storage faults at arbitrary statements.  An order is \<^emph>\<open>spent\<close> once it has been paid or has been put
  aside for a person to review; \<open>safe S\<close> says that the tables satisfy their indexes and that
  the orders with ids in \<open>S\<close> are spent.
\<close>

section \<open>The invariant and the statements that keep it\<close>

definition spent :: "PaymentOrder \<Rightarrow> bool" where
  "spent r \<longleftrightarrow> po_Status r \<in> {StatusPaid, StatusRefundPending, StatusRefunded, StatusManualReview}"

definition safe :: "nat set \<Rightarrow> tables \<Rightarrow> bool" where
  "safe S t \<longleftrightarrow> tables_ok t \<and> (\<forall>i\<in>S. \<exists>r\<in>set (t_orders t). po_Id r = i \<and> spent r)"

text \<open>An update of a row that may not free a spent order nor change its id.\<close>

definition harmless :: "nat set \<Rightarrow> (PaymentOrder \<Rightarrow> bool) \<Rightarrow> (PaymentOrder \<Rightarrow> PaymentOrder) \<Rightarrow> bool" where
  "harmless S P f \<longleftrightarrow> (\<forall>r. P r \<longrightarrow> po_Id (f r) = po_Id r \<and> (po_Id r \<in> S \<and> spent r \<longrightarrow> spent (f r)))"

lemma harmlessI:
  assumes "\<And>r. P r \<Longrightarrow> po_Id (f r) = po_Id r"
    and "\<And>r. P r \<Longrightarrow> po_Id r \<in> S \<Longrightarrow> spent r \<Longrightarrow> spent (f r)"
  shows "harmless S P f"
  using assms by (simp add: harmless_def)

lemma safe_orders_map:
  assumes "safe S t" and f: "\<And>r. r \<in> set (t_orders t) \<Longrightarrow> po_Id (f r) = po_Id r \<and> (po_Id r \<in> S \<and> spent r \<longrightarrow> spent (f r))"
    and "orders_ok (map f (t_orders t))"
  shows "safe S (t\<lparr>t_orders := map f (t_orders t)\<rparr>)"
  using assms by (fastforce simp: safe_def tables_ok_def)

lemma keeps_update_orders [keeps_intros]: "harmless S P f \<Longrightarrow> keeps (safe S) (update_orders P f)"
  unfolding update_orders_def
  by (rule keeps_exec) (auto simp: harmless_def Let_def split: if_splits intro!: safe_orders_map)

text \<open>Statements that only read.\<close>

lemma keeps_read: "(\<And>t x t'. f t = Inr (x, t') \<Longrightarrow> t' = t) \<Longrightarrow> keeps I (exec f)"
  by (rule keeps_exec) blast

lemma keeps_first_order [keeps_intros]: "keeps I (first_order P)"
  unfolding first_order_def by (rule keeps_read) (auto split: list.splits)

lemma keeps_first_client [keeps_intros]: "keeps I (first_client i)"
  unfolding first_client_def by (rule keeps_read) (auto split: list.splits)

lemma keeps_first_cancellation [keeps_intros]: "keeps I (first_cancellation P)"
  unfolding first_cancellation_def by (rule keeps_read) (auto split: list.splits)

lemma keeps_GetTariff [keeps_intros]: "keeps I (GetTariff i)"
  unfolding GetTariff_def by (rule keeps_read) (auto split: list.splits)

lemma keeps_ActiveCryptoBotOrder [keeps_intros]: "keeps I (ActiveCryptoBotOrder c t u)"
  unfolding ActiveCryptoBotOrder_def by (rule keeps_read) auto

lemma keeps_newer_traffic_orders [keeps_intros]: "keeps I (newer_traffic_orders r)"
  unfolding newer_traffic_orders_def by (rule keeps_read) auto

lemma keeps_outstanding [keeps_intros]: "keeps I (outstanding_cancellations i)"
  unfolding outstanding_cancellations_def by (rule keeps_read) auto

lemma keeps_lift_result [keeps_intros]: "keeps I (lift_result r)"
  by (cases r) (auto simp: lift_result_def keeps_ret keeps_fail)

text \<open>Inserts and updates of the other tables.\<close>

lemma safe_insert_order:
  assumes "safe S t" "orders_ok (t_orders t @ [r\<lparr>po_Id := t_next_order t\<rparr>])"
  shows "safe S (t\<lparr>t_orders := t_orders t @ [r\<lparr>po_Id := t_next_order t\<rparr>], t_next_order := Suc (t_next_order t)\<rparr>)"
  using assms by (fastforce simp: safe_def tables_ok_def less_Suc_eq)

lemma keeps_insert_order [keeps_intros]: "keeps (safe S) (insert_order r)"
  unfolding insert_order_def
  by (rule keeps_exec) (auto simp: Let_def safe_insert_order split: if_splits)

lemma keeps_insert_order_or_nothing [keeps_intros]: "keeps (safe S) (insert_order_or_nothing r)"
  unfolding insert_order_or_nothing_def
  by (rule keeps_exec) (auto simp: Let_def safe_insert_order split: if_splits)

lemma unique_map_same: "(\<And>r. key (f r) = key r) \<Longrightarrow> unique_on (\<lambda>_. True) key (map f rows) = unique_on (\<lambda>_. True) key rows"
  by (simp add: unique_on_def comp_def)

lemma keeps_update_client [keeps_intros]:
  assumes "\<And>c. cl_Id (f c) = cl_Id c"
  shows "keeps (safe S) (update_client i f)"
  unfolding update_client_def
proof (rule keeps_exec)
  fix t x t' assume "safe S t" and u: "Inr ((), t\<lparr>t_clients := map (\<lambda>c. if cl_Id c = i then f c else c) (t_clients t)\<rparr>) = Inr (x, t')"
  moreover have "unique_on (\<lambda>_. True) cl_Id (map (\<lambda>c. if cl_Id c = i then f c else c) (t_clients t))
      = unique_on (\<lambda>_. True) cl_Id (t_clients t)"
    using assms by (intro unique_map_same) simp
  ultimately show "safe S t'" by (auto simp: safe_def tables_ok_def)
qed

lemma keeps_record_change [keeps_intros]: "keeps (safe S) (record_change c)"
  unfolding record_change_def by (rule keeps_exec) (auto simp: safe_def tables_ok_def)

lemma keeps_insert_cancellation [keeps_intros]: "keeps (safe S) (insert_cancellation i ref)"
  unfolding insert_cancellation_def
  by (rule keeps_exec) (auto simp: Let_def safe_def tables_ok_def less_Suc_eq split: if_splits)

lemma keeps_complete_cancellation [keeps_intros]: "keeps (safe S) (complete_cancellation i)"
  unfolding complete_cancellation_def
proof (rule keeps_exec)
  fix t x t' assume s: "safe S t"
  let ?rows = "map (\<lambda>w. if ic_Id w = i then w\<lparr>ic_Completed := True\<rparr> else w) (t_cancellations t)"
  assume "Inr (length (filter (\<lambda>w. ic_Id w = i \<and> \<not> ic_Completed w) (t_cancellations t)),
      t\<lparr>t_cancellations := ?rows\<rparr>) = Inr (x, t')"
  moreover have "cancellations_ok ?rows = cancellations_ok (t_cancellations t)"
    unfolding cancellations_ok_def by (subst (1 2) unique_map_same) simp_all
  ultimately show "safe S t'" using s by (auto simp: safe_def tables_ok_def)
qed

section \<open>Every operation keeps the invariant\<close>

lemma keeps_case_option [keeps_intros]:
  "keeps I a \<Longrightarrow> (\<And>x. keeps I (b x)) \<Longrightarrow> keeps I (case v of None \<Rightarrow> a | Some x \<Rightarrow> b x)"
  by (cases v) simp_all

lemma keeps_case_prod [keeps_intros]: "(\<And>x y. keeps I (f x y)) \<Longrightarrow> keeps I (case p of (x, y) \<Rightarrow> f x y)"
  by (cases p) simp

lemma keeps_case_list [keeps_intros]:
  "keeps I a \<Longrightarrow> (\<And>x xs. keeps I (b x xs)) \<Longrightarrow> keeps I (case v of [] \<Rightarrow> a | x # xs \<Rightarrow> b x xs)"
  by (cases v) simp_all

lemma keeps_Let [keeps_intros]: "(\<And>x. keeps I (f x)) \<Longrightarrow> keeps I (let x = a in f x)"
  by simp

text \<open>Mapping the result of a statement, and running one for its effect.\<close>

lemma keeps_mapped:
  assumes "keeps I m" "\<And>d. db_tables (snd (n d)) = db_tables (snd (m d))"
  shows "keeps I n"
  using assms by (simp add: keeps_def)

lemma keeps_despite [keeps_intros]: "keeps I m \<Longrightarrow> keeps I (despite m x)"
  by (rule keeps_mapped) (simp_all add: despite_def)

lemma keeps_replace_error [keeps_intros]: "keeps I m \<Longrightarrow> keeps I (replace_error e m)"
  by (erule keeps_mapped) (auto simp: replace_error_def split: prod.splits sum.splits)

lemma keeps_finally_do [keeps_intros]: "keeps I m \<Longrightarrow> keeps I c \<Longrightarrow> keeps I (finally_do m c)"
  by (auto simp: keeps_def finally_do_def split: prod.splits)

lemmas harm_simps = harmless_def spent_def

lemma client_ids [simp]:
  "cl_Id (apply_updates u c) = cl_Id c" "cl_Id (apply_grant u c) = cl_Id c"
  by (simp_all add: apply_grant_def apply_updates_def renew_access_def)

lemma keeps_update_granted [keeps_intros]: "keeps (safe S) (update_granted i usage)"
  unfolding update_granted_def by (intro keeps_intros) (auto simp: harm_simps set_granted_def)

lemma keeps_ApplyPaidOrderGrant [keeps_intros]: "keeps (safe S) (ApplyPaidOrderGrant i charge now actor)"
  unfolding ApplyPaidOrderGrant_def by (intro keeps_intros) (auto simp: harm_simps)

lemma keeps_revoke_grant [keeps_intros]: "keeps (safe S) (revoke_grant r now actor)"
  unfolding revoke_grant_def by (intro keeps_intros) simp_all

lemma keeps_finalizeRefundGrant [keeps_intros]: "keeps (safe S) (finalizeRefundGrant i s token revoke now actor)"
  unfolding finalizeRefundGrant_def by (intro keeps_intros) (auto simp: harm_simps)

lemma keeps_FinalizeRefundGrant [keeps_intros]: "keeps (safe S) (FinalizeRefundGrant i revoke now actor)"
  unfolding FinalizeRefundGrant_def by (intro keeps_intros)

lemma keeps_FinalizeClaimedRefundGrant [keeps_intros]:
  "keeps (safe S) (FinalizeClaimedRefundGrant i token now actor)"
  unfolding FinalizeClaimedRefundGrant_def by (intro keeps_intros)

lemma keeps_ClaimStarsRefund [keeps_intros]: "keeps (safe S) (ClaimStarsRefund i revoke token now)"
  unfolding ClaimStarsRefund_def by (intro keeps_intros) (auto simp: harm_simps)

lemma keeps_ReleaseRefundClaim [keeps_intros]: "keeps (safe S) (ReleaseRefundClaim i token)"
  unfolding ReleaseRefundClaim_def by (intro keeps_intros) (auto simp: harm_simps)

lemma keeps_CreateInvoiceIntent [keeps_intros]: "keeps (safe S) (CreateInvoiceIntent r)"
  unfolding CreateInvoiceIntent_def by (intro keeps_intros) (auto simp: harm_simps)

lemma keeps_MarkInvoiceRecoverable [keeps_intros]: "keeps (safe S) (MarkInvoiceRecoverable i)"
  unfolding MarkInvoiceRecoverable_def by (intro keeps_intros) (auto simp: harm_simps)

lemma save_invoice_id [simp]: "po_Id (save_invoice got r) = po_Id r"
  by (simp add: save_invoice_def Let_def)

lemma keeps_SaveInvoiceResult [keeps_intros]: "keeps (safe S) (SaveInvoiceResult i got)"
  unfolding SaveInvoiceResult_def by (intro keeps_intros) (auto simp: harm_simps)

lemma keeps_MarkOrderFailed [keeps_intros]: "keeps (safe S) (MarkOrderFailed i)"
  unfolding MarkOrderFailed_def by (intro keeps_intros) (auto simp: harm_simps)

lemma keeps_ReviewProviderOrders [keeps_intros]: "keeps (safe S) (ReviewProviderOrders ids)"
  unfolding ReviewProviderOrders_def by (intro keeps_intros) (auto simp: harm_simps)

lemma keeps_ExpireStaleOrders [keeps_intros]: "keeps (safe S) (ExpireStaleOrders now)"
  unfolding ExpireStaleOrders_def by (intro keeps_intros) (auto simp: harm_simps)

lemma keeps_ExpireVerifiedProviderOrders [keeps_intros]:
  "keeps (safe S) (ExpireVerifiedProviderOrders ids now grace)"
  unfolding ExpireVerifiedProviderOrders_def by (intro keeps_intros) (auto simp: harm_simps)

lemma keeps_AdvanceProviderCursor [keeps_intros]: "keeps (safe S) (AdvanceProviderCursor kind after)"
  unfolding AdvanceProviderCursor_def by (rule keeps_exec) (auto simp: safe_def tables_ok_def)

lemma keeps_CompleteCancellation [keeps_intros]: "keeps (safe S) (CompleteCancellation i)"
  unfolding CompleteCancellation_def by (intro keeps_intros) (auto simp: harm_simps)

lemma keeps_queueCancellations [keeps_intros]: "keeps (safe S) (queueCancellations i cs)"
  by (induction cs) (simp_all, (intro keeps_intros conjI impI; simp)+)

text \<open>Recovery: it claims the order first, which a spent order does not allow; the later updates
  by id then concern an order outside \<open>S\<close>.\<close>

lemma keeps_update_order:
  assumes "i \<notin> S" "\<And>r. po_Id (f r) = po_Id r"
  shows "keeps (safe S) (update_order i f)"
  unfolding update_order_def using assms by (intro keeps_intros) (auto simp: harmless_def)

lemma keep_evidence_id [simp]: "po_Id (keep_evidence order ref r) = po_Id r"
  by (simp add: keep_evidence_def)

lemma keeps_review_order: "i \<notin> S \<Longrightarrow> keeps (safe S) (review_order i reason)"
  unfolding review_order_def by (intro keeps_intros keeps_update_order) simp_all

lemma keeps_recover_legacy: "po_Id r \<notin> S \<Longrightarrow> keeps (safe S) (recover_legacy r active paidInvoices)"
  unfolding recover_legacy_def by (intro keeps_intros keeps_update_order) simp_all

lemma keeps_recover_canonical: "po_Id r \<notin> S \<Longrightarrow> keeps (safe S) (recover_canonical r c active now)"
  unfolding recover_canonical_def by (intro keeps_intros keeps_update_order keeps_review_order) simp_all

lemma keeps_recover_scanned: "po_Id r \<notin> S \<Longrightarrow> keeps (safe S) (recover_scanned r active paidInvoices now grace)"
  unfolding recover_scanned_def
  by (intro keeps_intros keeps_update_order keeps_review_order keeps_recover_legacy keeps_recover_canonical) simp_all

lemma unique_id:
  assumes "orders_ok rows" "r \<in> set rows" "q \<in> set rows" "po_Id r = po_Id q"
  shows "r = q"
  using assms by (simp add: orders_ok_def unique_on_def distinct_map) (meson inj_onD)

lemma update_spent_none:
  assumes "safe S (db_tables d)" "i \<in> S" and P: "\<And>r. P r \<Longrightarrow> po_Id r = i \<and> \<not> spent r"
    and u: "update_orders P f d = (Inr n, d')"
  shows "n = 0"
proof -
  obtain q where q: "q \<in> set (t_orders (db_tables d))" "po_Id q = i" "spent q"
    using assms(1,2) by (auto simp: safe_def)
  have "\<not> P r" if "r \<in> set (t_orders (db_tables d))" for r
    using that P[of r] q unique_id[of "t_orders (db_tables d)" r q] assms(1)
    by (auto simp: safe_def tables_ok_def)
  then show ?thesis using update_orders_Inr(3)[OF u] by simp
qed

lemma keeps_at:
  fixes d :: db
  assumes "keeps I m" "I (db_tables d)" "m d = (x, d')"
  shows "I (db_tables d')"
  using assms unfolding keeps_def by (metis snd_conv)

lemma keeps_guarded:
  assumes "keeps I m"
    and "\<And>d n d'. I (db_tables d) \<Longrightarrow> m d = (Inr n, d') \<Longrightarrow> I (db_tables (snd (f n d')))"
  shows "keeps I (andThen m f)"
  unfolding keeps_def
proof (intro allI impI)
  fix d :: db assume i: "I (db_tables d)"
  obtain x d1 where m: "m d = (x, d1)" by fastforce
  show "I (db_tables (snd (andThen m f d)))"
    using keeps_at[OF assms(1) i m] assms(2)[OF i] m by (cases x) (simp_all add: andThen_def)
qed

lemma keeps_recover_body: "keeps (safe S) (recover_body recovered now grace)"
  unfolding recover_body_def
proof (rule keeps_guarded)
  let ?P = "\<lambda>r. po_Id r = rc_OrderID recovered \<and> po_Provider r = ProviderCryptoBot
     \<and> (po_Status r \<in> {StatusInvoiceCreating, StatusRecoverable} \<or> po_Status r = StatusPending \<and> po_ProviderRef r = '''')"
  let ?claim = "update_orders ?P (\<lambda>r. r\<lparr>po_Status := StatusRecoverable\<rparr>)"
  show claim: "keeps (safe S) ?claim"
    by (intro keeps_intros) (auto simp: harm_simps)
  fix d n d1 assume s: "safe S (db_tables d)" and c: "?claim d = (Inr n, d1)"
  have s1: "safe S (db_tables d1)" by (rule keeps_at[OF claim s c])
  define rest where "rest = (\<lambda>order. if rc_ReviewReason recovered \<noteq> '''' then review_order (po_Id order) (rc_ReviewReason recovered)
        else if rc_Candidates recovered = [] then ret not_applied
        else case scan_candidates {} (rc_Candidates recovered) of
          None \<Rightarrow> review_order (po_Id order) ''provider_metadata_or_identity_conflict''
        | Some (active, paidInvoices) \<Rightarrow> recover_scanned order active paidInvoices now grace)"
  have k: "keeps (safe S) (andThen (first_order (\<lambda>r. po_Id r = rc_OrderID recovered)) rest)"
    if o: "rc_OrderID recovered \<notin> S"
  proof (rule keeps_guarded)
    fix d n d' assume "safe S (db_tables d)" and f: "first_order (\<lambda>r. po_Id r = rc_OrderID recovered) d = (Inr n, d')"
    moreover have "po_Id n \<notin> S" using first_order_Inr(2)[OF f] o by simp
    then have "keeps (safe S) (rest n)" unfolding rest_def
      by (intro keeps_intros keeps_review_order keeps_recover_scanned)
    ultimately show "safe S (db_tables (snd (rest n d')))"
      using first_order_Inr(3)[OF f] by (simp add: keeps_def)
  qed (intro keeps_intros)
  have "n = 0" if "rc_OrderID recovered \<in> S"
    by (rule update_spent_none[OF s that _ c]) (auto simp: spent_def)
  then have "rc_OrderID recovered \<notin> S" if "n = 1" using that by auto
  then have "keeps (safe S) (if n \<noteq> 1 then fail OrderAlreadyFinalized
      else andThen (first_order (\<lambda>r. po_Id r = rc_OrderID recovered)) rest)"
    using k keeps_fail by (cases "n \<noteq> 1") simp_all
  then show "safe S (db_tables (snd ((if n \<noteq> 1 then fail OrderAlreadyFinalized
      else andThen (first_order (\<lambda>r. po_Id r = rc_OrderID recovered)) rest) d1)))"
    using s1 by (simp add: keeps_def)
qed

lemma keeps_RecoverProviderOrder [keeps_intros]: "keeps (safe S) (RecoverProviderOrder recovered now grace)"
  by (rule keeps_mapped[OF keeps_transaction[OF keeps_recover_body[of S recovered now grace]]])
     (auto simp: RecoverProviderOrder_def split: prod.splits sum.splits)

text \<open>The migration.\<close>

lemma reclassify_sel [simp]: "po_Id (reclassify s reason r) = po_Id r" "po_Status (reclassify s reason r) = s"
  by (simp_all add: reclassify_def)

lemma reclassify_row_id [simp]: "po_Id (reclassify_row r) = po_Id r"
  by (simp add: reclassify_row_def Let_def)

lemma spent_cases:
  assumes "spent r"
  shows "\<not> uncertain_outcome r" "\<not> legacy_crypto r" "\<not> legacy_other r"
  using assms by (auto simp: spent_def migration_tests)

lemma reclassify_row_spent: "spent r \<Longrightarrow> spent (reclassify_row r)"
  using spent_cases[of r] spent_cases[of "reclassify StatusManualReview ''legacy_snapshot_missing'' r"]
  by (cases "legacy_paid r") (simp_all add: reclassify_row_def Let_def, simp_all add: spent_def)

lemma update_where_spent:
  assumes "\<exists>q\<in>set rs. po_Id q = i \<and> spent q" and id: "\<And>q. po_Id (f q) = po_Id q"
    and sp: "\<And>q. spent q \<Longrightarrow> spent (f q)"
  shows "\<exists>q\<in>set (update_where P f rs). po_Id q = i \<and> spent q"
proof -
  obtain q where q: "q \<in> set rs" "po_Id q = i" "spent q" using assms(1) by auto
  then have "(if P q then f q else q) \<in> set (update_where P f rs)" by (simp add: update_where_def)
  moreover have "po_Id (if P q then f q else q) = i" using q id by simp
  moreover have "spent (if P q then f q else q)" using q sp by simp
  ultimately show ?thesis by blast
qed

lemma migrate_spent:
  assumes d: "distinct (map po_Id rows)" and "r \<in> set rows" "spent r"
  shows "\<exists>q\<in>set (migrateOrders rows). po_Id q = po_Id r \<and> spent q"
proof -
  have d': "distinct (map po_Id (reclassify_orders rows))"
    using d by (simp add: reclassify_orders_map comp_def)
  have r: "reclassify_row r \<in> set (reclassify_orders rows)" using assms(2) by (simp add: reclassify_orders_map)
  have "\<exists>q\<in>set (reclassify_orders rows). po_Id q = po_Id r \<and> spent q"
    using r reclassify_row_spent[OF assms(3)]
    by (intro bexI[of _ "reclassify_row r"]) simp_all
  then have "\<exists>q\<in>set (extract_refs 0 (reclassify_orders rows)). po_Id q = po_Id r \<and> spent q"
    unfolding extract_refs_map[OF d'] by (intro update_where_spent) (simp_all add: spent_def)
  then show ?thesis
    unfolding migrateOrders_def quarantine_purchases_def quarantine_refs_def
    by (intro update_where_spent) (simp_all add: spent_def)
qed

lemma keeps_EnsureSchema [keeps_intros]: "keeps (safe S) EnsureSchema"
  unfolding EnsureSchema_def ensureSchema_def
proof (intro keeps_transaction keeps_exec)
  fix t x t' assume s: "safe S t"
    and e: "(if \<not> base_indexes (t_orders t) then Inl UniqueViolation
      else let rows = migrateOrders (t_orders t)
           in if orders_ok rows then Inr ((), t\<lparr>t_orders := rows\<rparr>) else Inl UniqueViolation) = Inr (x, t')"
  then have ok: "orders_ok (migrateOrders (t_orders t))" and t': "t' = t\<lparr>t_orders := migrateOrders (t_orders t)\<rparr>"
    by (auto simp: Let_def split: if_splits)
  have d: "distinct (map po_Id (t_orders t))"
    using s by (simp add: safe_def tables_ok_def orders_ok_def unique_on_def)
  have "po_Id ` set (migrateOrders (t_orders t)) = po_Id ` set (t_orders t)"
    using arg_cong[OF evidence_ids[OF migrate_evidence[OF d]], of set] by simp
  then have b: "\<forall>r\<in>set (migrateOrders (t_orders t)). po_Id r < t_next_order t"
    using s unfolding safe_def tables_ok_def by (metis (no_types, lifting) image_iff)
  have "\<forall>i\<in>S. \<exists>r\<in>set (migrateOrders (t_orders t)). po_Id r = i \<and> spent r"
  proof
    fix i assume "i \<in> S"
    then obtain r where "r \<in> set (t_orders t)" "po_Id r = i" "spent r" using s unfolding safe_def by blast
    then show "\<exists>r\<in>set (migrateOrders (t_orders t)). po_Id r = i \<and> spent r" using migrate_spent[OF d] by blast
  qed
  then show "safe S t'" using s ok b by (simp add: t' safe_def tables_ok_def)
qed

text \<open>The coordinator, the bindings and the tariffs.\<close>

lemma keeps_choose:
  assumes "keeps I m" and "\<And>e. keeps I (f e)" and "\<And>x. keeps I (g x)"
  shows "keeps I (\<lambda>d. case m d of (Inl e, d') \<Rightarrow> f e d' | (Inr x, d') \<Rightarrow> g x d')"
  unfolding keeps_def
proof (intro allI impI)
  fix d :: db assume i: "I (db_tables d)"
  obtain x d1 where m: "m d = (x, d1)" by fastforce
  show "I (db_tables (snd (case m d of (Inl e, d') \<Rightarrow> f e d' | (Inr x, d') \<Rightarrow> g x d')))"
    using keeps_at[OF assms(1) i m] assms(2,3) m by (cases x) (simp_all add: keeps_def)
qed

lemma keeps_finish_invoice [keeps_intros]: "keeps (safe S) (finish_invoice kind createInvoice r)"
proof -
  have g: "keeps (safe S) (if kind = ProviderCryptoBot
            then despite (MarkInvoiceRecoverable (po_Id r)) (InvoiceFailed r)
            else despite (MarkOrderFailed (po_Id r)) (InvoiceFailed r))"
    by (intro keeps_intros)
  have "keeps (safe S) (\<lambda>d. (Inr x, d))" for x :: create_result by (simp add: keeps_def)
  then show ?thesis unfolding finish_invoice_def Let_def
    by (intro keeps_case_option keeps_if g keeps_choose keeps_intros)
qed

lemma keeps_create_new [keeps_intros]: "keeps (safe S) (create_new kind c t u ttl key now createInvoice)"
  unfolding create_new_def by (intro keeps_intros)

lemma keeps_CreateOrder [keeps_intros]: "keeps (safe S) (CreateOrder kind av c t u ttl key now createInvoice)"
  unfolding CreateOrder_def by (intro keeps_intros)

lemma keeps_ApplyPaidOrder [keeps_intros]: "keeps (safe S) (ApplyPaidOrder i charge now)"
  by (rule keeps_mapped[OF keeps_ApplyPaidOrderGrant[of S i charge now "''PaidSubBot''"]])
     (auto simp: ApplyPaidOrder_def split: prod.splits sum.splits)

lemma keeps_stars_refund [keeps_intros]: "keeps (safe S) (stars_refund i revoke tok n1 n2 ok remote)"
  unfolding stars_refund_def by (intro keeps_intros)

lemma keeps_GetOrder [keeps_intros]: "keeps I (GetOrder i)"
  unfolding GetOrder_def by (intro keeps_intros)

lemma keeps_manual_refund:
  "keeps (safe S) (\<lambda>d. case FinalizeRefundGrant i revoke now actor d of
      (Inl e, d') \<Rightarrow> if e = OrderAlreadyFinalized then (Inr RefundedManual, d') else (Inl e, d')
    | (Inr x, d') \<Rightarrow> (Inr RefundedManual, d'))"
  by (rule keeps_mapped[OF keeps_FinalizeRefundGrant[of S i revoke now actor]]) (auto split: prod.splits sum.splits)

lemma keeps_refundOrder [keeps_intros]: "keeps (safe S) (refundOrder i revoke tok n1 n2 ok remote)"
  unfolding refundOrder_def by (intro keeps_intros keeps_manual_refund)

lemma unique_on_filter: "unique_on cond key rows \<Longrightarrow> unique_on cond key (filter P rows)"
proof -
  have "filter cond (filter P rows) = filter P (filter cond rows)" by (simp add: conj_commute)
  then show "unique_on cond key rows \<Longrightarrow> ?thesis" by (simp only: unique_on_def distinct_map_filter)
qed

lemma safe_bindings_filter: "safe S t \<Longrightarrow> safe S (t\<lparr>t_bindings := filter P (t_bindings t)\<rparr>)"
  by (auto simp: safe_def tables_ok_def bindings_ok_def unique_on_filter)

lemma keeps_SetBinding [keeps_intros]: "keeps (safe S) (SetBinding c u now)"
  unfolding SetBinding_def
proof (intro keeps_intros keeps_exec, goal_cases)
  case (1 t x t')
  then show ?case using safe_bindings_filter by auto
next
  case (2 _ t x t')
  then show ?case by (auto simp: Let_def safe_def tables_ok_def less_Suc_eq split: if_splits)
qed

lemma keeps_UnbindClient [keeps_intros]: "keeps (safe S) (UnbindClient c)"
  unfolding UnbindClient_def by (rule keeps_exec) (use safe_bindings_filter in auto)

lemma keeps_create_tariff [keeps_intros]: "keeps (safe S) (create_tariff x)"
  unfolding create_tariff_def
  by (rule keeps_exec) (fastforce simp: safe_def tables_ok_def less_Suc_eq unique_on_def)

lemma keeps_update_tariff [keeps_intros]: "keeps (safe S) (update_tariff n)"
  unfolding update_tariff_def
proof (rule keeps_exec, goal_cases)
  case (1 t x t')
  have "unique_on (\<lambda>_. True) ta_Id (map (\<lambda>r. if ta_Id r = ta_Id n then n\<lparr>ta_CreatedAt := ta_CreatedAt r\<rparr> else r) (t_tariffs t))
      = unique_on (\<lambda>_. True) ta_Id (t_tariffs t)"
    by (rule unique_map_same) simp
  then show ?case using 1 by (fastforce simp: safe_def tables_ok_def)
qed

lemma keeps_deleteTariffs [keeps_intros]: "keeps (safe S) (deleteTariffsWithoutOrders ids)"
  unfolding deleteTariffsWithoutOrders_def
proof (intro keeps_intros, goal_cases)
  case 1
  then show ?case by (rule keeps_read) auto
next
  case (2 x)
  show ?case by (rule keeps_exec) (auto simp: safe_def tables_ok_def unique_on_filter)
qed

lemma keeps_SaveTariff [keeps_intros]: "keeps (safe S) (SaveTariff upper request now)"
  unfolding SaveTariff_def by (cases request) (simp_all only: tariff_request.case, (intro keeps_intros)+)


section \<open>Sequences of operations\<close>

text \<open>Every database operation of the component that changes state, at the grain of its
  transactions, so that a sequence is any interleaving of requests, pollers and restarts; the
  composed handlers are operations as well.  \<open>OpClients\<close> is any edit of the clients by the rest
  of the panel that keeps their ids unique.  The fault schedule in the database makes any
  statement of any operation fail.\<close>

datatype op =
  OpCreateOrder provider_kind bool nat nat int "int option" "string option" int "PaymentOrder \<Rightarrow> Invoice option"
| OpIntent PaymentOrder | OpInsert PaymentOrder | OpRecoverable nat | OpSaveInvoice nat "Invoice option"
| OpApplyPaid nat string int | OpRecover Reconciliation int int
| OpRefund nat bool "string option" int int bool "PaymentOrder \<Rightarrow> bool"
| OpClaim nat bool string int | OpFinalizeClaimed nat string int string | OpFinalize nat bool int string
| OpRelease nat string
| OpMarkFailed nat | OpReview "nat list" | OpExpireStale int | OpExpireVerified "nat list" int int
| OpAdvance string nat | OpCompleteCancellation nat
| OpSetBinding nat int int | OpUnbind nat | OpSaveTariff "string \<Rightarrow> string" tariff_request int
| OpEnsureSchema | OpClients "Client list"

definition edit_clients :: "Client list \<Rightarrow> unit stmt" where
  "edit_clients cs = exec (\<lambda>t. if unique_on (\<lambda>_. True) cl_Id cs then Inr ((), t\<lparr>t_clients := cs\<rparr>) else Inl UniqueViolation)"

text \<open>One operation: the orders it granted, and the database after it.\<close>

fun perform :: "op \<Rightarrow> db \<Rightarrow> nat list \<times> db" where
  "perform (OpApplyPaid i charge now) d =
     (case ApplyPaidOrder i charge now d of (r, d') \<Rightarrow> (case r of Inr (True, _) \<Rightarrow> [i] | _ \<Rightarrow> [], d'))"
| "perform (OpRecover recovered now grace) d =
     (case RecoverProviderOrder recovered now grace d of
        (r, d') \<Rightarrow> (case r of Inr a \<Rightarrow> if ar_Applied a then [rc_OrderID recovered] else [] | Inl _ \<Rightarrow> [], d'))"
| "perform (OpCreateOrder kind av c t u ttl key now f) d = ([], snd (CreateOrder kind av c t u ttl key now f d))"
| "perform (OpIntent r) d = ([], snd (CreateInvoiceIntent r d))"
| "perform (OpInsert r) d = ([], snd (insert_order r d))"
| "perform (OpRecoverable i) d = ([], snd (MarkInvoiceRecoverable i d))"
| "perform (OpSaveInvoice i got) d = ([], snd (SaveInvoiceResult i got d))"
| "perform (OpRefund i revoke tok n1 n2 ok remote) d = ([], snd (refundOrder i revoke tok n1 n2 ok remote d))"
| "perform (OpClaim i revoke tok now) d = ([], snd (ClaimStarsRefund i revoke tok now d))"
| "perform (OpFinalizeClaimed i tok now actor) d = ([], snd (FinalizeClaimedRefundGrant i tok now actor d))"
| "perform (OpFinalize i revoke now actor) d = ([], snd (FinalizeRefundGrant i revoke now actor d))"
| "perform (OpRelease i tok) d = ([], snd (ReleaseRefundClaim i tok d))"
| "perform (OpMarkFailed i) d = ([], snd (MarkOrderFailed i d))"
| "perform (OpReview ids) d = ([], snd (ReviewProviderOrders ids d))"
| "perform (OpExpireStale now) d = ([], snd (ExpireStaleOrders now d))"
| "perform (OpExpireVerified ids now grace) d = ([], snd (ExpireVerifiedProviderOrders ids now grace d))"
| "perform (OpAdvance kind after) d = ([], snd (AdvanceProviderCursor kind after d))"
| "perform (OpCompleteCancellation i) d = ([], snd (CompleteCancellation i d))"
| "perform (OpSetBinding c u now) d = ([], snd (SetBinding c u now d))"
| "perform (OpUnbind c) d = ([], snd (UnbindClient c d))"
| "perform (OpSaveTariff upper request now) d = ([], snd (SaveTariff upper request now d))"
| "perform OpEnsureSchema d = ([], snd (EnsureSchema d))"
| "perform (OpClients cs) d = ([], snd (edit_clients cs d))"

fun perform_all :: "op list \<Rightarrow> db \<Rightarrow> nat list \<times> db" where
  "perform_all [] d = ([], d)"
| "perform_all (a # as) d =
     (case perform a d of (g, d1) \<Rightarrow> case perform_all as d1 of (gs, d2) \<Rightarrow> (g @ gs, d2))"

lemma keeps_edit_clients: "keeps (safe S) (edit_clients cs)"
  unfolding edit_clients_def by (rule keeps_exec) (auto simp: safe_def tables_ok_def split: if_splits)

lemma keeps_snd: "keeps I m \<Longrightarrow> I (db_tables d) \<Longrightarrow> I (db_tables (snd (m d)))"
  by (simp add: keeps_def)

lemmas op_keeps = keeps_CreateOrder keeps_CreateInvoiceIntent keeps_insert_order keeps_MarkInvoiceRecoverable
  keeps_SaveInvoiceResult keeps_ApplyPaidOrder keeps_RecoverProviderOrder keeps_refundOrder keeps_ClaimStarsRefund
  keeps_FinalizeClaimedRefundGrant keeps_FinalizeRefundGrant keeps_ReleaseRefundClaim keeps_MarkOrderFailed
  keeps_ReviewProviderOrders keeps_ExpireStaleOrders keeps_ExpireVerifiedProviderOrders
  keeps_AdvanceProviderCursor keeps_CompleteCancellation keeps_SetBinding keeps_UnbindClient
  keeps_SaveTariff keeps_EnsureSchema keeps_edit_clients

lemma perform_snd:
  "snd (perform (OpApplyPaid i charge now) d) = snd (ApplyPaidOrder i charge now d)"
  "snd (perform (OpRecover recovered now grace) d) = snd (RecoverProviderOrder recovered now grace d)"
  by (simp_all split: prod.splits)

lemma perform_keeps:
  assumes "safe S (db_tables d)"
  shows "safe S (db_tables (snd (perform a d)))"
proof (cases a)
  case (OpApplyPaid i charge now)
  then show ?thesis using assms op_keeps[THEN keeps_snd] by (simp only: perform_snd)
next
  case (OpRecover recovered now grace)
  then show ?thesis using assms op_keeps[THEN keeps_snd] by (simp only: perform_snd)
qed (simp_all add: assms op_keeps[THEN keeps_snd])

text \<open>A grant takes an order that is not spent and leaves it spent.\<close>

lemma grant_spends:
  assumes s: "safe S (db_tables d)" and a: "ApplyPaidOrderGrant i charge now actor d = (Inr res, d')"
  shows "i \<notin> S" "safe (insert i S) (db_tables d')"
proof -
  have ok: "tables_ok (db_tables d)" using s by (simp add: safe_def)
  have s': "safe S (db_tables d')" by (rule keeps_at[OF keeps_ApplyPaidOrderGrant s a])
  obtain r c g where r: "r \<in> set (t_orders (db_tables d))" "po_Id r = i" "po_Status r = StatusPending"
    and t: "t_orders (db_tables d') = map (\<lambda>q. if po_Id q = i then granted_order g charge now c q else q) (t_orders (db_tables d))"
    by (rule ApplyPaidOrderGrant_Inr[OF ok a]) auto
  show "i \<notin> S"
    using s r unique_id[of "t_orders (db_tables d)"] unfolding safe_def tables_ok_def spent_def by fastforce
  have "granted_order g charge now c r \<in> set (t_orders (db_tables d'))" using r t by force
  moreover have "po_Id (granted_order g charge now c r) = i" "spent (granted_order g charge now c r)"
    using r by (simp_all add: granted_order_def Let_def spent_def)
  ultimately show "safe (insert i S) (db_tables d')" using s' by (auto simp: safe_def)
qed

text \<open>A statement that, when it reports a grant, has spent the order.\<close>

definition spends :: "nat set \<Rightarrow> nat \<Rightarrow> AppliedOrderResult stmt \<Rightarrow> bool" where
  "spends S i m \<longleftrightarrow> (\<forall>d a d'. safe S (db_tables d) \<longrightarrow> m d = (Inr a, d') \<longrightarrow> ar_Applied a
     \<longrightarrow> safe (insert i S) (db_tables d'))"

lemma spends_andThen: "keeps (safe S) m \<Longrightarrow> (\<And>x. spends S i (f x)) \<Longrightarrow> spends S i (andThen m f)"
  unfolding spends_def by (metis andThen_Inr keeps_at)

lemma spends_not_applied: "spends S i (ret not_applied)"
  by (simp add: spends_def ret_Inr not_applied_def)

lemma spends_if: "spends S i m \<Longrightarrow> spends S i n \<Longrightarrow> spends S i (if b then m else n)"
  by simp

lemma spends_grant: "spends S i (ApplyPaidOrderGrant i charge now actor)"
  unfolding spends_def using grant_spends(2) by blast

lemma spends_review: "j \<notin> S \<Longrightarrow> spends S i (review_order j reason)"
  unfolding review_order_def by (intro spends_andThen spends_not_applied keeps_update_order) simp_all

lemma spends_legacy: "po_Id r \<notin> S \<Longrightarrow> spends S i (recover_legacy r active paidInvoices)"
  unfolding recover_legacy_def
  by (intro spends_andThen spends_not_applied keeps_intros keeps_update_order) simp_all

lemma spends_canonical: "po_Id r \<notin> S \<Longrightarrow> spends S (po_Id r) (recover_canonical r c active now)"
  unfolding recover_canonical_def
  by (intro spends_if spends_andThen spends_not_applied spends_review spends_grant keeps_queueCancellations keeps_update_order)
     simp_all

lemma spends_scanned:
  assumes "po_Id r \<notin> S"
  shows "spends S (po_Id r) (recover_scanned r active paidInvoices now grace)"
proof -
  have e: "spends S (po_Id r) (andThen (update_order (po_Id r)
      (\<lambda>r. r\<lparr>po_Status := StatusExpired, po_ReviewReason := ''provider_terminal''\<rparr>)) (\<lambda>_. ret not_applied))"
    using assms by (intro spends_andThen spends_not_applied keeps_update_order) simp_all
  show ?thesis
    unfolding recover_scanned_def
    using e spends_legacy[OF assms] spends_canonical[OF assms] spends_review[OF assms] spends_not_applied
    by (simp split: list.split)
qed

lemma recover_spends:
  assumes s: "safe S (db_tables d)" and "recover_body recovered now grace d = (Inr a, d')" "ar_Applied a"
  shows "rc_OrderID recovered \<notin> S" "safe (insert (rc_OrderID recovered) S) (db_tables d')"
proof -
  let ?P = "\<lambda>r. po_Id r = rc_OrderID recovered \<and> po_Provider r = ProviderCryptoBot
     \<and> (po_Status r \<in> {StatusInvoiceCreating, StatusRecoverable} \<or> po_Status r = StatusPending \<and> po_ProviderRef r = '''')"
  define rest where "rest = (\<lambda>order. if rc_ReviewReason recovered \<noteq> '''' then review_order (po_Id order) (rc_ReviewReason recovered)
        else if rc_Candidates recovered = [] then ret not_applied
        else case scan_candidates {} (rc_Candidates recovered) of
          None \<Rightarrow> review_order (po_Id order) ''provider_metadata_or_identity_conflict''
        | Some (active, paidInvoices) \<Rightarrow> recover_scanned order active paidInvoices now grace)"
  obtain n d1 where c: "update_orders ?P (\<lambda>r. r\<lparr>po_Status := StatusRecoverable\<rparr>) d = (Inr n, d1)"
    and n: "(if n \<noteq> 1 then fail OrderAlreadyFinalized
      else andThen (first_order (\<lambda>r. po_Id r = rc_OrderID recovered)) rest) d1 = (Inr a, d')"
    using assms(2) unfolding recover_body_def andThen_Inr[of "update_orders _ _"] rest_def by blast
  have n1: "n = 1" and "andThen (first_order (\<lambda>r. po_Id r = rc_OrderID recovered)) rest d1 = (Inr a, d')"
    using n by (auto simp: fail_def split: if_splits)
  then obtain r d2 where f: "first_order (\<lambda>r. po_Id r = rc_OrderID recovered) d1 = (Inr r, d2)"
    and rest: "rest r d2 = (Inr a, d')" by (auto simp: andThen_Inr)
  have "n = 0" if "rc_OrderID recovered \<in> S"
    by (rule update_spent_none[OF s that _ c]) (auto simp: spent_def)
  then show i: "rc_OrderID recovered \<notin> S" using n1 by auto
  have claim: "keeps (safe S) (update_orders ?P (\<lambda>r. r\<lparr>po_Status := StatusRecoverable\<rparr>))"
    by (intro keeps_intros) (auto simp: harm_simps)
  have s2: "safe S (db_tables d2)"
    using keeps_at[OF claim s c] first_order_Inr(3)[OF f] by simp
  have r: "po_Id r = rc_OrderID recovered" using first_order_Inr(2)[OF f] .
  have "spends S (po_Id r) (rest r)"
    unfolding rest_def using i spends_review spends_scanned spends_not_applied
    by (auto simp: r[symmetric] split: option.split)
  then show "safe (insert (rc_OrderID recovered) S) (db_tables d')"
    unfolding spends_def using s2 rest assms(3) r by metis
qed

lemma perform_spends:
  assumes s: "safe S (db_tables d)" and p: "perform a d = (g, d')"
  shows "distinct g" "set g \<inter> S = {}" "safe (S \<union> set g) (db_tables d')"
proof -
  have k: "safe S (db_tables d')" using perform_keeps[OF s, of a] p by simp
  consider "g = []"
    | i charge now res where "g = [i]" "ApplyPaidOrderGrant i charge now ''PaidSubBot'' d = (Inr res, d')"
    | recovered now grace x where "g = [rc_OrderID recovered]" "recover_body recovered now grace d = (Inr x, d')" "ar_Applied x"
    using p by (cases a)
      (auto simp: ApplyPaidOrder_def RecoverProviderOrder_def transaction_def not_applied_def
        split: prod.splits sum.splits if_splits bool.splits)
  then have "distinct g \<and> set g \<inter> S = {} \<and> safe (S \<union> set g) (db_tables d')"
  proof cases
    case 1
    then show ?thesis using k by simp
  next
    case 2
    then show ?thesis using grant_spends[OF s 2(2)] by simp
  next
    case 3
    then show ?thesis using recover_spends[OF s 3(2,3)] by simp
  qed
  then show "distinct g" "set g \<inter> S = {}" "safe (S \<union> set g) (db_tables d')" by auto
qed

lemma perform_all_spends:
  assumes "safe S (db_tables d)"
  shows "distinct (fst (perform_all as d)) \<and> set (fst (perform_all as d)) \<inter> S = {}
    \<and> safe (S \<union> set (fst (perform_all as d))) (db_tables (snd (perform_all as d)))"
  using assms
proof (induction as arbitrary: S d)
  case Nil
  then show ?case by simp
next
  case (Cons a as)
  obtain g d1 where p: "perform a d = (g, d1)" by fastforce
  note sp = perform_spends[OF Cons.prems p]
  show ?case using Cons.IH[OF sp(3)] sp(1,2) p
    by (auto simp: Un_assoc split: prod.splits)
qed

section \<open>Failures leave no trace\<close>

definition atomic :: "'a stmt \<Rightarrow> bool" where
  "atomic m \<longleftrightarrow> (\<forall>d e d'. m d = (Inl e, d') \<longrightarrow> db_tables d' = db_tables d)"

lemma atomic_transaction: "atomic (transaction m)"
  unfolding atomic_def using transaction_error by blast

lemma atomic_fail: "atomic (fail e)"
  by (simp add: atomic_def fail_def)

lemma atomic_if: "atomic m \<Longrightarrow> atomic n \<Longrightarrow> atomic (if b then m else n)"
  by simp

lemma atomic_mapped:
  assumes "atomic m" "\<And>d e d'. n d = (Inl e, d') \<Longrightarrow> m d = (Inl e, d')"
  shows "atomic n"
  using assms unfolding atomic_def by blast

lemmas atomic_intros = atomic_if atomic_fail atomic_transaction

lemma atomic_grant: "atomic (ApplyPaidOrderGrant i charge now actor)"
  unfolding ApplyPaidOrderGrant_def by (intro atomic_intros)

lemma atomic_apply: "atomic (ApplyPaidOrder i charge now)"
  by (rule atomic_mapped[OF atomic_grant[of i charge now "''PaidSubBot''"]])
     (auto simp: ApplyPaidOrder_def split: prod.splits sum.splits if_splits)

lemma atomic_finalize: "atomic (finalizeRefundGrant i status token revoke now actor)"
  unfolding finalizeRefundGrant_def by (intro atomic_intros)

lemma atomic_claim: "atomic (ClaimStarsRefund i revoke token now)"
  unfolding ClaimStarsRefund_def by (intro atomic_intros)

lemma atomic_recover: "atomic (RecoverProviderOrder recovered now grace)"
  by (rule atomic_mapped[OF atomic_transaction[of "recover_body recovered now grace"]])
     (auto simp: RecoverProviderOrder_def split: prod.splits sum.splits if_splits)

lemma atomic_intent: "atomic (CreateInvoiceIntent r)"
  unfolding CreateInvoiceIntent_def Let_def by (intro atomic_intros)

lemma atomic_complete: "atomic (CompleteCancellation i)"
  unfolding CompleteCancellation_def by (intro atomic_intros)

lemma atomic_binding: "atomic (SetBinding c u now)"
  unfolding SetBinding_def by (intro atomic_intros)

lemma atomic_schema: "atomic EnsureSchema"
  unfolding EnsureSchema_def by (intro atomic_intros)

section \<open>Properties\<close>

text \<open>C1. Exactly once: over any sequence of operations, repeated confirmations, recoveries,
  refunds, migrations, edits of the clients and storage faults included, no order is granted
  twice, an order paid or put aside before is never granted, and every granted order stays spent.\<close>

theorem paid_exactly_once:
  assumes "tables_ok (db_tables d)"
  shows "(distinct (fst (perform_all ops d)))
    \<and> (\<forall>i\<in>set (fst (perform_all ops d)). \<forall>r\<in>set (t_orders (db_tables d)). po_Id r = i \<longrightarrow> \<not> spent r)
    \<and> (\<forall>i\<in>set (fst (perform_all ops d)). \<exists>r\<in>set (t_orders (db_tables (snd (perform_all ops d)))). po_Id r = i \<and> spent r)"
proof (rule conjI [OF _ conjI])
  let ?S = "{i. \<exists>r\<in>set (t_orders (db_tables d)). po_Id r = i \<and> spent r}"
  have "safe ?S (db_tables d)" using assms by (auto simp: safe_def)
  note all = perform_all_spends[OF this, of ops]
  then show "distinct (fst (perform_all ops d))" by blast
  show "\<forall>i\<in>set (fst (perform_all ops d)). \<forall>r\<in>set (t_orders (db_tables d)). po_Id r = i \<longrightarrow> \<not> spent r"
    using all by blast
  show "\<forall>i\<in>set (fst (perform_all ops d)). \<exists>r\<in>set (t_orders (db_tables (snd (perform_all ops d)))). po_Id r = i \<and> spent r"
    using all by (simp add: safe_def)
qed



text \<open>C29. What a payment buys: the order was pending and becomes paid; its client's expiry moves
  from the later of now and its old value by the days bought, the volume grows by the traffic
  bought, usage moves from the live counters to the totals and is conserved, a block that is not
  the quota's or the expiry's stays, every other client is untouched, and no sum exceeds 64 bits.\<close>

theorem paid_grant_effect:
  assumes "tables_ok (db_tables d)" "ApplyPaidOrderGrant i charge now actor d = (Inr res, d')"
  shows "\<exists>r\<in>set (t_orders (db_tables d)). \<exists>c\<in>set (t_clients (db_tables d)). \<exists>c'.
     po_Id r = i \<and> po_Status r = StatusPending \<and> cl_Id c = po_ClientId r
     \<and> (\<exists>r'\<in>set (t_orders (db_tables d')). po_Id r' = i \<and> po_Status r' = StatusPaid \<and> po_ProviderChargeID r' = charge)
     \<and> t_clients (db_tables d') = map (\<lambda>x. if cl_Id x = cl_Id c then c' else x) (t_clients (db_tables d))
     \<and> cl_Expiry c' = (if po_GrantAddDays r > 0 then max (cl_Expiry c) now + po_GrantAddDays r * 86400 else cl_Expiry c)
     \<and> (po_GrantAddDays r > 0 \<longrightarrow> cl_Expiry c' \<le> int64_max)
     \<and> cl_Volume c' = cl_Volume c + po_GrantTraffic r
     \<and> (po_GrantTraffic r > 0 \<longrightarrow> cl_Volume c' \<le> int64_max \<and> cl_Up c' = 0 \<and> cl_Down c' = 0)
     \<and> cl_TotalUp c' + cl_Up c' = cl_TotalUp c + cl_Up c
     \<and> cl_TotalDown c' + cl_Down c' = cl_TotalDown c + cl_Down c
     \<and> (cl_Enable c' \<longleftrightarrow> cl_AccessDisableReason c \<in> {'''', ClientDisabledQuota, ClientDisabledExpired})
     \<and> (cl_AccessDisableReason c' = (if cl_Enable c' then '''' else cl_AccessDisableReason c))"
proof -
  obtain r c g where r: "r \<in> set (t_orders (db_tables d))" "po_Id r = i" "po_Status r = StatusPending"
    and c: "c \<in> set (t_clients (db_tables d))" "cl_Id c = po_ClientId r"
    and g: "grantForOrder r = Inr g" and range: "grant_in_range g now c"
    and t: "db_tables d' = (db_tables d)\<lparr>
       t_orders := map (\<lambda>q. if po_Id q = i then granted_order g charge now c q else q) (t_orders (db_tables d)),
       t_clients := map (\<lambda>x. if cl_Id x = cl_Id c then granted_client g now x else x) (t_clients (db_tables d)),
       t_changes := t_changes (db_tables d) @ [\<lparr>ch_DateTime = now, ch_Actor = actor, ch_Action = ''renew'', ch_Obj = cl_Name c\<rparr>]\<rparr>"
    by (rule ApplyPaidOrderGrant_Inr[OF assms])
  have gr: "ta_AddDays g = po_GrantAddDays r" "ta_AddTrafficBytes g = po_GrantTraffic r" "po_GrantTraffic r \<ge> 0"
    using g by (auto simp: grantForOrder_def empty_tariff_def split: if_splits)
  have "unique_on (\<lambda>_. True) cl_Id (t_clients (db_tables d))" using assms(1) by (simp add: tables_ok_def)
  then have cs: "t_clients (db_tables d') = map (\<lambda>x. if cl_Id x = cl_Id c then granted_client g now c else x) (t_clients (db_tables d))"
    using unique_onD[OF _ _ c(1)] t by auto
  have "granted_order g charge now c r \<in> set (t_orders (db_tables d'))" using r t by force
  moreover have "po_Id (granted_order g charge now c r) = i" "po_Status (granted_order g charge now c r) = StatusPaid"
    "po_ProviderChargeID (granted_order g charge now c r) = charge"
    using r by (simp_all add: granted_order_def Let_def)
  ultimately have ro: "\<exists>r'\<in>set (t_orders (db_tables d')). po_Id r' = i \<and> po_Status r' = StatusPaid \<and> po_ProviderChargeID r' = charge"
    by blast
  show ?thesis
    by (rule bexI[OF _ r(1)], rule bexI[OF _ c(1)], rule exI[of _ "granted_client g now c"])
       (use r c gr cs ro range in \<open>auto simp: granted_client_def renew_access_def Let_def grant_in_range_def\<close>)
qed

section \<open>An example\<close>

definition shop_client :: Client where
  "shop_client = \<lparr>cl_Id = 5, cl_Name = ''ann'', cl_Enable = False, cl_AccessDisableReason = ''QUOTA_EXHAUSTED'', cl_Inbounds = [2],
     cl_Volume = 100, cl_Expiry = 900, cl_Up = 40, cl_Down = 60, cl_TotalUp = 7, cl_TotalDown = 8\<rparr>"

definition shop_order :: PaymentOrder where
  "shop_order = (NewPendingOrder shop_client (empty_tariff\<lparr>ta_Id := 3, ta_AddDays := 30, ta_AddTrafficBytes := 500\<rparr>)
     ProviderStars 10 ''XTR'' 77 ''key'' 800 60)\<lparr>po_Id := 1\<rparr>"

definition shop :: db where
  "shop = \<lparr>db_tables = \<lparr>t_orders = [shop_order], t_clients = [shop_client], t_tariffs = [], t_bindings = [],
     t_cancellations = [], t_cursors = Map.empty, t_changes = [], t_next_order = 2, t_next_binding = 1,
     t_next_cancellation = 1, t_next_tariff = 4\<rparr>, db_faults = []\<rparr>"

definition shop_ops :: "op list" where
  "shop_ops = [OpApplyPaid 1 ''tg:c'' 1000, OpApplyPaid 1 ''tg:c'' 1001, OpFinalize 1 True 1002 ''admin'', OpApplyPaid 1 ''tg:d'' 1003]"

lemma shop_ok: "tables_ok (db_tables shop)"
  by code_simp

theorem paid_exactly_once_witness:
  "fst (perform_all shop_ops shop) = [1] \<and> distinct (fst (perform_all shop_ops shop))"
  using paid_exactly_once[OF shop_ok, of shop_ops] by code_simp


lemma shop_grant: "fst (ApplyPaidOrderGrant 1 ''tg:c'' 1000 ''bot'' shop)
    = Inr \<lparr>ar_Applied = True, ar_TelegramUserID = 77, ar_InboundIDs = [2]\<rparr>"
  by code_simp

lemma shop_granted: "ApplyPaidOrderGrant 1 ''tg:c'' 1000 ''bot'' shop
    = (Inr \<lparr>ar_Applied = True, ar_TelegramUserID = 77, ar_InboundIDs = [2]\<rparr>, snd (ApplyPaidOrderGrant 1 ''tg:c'' 1000 ''bot'' shop))"
  using shop_grant by (metis prod.collapse)

theorem paid_grant_effect_witness:
  "\<exists>r\<in>set (t_orders (db_tables shop)). \<exists>c\<in>set (t_clients (db_tables shop)). \<exists>c'.
     t_clients (db_tables (snd (ApplyPaidOrderGrant 1 ''tg:c'' 1000 ''bot'' shop)))
       = map (\<lambda>x. if cl_Id x = cl_Id c then c' else x) (t_clients (db_tables shop))
     \<and> cl_Volume c' = cl_Volume c + po_GrantTraffic r"
  using paid_grant_effect[OF shop_ok shop_granted] by blast

end
