(* ===== verification/Paid_Refund.thy ===== *)
theory Paid_Refund
  imports Paid_Safety
begin

text \<open>
  Refunds, invoices and bindings (\<^verbatim>\<open>src/components/paid-subscriptions\<close>): a refund takes back
  exactly what the payment gave, a refund claim is exclusive while it lives, an invoice intent is
  idempotent per purchase, a binding is one to one.
\<close>

section \<open>What a refund does\<close>

lemma apply_no_updates: "apply_updates no_updates c = c"
  by (simp add: apply_updates_def no_updates_def pick_def)

definition no_newer_traffic :: "tables \<Rightarrow> PaymentOrder \<Rightarrow> bool" where
  "no_newer_traffic t r \<longleftrightarrow> (\<forall>q\<in>set (t_orders t). \<not> (po_ClientId q = po_ClientId r \<and> po_Id q > po_Id r
     \<and> po_Status q \<in> {StatusPaid, StatusRefundPending} \<and> po_GrantSnapshot q \<and> po_GrantTraffic q > 0))"

lemma newer_traffic_orders_Inr:
  assumes "newer_traffic_orders r d = (Inr n, d')"
  shows "n = 0 \<longleftrightarrow> no_newer_traffic (db_tables d) r" "db_tables d' = db_tables d"
  using assms by (auto simp: newer_traffic_orders_def exec_Inr no_newer_traffic_def filter_empty_conv)

lemma revoke_grant_Inr:
  assumes "revoke_grant r now actor d = (Inr ids, d')"
  obtains c g where "grantForOrder r = Inr g" "c \<in> set (t_clients (db_tables d))" "cl_Id c = po_ClientId r"
    "t_orders (db_tables d') = t_orders (db_tables d)"
    "t_clients (db_tables d') = map (\<lambda>x. if cl_Id x = cl_Id c
        then apply_updates (BuildRefundClientUpdates c r g now
          (ta_AddTrafficBytes g > 0 \<longrightarrow> no_newer_traffic (db_tables d) r)) x else x) (t_clients (db_tables d))"
proof -
  from assms obtain g c d1 b d2 where g: "grantForOrder r = Inr g"
    and s1: "first_client (po_ClientId r) d = (Inr c, d1)"
    and s2: "(if ta_AddTrafficBytes g > 0 then andThen (newer_traffic_orders r) (\<lambda>n. ret (n = 0)) else ret True) d1 = (Inr b, d2)"
    and s3: "(let updates = BuildRefundClientUpdates c r g now b
     in if updates = no_updates then ret []
        else andThen (update_client (cl_Id c) (apply_updates updates)) (\<lambda>_.
             andThen (record_change \<lparr>ch_DateTime = now, ch_Actor = actor, ch_Action = ''refund'', ch_Obj = cl_Name c\<rparr>)
             (\<lambda>_. ret (cl_Inbounds c)))) d2 = (Inr ids, d')"
    unfolding revoke_grant_def by (auto simp: andThen_Inr lift_result_Inr)
  note c = first_client_Inr[OF s1]
  have b: "b = (ta_AddTrafficBytes g > 0 \<longrightarrow> no_newer_traffic (db_tables d) r)" "db_tables d2 = db_tables d"
    using s2 c(3)
    by (auto simp: stmt_Inr split: if_splits dest: newer_traffic_orders_Inr(1) newer_traffic_orders_Inr(2))
  have "t_orders (db_tables d') = t_orders (db_tables d2)"
    "t_clients (db_tables d') = map (\<lambda>x. if cl_Id x = cl_Id c then apply_updates (BuildRefundClientUpdates c r g now b) x else x) (t_clients (db_tables d2))"
    using s3
    by (cases "BuildRefundClientUpdates c r g now b = no_updates";
        auto simp: Let_def stmt_Inr apply_no_updates[abs_def] map_idI dest!: update_client_Inr record_change_Inr)+
  then show ?thesis using that[OF g c(1,2)] b by simp
qed

lemma FinalizeRefundGrant_Inr:
  assumes ok: "tables_ok (db_tables d)" and a: "FinalizeRefundGrant i True now actor d = (Inr ids, d')"
  obtains r c g where "r \<in> set (t_orders (db_tables d))" "po_Id r = i" "po_Status r = StatusPaid"
    "grantForOrder r = Inr g" "c \<in> set (t_clients (db_tables d))" "cl_Id c = po_ClientId r"
    "t_clients (db_tables d') = map (\<lambda>x. if cl_Id x = cl_Id c
        then apply_updates (BuildRefundClientUpdates c r g now
          (ta_AddTrafficBytes g > 0 \<longrightarrow> no_newer_traffic (db_tables d) r)) x else x) (t_clients (db_tables d))"
proof -
  let ?P = "\<lambda>r. po_Id r = i \<and> po_Status r = StatusPaid"
  let ?f = "\<lambda>r. r\<lparr>po_Status := StatusRefunded, po_RefundClaim := '''', po_RefundClaimUntil := 0\<rparr>"
  let ?T = "db_tables d"
  from a obtain n d1 ord d2 where s1: "update_orders ?P ?f d = (Inr n, d1)" and n: "n = 1"
    and s2: "first_order (\<lambda>r. po_Id r = i) d1 = (Inr ord, d2)"
    and s3: "revoke_grant ord now actor d2 = (Inr ids, d')"
    unfolding FinalizeRefundGrant_def finalizeRefundGrant_def
    by (auto simp: stmt_Inr split: if_splits)
  note t1 = update_orders_Inr(1)[OF s1]
  have n0: "n \<noteq> 0" using n by simp
  have "\<exists>r\<in>set (t_orders ?T). ?P r \<and> ord = ?f r \<and> (\<forall>q\<in>set (t_orders ?T). po_Id q = i \<longrightarrow> q = r)"
    by (rule update_then_first[OF ok s1 n0 s2]) simp_all
  then obtain r where r: "r \<in> set (t_orders ?T)" "po_Id r = i" "po_Status r = StatusPaid" and ord: "ord = ?f r" by blast
  have newer: "no_newer_traffic (db_tables d2) ord = no_newer_traffic ?T r"
    using first_order_Inr(3)[OF s2] r by (auto simp: t1 ord no_newer_traffic_def)
  obtain c g where g: "grantForOrder ord = Inr g" and c: "c \<in> set (t_clients (db_tables d2))" "cl_Id c = po_ClientId ord"
    and t: "t_clients (db_tables d') = map (\<lambda>x. if cl_Id x = cl_Id c
        then apply_updates (BuildRefundClientUpdates c ord g now
          (ta_AddTrafficBytes g > 0 \<longrightarrow> no_newer_traffic (db_tables d2) ord)) x else x) (t_clients (db_tables d2))"
    by (rule revoke_grant_Inr[OF s3])
  have "BuildRefundClientUpdates c ord g now b = BuildRefundClientUpdates c r g now b" for b
    by (simp add: ord BuildRefundClientUpdates_def Let_def)
  moreover have "grantForOrder r = Inr g" using g by (simp add: ord grantForOrder_def cong: if_cong)
  ultimately show ?thesis
    using that[OF r] c t first_order_Inr(3)[OF s2] newer by (simp add: t1 ord)
qed

text \<open>The client a refund restores: its access stays renewed, and its expiry is never set in the past.\<close>

definition restored_client :: "Tariff \<Rightarrow> int \<Rightarrow> int \<Rightarrow> Client \<Rightarrow> Client" where
  "restored_client g paidAt now c = (renew_access c)\<lparr>cl_Expiry :=
     (if ta_AddDays g > 0 then max (max (cl_Expiry c) paidAt) now else cl_Expiry c)\<rparr>"

lemma refund_updates:
  assumes range: "grant_in_range g paidAt c" and days: "0 \<le> ta_AddDays g" "ta_AddDays g \<le> int64_max div 86400"
    and traffic: "0 \<le> ta_AddTrafficBytes g"
  shows "apply_updates (BuildRefundClientUpdates (granted_client g paidAt c) (granted_order g charge paidAt c r) g now True)
      (granted_client g paidAt c) = restored_client g paidAt now c"
proof -
  let ?c = "granted_client g paidAt c" and ?r = "granted_order g charge paidAt c r"
  let ?u = "BuildRefundClientUpdates ?c ?r g now True"
  let ?b = "max (cl_Expiry c) paidAt"
  have w: "wrap64 x = x" if "0 \<le> x" "x \<le> int64_max" for x
    using that by (intro wrap64_id) (simp add: in_int64_def int64_min_def)
  have ext: "wrap64 (ta_AddDays g * 86400) = ta_AddDays g * 86400"
    using days by (intro w) (simp_all add: int64_max_def)
  have e: "cu_expiry ?u = Some (max ?b now)" if "ta_AddDays g > 0"
  proof -
    have "cl_Expiry ?c = ?b + ta_AddDays g * 86400"
      using that by (simp add: granted_client_def renew_access_def Let_def)
    moreover have "0 \<le> ?b" "?b + ta_AddDays g * 86400 \<le> int64_max"
      using range that by (simp_all add: grant_in_range_def)
    moreover have "wrap64 ?b = ?b" using calculation that by (intro w) auto
    ultimately show ?thesis
      using that ext by (auto simp: BuildRefundClientUpdates_def Let_def max_def)
  qed
  have e0: "cu_expiry ?u = None" if "\<not> ta_AddDays g > 0"
    using that by (simp add: BuildRefundClientUpdates_def Let_def no_updates_def)
  have en: "cu_enable ?u = None" "cu_reason ?u = None"
    by (simp_all add: BuildRefundClientUpdates_def Let_def no_updates_def)
  show ?thesis
  proof (cases "ta_AddTrafficBytes g > 0")
    case True
    then have sel: "cl_Volume ?c = cl_Volume c + ta_AddTrafficBytes g" "cl_TotalUp ?c = cl_TotalUp c + cl_Up c"
      "cl_TotalDown ?c = cl_TotalDown c + cl_Down c" "po_GrantedUp ?r = cl_Up c" "po_GrantedDown ?r = cl_Down c"
      by (simp_all add: granted_client_def granted_order_def renew_access_def Let_def)
    have "wrap64 (cl_Volume c) = cl_Volume c" "wrap64 (cl_TotalUp c) = cl_TotalUp c" "wrap64 (cl_TotalDown c) = cl_TotalDown c"
      "0 \<le> cl_Volume c" "0 \<le> cl_TotalUp c" "0 \<le> cl_TotalDown c"
      using range True by (auto simp: grant_in_range_def intro!: w)
    then have "cu_volume ?u = Some (cl_Volume c)" "cu_total_up ?u = Some (cl_TotalUp c)"
      "cu_total_down ?u = Some (cl_TotalDown c)" "cu_up ?u = Some (cl_Up c)" "cu_down ?u = Some (cl_Down c)"
      using True by (simp_all add: BuildRefundClientUpdates_def Let_def sel)
    then show ?thesis
      using True e e0 en
      by (cases "ta_AddDays g > 0")
         (simp_all add: apply_updates_def pick_def restored_client_def granted_client_def renew_access_def Let_def)
  next
    case False
    then have "cu_volume ?u = None" "cu_total_up ?u = None" "cu_total_down ?u = None" "cu_up ?u = None" "cu_down ?u = None"
      by (simp_all add: BuildRefundClientUpdates_def Let_def no_updates_def)
    then show ?thesis
      using False e e0 en
      by (cases "ta_AddDays g > 0")
         (simp_all add: apply_updates_def pick_def restored_client_def granted_client_def renew_access_def Let_def)
  qed
qed

section \<open>Properties\<close>


text \<open>A granted claim: the order waits for its refund under the token, for two minutes.\<close>

lemma ClaimStarsRefund_Inr:
  assumes ok: "tables_ok (db_tables d)" and c: "ClaimStarsRefund i revoke token now d = (Inr r, d')"
  shows "token \<noteq> ''''" "po_Id r = i" "po_Status r = StatusRefundPending" "po_Provider r = ProviderStars"
    "po_RefundClaim r = token" "po_RefundClaimUntil r = wrap64 (now + refundClaimSeconds)"
    "r \<in> set (t_orders (db_tables d'))" "charge_identity_ok r"
    "\<exists>q\<in>set (t_orders (db_tables d)). po_Id q = i \<and>
       (po_Status q = StatusPaid \<or> po_Status q = StatusRefundPending \<and> po_RefundClaimUntil q \<le> now)"
proof -
  let ?P = "\<lambda>r. po_Id r = i \<and> po_Status r = StatusPaid \<and> po_Provider r = ProviderStars"
  let ?f = "\<lambda>r. r\<lparr>po_Status := StatusRefundPending, po_RefundRevoke := revoke, po_RefundClaim := token,
                   po_RefundClaimUntil := wrap64 (now + refundClaimSeconds)\<rparr>"
  let ?Q = "\<lambda>r. po_Id r = i \<and> po_Status r = StatusRefundPending \<and> po_Provider r = ProviderStars \<and> po_RefundClaimUntil r \<le> now"
  let ?g = "\<lambda>r. r\<lparr>po_RefundClaim := token, po_RefundClaimUntil := wrap64 (now + refundClaimSeconds)\<rparr>"
  define retry where "retry = (\<lambda>n::nat. if n = 0 then andThen (update_orders ?Q ?g)
      (\<lambda>n. if n = 0 then fail RefundInProgress else ret ()) else ret ())"
  have tok: "token \<noteq> ''''" using c by (auto simp: ClaimStarsRefund_def fail_def)
  then have "andThen (update_orders ?P ?f) (\<lambda>n. andThen (retry n) (\<lambda>_. andThen (first_order (\<lambda>r. po_Id r = i)) (\<lambda>order.
      case ValidateOrderGrant order of Some e \<Rightarrow> fail e
      | None \<Rightarrow> if charge_identity_ok order then ret order else fail ChargeIdentityInvalid))) d = (Inr r, d')"
    using c by (simp add: ClaimStarsRefund_def retry_def transaction_Inr)
  then obtain n d1 d2 where s1: "update_orders ?P ?f d = (Inr n, d1)" and s2: "retry n d1 = (Inr (), d2)"
    and s3: "first_order (\<lambda>r. po_Id r = i) d2 = (Inr r, d')" and v: "charge_identity_ok r"
    by (auto simp: stmt_Inr split: if_splits option.splits)
  note s2 = s2[unfolded retry_def]
  show "token \<noteq> ''''" by fact
  show "r \<in> set (t_orders (db_tables d'))" "po_Id r = i" using first_order_Inr[OF s3] by auto
  show "charge_identity_ok r" by fact
  have "\<exists>q\<in>set (t_orders (db_tables d)). ?P q \<and> r = ?f q \<or> ?Q q \<and> r = ?g q"
  proof (cases "n = 0")
    case True
    have same: "db_tables d1 = db_tables d" using update_orders_zero s1 True by blast
    then have ok1: "tables_ok (db_tables d1)" using ok by simp
    obtain m where s2': "update_orders ?Q ?g d1 = (Inr m, d2)" and m: "m \<noteq> 0"
      using s2 True by (auto simp: stmt_Inr split: if_splits)
    have "\<exists>q\<in>set (t_orders (db_tables d1)). ?Q q \<and> r = ?g q \<and> (\<forall>x\<in>set (t_orders (db_tables d1)). po_Id x = i \<longrightarrow> x = q)"
      by (rule update_then_first[OF ok1 s2' m s3]) simp_all
    then show ?thesis unfolding same by blast
  next
    case False
    then have "d2 = d1" using s2 by (simp add: ret_Inr)
    then have s3': "first_order (\<lambda>r. po_Id r = i) d1 = (Inr r, d')" using s3 by simp
    have "\<exists>q\<in>set (t_orders (db_tables d)). ?P q \<and> r = ?f q \<and> (\<forall>x\<in>set (t_orders (db_tables d)). po_Id x = i \<longrightarrow> x = q)"
      by (rule update_then_first[OF ok s1 False s3']) simp_all
    then show ?thesis by blast
  qed
  then obtain q where "q \<in> set (t_orders (db_tables d))" "?P q \<and> r = ?f q \<or> ?Q q \<and> r = ?g q" by blast
  then show "po_Status r = StatusRefundPending" "po_Provider r = ProviderStars" "po_RefundClaim r = token"
    "po_RefundClaimUntil r = wrap64 (now + refundClaimSeconds)"
    "\<exists>q\<in>set (t_orders (db_tables d)). po_Id q = i \<and>
       (po_Status q = StatusPaid \<or> po_Status q = StatusRefundPending \<and> po_RefundClaimUntil q \<le> now)"
    by auto
qed

text \<open>C15. A refund claim is exclusive: a claim is granted only on a paid order or on one whose
  earlier claim has run out, and for the two minutes it lives, wherever its order still stands as
  claimed, nobody else can claim, finalize or release that refund; a failing attempt changes
  nothing.\<close>

theorem refund_claim_exclusive:
  assumes ok: "tables_ok (db_tables d)" and claim: "ClaimStarsRefund i revoke token now d = (Inr r, d1)"
    and ok2: "tables_ok (db_tables d2)" and stands: "r \<in> set (t_orders (db_tables d2))"
    and live: "now' < now + 120" "in_int64 (now + 120)" and other: "token' \<noteq> token"
  shows "(\<exists>q\<in>set (t_orders (db_tables d)). po_Id q = i \<and>
       (po_Status q = StatusPaid \<or> po_Status q = StatusRefundPending \<and> po_RefundClaimUntil q \<le> now))
    \<and> (\<exists>e. fst (ClaimStarsRefund i revoke' token' now' d2) = Inl e)
    \<and> (\<exists>e. fst (FinalizeClaimedRefundGrant i token' t actor d2) = Inl e)
    \<and> (\<exists>e. fst (FinalizeRefundGrant i revoke' t actor d2) = Inl e)
    \<and> (db_tables (snd (ReleaseRefundClaim i token' d2)) = db_tables d2)"
proof (rule conjI [OF _ conjI [OF _ conjI [OF _ conjI]]])
  note r = ClaimStarsRefund_Inr[OF ok claim]
  show "\<exists>q\<in>set (t_orders (db_tables d)). po_Id q = i \<and>
       (po_Status q = StatusPaid \<or> po_Status q = StatusRefundPending \<and> po_RefundClaimUntil q \<le> now)" by (rule r(9))
  have until: "po_RefundClaimUntil r = now + 120" using r(6) live(2) by (simp add: wrap64_id refundClaimSeconds_def)
  have only: "q = r" if "q \<in> set (t_orders (db_tables d2))" "po_Id q = i" for q
    using unique_id[OF _ that(1) stands] that(2) r(2) ok2 by (simp add: tables_ok_def)
  have none: "n = 0" if "update_orders P f d2 = (Inr n, x)" "\<And>q. P q \<Longrightarrow> po_Id q = i" "\<not> P r" for P f n x
    using update_orders_Inr(3)[OF that(1)] only that(2,3) by (auto simp: filter_empty_conv)
  show "\<exists>e. fst (ClaimStarsRefund i revoke' token' now' d2) = Inl e"
  proof (rule ccontr)
    assume "\<not> (\<exists>e. fst (ClaimStarsRefund i revoke' token' now' d2) = Inl e)"
    then obtain q x where "ClaimStarsRefund i revoke' token' now' d2 = (Inr q, x)"
      by (cases "ClaimStarsRefund i revoke' token' now' d2"; cases "fst (ClaimStarsRefund i revoke' token' now' d2)") auto
    from ClaimStarsRefund_Inr(9)[OF ok2 this] obtain q where q: "q \<in> set (t_orders (db_tables d2))" "po_Id q = i"
      "po_Status q = StatusPaid \<or> po_Status q = StatusRefundPending \<and> po_RefundClaimUntil q \<le> now'" by blast
    then show False using only[OF q(1,2)] r(3) until live(1) by auto
  qed
  have fin: "\<exists>e. fst (finalizeRefundGrant i s tok rv t actor d2) = Inl e"
    if "\<not> (po_Status r = s \<and> (tok \<noteq> '''' \<longrightarrow> po_RefundClaim r = tok))" for s tok rv
  proof (rule ccontr)
    assume "\<not> (\<exists>e. fst (finalizeRefundGrant i s tok rv t actor d2) = Inl e)"
    then obtain y x where "finalizeRefundGrant i s tok rv t actor d2 = (Inr y, x)"
      by (cases "finalizeRefundGrant i s tok rv t actor d2"; cases "fst (finalizeRefundGrant i s tok rv t actor d2)") auto
    then obtain n x' where "update_orders (\<lambda>r. po_Id r = i \<and> po_Status r = s \<and> (tok \<noteq> '''' \<longrightarrow> po_RefundClaim r = tok))
       (\<lambda>r. r\<lparr>po_Status := StatusRefunded, po_RefundClaim := '''', po_RefundClaimUntil := 0\<rparr>) d2 = (Inr n, x')" "n = 1"
      unfolding finalizeRefundGrant_def by (auto simp: stmt_Inr split: if_splits)
    then show False using none that by fastforce
  qed
  show "\<exists>e. fst (FinalizeClaimedRefundGrant i token' t actor d2) = Inl e"
    using fin[of StatusRefundPending token' False] r(5) other by (auto simp: FinalizeClaimedRefundGrant_def fail_def)
  show "\<exists>e. fst (FinalizeRefundGrant i revoke' t actor d2) = Inl e"
    using fin[of StatusPaid "''''" revoke'] r(3) by (simp add: FinalizeRefundGrant_def)
  show "db_tables (snd (ReleaseRefundClaim i token' d2)) = db_tables d2"
  proof -
    let ?P = "\<lambda>r. po_Id r = i \<and> po_Status r = StatusRefundPending \<and> po_RefundClaim r = token'"
    have "\<not> ?P q" if "q \<in> set (t_orders (db_tables d2))" for q using only[OF that] r(5) other by auto
    then show ?thesis
      using update_none[of "t_orders (db_tables d2)" ?P]
      by (auto simp: ReleaseRefundClaim_def andThen_def update_orders_def exec_def Let_def ret_def split: sum.splits)
  qed
qed

section \<open>Invoice intents\<close>

definition held_purchase :: "PaymentOrder \<Rightarrow> PaymentOrder \<Rightarrow> bool" where
  "held_purchase r q \<longleftrightarrow> same_purchase r q \<and> po_Status q = StatusManualReview"

definition open_purchase :: "PaymentOrder \<Rightarrow> PaymentOrder \<Rightarrow> bool" where
  "open_purchase r q \<longleftrightarrow> po_ClientId q = po_ClientId r \<and> po_TariffId q = po_TariffId r
     \<and> po_TelegramUserId q = po_TelegramUserId r \<and> po_Provider q = ProviderCryptoBot
     \<and> po_Status q \<in> {StatusPending, StatusInvoiceCreating, StatusRecoverable, StatusManualReview}"

lemma intent_split:
  "CreateInvoiceIntent order0 = (let order = order0\<lparr>po_Status := StatusInvoiceCreating\<rparr> in transaction (
     andThen (update_orders (held_purchase order0) (\<lambda>r. r\<lparr>po_Status := StatusManualReview\<rparr>))
     (\<lambda>held. if held > 0
        then andThen (exec (\<lambda>t. Inr (case sort_key po_Id (filter (open_purchase order0) (t_orders t)) of [] \<Rightarrow> None | r # _ \<Rightarrow> Some r, t)))
               (\<lambda>found. ret (found, False))
        else andThen (insert_order_or_nothing order) (\<lambda>inserted.
          case inserted of
            Some created \<Rightarrow> ret (Some created, True)
          | None \<Rightarrow> andThen (first_order (\<lambda>r. same_purchase order0 r \<and> active_status (po_Status r)))
                (\<lambda>existing. ret (Some existing, False))))))"
proof -
  have "same_purchase (order0\<lparr>po_Status := s\<rparr>) = same_purchase order0" for s
    by (rule ext) (simp add: same_purchase_def)
  moreover have "held_purchase order0 = (\<lambda>r. same_purchase order0 r \<and> po_Status r = StatusManualReview)"
    "open_purchase order0 = (\<lambda>q. po_ClientId q = po_ClientId order0 \<and> po_TariffId q = po_TariffId order0
     \<and> po_TelegramUserId q = po_TelegramUserId order0 \<and> po_Provider q = ProviderCryptoBot
     \<and> po_Status q \<in> {StatusPending, StatusInvoiceCreating, StatusRecoverable, StatusManualReview})"
    by (simp_all add: fun_eq_iff held_purchase_def open_purchase_def)
  ultimately show ?thesis
    by (simp add: CreateInvoiceIntent_def ActiveCryptoBotOrder_def Let_def cong: if_cong option.case_cong)
qed

text \<open>Touching the held rows changes nothing.\<close>

lemma touch_held: "map (\<lambda>r. if held_purchase q r then r\<lparr>po_Status := StatusManualReview\<rparr> else r) rows = rows"
  by (rule map_idI) (simp add: held_purchase_def)

definition intent_state :: "PaymentOrder \<Rightarrow> PaymentOrder \<Rightarrow> tables \<Rightarrow> bool" where
  "intent_state order r t \<longleftrightarrow> tables_ok t \<and>
     (if \<exists>q\<in>set (t_orders t). held_purchase order q
      then \<exists>rs. sort_key po_Id (filter (open_purchase order) (t_orders t)) = r # rs
      else r \<in> set (t_orders t) \<and> same_purchase order r \<and> active_status (po_Status r))"

lemma CreateInvoiceIntent_Inr:
  assumes ok: "tables_ok (db_tables d)" and c: "CreateInvoiceIntent order d = (Inr (Some r, created), d1)"
  shows "intent_state order r (db_tables d1)"
proof -
  let ?new = "order\<lparr>po_Status := StatusInvoiceCreating\<rparr>"
  obtain n d2 where u: "update_orders (held_purchase order) (\<lambda>r. r\<lparr>po_Status := StatusManualReview\<rparr>) d = (Inr n, d2)"
    and rest: "(if n > 0
        then andThen (exec (\<lambda>t. Inr (case sort_key po_Id (filter (open_purchase order) (t_orders t)) of [] \<Rightarrow> None | r # _ \<Rightarrow> Some r, t)))
               (\<lambda>found. ret (found, False))
        else andThen (insert_order_or_nothing ?new) (\<lambda>inserted.
          case inserted of
            Some created \<Rightarrow> ret (Some created, True)
          | None \<Rightarrow> andThen (first_order (\<lambda>r. same_purchase order r \<and> active_status (po_Status r)))
                (\<lambda>existing. ret (Some existing, False)))) d2 = (Inr (Some r, created), d1)"
    using c unfolding intent_split Let_def transaction_Inr andThen_Inr[of "update_orders _ _"] by blast
  have t2: "db_tables d2 = db_tables d" using update_orders_Inr(1)[OF u] by (simp add: touch_held)
  have n: "n > 0 \<longleftrightarrow> (\<exists>q\<in>set (t_orders (db_tables d)). held_purchase order q)"
    using update_orders_Inr(3)[OF u] by (auto simp: filter_empty_conv)
  have ok1: "tables_ok (db_tables d1)"
    using keeps_at[OF keeps_CreateInvoiceIntent[of "{}"] _ c] ok by (simp add: safe_def)
  show ?thesis
  proof (cases "n > 0")
    case True
    then have "db_tables d1 = db_tables d"
      "(case sort_key po_Id (filter (open_purchase order) (t_orders (db_tables d))) of [] \<Rightarrow> None | r # _ \<Rightarrow> Some r) = Some r"
      using rest t2 by (auto simp: stmt_Inr exec_Inr)
    then show ?thesis using True n ok1 by (auto simp: intent_state_def split: list.splits)
  next
    case False
    then obtain ins d3 where i: "insert_order_or_nothing ?new d2 = (Inr ins, d3)"
      and f: "(case ins of Some created \<Rightarrow> ret (Some created, True)
          | None \<Rightarrow> andThen (first_order (\<lambda>r. same_purchase order r \<and> active_status (po_Status r)))
                (\<lambda>existing. ret (Some existing, False))) d3 = (Inr (Some r, created), d1)"
      using rest by (auto simp: andThen_Inr)
    show ?thesis
    proof (cases ins)
      case None
      then have t3: "db_tables d3 = db_tables d"
        using i t2 by (auto simp: insert_order_or_nothing_def exec_Inr Let_def split: if_splits)
      have "first_order (\<lambda>r. same_purchase order r \<and> active_status (po_Status r)) d3 = (Inr r, d1)"
        using f None by (auto simp: stmt_Inr)
      from first_order_Inr[OF this] show ?thesis
        using False n ok1 t3 by (simp add: intent_state_def)
    next
      case (Some q)
      have q: "q = ?new\<lparr>po_Id := t_next_order (db_tables d)\<rparr>" and t3: "t_orders (db_tables d3) = t_orders (db_tables d) @ [q]"
        using i Some t2 by (auto simp: insert_order_or_nothing_def exec_Inr Let_def split: if_splits)
      have rq: "r = q" "d1 = d3" using f Some by (auto simp: ret_Inr)
      have "\<not> held_purchase order q" "same_purchase order q" "active_status (po_Status q)"
        by (simp_all add: q held_purchase_def same_purchase_def active_status_def)
      then show ?thesis using False n ok1 t3 rq by (simp add: intent_state_def)
    qed
  qed
qed

text \<open>The same intent again, without faults.\<close>

lemma update_orders_runs:
  assumes "db_faults d = []" "orders_ok (map (\<lambda>r. if P r then f r else r) (t_orders (db_tables d)))"
  shows "update_orders P f d = (Inr (length (filter P (t_orders (db_tables d)))),
     d\<lparr>db_tables := (db_tables d)\<lparr>t_orders := map (\<lambda>r. if P r then f r else r) (t_orders (db_tables d))\<rparr>\<rparr>)"
  using assms by (simp add: update_orders_def exec_def Let_def)

lemma sort_key_single:
  assumes "\<And>x. x \<in> set xs \<Longrightarrow> x = r" "r \<in> set xs"
  shows "\<exists>rs. sort_key key xs = r # rs"
  using assms by (cases "sort_key key xs") (metis set_sort empty_iff empty_set, metis set_sort list.set_intros(1))

lemma active_unique:
  assumes "tables_ok t" "po_Provider order = ProviderCryptoBot" "r \<in> set (t_orders t)" "q \<in> set (t_orders t)"
    "same_purchase order r" "same_purchase order q" "active_status (po_Status r)" "active_status (po_Status q)"
  shows "q = r"
proof -
  have "inj_on purchase_key (set (filter active_purchase (t_orders t)))"
    using assms(1) by (simp add: tables_ok_def orders_ok_def unique_on_def distinct_map)
  moreover have "purchase_key q = purchase_key r" using assms(5,6) by (simp add: purchase_key_def same_purchase_def)
  moreover have "active_purchase q" "active_purchase r"
    using assms(2,5-8) by (simp_all add: active_purchase_def same_purchase_def)
  ultimately show ?thesis using assms(3,4) by (simp add: inj_on_def)
qed

lemma intent_again:
  assumes st: "intent_state order r (db_tables d)" and crypto: "po_Provider order = ProviderCryptoBot"
    and clean: "db_faults d = []"
  shows "CreateInvoiceIntent order d = (Inr (Some r, False), d)"
proof -
  let ?rows = "t_orders (db_tables d)"
  have ok: "tables_ok (db_tables d)" using st by (simp add: intent_state_def)
  then have u: "update_orders (held_purchase order) (\<lambda>r. r\<lparr>po_Status := StatusManualReview\<rparr>) d
      = (Inr (length (filter (held_purchase order) ?rows)), d)"
    using clean by (subst update_orders_runs) (simp_all add: touch_held tables_ok_def)
  show ?thesis
  proof (cases "\<exists>q\<in>set ?rows. held_purchase order q")
    case True
    then have "length (filter (held_purchase order) ?rows) > 0" by (auto simp: filter_empty_conv)
    moreover obtain rs where "sort_key po_Id (filter (open_purchase order) ?rows) = r # rs"
      using st True by (auto simp: intent_state_def)
    ultimately show ?thesis
      using clean by (simp add: intent_split Let_def transaction_def andThen_def u exec_def ret_def)
  next
    case False
    then have r: "r \<in> set ?rows" "same_purchase order r" "active_status (po_Status r)"
      using st by (auto simp: intent_state_def)
    let ?new = "order\<lparr>po_Status := StatusInvoiceCreating, po_Id := t_next_order (db_tables d)\<rparr>"
    have "active_purchase ?new" "active_purchase r" "purchase_key ?new = purchase_key r"
      using crypto r by (simp_all add: active_purchase_def active_status_def purchase_key_def same_purchase_def)
    then have "\<not> unique_on active_purchase purchase_key (?rows @ [?new])"
      using r(1) by (force simp: unique_on_def)
    then have ins: "insert_order_or_nothing (order\<lparr>po_Status := StatusInvoiceCreating\<rparr>) d = (Inr None, d)"
      using clean by (simp add: insert_order_or_nothing_def exec_def Let_def orders_ok_def)
    have one: "q = r" if "q \<in> set (filter (\<lambda>r. same_purchase order r \<and> active_status (po_Status r)) ?rows)" for q
      using that active_unique[OF ok crypto r(1) _ r(2) _ r(3)] by simp
    have "r \<in> set (filter (\<lambda>r. same_purchase order r \<and> active_status (po_Status r)) ?rows)" using r by simp
    from sort_key_single[OF one this] obtain rs
      where "sort_key po_Id (filter (\<lambda>r. same_purchase order r \<and> active_status (po_Status r)) ?rows) = r # rs" by blast
    then have "first_order (\<lambda>r. same_purchase order r \<and> active_status (po_Status r)) d = (Inr r, d)"
      using clean by (simp add: first_order_def exec_def)
    then show ?thesis
      using False ins by (simp add: intent_split Let_def transaction_def andThen_def u ret_def)
  qed
qed

lemma intent_state_purchase:
  assumes "same_purchase order order'"
  shows "intent_state order' r t = intent_state order r t"
proof -
  have "held_purchase order' = held_purchase order" "open_purchase order' = open_purchase order" "same_purchase order' = same_purchase order"
    using assms by (simp_all add: fun_eq_iff held_purchase_def open_purchase_def same_purchase_def)
  then show ?thesis by (simp add: intent_state_def)
qed

text \<open>C16. One invoice per purchase: asking again for an invoice of the same client, tariff and
  Telegram user, under another key, price or time, returns the order of the first request and
  changes no table.\<close>

theorem invoice_intent_idempotent:
  assumes "tables_ok (db_tables d)" "po_Provider order = ProviderCryptoBot"
    and "CreateInvoiceIntent order d = (Inr (Some r, created), d1)"
    and "same_purchase order order'" "db_faults d1 = []"
  shows "CreateInvoiceIntent order' d1 = (Inr (Some r, False), d1)"
  using intent_again[of order' r d1] CreateInvoiceIntent_Inr[OF assms(1,3)] assms(2,4,5) intent_state_purchase[OF assms(4)]
  by (simp add: same_purchase_def)

section \<open>Bindings and tariffs\<close>

text \<open>A Telegram binding is one to one and can be read back: binding a client to a user
  succeeds, replaces whatever either was bound to before, keeps every other binding, and then the
  user's client is that client and the client's binding names that user.\<close>

theorem binding_round_trip:
  assumes ok: "tables_ok (db_tables d)" and clean: "db_faults d = []" and c: "client \<noteq> 0" "user > 0"
    and cl: "cl \<in> set (t_clients (db_tables d))" "cl_Id cl = client"
  shows "\<exists>d' b. SetBinding client user now d = (Inr (), d')
     \<and> fst (ClientByTelegramUserID user d') = Inr cl
     \<and> fst (BindingForClient client d') = Inr b \<and> bi_TgUserId b = user
     \<and> set (t_bindings (db_tables d')) = insert b {b\<in>set (t_bindings (db_tables d)). bi_TgUserId b \<noteq> user \<and> bi_ClientId b \<noteq> client}"
proof -
  let ?T = "db_tables d"
  define b where "b = \<lparr>bi_Id = t_next_binding ?T, bi_ClientId = client, bi_TgUserId = user, bi_CreatedAt = now, bi_UpdatedAt = now\<rparr>"
  define kept where "kept = filter (\<lambda>b. bi_TgUserId b \<noteq> user \<and> bi_ClientId b \<noteq> client) (t_bindings ?T)"
  define d' where "d' = d\<lparr>db_faults := [], db_tables := ?T\<lparr>t_bindings := kept @ [b], t_next_binding := Suc (t_next_binding ?T)\<rparr>\<rparr>"
  have "bindings_ok kept" "\<forall>x\<in>set kept. bi_Id x < t_next_binding ?T"
    using ok by (auto simp: kept_def tables_ok_def bindings_ok_def unique_on_filter)
  then have bok: "bindings_ok (kept @ [b])"
    by (auto simp: bindings_ok_def unique_on_def b_def kept_def)
  have set: "SetBinding client user now d = (Inr (), d')"
    using c clean bok
    by (simp add: SetBinding_def transaction_def andThen_def exec_def Let_def kept_def[symmetric] b_def[symmetric] d'_def)
  have bs: "set (t_bindings (db_tables d')) = insert b {b\<in>set (t_bindings ?T). bi_TgUserId b \<noteq> user \<and> bi_ClientId b \<noteq> client}"
    by (auto simp: d'_def kept_def)
  have "filter (\<lambda>b. bi_ClientId b = client) (kept @ [b]) = [b]"
    by (simp add: kept_def b_def filter_empty_conv)
  then have fb: "fst (BindingForClient client d') = Inr b"
    using clean by (simp add: BindingForClient_def exec_def d'_def)
  have uc: "unique_on (\<lambda>_. True) cl_Id (t_clients ?T)" using ok by (simp add: tables_ok_def)
  let ?bound = "filter (\<lambda>c. \<exists>b\<in>set (t_bindings (db_tables d')). bi_ClientId b = cl_Id c \<and> bi_TgUserId b = user) (t_clients ?T)"
  have one: "x = cl" if "x \<in> set ?bound" for x
  proof -
    have x: "x \<in> set (t_clients ?T)" and "\<exists>q\<in>set (t_bindings (db_tables d')). bi_ClientId q = cl_Id x \<and> bi_TgUserId q = user"
      using that by auto
    then have "cl_Id x = cl_Id cl" unfolding bs using cl(2) by (auto simp: b_def)
    then show ?thesis by (rule unique_onD[OF uc x cl(1)])
  qed
  have "cl \<in> set ?bound" using cl by (auto simp: bs b_def)
  from sort_key_single[OF one this, of cl_Id] have "fst (ClientByTelegramUserID user d') = Inr cl"
    using clean c by (auto simp: ClientByTelegramUserID_def exec_def d'_def)
  then show ?thesis using set fb bs by (auto simp: b_def)
qed


section \<open>Examples\<close>

lemma run_split: "fst p = Inr x \<Longrightarrow> p = (Inr x, snd p)"
  by (metis prod.collapse)

definition shop_paid :: db where
  "shop_paid = snd (ApplyPaidOrderGrant 1 ''tg:c'' 1000 ''bot'' shop)"

lemma shop_paid_run: "ApplyPaidOrderGrant 1 ''tg:c'' 1000 ''bot'' shop
    = (Inr \<lparr>ar_Applied = True, ar_TelegramUserID = 77, ar_InboundIDs = [2]\<rparr>, shop_paid)"
  unfolding shop_paid_def by (rule run_split[OF shop_grant])

lemma shop_paid_ok: "tables_ok (db_tables shop_paid)"
  by code_simp

lemma shop_refund: "fst (FinalizeRefundGrant 1 True 2000 ''admin'' shop_paid) = Inr [2]"
  by code_simp

lemma shop_rows:
  "shop_order \<in> set (t_orders (db_tables shop))" "po_Id shop_order = 1"
  "shop_client \<in> set (t_clients (db_tables shop))" "cl_Id shop_client = po_ClientId shop_order"
  "no_newer_traffic (db_tables shop) shop_order"
  by code_simp+


definition shop_claimed :: db where
  "shop_claimed = snd (ClaimStarsRefund 1 True ''tok'' 1500 shop_paid)"

definition claimed_order :: PaymentOrder where
  "claimed_order = hd (t_orders (db_tables shop_claimed))"

lemma shop_claim: "fst (ClaimStarsRefund 1 True ''tok'' 1500 shop_paid) = Inr claimed_order"
  by code_simp

lemma shop_claimed_ok: "tables_ok (db_tables shop_claimed)" "claimed_order \<in> set (t_orders (db_tables shop_claimed))"
  by code_simp+

theorem refund_claim_exclusive_witness:
  "\<exists>e. fst (ClaimStarsRefund 1 False ''other'' 1619 shop_claimed) = Inl e"
  using refund_claim_exclusive[OF shop_paid_ok run_split[OF shop_claim] shop_claimed_ok,
      of 1619 "''other''" False]
  by (simp add: in_int64_def int64_min_def int64_max_def)

definition crypto_order :: "string \<Rightarrow> int \<Rightarrow> PaymentOrder" where
  "crypto_order key now = NewPendingOrder shop_client (empty_tariff\<lparr>ta_Id := 3, ta_AddDays := 30\<rparr>)
     ProviderCryptoBot 10 ''USD'' 77 key now 60"

definition shop_intent :: db where
  "shop_intent = snd (CreateInvoiceIntent (crypto_order ''a'' 900) shop)"

definition intent_order :: PaymentOrder where
  "intent_order = (crypto_order ''a'' 900)\<lparr>po_Id := 2, po_Status := StatusInvoiceCreating\<rparr>"

lemma shop_intent_run: "fst (CreateInvoiceIntent (crypto_order ''a'' 900) shop) = Inr (Some intent_order, True)"
  by code_simp

theorem invoice_intent_idempotent_witness:
  "CreateInvoiceIntent (crypto_order ''b'' 950) shop_intent = (Inr (Some intent_order, False), shop_intent)"
  unfolding shop_intent_def
  by (rule invoice_intent_idempotent[OF shop_ok _ run_split[OF shop_intent_run]]) code_simp+

theorem binding_round_trip_witness:
  "\<exists>d' b. SetBinding 5 77 1 shop = (Inr (), d') \<and> fst (ClientByTelegramUserID 77 d') = Inr shop_client
     \<and> fst (BindingForClient 5 d') = Inr b \<and> bi_TgUserId b = 77"
proof -
  have "db_faults shop = []" "shop_client \<in> set (t_clients (db_tables shop))" "cl_Id shop_client = 5"
    by (simp_all add: shop_def shop_client_def)
  then show ?thesis using binding_round_trip[OF shop_ok, of 5 77 shop_client 1] by auto
qed

definition disabled_tariff :: Tariff where
  "disabled_tariff = empty_tariff\<lparr>ta_Name := ''month'', ta_Currency := ''USD'', ta_Price := 5, ta_Enabled := False\<rparr>"

lemma disabled_save: "fst (SaveTariff id (TariffNew disabled_tariff) 1 shop) = Inr ()"
  by code_simp


end
