(* ===== verification/Go_Float.thy ===== *)
theory Go_Float
  imports Complex_Main "HOL-Library.Log_Nat"
begin

text \<open>
  The part of \<open>float64\<close> the components use: IEEE 754 binary64 values with their comparisons,
  sums and differences rounded to the nearest value (ties to even), \<open>math.Max\<close> and
  \<open>math.Min\<close>.  A finite value is its exact rational; the sign of zero is not represented, since
  no comparison distinguishes it.
\<close>

datatype f64 = NaN | PosInf | NegInf | Fin rat

definition pow2 :: "int \<Rightarrow> rat" where
  "pow2 k = (if k \<ge> 0 then 2 ^ nat k else 1 / 2 ^ nat (- k))"

text \<open>\<open>ilog2 x\<close> is the exponent \<open>k\<close> with \<open>pow2 k \<le> x < pow2 (k + 1)\<close>, for positive \<open>x\<close>.\<close>

definition ilog2 :: "rat \<Rightarrow> int" where
  "ilog2 x =
     (case quotient_of x of (n, d) \<Rightarrow>
        let k = int (floorlog 2 (nat n)) - int (floorlog 2 (nat d))
        in if pow2 k \<le> x then k else k - 1)"

definition round_even :: "rat \<Rightarrow> int" where
  "round_even x =
     (let f = \<lfloor>x\<rfloor>; r = x - of_int f
      in if r < 1 / 2 then f else if r > 1 / 2 then f + 1 else if even f then f else f + 1)"

text \<open>The value nearest to a rational: 53 significant bits, exponents down to -1074, infinite
  from \<open>2 ^ 1024\<close> on.\<close>

definition f64_of_rat :: "rat \<Rightarrow> f64" where
  "f64_of_rat x =
     (if x = 0 then Fin 0
      else let e = max (- 1074) (ilog2 \<bar>x\<bar> - 52);
               m = round_even (x / pow2 e)
           in if e > 971 \<or> e = 971 \<and> \<bar>m\<bar> \<ge> 2 ^ 53 then if x > 0 then PosInf else NegInf
              else Fin (of_int m * pow2 e))"

fun f64_le :: "f64 \<Rightarrow> f64 \<Rightarrow> bool" where
  "f64_le NaN b = False"
| "f64_le a NaN = False"
| "f64_le NegInf b = True"
| "f64_le a PosInf = True"
| "f64_le (Fin x) (Fin y) = (x \<le> y)"
| "f64_le a b = False"

fun f64_lt :: "f64 \<Rightarrow> f64 \<Rightarrow> bool" where
  "f64_lt NaN b = False"
| "f64_lt a NaN = False"
| "f64_lt (Fin x) (Fin y) = (x < y)"
| "f64_lt NegInf b = (b \<noteq> NegInf)"
| "f64_lt a PosInf = (a \<noteq> PosInf)"
| "f64_lt a b = False"

fun f64_add :: "f64 \<Rightarrow> f64 \<Rightarrow> f64" where
  "f64_add NaN b = NaN"
| "f64_add a NaN = NaN"
| "f64_add (Fin x) (Fin y) = f64_of_rat (x + y)"
| "f64_add PosInf NegInf = NaN"
| "f64_add NegInf PosInf = NaN"
| "f64_add (Fin x) b = b"
| "f64_add a b = a"

fun f64_neg :: "f64 \<Rightarrow> f64" where
  "f64_neg NaN = NaN"
| "f64_neg PosInf = NegInf"
| "f64_neg NegInf = PosInf"
| "f64_neg (Fin x) = Fin (- x)"

definition f64_sub :: "f64 \<Rightarrow> f64 \<Rightarrow> f64" where
  "f64_sub a b = f64_add a (f64_neg b)"

definition f64_max :: "f64 \<Rightarrow> f64 \<Rightarrow> f64" where
  "f64_max a b =
     (if a = PosInf \<or> b = PosInf then PosInf else if a = NaN \<or> b = NaN then NaN
      else if f64_lt b a then a else b)"

definition f64_min :: "f64 \<Rightarrow> f64 \<Rightarrow> f64" where
  "f64_min a b =
     (if a = NegInf \<or> b = NegInf then NegInf else if a = NaN \<or> b = NaN then NaN
      else if f64_lt a b then a else b)"

lemma f64_le_trans: "f64_le a b \<Longrightarrow> f64_le b c \<Longrightarrow> f64_le a c"
  by (cases a; cases b; cases c) auto

lemma f64_lt_le: "f64_lt a b \<Longrightarrow> f64_le a b"
  by (cases a; cases b) auto

lemma f64_lt_not_le: "f64_lt a b \<Longrightarrow> \<not> f64_le b a"
  by (cases a; cases b) auto

lemma f64_le_total: "a \<noteq> NaN \<Longrightarrow> b \<noteq> NaN \<Longrightarrow> f64_le a b \<or> f64_le b a"
  by (cases a; cases b) auto

lemma f64_zero_le: "f64_le (Fin 0) x \<longleftrightarrow> x \<noteq> NaN \<and> \<not> f64_lt x (Fin 0)"
  by (cases x) auto

section \<open>Rounding\<close>

lemma pow2_pos [simp]: "pow2 k > 0"
  by (simp add: pow2_def)

text \<open>Rounding is within half a unit in the last place.\<close>

lemma round_even_near: "\<bar>of_int (round_even x) - x\<bar> \<le> 1 / 2"
proof -
  have "of_int \<lfloor>x\<rfloor> \<le> x" "x < of_int \<lfloor>x\<rfloor> + 1" by linarith+
  then show ?thesis unfolding round_even_def Let_def abs_if by (auto split: if_splits) linarith+
qed

lemma round_even_int [simp]: "round_even (of_int i) = i"
  by (simp add: round_even_def)

lemma f64_of_rat_near:
  assumes "f64_of_rat x = Fin v" "x \<noteq> 0"
  shows "\<bar>v - x\<bar> \<le> pow2 (max (- 1074) (ilog2 \<bar>x\<bar> - 52)) / 2"
proof -
  define u where "u = pow2 (max (- 1074) (ilog2 \<bar>x\<bar> - 52))"
  have u: "u > 0" by (simp add: u_def)
  have v: "v = of_int (round_even (x / u)) * u"
    using assms by (auto simp: f64_of_rat_def u_def Let_def split: if_splits)
  have "\<bar>v - x\<bar> = \<bar>of_int (round_even (x / u)) - x / u\<bar> * u"
    using u by (simp add: v abs_mult_pos left_diff_distrib)
  also have "\<dots> \<le> 1 / 2 * u"
    using round_even_near[of "x / u"] u by (intro mult_right_mono) auto
  finally show ?thesis by (simp add: u_def)
qed

section \<open>Evaluating the rounding\<close>

lemma pow2_powi: "pow2 k = 2 powi k"
  by (simp add: pow2_def power_int_def power_one_over)

lemma pow2_diff: "pow2 (int i - int j) = 2 ^ i / 2 ^ j"
  by (simp add: pow2_powi power_int_diff)

lemma pow2_less: "pow2 j < pow2 k \<longleftrightarrow> j < k"
proof -
  have "pow2 j < pow2 k" if "j < k" for j k
    using that by (simp add: pow2_powi power_int_strict_increasing)
  then show ?thesis by (metis linorder_neqE not_less_iff_gr_or_eq)
qed

lemma floorlog_rat:
  assumes "n > 0"
  obtains a where "floorlog 2 (nat n) = Suc a" "2 ^ a \<le> rat_of_int n" "rat_of_int n < 2 ^ Suc a"
proof -
  let ?f = "floorlog 2 (nat n)"
  have b: "2 ^ (?f - 1) \<le> nat n" "nat n < 2 ^ ?f"
    using floorlog_bounds[of "nat n" 2] assms by auto
  then obtain a where a: "?f = Suc a" using assms by (cases ?f) auto
  have "rat_of_nat (2 ^ a) \<le> rat_of_nat (nat n)" "rat_of_nat (nat n) < rat_of_nat (2 ^ Suc a)"
    using b unfolding a of_nat_le_iff of_nat_less_iff by simp_all
  then show ?thesis using that[OF a] assms by simp
qed

lemma ilog2_spec:
  assumes "x > 0"
  shows "pow2 (ilog2 x) \<le> x \<and> x < pow2 (ilog2 x + 1)"
proof -
  obtain n d where q: "quotient_of x = (n, d)" by fastforce
  then have x: "x = of_int n / of_int d" and d: "d > 0" using quotient_of_div quotient_of_denom_pos by auto
  have n: "n > 0" using assms x d by (simp add: zero_less_divide_iff)
  obtain a where a: "floorlog 2 (nat n) = Suc a" "2 ^ a \<le> rat_of_int n" "rat_of_int n < 2 ^ Suc a" using floorlog_rat[OF n] .
  obtain b where b: "floorlog 2 (nat d) = Suc b" "2 ^ b \<le> rat_of_int d" "rat_of_int d < 2 ^ Suc b" using floorlog_rat[OF d] .
  have "x < 2 ^ Suc a / 2 ^ b" unfolding x using a(3) b(2) n d by (intro frac_less) auto
  then have up: "x < pow2 (int (Suc a) - int b)" by (simp only: pow2_diff)
  have "2 ^ a / 2 ^ Suc b \<le> x" unfolding x using a(2) b(3) n d by (intro frac_le) auto
  then have low: "pow2 (int a - int (Suc b)) \<le> x" by (simp only: pow2_diff)
  have k: "int (Suc a) - int b = int a - int b + 1" "int a - int (Suc b) = int a - int b - 1" by simp_all
  show ?thesis using up low unfolding k by (simp add: ilog2_def q a(1) b(1) Let_def)
qed

text \<open>A constant of moderate size keeps its value up to a relative error of \<open>2 ^ -53\<close>, so that
  constants further apart than that keep their order.\<close>

lemma f64_of_rat_close:
  assumes "1 / 2 ^ 20 \<le> x" "x \<le> 2 ^ 50"
  shows "\<exists>v. f64_of_rat x = Fin v \<and> \<bar>v - x\<bar> \<le> x / 2 ^ 53"
proof -
  have x: "x > 0" using assms(1) by (rule order_less_le_trans[rotated]) simp
  have l: "pow2 (- 20) \<le> x" "x < pow2 51" using assms by (simp_all add: pow2_def)
  note sp = ilog2_spec[OF x]
  have "pow2 (- 20) < pow2 (ilog2 x + 1)" "pow2 (ilog2 x) < pow2 51" using sp l by auto
  then have k: "- 21 < ilog2 x" "ilog2 x < 51" by (simp_all add: pow2_less)
  then have e: "max (- 1074) (ilog2 \<bar>x\<bar> - 52) = ilog2 x - 52" using x by simp
  then obtain v where v: "f64_of_rat x = Fin v" using x k by (simp add: f64_of_rat_def Let_def)
  have "\<bar>v - x\<bar> \<le> pow2 (ilog2 x - 52) / 2" using f64_of_rat_near[OF v] x e by simp
  also have "\<dots> = pow2 (ilog2 x) / 2 ^ 53" by (simp add: pow2_powi power_int_diff)
  also have "\<dots> \<le> x / 2 ^ 53" using sp by (simp add: divide_right_mono)
  finally show ?thesis using v by blast
qed

lemma f64_of_rat_less:
  assumes "1 / 2 ^ 20 \<le> x" "21 / 20 * x \<le> y" "y \<le> 2 ^ 50"
  shows "f64_lt (f64_of_rat x) (f64_of_rat y)"
proof -
  have x: "x > 0" using assms(1) by (rule order_less_le_trans[rotated]) simp
  obtain v where v: "f64_of_rat x = Fin v" "\<bar>v - x\<bar> \<le> x / 2 ^ 53" using f64_of_rat_close[of x] assms x by auto
  obtain w where w: "f64_of_rat y = Fin w" "\<bar>w - y\<bar> \<le> y / 2 ^ 53" using f64_of_rat_close[of y] assms x by auto
  have "v < w" using v(2) w(2) assms(2) x unfolding abs_le_iff by simp
  then show ?thesis by (simp add: v w)
qed

lemma f64_of_rat_bounded:
  assumes "1 / 2 ^ 20 \<le> x" "x \<le> 2 ^ 49"
  shows "f64_le (f64_of_rat x) (Fin (2 ^ 50))" "\<exists>v\<ge>0. f64_of_rat x = Fin v"
proof -
  have x: "x > 0" using assms(1) by (rule order_less_le_trans[rotated]) simp
  obtain v where v: "f64_of_rat x = Fin v" "\<bar>v - x\<bar> \<le> x / 2 ^ 53" using f64_of_rat_close[of x] assms by auto
  then have "0 \<le> v" "v \<le> 2 ^ 50" using assms(2) x unfolding abs_le_iff by simp_all
  then show "f64_le (f64_of_rat x) (Fin (2 ^ 50))" "\<exists>v\<ge>0. f64_of_rat x = Fin v" by (simp_all add: v)
qed

end
