(* ===== verification/Resource_Pressure.thy ===== *)
theory Resource_Pressure
  imports Go_Strings Go_Float
begin

text \<open>
  Resource-pressure evaluation and admission
  (\<^verbatim>\<open>src/internal/ops/resourcepressure/pressure.go\<close>).  Signals of the host are normalised,
  classified against thresholds, and drive a state machine that confirms changes over two samples
  and recovers over five minutes; admission refuses work by class and state.  The digest of an
  observation (SHA-256 of its JSON form) is an argument.
\<close>

section \<open>Data\<close>

definition MaxSignals :: nat where "MaxSignals = 96"
definition MaxReasonCodes :: nat where "MaxReasonCodes = 16"
definition DefaultFreshness :: duration where "DefaultFreshness = 120000000000"
definition SampleInterval :: duration where "SampleInterval = 15000000000"
definition RecoveryWindow :: duration where "RecoveryWindow = 300000000000"
definition RatioHysteresis :: f64 where "RatioHysteresis = f64_of_rat (5 / 100)"

datatype pressure_state =
  StateEmpty | StateUnknown | StateNormal | StateWarning | StateConstrained | StateCritical | StateRecovering

datatype provider_status =
  ProviderSupported | ProviderUnavailable | ProviderUnsupported | ProviderStale | ProviderError
| ProviderStatusOther string

datatype direction = HigherIsWorse | LowerIsWorse | DirectionOther string

record Signal =
  sg_ID :: string
  sg_Status :: provider_status
  sg_Value :: f64
  sg_Unit :: string
  sg_ObservedAt :: int
  sg_ExpiresAt :: int
  sg_ReasonCode :: string

record Threshold =
  th_ID :: string
  th_Direction :: direction
  th_Warning :: f64
  th_Constrained :: f64
  th_Critical :: f64
  th_Required :: bool

record Snapshot =
  sn_State :: pressure_state
  sn_PreviousState :: pressure_state
  sn_Signals :: "Signal list"
  sn_ReasonCodes :: "string list"
  sn_ObservationDigest :: string
  sn_Revision :: int
  sn_ObservedAt :: int
  sn_ChangedAt :: int

record Evaluator =
  ev_Thresholds :: "Threshold list"
  ev_current :: Snapshot
  ev_pending :: pressure_state
  ev_pendingN :: nat
  ev_pendingAt :: int
  ev_recoverAt :: int

definition empty_snapshot :: Snapshot where
  "empty_snapshot = \<lparr>sn_State = StateEmpty, sn_PreviousState = StateEmpty, sn_Signals = [], sn_ReasonCodes = [],
     sn_ObservationDigest = '''', sn_Revision = 0, sn_ObservedAt = 0, sn_ChangedAt = 0\<rparr>"

definition threshold :: "string \<Rightarrow> direction \<Rightarrow> rat \<Rightarrow> rat \<Rightarrow> rat \<Rightarrow> bool \<Rightarrow> Threshold" where
  "threshold i dir warning constrained critical required =
     \<lparr>th_ID = i, th_Direction = dir, th_Warning = f64_of_rat warning, th_Constrained = f64_of_rat constrained,
      th_Critical = f64_of_rat critical, th_Required = required\<rparr>"

definition DefaultThresholds :: "Threshold list" where
  "DefaultThresholds = [
     threshold ''filesystem.data.free_ratio'' LowerIsWorse (20/100) (10/100) (5/100) True,
     threshold ''filesystem.data.free_bytes'' LowerIsWorse (2 * 2 ^ 30) (2 ^ 30) (512 * 2 ^ 20) True,
     threshold ''filesystem.data.free_inode_ratio'' LowerIsWorse (10/100) (5/100) (2/100) False,
     threshold ''filesystem.temp.free_ratio'' LowerIsWorse (20/100) (10/100) (5/100) False,
     threshold ''filesystem.temp.free_bytes'' LowerIsWorse (2 * 2 ^ 30) (2 ^ 30) (512 * 2 ^ 20) False,
     threshold ''filesystem.temp.free_inode_ratio'' LowerIsWorse (10/100) (5/100) (2/100) False,
     threshold ''sqlite.wal.bytes'' HigherIsWorse (256 * 2 ^ 20) (512 * 2 ^ 20) (2 ^ 30) False,
     threshold ''sqlite.busy.rate'' HigherIsWorse (2/100) (8/100) (20/100) False,
     threshold ''memory.used_ratio'' HigherIsWorse (80/100) (90/100) (96/100) False,
     threshold ''cgroup.memory.used_ratio'' HigherIsWorse (80/100) (90/100) (96/100) False,
     threshold ''psi.memory.some_avg10'' HigherIsWorse 10 30 60 False,
     threshold ''process.fd.used_ratio'' HigherIsWorse (70/100) (85/100) (95/100) False,
     threshold ''process.goroutines'' HigherIsWorse 1500 4000 8000 False,
     threshold ''http.active'' HigherIsWorse 200 500 1000 False,
     threshold ''audit.queue.used_ratio'' HigherIsWorse (60/100) (80/100) (95/100) False,
     threshold ''operations.heavy.active'' HigherIsWorse 2 4 8 False]"

section \<open>Thresholds\<close>

definition id_byte :: "char \<Rightarrow> bool" where
  "id_byte c \<longleftrightarrow> CHR ''a'' \<le> c \<and> c \<le> CHR ''z'' \<or> CHR ''0'' \<le> c \<and> c \<le> CHR ''9'' \<or> c \<in> set ''._:-''"

definition safeID :: "string \<Rightarrow> bool" where
  "safeID v \<longleftrightarrow> v \<noteq> '''' \<and> length v \<le> 96 \<and> list_all id_byte v"

definition bound_value_ok :: "f64 \<Rightarrow> bool" where
  "bound_value_ok v \<longleftrightarrow> v \<noteq> NaN \<and> v \<noteq> PosInf \<and> v \<noteq> NegInf \<and> \<not> f64_lt v (Fin 0)"

definition validThresholdBounds :: "Threshold \<Rightarrow> bool" where
  "validThresholdBounds t =
     (if \<not> list_all bound_value_ok [th_Warning t, th_Constrained t, th_Critical t] then False
      else if HasSuffix (th_ID t) ''.ratio''
      then f64_le (th_Warning t) (Fin 1) \<and> f64_le (th_Constrained t) (Fin 1) \<and> f64_le (th_Critical t) (Fin 1)
      else f64_le (th_Warning t) (Fin (2 ^ 50)) \<and> f64_le (th_Constrained t) (Fin (2 ^ 50))
           \<and> f64_le (th_Critical t) (Fin (2 ^ 50)))"

datatype pressure_error = ThresholdsInvalid | ThresholdInvalid | ThresholdDuplicated | ThresholdOrder

fun check_thresholds :: "string set \<Rightarrow> Threshold list \<Rightarrow> pressure_error option" where
  "check_thresholds seen [] = None"
| "check_thresholds seen (t # ts) =
     (if \<not> safeID (th_ID t) \<or> th_Direction t \<noteq> HigherIsWorse \<and> th_Direction t \<noteq> LowerIsWorse then Some ThresholdInvalid
      else if th_ID t \<in> seen then Some ThresholdDuplicated
      else if \<not> validThresholdBounds t
           \<or> th_Direction t = HigherIsWorse \<and> \<not> (f64_lt (th_Warning t) (th_Constrained t) \<and> f64_lt (th_Constrained t) (th_Critical t))
           \<or> th_Direction t = LowerIsWorse \<and> \<not> (f64_lt (th_Constrained t) (th_Warning t) \<and> f64_lt (th_Critical t) (th_Constrained t))
      then Some ThresholdOrder
      else check_thresholds (insert (th_ID t) seen) ts)"

definition NewEvaluator :: "Threshold list \<Rightarrow> pressure_error + Evaluator" where
  "NewEvaluator ts =
     (if ts = [] \<or> length ts > MaxSignals then Inl ThresholdsInvalid
      else case check_thresholds {} ts of
        Some e \<Rightarrow> Inl e
      | None \<Rightarrow> Inr \<lparr>ev_Thresholds = ts, ev_current = empty_snapshot\<lparr>sn_State := StateUnknown\<rparr>,
                   ev_pending = StateEmpty, ev_pendingN = 0, ev_pendingAt = 0, ev_recoverAt = 0\<rparr>)"

fun severity :: "pressure_state \<Rightarrow> int" where
  "severity StateCritical = 4"
| "severity StateConstrained = 3"
| "severity StateWarning = 2"
| "severity StateRecovering = 1"
| "severity StateNormal = 0"
| "severity s = - 1"

definition maxState :: "pressure_state \<Rightarrow> pressure_state \<Rightarrow> pressure_state" where
  "maxState l r = (if severity r > severity l then r else l)"

definition appendBounded :: "string list \<Rightarrow> string \<Rightarrow> string list" where
  "appendBounded vs v = (if length vs \<ge> MaxReasonCodes then vs else vs @ [v])"

definition exit_bounds :: "Threshold \<Rightarrow> bool \<Rightarrow> f64 \<times> f64 \<times> f64" where
  "exit_bounds t exitThresholds =
     (if exitThresholds \<and> HasSuffix (th_ID t) ''.ratio'' then
        if th_Direction t = HigherIsWorse then
          (f64_max (Fin 0) (f64_sub (th_Warning t) RatioHysteresis),
           f64_max (Fin 0) (f64_sub (th_Constrained t) RatioHysteresis),
           f64_max (Fin 0) (f64_sub (th_Critical t) RatioHysteresis))
        else
          (f64_min (Fin 1) (f64_add (th_Warning t) RatioHysteresis),
           f64_min (Fin 1) (f64_add (th_Constrained t) RatioHysteresis),
           f64_min (Fin 1) (f64_add (th_Critical t) RatioHysteresis))
      else (th_Warning t, th_Constrained t, th_Critical t))"

definition thresholdState :: "f64 \<Rightarrow> Threshold \<Rightarrow> bool \<Rightarrow> pressure_state" where
  "thresholdState v t exitThresholds =
     (case exit_bounds t exitThresholds of (warning, constrained, critical) \<Rightarrow>
        if th_Direction t = HigherIsWorse then
          (if f64_le critical v then StateCritical else if f64_le constrained v then StateConstrained
           else if f64_le warning v then StateWarning else StateNormal)
        else
          (if f64_le v critical then StateCritical else if f64_le v constrained then StateConstrained
           else if f64_le v warning then StateWarning else StateNormal))"

section \<open>Signals\<close>

definition validProviderStatus :: "provider_status \<Rightarrow> bool" where
  "validProviderStatus s \<longleftrightarrow> s = ProviderSupported \<or> s = ProviderUnavailable \<or> s = ProviderUnsupported
     \<or> s = ProviderStale \<or> s = ProviderError"

definition invalidSignalValue :: "Signal \<Rightarrow> bool" where
  "invalidSignalValue s =
     (if sg_Value s = NaN \<or> sg_Value s = PosInf \<or> sg_Value s = NegInf \<or> f64_lt (sg_Value s) (Fin 0) then True
      else sg_Unit s = ''ratio'' \<and> f64_lt (Fin 1) (sg_Value s))"

text \<open>The body of the loop for one accepted signal.\<close>

definition normalize_signal :: "go_time \<Rightarrow> Signal \<Rightarrow> Signal" where
  "normalize_signal now s =
     (let s = (if sg_ObservedAt s = 0 then s\<lparr>sg_ObservedAt := unix_of now\<rparr> else s);
          s = (if sg_ExpiresAt s = 0 then s\<lparr>sg_ExpiresAt := unix_of (now + DefaultFreshness)\<rparr> else s);
          s = (if sg_Status s = ProviderSupported \<and> invalidSignalValue s
               then s\<lparr>sg_Status := ProviderError, sg_Value := Fin 0, sg_ReasonCode := ''provider_numeric_value_invalid''\<rparr> else s);
          s = (if sg_ExpiresAt s \<le> unix_of now \<and> sg_Status s = ProviderSupported
               then s\<lparr>sg_Status := ProviderStale, sg_ReasonCode := ''observation_expired''\<rparr> else s)
      in if length (sg_ReasonCode s) > 96 then s\<lparr>sg_ReasonCode := ''provider_reason_too_large''\<rparr> else s)"

fun normalize_loop :: "go_time \<Rightarrow> string set \<Rightarrow> Signal list \<Rightarrow> Signal list" where
  "normalize_loop now seen [] = []"
| "normalize_loop now seen (s # ss) =
     (if \<not> safeID (sg_ID s) \<or> \<not> validProviderStatus (sg_Status s) then normalize_loop now seen ss
      else if sg_ID s \<in> seen then normalize_loop now seen ss
      else normalize_signal now s # normalize_loop now (insert (sg_ID s) seen) ss)"

definition normalizeSignals :: "go_time \<Rightarrow> Signal list \<Rightarrow> Signal list" where
  "normalizeSignals now signals = sort_key sg_ID (normalize_loop now {} (take MaxSignals signals))"

section \<open>Classification\<close>

fun state_name :: "pressure_state \<Rightarrow> string" where
  "state_name StateEmpty = ''''"
| "state_name StateUnknown = ''UNKNOWN''"
| "state_name StateNormal = ''NORMAL''"
| "state_name StateWarning = ''WARNING''"
| "state_name StateConstrained = ''CONSTRAINED''"
| "state_name StateCritical = ''CRITICAL''"
| "state_name StateRecovering = ''RECOVERING''"

definition by_id :: "Signal list \<Rightarrow> string \<rightharpoonup> Signal" where
  "by_id signals = fold (\<lambda>s m. m(sg_ID s \<mapsto> s)) signals Map.empty"

definition unobserved :: "go_time \<Rightarrow> Signal option \<Rightarrow> bool" where
  "unobserved now found =
     (case found of None \<Rightarrow> True | Some s \<Rightarrow> sg_Status s \<noteq> ProviderSupported \<or> sg_ExpiresAt s \<le> unix_of now)"

text \<open>One threshold: the state it contributes and the reason it adds.\<close>

definition judge :: "go_time \<Rightarrow> Signal option \<Rightarrow> Threshold \<Rightarrow> bool \<Rightarrow> (pressure_state \<times> string option) option" where
  "judge now found t exitThresholds =
     (if (case found of None \<Rightarrow> False | Some s \<Rightarrow> sg_Status s = ProviderUnsupported) then None
      else if unobserved now found then
        (if th_Required t then Some (StateWarning, Some (''required_signal_unavailable:'' @ th_ID t)) else None)
      else let state = thresholdState (sg_Value (the found)) t exitThresholds
           in Some (state, if state \<noteq> StateNormal then Some (state_name state @ '':'' @ th_ID t) else None))"

fun classify_loop :: "go_time \<Rightarrow> (string \<rightharpoonup> Signal) \<Rightarrow> bool \<Rightarrow> Threshold list \<Rightarrow> pressure_state \<Rightarrow> string list
    \<Rightarrow> pressure_state \<times> string list" where
  "classify_loop now found ex [] worst reasons = (worst, reasons)"
| "classify_loop now found ex (t # ts) worst reasons =
     (case judge now (found (th_ID t)) t ex of
        None \<Rightarrow> classify_loop now found ex ts worst reasons
      | Some (state, reason) \<Rightarrow>
          classify_loop now found ex ts (maxState worst state)
            (case reason of None \<Rightarrow> reasons | Some r \<Rightarrow> appendBounded reasons r))"

definition classify :: "Evaluator \<Rightarrow> go_time \<Rightarrow> Signal list \<Rightarrow> bool \<Rightarrow> pressure_state \<times> string list" where
  "classify e now signals exitThresholds =
     (case classify_loop now (by_id signals) exitThresholds (ev_Thresholds e) StateNormal [] of
        (worst, reasons) \<Rightarrow> (worst, if reasons = [] then [''within_configured_bounds''] else reasons))"

section \<open>The state machine\<close>

definition resetPending :: "Evaluator \<Rightarrow> Evaluator" where
  "resetPending e = e\<lparr>ev_pending := StateEmpty, ev_pendingN := 0, ev_pendingAt := 0\<rparr>"

definition confirmed :: "go_time \<Rightarrow> pressure_state \<Rightarrow> nat \<Rightarrow> Evaluator \<Rightarrow> bool \<times> Evaluator" where
  "confirmed now target need e =
     (if ev_pending e \<noteq> target then
        (need \<le> 1, e\<lparr>ev_pending := target, ev_pendingN := 1, ev_pendingAt := unix_of now\<rparr>)
      else let elapsed = time_sub now (time_of_unix (ev_pendingAt e))
           in if elapsed > DefaultFreshness then
                (need \<le> 1, e\<lparr>ev_pendingN := 1, ev_pendingAt := unix_of now\<rparr>)
              else let e = (if elapsed \<ge> SampleInterval
                            then e\<lparr>ev_pendingN := (ev_pendingN e + 1) mod 2 ^ 32, ev_pendingAt := unix_of now\<rparr> else e)
                   in (ev_pendingN e \<ge> need, e))"

definition confirm :: "go_time \<Rightarrow> pressure_state \<Rightarrow> nat \<Rightarrow> pressure_state \<Rightarrow> Evaluator \<Rightarrow> pressure_state \<times> Evaluator" where
  "confirm now target need result e =
     (case confirmed now target need e of
        (True, e) \<Rightarrow> (result, resetPending e)
      | (False, e) \<Rightarrow> (sn_State (ev_current e), e))"

definition recovering :: "go_time \<Rightarrow> Evaluator \<Rightarrow> pressure_state \<times> Evaluator" where
  "recovering now e =
     (let e = (if ev_recoverAt e = 0 then e\<lparr>ev_recoverAt := unix_of now\<rparr> else e)
      in case confirmed now StateNormal 2 e of
           (ok, e) \<Rightarrow>
             if ok \<and> time_sub now (time_of_unix (ev_recoverAt e)) \<ge> RecoveryWindow
             then (StateNormal, (resetPending e)\<lparr>ev_recoverAt := 0\<rparr>)
             else (StateRecovering, e))"

definition transition :: "go_time \<Rightarrow> pressure_state \<Rightarrow> pressure_state \<Rightarrow> Evaluator \<Rightarrow> pressure_state \<times> Evaluator" where
  "transition now current target e =
     (if target = StateCritical then (StateCritical, (resetPending e)\<lparr>ev_recoverAt := 0\<rparr>)
      else if current = StateUnknown then confirm now target 2 target e
      else if current = StateRecovering then
        (if target = StateNormal then recovering now e
         else confirm now target 2 target (e\<lparr>ev_recoverAt := 0\<rparr>))
      else if severity target > severity current then confirm now target 2 target (e\<lparr>ev_recoverAt := 0\<rparr>)
      else if severity target < severity current then
        (if target = StateNormal then
           (case confirm now target 2 StateRecovering e of
              (next, e) \<Rightarrow> (next, if next = StateRecovering then e\<lparr>ev_recoverAt := unix_of now\<rparr> else e))
         else confirm now target 2 target (e\<lparr>ev_recoverAt := 0\<rparr>))
      else (current, resetPending e))"

text \<open>\<open>None\<close> is the nil evaluator.\<close>

definition evaluate :: "(Signal list \<Rightarrow> string list \<Rightarrow> string) \<Rightarrow> Evaluator \<Rightarrow> go_time \<Rightarrow> Signal list
    \<Rightarrow> Snapshot \<times> Evaluator" where
  "evaluate semanticDigest e now signals =
     (let copySignals = normalizeSignals now signals;
          previous = (if sn_State (ev_current e) = StateEmpty then StateUnknown else sn_State (ev_current e));
          exitThresholds = (previous = StateRecovering \<or> severity previous \<ge> severity StateWarning);
          (target, reasons) = classify e now copySignals exitThresholds;
          (next, e1) = transition now previous target e;
          changedAt = (if next \<noteq> previous \<or> sn_ChangedAt (ev_current e) = 0 then unix_of now else sn_ChangedAt (ev_current e));
          revision = (if next \<noteq> previous then (sn_Revision (ev_current e) + 1) mod 18446744073709551616 else sn_Revision (ev_current e));
          revision = (if revision = 0 then 1 else revision);
          snapshot = \<lparr>sn_State = next, sn_PreviousState = previous, sn_Signals = copySignals, sn_ReasonCodes = reasons,
            sn_ObservationDigest = semanticDigest copySignals reasons, sn_Revision = revision,
            sn_ObservedAt = unix_of now, sn_ChangedAt = changedAt\<rparr>
      in (snapshot, e1\<lparr>ev_current := snapshot\<rparr>))"

definition Evaluate :: "(Signal list \<Rightarrow> string list \<Rightarrow> string) \<Rightarrow> Evaluator option \<Rightarrow> go_time \<Rightarrow> Signal list
    \<Rightarrow> Snapshot \<times> Evaluator option" where
  "Evaluate semanticDigest evaluator now signals =
     (case evaluator of
        None \<Rightarrow> (empty_snapshot\<lparr>sn_State := StateUnknown, sn_ReasonCodes := [''pressure_evaluator_unavailable''],
                   sn_ObservedAt := unix_of now\<rparr>, None)
      | Some e \<Rightarrow> (case evaluate semanticDigest e now signals of (snapshot, e') \<Rightarrow> (snapshot, Some e')))"

section \<open>Admission\<close>

record Admission =
  ad_Allowed :: bool
  ad_ReasonCode :: string
  ad_RetryAfter :: int

definition essential_class :: "string \<Rightarrow> bool" where
  "essential_class cls \<longleftrightarrow> cls = ''essential'' \<or> cls = ''recovery_essential''"

definition critical_class :: "string \<Rightarrow> bool" where
  "critical_class cls \<longleftrightarrow> cls = ''interactive'' \<or> cls = ''status'' \<or> cls = ''security_critical''"

definition heavy_class :: "string \<Rightarrow> bool" where
  "heavy_class cls \<longleftrightarrow> cls = ''expensive'' \<or> cls = ''optional'' \<or> cls = ''heavy_mutation'' \<or> cls = ''bounded_component''"

definition admit :: "string \<Rightarrow> Admission" where
  "admit reason = \<lparr>ad_Allowed = True, ad_ReasonCode = reason, ad_RetryAfter = 0\<rparr>"

definition refuse :: "string \<Rightarrow> int \<Rightarrow> Admission" where
  "refuse reason after = \<lparr>ad_Allowed = False, ad_ReasonCode = reason, ad_RetryAfter = after\<rparr>"

definition Decide :: "pressure_state \<Rightarrow> string \<Rightarrow> Admission" where
  "Decide state cls =
     (if essential_class cls then admit ''essential_operation_preserved''
      else case state of
        StateCritical \<Rightarrow>
          if critical_class cls then admit ''critical_read_or_security_preserved''
          else refuse ''resource_pressure_critical'' 30
      | StateConstrained \<Rightarrow> if heavy_class cls then refuse ''resource_pressure_constrained'' 10 else admit ''pressure_admission_allowed''
      | StateWarning \<Rightarrow> if cls = ''optional'' then refuse ''resource_pressure_warning'' 5 else admit ''pressure_admission_allowed''
      | StateRecovering \<Rightarrow> if heavy_class cls then refuse ''resource_pressure_recovering'' 15 else admit ''pressure_admission_allowed''
      | StateUnknown \<Rightarrow> if cls = ''heavy_mutation'' then refuse ''resource_pressure_unknown'' 10 else admit ''pressure_admission_allowed''
      | _ \<Rightarrow> admit ''pressure_admission_allowed'')"

section \<open>Normalised signals are well formed\<close>

definition wf_signal :: "go_time \<Rightarrow> Signal \<Rightarrow> bool" where
  "wf_signal now s \<longleftrightarrow> safeID (sg_ID s) \<and> validProviderStatus (sg_Status s) \<and> length (sg_ReasonCode s) \<le> 96
     \<and> (sg_Status s = ProviderSupported \<longrightarrow> sg_ExpiresAt s > unix_of now
        \<and> (\<exists>v\<ge>0. sg_Value s = Fin v \<and> (sg_Unit s = ''ratio'' \<longrightarrow> v \<le> 1)))"

lemma valid_value: "\<not> invalidSignalValue s \<longleftrightarrow> (\<exists>v\<ge>0. sg_Value s = Fin v \<and> (sg_Unit s = ''ratio'' \<longrightarrow> v \<le> 1))"
  by (cases "sg_Value s") (auto simp: invalidSignalValue_def)

lemma invalid_value_cong [simp]:
  "invalidSignalValue (s\<lparr>sg_ObservedAt := a\<rparr>) = invalidSignalValue s"
  "invalidSignalValue (s\<lparr>sg_ExpiresAt := b\<rparr>) = invalidSignalValue s"
  "invalidSignalValue (s\<lparr>sg_ReasonCode := r\<rparr>) = invalidSignalValue s"
  by (simp_all add: invalidSignalValue_def)

lemma normalize_signal_ID [simp]: "sg_ID (normalize_signal now s) = sg_ID s"
  by (simp add: normalize_signal_def Let_def)

lemma normalize_signal_wf:
  assumes "safeID (sg_ID s)" "validProviderStatus (sg_Status s)"
  shows "wf_signal now (normalize_signal now s)"
  using assms
  by (auto simp: wf_signal_def normalize_signal_def Let_def valid_value[symmetric] validProviderStatus_def)

lemma normalize_signal_idem:
  assumes "wf_signal now s" "sg_ObservedAt s = 0 \<longrightarrow> unix_of now = 0"
    and "sg_ExpiresAt s = 0 \<longrightarrow> unix_of (now + DefaultFreshness) = 0"
  shows "normalize_signal now s = s"
proof -
  have "sg_Status s = ProviderSupported \<longrightarrow> \<not> invalidSignalValue s \<and> sg_ExpiresAt s > unix_of now"
    "length (sg_ReasonCode s) \<le> 96"
    using assms(1) by (auto simp: wf_signal_def valid_value)
  then show ?thesis using assms(2,3) by (cases s) (auto simp: normalize_signal_def Let_def)
qed

lemma normalize_signal_times:
  "sg_ObservedAt (normalize_signal now s) = 0 \<longrightarrow> unix_of now = 0"
  "sg_ExpiresAt (normalize_signal now s) = 0 \<longrightarrow> unix_of (now + DefaultFreshness) = 0"
  by (auto simp: normalize_signal_def Let_def)

definition normal_signal :: "go_time \<Rightarrow> Signal \<Rightarrow> bool" where
  "normal_signal now s \<longleftrightarrow> wf_signal now s \<and> normalize_signal now s = s"

lemma normalize_loop_wf:
  "list_all (normal_signal now) (normalize_loop now seen ss) \<and> distinct (map sg_ID (normalize_loop now seen ss))
   \<and> sg_ID ` set (normalize_loop now seen ss) \<inter> seen = {} \<and> length (normalize_loop now seen ss) \<le> length ss"
  by (induction now seen ss rule: normalize_loop.induct)
     (auto simp: normal_signal_def normalize_signal_wf normalize_signal_idem normalize_signal_times)

lemma normalize_loop_fixed:
  "list_all (normal_signal now) ss \<Longrightarrow> distinct (map sg_ID ss) \<Longrightarrow> sg_ID ` set ss \<inter> seen = {} \<Longrightarrow> normalize_loop now seen ss = ss"
  by (induction ss arbitrary: seen) (auto simp: normal_signal_def wf_signal_def)

text \<open>C37. Normalised signals have a type the rest of the code relies on: at most 96 of them, sorted
  by distinct safe identifiers, with known statuses, bounded reasons, and, where a value is
  claimed, an unexpired finite non-negative one, at most 1 for a ratio.  Normalising again at the
  same time changes nothing.\<close>

theorem normalized_signals_typed:
  "length (normalizeSignals now signals) \<le> MaxSignals \<and> distinct (map sg_ID (normalizeSignals now signals))
   \<and> sorted (map sg_ID (normalizeSignals now signals)) \<and> list_all (wf_signal now) (normalizeSignals now signals)
   \<and> normalizeSignals now (normalizeSignals now signals) = normalizeSignals now signals"
proof -
  let ?l = "normalize_loop now {} (take MaxSignals signals)"
  let ?n = "sort_key sg_ID ?l"
  note wf = normalize_loop_wf[of now "{}" "take MaxSignals signals"]
  have len: "length ?n \<le> MaxSignals" using wf by simp
  have dist: "distinct (map sg_ID ?n)" using wf by (simp add: distinct_map)
  have all: "list_all (normal_signal now) ?n" using wf by (simp add: list_all_iff)
  have "normalize_loop now {} ?n = ?n" by (rule normalize_loop_fixed[OF all dist]) simp
  then have "normalizeSignals now ?n = ?n" using len by (simp add: normalizeSignals_def sort_key_id_if_sorted)
  moreover have "list_all (wf_signal now) ?n" using all by (simp add: list_all_iff normal_signal_def)
  ultimately show ?thesis using len dist by (simp add: normalizeSignals_def)
qed

section \<open>Confirmation of state changes\<close>

text \<open>The state an observation points to.\<close>

definition exiting :: "pressure_state \<Rightarrow> bool" where
  "exiting s \<longleftrightarrow> s = StateRecovering \<or> severity s \<ge> severity StateWarning"

definition target :: "Evaluator \<Rightarrow> go_time \<Rightarrow> Signal list \<Rightarrow> pressure_state" where
  "target e now signals = fst (classify e now (normalizeSignals now signals) (exiting (sn_State (ev_current e))))"

text \<open>A run of evaluations, with its history of times and targets, newest first.\<close>

fun observe :: "(Signal list \<Rightarrow> string list \<Rightarrow> string) \<Rightarrow> Evaluator \<Rightarrow> (go_time \<times> pressure_state) list
    \<Rightarrow> (go_time \<times> Signal list) list \<Rightarrow> Evaluator \<times> (go_time \<times> pressure_state) list" where
  "observe dg e h [] = (e, h)"
| "observe dg e h ((now, signals) # xs) =
     observe dg (snd (evaluate dg e now signals)) ((now, target e now signals) # h) xs"

text \<open>Some earlier observation at the second \<open>a\<close>, and all since, point to \<open>t\<close>.\<close>

definition steady :: "(go_time \<times> pressure_state) list \<Rightarrow> pressure_state \<Rightarrow> int \<Rightarrow> bool" where
  "steady h t a \<longleftrightarrow> (\<exists>mid t0 pre. h = mid @ (t0, t) # pre \<and> unix_of t0 = a \<and> (\<forall>x\<in>set mid. snd x = t))"

lemma steady_now: "steady ((now, t) # h) t (unix_of now)"
  unfolding steady_def by (rule exI[of _ "[]"]) auto

lemma steady_more: "steady h t a \<Longrightarrow> steady ((now, t) # h) t a"
  unfolding steady_def by (metis append_Cons set_ConsD snd_conv)

definition pressure_inv :: "Evaluator \<Rightarrow> (go_time \<times> pressure_state) list \<Rightarrow> bool" where
  "pressure_inv e h \<longleftrightarrow> sn_State (ev_current e) \<noteq> StateEmpty
     \<and> (ev_pending e \<noteq> StateEmpty \<longrightarrow> steady h (ev_pending e) (ev_pendingAt e))
     \<and> (ev_pendingN e \<ge> 2 \<longrightarrow> ev_pending e = StateNormal \<and> sn_State (ev_current e) = StateRecovering)
     \<and> (sn_State (ev_current e) = StateRecovering \<and> ev_recoverAt e \<noteq> 0 \<longrightarrow> steady h StateNormal (ev_recoverAt e))"

lemma classify_target: "fst (classify e now signals ex) \<in> {StateNormal, StateWarning, StateConstrained, StateCritical}"
proof -
  have t: "thresholdState v t ex \<in> {StateNormal, StateWarning, StateConstrained, StateCritical}" for v t
    by (auto simp: thresholdState_def split: prod.splits)
  have "s \<in> {StateNormal, StateWarning, StateConstrained, StateCritical}"
    if "judge now f t ex = Some (s, r)" for f t s r
    using that t by (auto simp: judge_def Let_def split: if_splits option.splits)
  then have "fst (classify_loop now found ex ts w rs) \<in> {StateNormal, StateWarning, StateConstrained, StateCritical}"
    if "w \<in> {StateNormal, StateWarning, StateConstrained, StateCritical}" for found ts w rs
    using that
  proof (induction now found ex ts w rs rule: classify_loop.induct)
    case (2 now found ex t ts w rs)
    show ?case
    proof (cases "judge now (found (th_ID t)) t ex")
      case (Some p)
      obtain s r where p: "p = (s, r)" by (cases p)
      have "maxState w s \<in> {StateNormal, StateWarning, StateConstrained, StateCritical}"
        using 2(3)[OF Some[unfolded p]] 2(4) unfolding maxState_def by (metis (full_types))
      then show ?thesis using "2.IH"(2)[OF Some] 2(3) by (simp add: Some p)
    qed (use "2.IH"(1) 2(3,4) in simp)
  qed simp
  then have "fst (classify_loop now (by_id signals) ex (ev_Thresholds e) StateNormal [])
      \<in> {StateNormal, StateWarning, StateConstrained, StateCritical}" by blast
  then show ?thesis
    by (cases "classify_loop now (by_id signals) ex (ev_Thresholds e) StateNormal []") (simp add: classify_def)
qed

text \<open>What one call of \<open>confirmed\<close> does.\<close>

lemma confirmed_spec:
  assumes "confirmed now t 2 e = (ok, e')"
  shows "ev_pending e' = t" "ev_current e' = ev_current e" "ev_recoverAt e' = ev_recoverAt e"
    "ev_Thresholds e' = ev_Thresholds e"
    "ev_pendingAt e' = unix_of now \<or> ev_pending e = t \<and> ev_pendingAt e' = ev_pendingAt e"
    "ok \<longleftrightarrow> ev_pendingN e' \<ge> 2"
    "ok \<Longrightarrow> ev_pending e = t \<and> time_sub now (time_of_unix (ev_pendingAt e)) \<le> DefaultFreshness
       \<and> (time_sub now (time_of_unix (ev_pendingAt e)) \<ge> SampleInterval \<or> ev_pendingN e \<ge> 2)"
  using assms by (auto simp: confirmed_def Let_def split: if_splits)

lemma elapsed_bounds:
  "time_sub now (time_of_unix a) \<ge> SampleInterval \<longleftrightarrow> now - time_of_unix a \<ge> SampleInterval"
  "time_sub now (time_of_unix a) \<ge> RecoveryWindow \<longleftrightarrow> now - time_of_unix a \<ge> RecoveryWindow"
  "time_sub now (time_of_unix a) \<le> DefaultFreshness \<longleftrightarrow> now - time_of_unix a \<le> DefaultFreshness"
  by (auto simp: time_sub_def int64_min_def int64_max_def SampleInterval_def RecoveryWindow_def DefaultFreshness_def)

text \<open>What one call of \<open>confirm\<close> does, in a state where nothing is pending twice.\<close>

lemma confirm_spec:
  assumes "confirm now t 2 r e = (s, e')" "ev_pendingN e < 2 \<or> ev_pending e \<noteq> t"
  shows "ev_current e' = ev_current e" "ev_recoverAt e' = ev_recoverAt e" "ev_pendingN e' < 2"
    "ev_pending e' = StateEmpty \<or> ev_pending e' = t \<and> (ev_pendingAt e' = unix_of now \<or> ev_pending e = t \<and> ev_pendingAt e' = ev_pendingAt e)"
    "s = sn_State (ev_current e) \<or> s = r \<and> ev_pending e = t \<and> now - time_of_unix (ev_pendingAt e) \<le> DefaultFreshness
       \<and> now - time_of_unix (ev_pendingAt e) \<ge> SampleInterval"
proof -
  obtain ok e1 where c: "confirmed now t 2 e = (ok, e1)" by fastforce
  note sp = confirmed_spec[OF c, unfolded elapsed_bounds]
  have s: "s = (if ok then r else sn_State (ev_current e))" "e' = (if ok then resetPending e1 else e1)"
    using assms(1) c sp(2) by (cases ok; simp add: confirm_def)+
  show "ev_current e' = ev_current e" "ev_recoverAt e' = ev_recoverAt e" "ev_pendingN e' < 2"
    using sp(2,3,6) s(2) by (auto simp: resetPending_def)
  show "ev_pending e' = StateEmpty \<or> ev_pending e' = t \<and> (ev_pendingAt e' = unix_of now \<or> ev_pending e = t \<and> ev_pendingAt e' = ev_pendingAt e)"
    using sp(1,5) s(2) by (auto simp: resetPending_def)
  show "s = sn_State (ev_current e) \<or> s = r \<and> ev_pending e = t \<and> now - time_of_unix (ev_pendingAt e) \<le> DefaultFreshness
       \<and> now - time_of_unix (ev_pendingAt e) \<ge> SampleInterval"
    using sp(7) s(1) assms(2) by auto
qed

definition confirmed_change :: "(go_time \<times> pressure_state) list \<Rightarrow> go_time \<Rightarrow> pressure_state \<Rightarrow> pressure_state \<Rightarrow> pressure_state \<Rightarrow> bool" where
  "confirmed_change h now cur t s \<longleftrightarrow>
     s = (if t = StateNormal \<and> severity cur > 1 then StateRecovering else t) \<and>
     (\<exists>a. steady h t a \<and>
        (if cur = StateRecovering \<and> t = StateNormal then now - time_of_unix a \<ge> RecoveryWindow
         else SampleInterval \<le> now - time_of_unix a \<and> now - time_of_unix a \<le> DefaultFreshness))"

text \<open>The evaluator after a transition to \<open>s\<close> under the target \<open>t\<close>.\<close>

definition settled_in :: "pressure_state \<Rightarrow> Evaluator \<Rightarrow> (go_time \<times> pressure_state) list \<Rightarrow> bool" where
  "settled_in s e h \<longleftrightarrow> s \<noteq> StateEmpty
     \<and> (ev_pending e \<noteq> StateEmpty \<longrightarrow> steady h (ev_pending e) (ev_pendingAt e))
     \<and> (ev_pendingN e \<ge> 2 \<longrightarrow> ev_pending e = StateNormal \<and> s = StateRecovering)
     \<and> (s = StateRecovering \<and> ev_recoverAt e \<noteq> 0 \<longrightarrow> steady h StateNormal (ev_recoverAt e))"

lemma pressure_inv_settled: "pressure_inv e h \<longleftrightarrow> settled_in (sn_State (ev_current e)) e h"
  by (simp add: pressure_inv_def settled_in_def)

lemma pending_steady:
  assumes "ev_pending e' = StateEmpty \<or> ev_pending e' = t \<and> (ev_pendingAt e' = unix_of now \<or> ev_pending e = t \<and> ev_pendingAt e' = ev_pendingAt e)"
    and "ev_pending e \<noteq> StateEmpty \<longrightarrow> steady h (ev_pending e) (ev_pendingAt e)"
  shows "ev_pending e' \<noteq> StateEmpty \<longrightarrow> steady ((now, t) # h) (ev_pending e') (ev_pendingAt e')"
  using assms steady_now[of now t h] steady_more[of h t _ now] by auto

lemma confirm_settles:
  assumes c: "confirm now t 2 r e = (s, e')" and n: "ev_pendingN e < 2 \<or> ev_pending e \<noteq> t"
    and p: "ev_pending e \<noteq> StateEmpty \<longrightarrow> steady h (ev_pending e) (ev_pendingAt e)"
    and s: "r \<noteq> StateEmpty" "sn_State (ev_current e) \<noteq> StateEmpty" and t: "t \<noteq> StateEmpty"
    and rec: "s = StateRecovering \<longrightarrow> x = 0 \<or> steady ((now, t) # h) StateNormal x"
  shows "settled_in s (e'\<lparr>ev_recoverAt := x\<rparr>) ((now, t) # h)" "ev_current e' = ev_current e"
    "s = sn_State (ev_current e) \<or> s = r \<and> (\<exists>a. steady h t a \<and> SampleInterval \<le> now - time_of_unix a \<and> now - time_of_unix a \<le> DefaultFreshness)"
proof -
  note sp = confirm_spec[OF c n]
  show "ev_current e' = ev_current e" by (rule sp(1))
  show "settled_in s (e'\<lparr>ev_recoverAt := x\<rparr>) ((now, t) # h)"
    using pending_steady[OF sp(4) p] sp(3,5) s rec by (auto simp: settled_in_def)
  show "s = sn_State (ev_current e) \<or> s = r \<and> (\<exists>a. steady h t a \<and> SampleInterval \<le> now - time_of_unix a \<and> now - time_of_unix a \<le> DefaultFreshness)"
    using sp(5) p t by auto
qed

lemma recovering_spec:
  assumes r: "recovering now e = (s, e')" and inv: "settled_in StateRecovering e h"
  shows "settled_in s e' ((now, StateNormal) # h)" "ev_current e' = ev_current e"
    "s = StateRecovering \<or> s = StateNormal \<and> (\<exists>a. steady h StateNormal a \<and> now - time_of_unix a \<ge> RecoveryWindow)"
proof -
  define e1 where "e1 = (if ev_recoverAt e = 0 then e\<lparr>ev_recoverAt := unix_of now\<rparr> else e)"
  have e1: "ev_pending e1 = ev_pending e" "ev_pendingAt e1 = ev_pendingAt e" "ev_current e1 = ev_current e"
    "ev_recoverAt e1 = (if ev_recoverAt e = 0 then unix_of now else ev_recoverAt e)"
    by (simp_all add: e1_def)
  obtain ok e2 where c: "confirmed now StateNormal 2 e1 = (ok, e2)" by fastforce
  note sp = confirmed_spec[OF c]
  have res: "(s, e') = (if ok \<and> now - time_of_unix (ev_recoverAt e2) \<ge> RecoveryWindow
      then (StateNormal, (resetPending e2)\<lparr>ev_recoverAt := 0\<rparr>) else (StateRecovering, e2))"
    using r c by (simp add: recovering_def Let_def e1_def[symmetric] elapsed_bounds)
  show "ev_current e' = ev_current e" using res sp(2) e1(3) by (auto simp: resetPending_def split: if_splits)
  have p: "steady ((now, StateNormal) # h) StateNormal (ev_pendingAt e2)"
    using sp(5) e1 inv steady_now[of now StateNormal h] steady_more[of h StateNormal _ now] by (auto simp: settled_in_def)
  have rec: "steady ((now, StateNormal) # h) StateNormal (ev_recoverAt e2)"
    using sp(3) e1(4) inv steady_now[of now StateNormal h] steady_more[of h StateNormal _ now] by (auto simp: settled_in_def)
  show "settled_in s e' ((now, StateNormal) # h)"
    using res sp(1) p rec by (auto simp: settled_in_def resetPending_def split: if_splits)
  have "\<not> now - time_of_unix (unix_of now) \<ge> RecoveryWindow"
    by (simp add: time_of_unix_def unix_of_def RecoveryWindow_def minus_div_mult_eq_mod)
  then show "s = StateRecovering \<or> s = StateNormal \<and> (\<exists>a. steady h StateNormal a \<and> now - time_of_unix a \<ge> RecoveryWindow)"
    using res sp(3) e1(4) inv by (auto simp: settled_in_def split: if_splits)
qed

lemma transition_spec:
  assumes inv: "pressure_inv e h" and t: "t \<in> {StateNormal, StateWarning, StateConstrained, StateCritical}"
    and tr: "transition now (sn_State (ev_current e)) t e = (s, e')"
  shows "settled_in s e' ((now, t) # h)" "ev_current e' = ev_current e"
    "s = sn_State (ev_current e) \<or> s = StateCritical \<or> confirmed_change h now (sn_State (ev_current e)) t s"
    "t = StateCritical \<longrightarrow> s = StateCritical"
proof -
  let ?c = "sn_State (ev_current e)"
  let ?cc = "\<lambda>s. s = ?c \<or> s = StateCritical \<or> confirmed_change h now ?c t s"
  let ?goal = "settled_in s e' ((now, t) # h) \<and> ev_current e' = ev_current e \<and> ?cc s \<and> (t = StateCritical \<longrightarrow> s = StateCritical)"
  have c: "?c \<noteq> StateEmpty" and p: "ev_pending e \<noteq> StateEmpty \<longrightarrow> steady h (ev_pending e) (ev_pendingAt e)"
    and n: "ev_pendingN e \<ge> 2 \<longrightarrow> ev_pending e = StateNormal \<and> ?c = StateRecovering"
    using inv by (simp_all add: pressure_inv_def)
  have te: "t \<noteq> StateEmpty" "t \<noteq> StateRecovering" using t by auto
  have zero: ?goal if z: "confirm now t 2 t (e\<lparr>ev_recoverAt := 0\<rparr>) = (s, e')" "t \<noteq> StateCritical"
    and low: "t = StateNormal \<longrightarrow> severity ?c \<le> 1 \<and> ?c \<noteq> StateRecovering" and nn: "ev_pendingN e < 2 \<or> ev_pending e \<noteq> t"
  proof -
    have e0: "e'\<lparr>ev_recoverAt := 0\<rparr> = e'" using confirm_spec(2)[OF z(1)] nn by simp
    note cs = confirm_settles[OF z(1), where h = h and x = 0]
    show ?thesis using cs(1,2,3) nn p te c low z(2) e0 by (auto simp: confirmed_change_def)
  qed
  consider (crit) "t = StateCritical" | (unknown) "t \<noteq> StateCritical" "?c = StateUnknown"
    | (recn) "t = StateNormal" "?c = StateRecovering" | (rec) "t \<noteq> StateCritical" "t \<noteq> StateNormal" "?c = StateRecovering"
    | (up) "t \<noteq> StateCritical" "?c \<noteq> StateUnknown" "?c \<noteq> StateRecovering" "severity t > severity ?c"
    | (norm) "t = StateNormal" "?c \<noteq> StateUnknown" "?c \<noteq> StateRecovering" "severity t < severity ?c"
    | (down) "t \<noteq> StateCritical" "t \<noteq> StateNormal" "?c \<noteq> StateUnknown" "?c \<noteq> StateRecovering" "severity t < severity ?c"
    | (same) "t \<noteq> StateCritical" "?c \<noteq> StateUnknown" "?c \<noteq> StateRecovering" "severity t = severity ?c"
    by (metis linorder_cases)
  then have ?goal
  proof cases
    case crit
    then show ?thesis using tr by (auto simp: transition_def settled_in_def resetPending_def)
  next
    case unknown
    then have k: "confirm now t 2 t e = (s, e')" and nn: "ev_pendingN e < 2 \<or> ev_pending e \<noteq> t"
      using tr n by (auto simp: transition_def)
    have ns: "s \<noteq> StateRecovering" using confirm_spec(5)[OF k nn] unknown te by auto
    note cs = confirm_settles[OF k nn p te(1) c te(1), of "ev_recoverAt e'"]
    show ?thesis using cs ns unknown by (auto simp: confirmed_change_def)
  next
    case recn
    then show ?thesis
      using recovering_spec[of now e s e' h] tr inv by (auto simp: transition_def pressure_inv_settled confirmed_change_def)
  next
    case rec
    then show ?thesis using zero tr n by (auto simp: transition_def)
  next
    case up
    have "severity ?c \<ge> 0" using c up(2) by (cases ?c) simp_all
    then have "t \<noteq> StateNormal" using up(4) by auto
    then show ?thesis using zero tr n te up by (auto simp: transition_def)
  next
    case norm
    then have nn: "ev_pendingN e < 2 \<or> ev_pending e \<noteq> t" using n by auto
    obtain e1 where k: "confirm now t 2 StateRecovering e = (s, e1)"
      and e': "e' = (if s = StateRecovering then e1\<lparr>ev_recoverAt := unix_of now\<rparr> else e1)"
      using tr norm by (auto simp: transition_def split: prod.splits)
    define x where "x = ev_recoverAt e'"
    have "s = StateRecovering \<longrightarrow> steady ((now, t) # h) StateNormal x"
      using steady_now[of now t h] norm(1) e' by (auto simp: x_def)
    moreover have "e' = e1\<lparr>ev_recoverAt := x\<rparr>" by (simp add: x_def e')
    moreover have "severity ?c > 1" using norm by (cases ?c) simp_all
    ultimately show ?thesis
      using confirm_settles[OF k nn p _ c te(1), of x] norm by (auto simp: confirmed_change_def)
  next
    case down
    then show ?thesis using zero tr n te by (auto simp: transition_def)
  next
    case same
    then show ?thesis using tr c n by (auto simp: transition_def settled_in_def resetPending_def)
  qed
  then show "settled_in s e' ((now, t) # h)" "ev_current e' = ev_current e" "?cc s" "t = StateCritical \<longrightarrow> s = StateCritical"
    by blast+
qed

lemma evaluate_facts:
  fixes e :: Evaluator
  assumes "sn_State (ev_current e) \<noteq> StateEmpty" "evaluate dg e now signals = (snap, e')"
  obtains e1 where "transition now (sn_State (ev_current e)) (target e now signals) e = (sn_State snap, e1)"
    "e' = e1\<lparr>ev_current := snap\<rparr>" "sn_PreviousState snap = sn_State (ev_current e)"
    "sn_ObservedAt snap = unix_of now" "sn_Signals snap = normalizeSignals now signals"
    "sn_Revision snap = (let r = (if sn_State snap \<noteq> sn_State (ev_current e) then (sn_Revision (ev_current e) + 1) mod 2 ^ 64
        else sn_Revision (ev_current e)) in if r = 0 then 1 else r)"
proof -
  obtain t rs where c: "classify e now (normalizeSignals now signals) (exiting (sn_State (ev_current e))) = (t, rs)" by fastforce
  then have t: "target e now signals = t" by (simp add: target_def)
  obtain s e1 where tr: "transition now (sn_State (ev_current e)) t e = (s, e1)" by fastforce
  have "sn_State snap = s" "e' = e1\<lparr>ev_current := snap\<rparr>" "sn_PreviousState snap = sn_State (ev_current e)"
    "sn_ObservedAt snap = unix_of now" "sn_Signals snap = normalizeSignals now signals"
    "sn_Revision snap = (let r = (if s \<noteq> sn_State (ev_current e) then (sn_Revision (ev_current e) + 1) mod 2 ^ 64
        else sn_Revision (ev_current e)) in if r = 0 then 1 else r)"
    using assms c tr by (auto simp: evaluate_def Let_def exiting_def split: prod.splits)
  then show ?thesis using that[of e1] tr t by simp
qed

lemma target_graded: "target e now signals \<in> {StateNormal, StateWarning, StateConstrained, StateCritical}"
  unfolding target_def by (rule classify_target)

lemma evaluate_inv:
  assumes inv: "pressure_inv e h" and ev: "evaluate dg e now signals = (snap, e')"
  shows "pressure_inv e' ((now, target e now signals) # h)"
    "sn_State snap = sn_State (ev_current e) \<or> sn_State snap = StateCritical
       \<or> confirmed_change h now (sn_State (ev_current e)) (target e now signals) (sn_State snap)"
    "target e now signals = StateCritical \<longrightarrow> sn_State snap = StateCritical" "sn_State (ev_current e') = sn_State snap"
proof -
  have "sn_State (ev_current e) \<noteq> StateEmpty" using inv by (simp add: pressure_inv_def)
  then obtain e1 where tr: "transition now (sn_State (ev_current e)) (target e now signals) e = (sn_State snap, e1)"
    and e': "e' = e1\<lparr>ev_current := snap\<rparr>" by (rule evaluate_facts[OF _ ev])
  note sp = transition_spec[OF inv target_graded tr]
  show "sn_State (ev_current e') = sn_State snap" by (simp add: e')
  show "pressure_inv e' ((now, target e now signals) # h)"
    using sp(1) by (simp add: pressure_inv_settled e' settled_in_def)
  show "sn_State snap = sn_State (ev_current e) \<or> sn_State snap = StateCritical
       \<or> confirmed_change h now (sn_State (ev_current e)) (target e now signals) (sn_State snap)"
    by (rule sp(3))
  show "target e now signals = StateCritical \<longrightarrow> sn_State snap = StateCritical" by (rule sp(4))
qed

lemma new_inv: "NewEvaluator ts = Inr e \<Longrightarrow> pressure_inv e []"
  by (auto simp: NewEvaluator_def pressure_inv_def split: if_splits option.splits)

lemma observe_inv: "pressure_inv e h \<Longrightarrow> observe dg e h xs = (e', h') \<Longrightarrow> pressure_inv e' h'"
proof (induction dg e h xs rule: observe.induct)
  case (2 dg e h now signals xs)
  obtain snap e1 where ev: "evaluate dg e now signals = (snap, e1)" by fastforce
  show ?case using "2.IH" evaluate_inv(1)[OF "2.prems"(1) ev] "2.prems"(2) by (simp add: ev)
qed simp

text \<open>C7. The pressure state never flaps.  From a fresh evaluator, after any observations at any
  times, the state changes to anything but CRITICAL only when an earlier observation, 15 seconds
  to two minutes before, and all since point to the same target; leaving RECOVERING for NORMAL
  needs them to point to NORMAL for five minutes; a pressured state never falls to NORMAL directly
  but to RECOVERING.\<close>

theorem pressure_change_confirmed:
  assumes "NewEvaluator ts = Inr e0" "observe dg e0 [] xs = (e, h)" "evaluate dg e now signals = (snap, e')"
    and "sn_State snap \<noteq> sn_State (ev_current e)" "sn_State snap \<noteq> StateCritical"
  shows "(\<exists>mid t0 pre. h = mid @ (t0, target e now signals) # pre \<and> (\<forall>x\<in>set mid. snd x = target e now signals)
     \<and> (if sn_State (ev_current e) = StateRecovering \<and> target e now signals = StateNormal
        then now - time_of_unix (unix_of t0) \<ge> RecoveryWindow
        else SampleInterval \<le> now - time_of_unix (unix_of t0) \<and> now - time_of_unix (unix_of t0) \<le> DefaultFreshness))
    \<and> (sn_State snap = (if target e now signals = StateNormal \<and> severity (sn_State (ev_current e)) > 1
       then StateRecovering else target e now signals))"
proof (rule conjI)
  have "pressure_inv e h" using observe_inv[OF new_inv[OF assms(1)] assms(2)] .
  then have c: "confirmed_change h now (sn_State (ev_current e)) (target e now signals) (sn_State snap)"
    using evaluate_inv(2) assms(3-5) by blast
  then show "\<exists>mid t0 pre. h = mid @ (t0, target e now signals) # pre \<and> (\<forall>x\<in>set mid. snd x = target e now signals)
     \<and> (if sn_State (ev_current e) = StateRecovering \<and> target e now signals = StateNormal
        then now - time_of_unix (unix_of t0) \<ge> RecoveryWindow
        else SampleInterval \<le> now - time_of_unix (unix_of t0) \<and> now - time_of_unix (unix_of t0) \<le> DefaultFreshness)"
    unfolding confirmed_change_def steady_def by blast
  show "sn_State snap = (if target e now signals = StateNormal \<and> severity (sn_State (ev_current e)) > 1
       then StateRecovering else target e now signals)"
    using c by (simp add: confirmed_change_def)
qed

definition demo_thresholds :: "Threshold list" where
  "demo_thresholds = [\<lparr>th_ID = ''q'', th_Direction = HigherIsWorse, th_Warning = Fin 1, th_Constrained = Fin 2,
     th_Critical = Fin 3, th_Required = True\<rparr>]"

definition demo_signals :: "rat \<Rightarrow> int \<Rightarrow> Signal list" where
  "demo_signals v s = [\<lparr>sg_ID = ''q'', sg_Status = ProviderSupported, sg_Value = Fin v, sg_Unit = ''count'',
     sg_ObservedAt = s, sg_ExpiresAt = s + 60, sg_ReasonCode = []\<rparr>]"

definition demo_evaluator :: Evaluator where
  "demo_evaluator = \<lparr>ev_Thresholds = demo_thresholds, ev_current = empty_snapshot\<lparr>sn_State := StateUnknown\<rparr>,
      ev_pending = StateEmpty, ev_pendingN = 0, ev_pendingAt = 0, ev_recoverAt = 0\<rparr>"

abbreviation (input) demo_digest :: "Signal list \<Rightarrow> string list \<Rightarrow> string" where
  "demo_digest \<equiv> \<lambda>_ _. ''d''"

definition demo_evaluator1 :: Evaluator where
  "demo_evaluator1 = \<lparr>ev_Thresholds = demo_thresholds,
      ev_current = \<lparr>sn_State = StateUnknown, sn_PreviousState = StateUnknown, sn_Signals = demo_signals 1 1000,
        sn_ReasonCodes = [''WARNING:q''], sn_ObservationDigest = ''d'', sn_Revision = 1, sn_ObservedAt = 1000, sn_ChangedAt = 1000\<rparr>,
      ev_pending = StateWarning, ev_pendingN = 1, ev_pendingAt = 1000, ev_recoverAt = 0\<rparr>"

theorem pressure_change_confirmed_witness:
  "NewEvaluator demo_thresholds = Inr demo_evaluator
     \<and> observe demo_digest demo_evaluator [] [(time_of_unix 1000, demo_signals 1 1000)]
         = (demo_evaluator1, [(time_of_unix 1000, StateWarning)])
     \<and> sn_State (fst (evaluate demo_digest demo_evaluator1 (time_of_unix 1020) (demo_signals 1 1020))) = StateWarning
     \<and> (\<exists>mid t0 pre. [(time_of_unix 1000, StateWarning)] = mid @ (t0, StateWarning) # pre
          \<and> SampleInterval \<le> time_of_unix 1020 - time_of_unix (unix_of t0))"
proof -
  let ?v = "evaluate demo_digest demo_evaluator1 (time_of_unix 1020) (demo_signals 1 1020)"
  have new: "NewEvaluator demo_thresholds = Inr demo_evaluator" by code_simp
  have o: "observe demo_digest demo_evaluator [] [(time_of_unix 1000, demo_signals 1 1000)]
      = (demo_evaluator1, [(time_of_unix 1000, StateWarning)])" by code_simp
  have s: "sn_State (ev_current demo_evaluator1) = StateUnknown" by (simp add: demo_evaluator1_def)
  have t: "target demo_evaluator1 (time_of_unix 1020) (demo_signals 1 1020) = StateWarning" by code_simp
  have d: "time_sub (time_of_unix 1020) (time_of_unix 1000) = 20000000000" by code_simp
  have "fst (transition (time_of_unix 1020) StateUnknown StateWarning demo_evaluator1) = StateWarning"
    by (simp add: transition_def confirm_def confirmed_def demo_evaluator1_def d DefaultFreshness_def SampleInterval_def)
  then have v: "sn_State (fst ?v) = StateWarning"
    using evaluate_facts[where e = demo_evaluator1 and dg = demo_digest and snap = "fst ?v" and e' = "snd ?v", OF _ prod.collapse[symmetric]]
    unfolding s t by (metis fst_conv pressure_state.distinct(1))
  have "\<exists>mid t0 pre. [(time_of_unix 1000, StateWarning)] = mid @ (t0, StateWarning) # pre
      \<and> SampleInterval \<le> time_of_unix 1020 - time_of_unix (unix_of t0)"
    using pressure_change_confirmed[OF new o prod.collapse[symmetric], of "time_of_unix 1020" "demo_signals 1 1020", THEN conjunct1]
    unfolding s v t by auto
  then show ?thesis using new o v by blast
qed

section \<open>Recovery\<close>

lemma classify_thresholds: "ev_Thresholds e = ev_Thresholds e' \<Longrightarrow> classify e = classify e'"
  by (simp add: classify_def fun_eq_iff)

lemma transition_thresholds: "ev_Thresholds (snd (transition now c t e)) = ev_Thresholds e"
proof -
  have cf: "ev_Thresholds (snd (confirmed now t n e)) = ev_Thresholds e" for t n e
    by (simp add: confirmed_def Let_def)
  have cm: "ev_Thresholds (snd (confirm now t n r e)) = ev_Thresholds e" for t n r e
    using cf[of t n e] by (cases "confirmed now t n e"; cases "fst (confirmed now t n e)") (simp_all add: confirm_def resetPending_def)
  have "ev_Thresholds (snd (recovering now e)) = ev_Thresholds e" for e
  proof -
    define e1 where "e1 = (if ev_recoverAt e = 0 then e\<lparr>ev_recoverAt := unix_of now\<rparr> else e)"
    have "ev_Thresholds (snd (confirmed now StateNormal 2 e1)) = ev_Thresholds e1" by (rule cf)
    moreover have "ev_Thresholds e1 = ev_Thresholds e" by (simp add: e1_def)
    ultimately show ?thesis
      by (cases "confirmed now StateNormal 2 e1") (simp add: recovering_def Let_def e1_def[symmetric] resetPending_def)
  qed
  moreover have "ev_Thresholds (snd (case confirm now t 2 StateRecovering e of
      (next, e) \<Rightarrow> (next, if next = StateRecovering then e\<lparr>ev_recoverAt := unix_of now\<rparr> else e))) = ev_Thresholds e" for t
    using cm[of t 2 StateRecovering e] by (cases "confirm now t 2 StateRecovering e") simp
  ultimately show ?thesis
    using cm by (simp add: transition_def resetPending_def)
qed

text \<open>Observations every \<open>g\<close> seconds from the second \<open>a\<close> on, all within the bounds.\<close>

fun drive :: "(Signal list \<Rightarrow> string list \<Rightarrow> string) \<Rightarrow> Evaluator \<Rightarrow> (nat \<Rightarrow> Signal list) \<Rightarrow> int \<Rightarrow> int \<Rightarrow> nat \<Rightarrow> Evaluator" where
  "drive dg e sig a g 0 = e"
| "drive dg e sig a g (Suc n) = snd (evaluate dg (drive dg e sig a g n) (time_of_unix (a + int n * g)) (sig n))"

definition quiet :: "Evaluator \<Rightarrow> go_time \<Rightarrow> Signal list \<Rightarrow> bool" where
  "quiet e now signals \<longleftrightarrow> fst (classify e now (normalizeSignals now signals) True) = StateNormal
     \<and> fst (classify e now (normalizeSignals now signals) False) = StateNormal"

lemma unix_of_time [simp]: "unix_of (time_of_unix s) = s"
  by (simp add: unix_of_def time_of_unix_def)

lemma time_sub_unix:
  "0 \<le> s \<Longrightarrow> s \<le> 1000 \<Longrightarrow> time_sub (time_of_unix (b + s)) (time_of_unix b) = s * 1000000000"
  by (simp add: time_sub_def time_of_unix_def int64_min_def int64_max_def)

text \<open>Where the evaluator stands after \<open>n\<close> quiet observations.\<close>

definition on_track :: "Evaluator \<Rightarrow> int \<Rightarrow> int \<Rightarrow> nat \<Rightarrow> Evaluator \<Rightarrow> bool" where
  "on_track e0 a g n e \<longleftrightarrow> ev_Thresholds e = ev_Thresholds e0 \<and>
     (if n = 0 then e = e0
      else if n = 1 then sn_State (ev_current e) = sn_State (ev_current e0) \<and> ev_pending e = StateNormal
        \<and> ev_pendingN e = 1 \<and> ev_pendingAt e = a
      else if int (n - 2) * g < 300 then sn_State (ev_current e) = StateRecovering \<and> ev_recoverAt e = a + g
        \<and> (if n = 2 then ev_pending e = StateEmpty
           else ev_pending e = StateNormal \<and> ev_pendingN e = n - 2 \<and> ev_pendingAt e = a + int (n - 1) * g)
      else sn_State (ev_current e) = StateNormal)"

lemma quiet_step:
  assumes st: "sn_State (ev_current e) \<noteq> StateEmpty" and q: "quiet e now signals"
  shows "\<exists>snap. snd (evaluate dg e now signals)
      = (snd (transition now (sn_State (ev_current e)) StateNormal e))\<lparr>ev_current := snap\<rparr>
     \<and> sn_State snap = fst (transition now (sn_State (ev_current e)) StateNormal e)"
proof -
  obtain snap e' where ev: "evaluate dg e now signals = (snap, e')" by fastforce
  have "target e now signals = StateNormal"
    using q by (cases "exiting (sn_State (ev_current e))") (simp_all add: target_def quiet_def)
  then show ?thesis using evaluate_facts[OF st ev] ev by (metis fst_conv snd_conv)
qed

lemma track_step:
  assumes g: "15 \<le> g" "g \<le> 120" and a: "0 \<le> a"
    and e0: "severity (sn_State (ev_current e0)) \<ge> 2" "ev_pending e0 \<noteq> StateNormal"
    and tr: "on_track e0 a g n e" and q: "quiet e0 (time_of_unix (a + int n * g)) signals"
  shows "on_track e0 a g (Suc n) (snd (evaluate dg e (time_of_unix (a + int n * g)) signals))"
proof -
  let ?now = "time_of_unix (a + int n * g)" and ?s = "sn_State (ev_current e)"
  let ?T = "transition ?now ?s StateNormal e"
  have th: "ev_Thresholds e = ev_Thresholds e0" using tr by (simp add: on_track_def)
  have s0: "sn_State (ev_current e0) \<in> {StateWarning, StateConstrained, StateCritical}"
    using e0(1) by (cases "sn_State (ev_current e0)") simp_all
  have "?s \<noteq> StateEmpty" using tr s0 by (auto simp: on_track_def split: if_splits)
  moreover have "quiet e ?now signals" using q classify_thresholds[OF th] by (simp add: quiet_def)
  ultimately obtain snap where ev: "snd (evaluate dg e ?now signals) = (snd ?T)\<lparr>ev_current := snap\<rparr>" "sn_State snap = fst ?T"
    using quiet_step by blast
  have tht: "ev_Thresholds (snd ?T) = ev_Thresholds e0" by (simp add: transition_thresholds th)
  consider "n = 0" | "n = 1" | "n = 2" | "n > 2" "int (n - 2) * g < 300" | "n > 2" "\<not> int (n - 2) * g < 300" by linarith
  then show ?thesis
  proof cases
    case 1
    then have "e = e0" using tr by (simp add: on_track_def)
    then show ?thesis using 1 s0 e0(2) tht ev
      by (auto simp: on_track_def transition_def confirm_def confirmed_def)
  next
    case 2
    have "time_sub ?now (time_of_unix a) = g * 1000000000" using 2 g time_sub_unix[of g a] by simp
    then show ?thesis using 2 s0 g tht ev tr
      by (auto simp: on_track_def transition_def confirm_def confirmed_def Let_def DefaultFreshness_def SampleInterval_def resetPending_def)
  next
    case 3
    have "time_sub ?now (time_of_unix (a + g)) = g * 1000000000" using 3 g time_sub_unix[of g "a + g"] by (simp add: add.assoc)
    then show ?thesis using 3 g a tht ev tr
      by (auto simp: on_track_def transition_def recovering_def confirmed_def Let_def RecoveryWindow_def)
  next
    case 4
    have el: "time_sub ?now (time_of_unix (a + int (n - 1) * g)) = g * 1000000000"
      using 4 g time_sub_unix[of g "a + int (n - 1) * g"] by (simp add: of_nat_diff algebra_simps)
    have w: "0 \<le> int (n - 1) * g" "int (n - 1) * g \<le> 1000" using 4 g by (simp_all add: of_nat_diff algebra_simps)
    have el2: "time_sub ?now (time_of_unix (a + g)) = int (n - 1) * g * 1000000000"
      using 4 w time_sub_unix[of "int (n - 1) * g" "a + g"] by (simp add: of_nat_diff algebra_simps)
    have "int (n - 2) * 15 \<le> int (n - 2) * g" using g by (intro mult_left_mono) auto
    then have small: "n - 2 < 20" using 4 by linarith
    have three: "n - 1 \<ge> 3" if "\<not> int (n - 1) * g < 300"
    proof (rule ccontr)
      assume "\<not> n - 1 \<ge> 3"
      then have "int (n - 1) * g \<le> 2 * g" using g by (intro mult_right_mono) auto
      then show False using that g by linarith
    qed
    have suc: "Suc (n - 2) = n - Suc 0" using 4 by simp
    show ?thesis using 4 g a tht ev tr el el2 small three
      by (auto simp: on_track_def transition_def recovering_def confirmed_def Let_def DefaultFreshness_def SampleInterval_def
          RecoveryWindow_def suc mult.commute)
  next
    case 5
    have "int (n - 2) * g \<le> int (n - 1) * g" using g by (intro mult_right_mono) auto
    then show ?thesis using 5 tht ev tr by (auto simp: on_track_def transition_def)
  qed
qed

lemma drive_track:
  assumes "15 \<le> g" "g \<le> 120" "0 \<le> a" "severity (sn_State (ev_current e)) \<ge> 2" "ev_pending e \<noteq> StateNormal"
    and "\<And>k. k < n \<Longrightarrow> quiet e (time_of_unix (a + int k * g)) (sig k)"
  shows "on_track e a g n (drive dg e sig a g n)"
  using assms(6)
proof (induction n)
  case 0
  then show ?case by (simp add: on_track_def)
next
  case (Suc n)
  then show ?case using track_step[OF assms(1-5), of n] by simp
qed



section \<open>Admission\<close>

text \<open>Admission is monotone and never dead: a class of work admitted under more pressure is
  admitted under less, essential work is always admitted, every refusal says when to retry, and
  under normal pressure nothing is refused.\<close>

theorem admission_monotone:
  assumes "s \<in> {StateNormal, StateWarning, StateConstrained, StateCritical}"
    and "s' \<in> {StateNormal, StateWarning, StateConstrained, StateCritical}" "severity s \<le> severity s'"
  shows "(ad_Allowed (Decide s' cls) \<longrightarrow> ad_Allowed (Decide s cls))
    \<and> (essential_class cls \<longrightarrow> ad_Allowed (Decide q cls))
    \<and> (ad_Allowed (Decide q cls) \<longleftrightarrow> ad_RetryAfter (Decide q cls) = 0)
    \<and> (ad_Allowed (Decide StateNormal cls))"
proof (rule conjI [OF _ conjI [OF _ conjI]])
  have d: "ad_Allowed (admit r)" "\<not> ad_Allowed (refuse r n)" "ad_RetryAfter (admit r) = 0" "ad_RetryAfter (refuse r n) = n" for r n
    by (simp_all add: admit_def refuse_def)
  have c: "critical_class cls \<Longrightarrow> \<not> heavy_class cls" "cls = ''optional'' \<Longrightarrow> heavy_class cls"
    by (auto simp: critical_class_def heavy_class_def)
  have "ad_Allowed (Decide s cls)" if a: "ad_Allowed (Decide s' cls)"
  proof (cases "essential_class cls")
    case False
    then show ?thesis using a assms c d by (cases s; cases s'; simp add: Decide_def split: if_splits) blast+
  qed (simp add: Decide_def d)
  then show "ad_Allowed (Decide s' cls) \<longrightarrow> ad_Allowed (Decide s cls)" by blast
  show "essential_class cls \<longrightarrow> ad_Allowed (Decide q cls)" by (simp add: Decide_def d)
  show "ad_Allowed (Decide q cls) \<longleftrightarrow> ad_RetryAfter (Decide q cls) = 0" by (cases q) (simp_all add: Decide_def d)
  show "ad_Allowed (Decide StateNormal cls)" by (simp add: Decide_def d)
qed

theorem admission_monotone_witness:
  "ad_Allowed (Decide StateCritical ''status'') \<and> ad_Allowed (Decide StateWarning ''status'')"
proof -
  have "ad_Allowed (Decide StateCritical ''status'')" by code_simp
  moreover have "severity StateWarning \<le> severity StateCritical" by code_simp
  ultimately show ?thesis using admission_monotone[of StateWarning StateCritical "''status''"] by blast
qed

section \<open>The default thresholds\<close>

definition ordered_threshold :: "Threshold \<Rightarrow> bool" where
  "ordered_threshold t \<longleftrightarrow> validThresholdBounds t \<and>
     (th_Direction t = HigherIsWorse \<and> f64_lt (th_Warning t) (th_Constrained t) \<and> f64_lt (th_Constrained t) (th_Critical t)
      \<or> th_Direction t = LowerIsWorse \<and> f64_lt (th_Constrained t) (th_Warning t) \<and> f64_lt (th_Critical t) (th_Constrained t))"

lemma check_thresholds_ok:
  "list_all safeID (map th_ID ts) \<Longrightarrow> list_all ordered_threshold ts \<Longrightarrow> distinct (map th_ID ts)
     \<Longrightarrow> th_ID ` set ts \<inter> seen = {} \<Longrightarrow> check_thresholds seen ts = None"
  by (induction ts arbitrary: seen) (auto simp: ordered_threshold_def)

lemma threshold_sel [simp]:
  "th_ID (threshold i dir w c k r) = i" "th_Direction (threshold i dir w c k r) = dir"
  "th_Warning (threshold i dir w c k r) = f64_of_rat w" "th_Constrained (threshold i dir w c k r) = f64_of_rat c"
  "th_Critical (threshold i dir w c k r) = f64_of_rat k"
  by (simp_all add: threshold_def)

lemma threshold_ordered:
  assumes "\<not> HasSuffix i ''.ratio''"
    and "dir = HigherIsWorse \<and> 1 / 2 ^ 20 \<le> w \<and> 21 / 20 * w \<le> c \<and> 21 / 20 * c \<le> k \<and> k \<le> 2 ^ 49
      \<or> dir = LowerIsWorse \<and> 1 / 2 ^ 20 \<le> k \<and> 21 / 20 * k \<le> c \<and> 21 / 20 * c \<le> w \<and> w \<le> 2 ^ 49"
  shows "ordered_threshold (threshold i dir w c k r)"
proof -
  have "1 / 2 ^ 20 \<le> w" "w \<le> 2 ^ 49" "1 / 2 ^ 20 \<le> c" "c \<le> 2 ^ 49" "1 / 2 ^ 20 \<le> k" "k \<le> 2 ^ 49"
    using assms(2) by auto
  note b = f64_of_rat_bounded[OF this(1,2)] f64_of_rat_bounded[OF this(3,4)] f64_of_rat_bounded[OF this(5,6)]
  have "bound_value_ok (f64_of_rat x)" if "\<exists>v\<ge>0. f64_of_rat x = Fin v" for x
    using that by (auto simp: bound_value_ok_def)
  then have "validThresholdBounds (threshold i dir w c k r)"
    using assms(1) b by (simp add: validThresholdBounds_def)
  then show ?thesis
    using assms(2) f64_of_rat_less[of w c] f64_of_rat_less[of c k] f64_of_rat_less[of c w] f64_of_rat_less[of k c]
    by (auto simp: ordered_threshold_def)
qed

lemma default_ids: "map th_ID DefaultThresholds =
  [''filesystem.data.free_ratio'', ''filesystem.data.free_bytes'', ''filesystem.data.free_inode_ratio'',
   ''filesystem.temp.free_ratio'', ''filesystem.temp.free_bytes'', ''filesystem.temp.free_inode_ratio'',
   ''sqlite.wal.bytes'', ''sqlite.busy.rate'', ''memory.used_ratio'', ''cgroup.memory.used_ratio'',
   ''psi.memory.some_avg10'', ''process.fd.used_ratio'', ''process.goroutines'', ''http.active'',
   ''audit.queue.used_ratio'', ''operations.heavy.active'']"
  by (simp add: DefaultThresholds_def)

lemma default_ids_ok:
  "list_all safeID (map th_ID DefaultThresholds)" "distinct (map th_ID DefaultThresholds)"
  "list_all (\<lambda>i. \<not> HasSuffix i ''.ratio'') (map th_ID DefaultThresholds)"
  unfolding default_ids by code_simp+

lemma default_ordered: "list_all ordered_threshold DefaultThresholds"
  using default_ids_ok(3) unfolding DefaultThresholds_def list.pred_inject list.map threshold_sel
  by (intro conjI threshold_ordered) simp_all

text \<open>C38. The default thresholds are accepted, but none of them has the identifier suffix the exit
  hysteresis looks for: leaving a pressured state uses the same bounds as entering it, for every
  default threshold and every value.\<close>

theorem default_thresholds_no_hysteresis:
  "NewEvaluator DefaultThresholds = Inr \<lparr>ev_Thresholds = DefaultThresholds, ev_current = empty_snapshot\<lparr>sn_State := StateUnknown\<rparr>,
      ev_pending = StateEmpty, ev_pendingN = 0, ev_pendingAt = 0, ev_recoverAt = 0\<rparr>
   \<and> list_all (\<lambda>t. thresholdState v t True = thresholdState v t False) DefaultThresholds"
proof -
  have "check_thresholds {} DefaultThresholds = None"
    using default_ids_ok(1,2) default_ordered by (intro check_thresholds_ok) simp_all
  moreover have "DefaultThresholds \<noteq> []" "length DefaultThresholds \<le> MaxSignals"
    by (simp_all add: DefaultThresholds_def MaxSignals_def)
  moreover have "list_all (\<lambda>t. \<not> HasSuffix (th_ID t) ''.ratio'') DefaultThresholds"
    using default_ids_ok(3) by (simp add: list.pred_map comp_def)
  then have "list_all (\<lambda>t. thresholdState v t True = thresholdState v t False) DefaultThresholds"
    by (rule list.pred_mono_strong) (simp add: thresholdState_def exit_bounds_def)
  ultimately show ?thesis by (simp add: NewEvaluator_def)
qed

end
