(* ===== verification/Go_Netip.thy ===== *)
theory Go_Netip
  imports Go_Strings
begin

text \<open>
  The functions of the package \<^verbatim>\<open>net/netip\<close> that the modelled sources call.  An address is the
  zero \<open>Addr\<close>, an IPv4 address as a number below \<open>2^32\<close>, or an IPv6 address as a number below
  \<open>2^128\<close> with a zone (empty for none); a \<open>Prefix\<close> is an address with a length, -1 for an
  invalid one.
\<close>

section \<open>Addresses\<close>

datatype Addr = AddrZero | V4 int | V6 int string

definition addr_IsValid :: "Addr \<Rightarrow> bool" where
  "addr_IsValid a \<longleftrightarrow> a \<noteq> AddrZero"

fun addr_Is4 :: "Addr \<Rightarrow> bool" where
  "addr_Is4 (V4 v) = True"
| "addr_Is4 _ = False"

fun addr_Is6 :: "Addr \<Rightarrow> bool" where
  "addr_Is6 (V6 v z) = True"
| "addr_Is6 _ = False"

fun addr_Zone :: "Addr \<Rightarrow> string" where
  "addr_Zone (V6 v z) = z"
| "addr_Zone _ = ''''"

fun addr_BitLen :: "Addr \<Rightarrow> int" where
  "addr_BitLen AddrZero = 0"
| "addr_BitLen (V4 v) = 32"
| "addr_BitLen (V6 v z) = 128"

fun addr_val :: "Addr \<Rightarrow> int" where
  "addr_val AddrZero = 0"
| "addr_val (V4 v) = v"
| "addr_val (V6 v z) = v"

text \<open>IPv4-mapped IPv6 addresses \<open>::ffff:a.b.c.d\<close>.\<close>

fun addr_Is4In6 :: "Addr \<Rightarrow> bool" where
  "addr_Is4In6 (V6 v z) = (v div 4294967296 = 65535)"
| "addr_Is4In6 _ = False"

fun addr_Unmap :: "Addr \<Rightarrow> Addr" where
  "addr_Unmap (V6 v z) = (if v div 4294967296 = 65535 then V4 (v mod 4294967296) else V6 v z)"
| "addr_Unmap a = a"

definition addr_IsUnspecified :: "Addr \<Rightarrow> bool" where
  "addr_IsUnspecified a \<longleftrightarrow> a = V4 0 \<or> a = V6 0 ''''"

definition addr_IsLoopback :: "Addr \<Rightarrow> bool" where
  "addr_IsLoopback a =
     (case addr_Unmap a of AddrZero \<Rightarrow> False | V4 v \<Rightarrow> v div 16777216 = 127 | V6 v z \<Rightarrow> v = 1)"

definition addr_IsMulticast :: "Addr \<Rightarrow> bool" where
  "addr_IsMulticast a =
     (case addr_Unmap a of AddrZero \<Rightarrow> False | V4 v \<Rightarrow> v div 268435456 = 14 | V6 v z \<Rightarrow> v div 2 ^ 120 = 255)"

definition addr_IsLinkLocalUnicast :: "Addr \<Rightarrow> bool" where
  "addr_IsLinkLocalUnicast a =
     (case addr_Unmap a of AddrZero \<Rightarrow> False | V4 v \<Rightarrow> v div 65536 = 43518 | V6 v z \<Rightarrow> v div 2 ^ 118 = 1018)"

section \<open>Parsing\<close>

text \<open>One decimal field of an IPv4 address: one to three digits, no leading zero, at most 255.\<close>

definition v4_field :: "string \<Rightarrow> int option" where
  "v4_field w =
     (if w \<noteq> '''' \<and> list_all is_digit w \<and> (length w > 1 \<longrightarrow> hd w \<noteq> CHR ''0'') \<and> digits_val w \<le> 255
      then Some (int (digits_val w)) else None)"

definition parse_v4 :: "string \<Rightarrow> int option" where
  "parse_v4 s =
     (case Split s CHR ''.'' of
        [a, b, c, d] \<Rightarrow>
          (case (v4_field a, v4_field b, v4_field c, v4_field d) of
             (Some w, Some x, Some y, Some z) \<Rightarrow> Some (((w * 256 + x) * 256 + y) * 256 + z)
           | _ \<Rightarrow> None)
      | _ \<Rightarrow> None)"

definition hex_val :: "char \<Rightarrow> int option" where
  "hex_val c =
     (if is_digit c then Some (int (digit_val c))
      else if CHR ''a'' \<le> c \<and> c \<le> CHR ''f'' then Some (int (byte_val c) - 87)
      else if CHR ''A'' \<le> c \<and> c \<le> CHR ''F'' then Some (int (byte_val c) - 55)
      else None)"

text \<open>The hexadecimal digits at the head of the string: their value, their number, the rest.\<close>

fun hex_run :: "int \<Rightarrow> nat \<Rightarrow> string \<Rightarrow> int \<times> nat \<times> string" where
  "hex_run acc off [] = (acc, off, [])"
| "hex_run acc off (c # s) =
     (case hex_val c of None \<Rightarrow> (acc, off, c # s) | Some d \<Rightarrow> hex_run (acc * 16 + d) (Suc off) s)"

text \<open>The loop over the groups of an IPv6 address: the groups read so far, the position of the
  ellipsis among them, and what is left; at most eight groups.  An IPv4 tail counts as two.\<close>

function v6_groups :: "int list \<Rightarrow> nat option \<Rightarrow> string \<Rightarrow> (int list \<times> nat option) option" where
  "v6_groups gs ell s =
     (if length gs \<ge> 8 then (if s = [] then Some (gs, ell) else None)
      else case hex_run 0 0 s of (acc, off, rest) \<Rightarrow>
        if off = 0 \<or> off > 4 then None
        else if HasPrefix rest ''.'' then
          (if ell = None \<and> length gs \<noteq> 6 \<or> length gs > 6 then None
           else case parse_v4 s of None \<Rightarrow> None | Some v \<Rightarrow> Some (gs @ [v div 65536, v mod 65536], ell))
        else let gs' = gs @ [acc]
             in if rest = [] then Some (gs', ell)
                else if hd rest \<noteq> CHR '':'' \<or> tl rest = [] then None
                else if hd (tl rest) = CHR '':'' then
                  (if ell \<noteq> None then None
                   else if tl (tl rest) = [] then Some (gs', Some (length gs'))
                   else v6_groups gs' (Some (length gs')) (tl (tl rest)))
                else v6_groups gs' ell (tl rest))"
  by pat_completeness auto
termination by (relation "measure (\<lambda>(gs, ell, s). 8 - length gs)") auto

declare v6_groups.simps [simp del]

definition v6_value :: "int list \<Rightarrow> int" where
  "v6_value gs = foldl (\<lambda>v g. v * 65536 + g) 0 gs"

definition parse_v6 :: "string \<Rightarrow> Addr option" where
  "parse_v6 text =
     (case Cut text CHR ''%'' of (s, zone, zoned) \<Rightarrow>
        if zoned \<and> zone = '''' then None
        else if s = ''::'' then Some (V6 0 zone)
        else case (if HasPrefix s ''::'' then v6_groups [] (Some 0) (drop 2 s) else v6_groups [] None s) of
          None \<Rightarrow> None
        | Some (gs, ell) \<Rightarrow>
            (case ell of
               None \<Rightarrow> if length gs = 8 then Some (V6 (v6_value gs) zone) else None
             | Some k \<Rightarrow> if length gs \<ge> 8 then None
                 else Some (V6 (v6_value (take k gs @ replicate (8 - length gs) 0 @ drop k gs)) zone)))"

fun ParseAddr_from :: "string \<Rightarrow> string \<Rightarrow> Addr option" where
  "ParseAddr_from text [] = None"
| "ParseAddr_from text (c # s) =
     (if c = CHR ''.'' then map_option V4 (parse_v4 text)
      else if c = CHR '':'' then parse_v6 text
      else if c = CHR ''%'' then None
      else ParseAddr_from text s)"

definition ParseAddr :: "string \<Rightarrow> Addr option" where
  "ParseAddr s = ParseAddr_from s s"

section \<open>Printing\<close>

definition v4_string :: "int \<Rightarrow> string" where
  "v4_string v = Join (map Itoa [v div 16777216, v div 65536 mod 256, v div 256 mod 256, v mod 256]) ''.''"

definition hex_digit :: "int \<Rightarrow> char" where
  "hex_digit d = ''0123456789abcdef'' ! nat d"

definition hex16 :: "int \<Rightarrow> string" where
  "hex16 g =
     (let ds = [g div 4096 mod 16, g div 256 mod 16, g div 16 mod 16, g mod 16]
      in map hex_digit (if g = 0 then [0] else dropWhile (\<lambda>d. d = 0) ds))"

definition v6_split :: "int \<Rightarrow> int list" where
  "v6_split v = map (\<lambda>k. v div 65536 ^ (7 - k) mod 65536) [0..<8]"

text \<open>The first longest run of at least two zero groups: its start and length.\<close>

definition zero_run :: "int list \<Rightarrow> nat \<times> nat" where
  "zero_run gs =
     foldl (\<lambda>(start, len) i. let l = length (takeWhile (\<lambda>g. g = 0) (drop i gs))
                             in if l \<ge> 2 \<and> l > len then (i, l) else (start, len)) (8, 0) [0..<8]"

definition v6_string :: "int \<Rightarrow> string" where
  "v6_string v =
     (let gs = v6_split v
      in case zero_run gs of (start, len) \<Rightarrow>
           if len = 0 then Join (map hex16 gs) '':''
           else Join (map hex16 (take start gs)) '':'' @ ''::'' @ Join (map hex16 (drop (start + len) gs)) '':'')"

definition zone_suffix :: "string \<Rightarrow> string" where
  "zone_suffix z = (if z = '''' then '''' else ''%'' @ z)"

fun addr_String :: "Addr \<Rightarrow> string" where
  "addr_String AddrZero = ''invalid IP''"
| "addr_String (V4 v) = v4_string v"
| "addr_String (V6 v z) =
     (if v div 4294967296 = 65535 then ''::ffff:'' @ v4_string (v mod 4294967296) else v6_string v) @ zone_suffix z"

section \<open>Prefixes\<close>

record Prefix =
  px_Addr :: Addr
  px_Bits :: int

definition prefix_zero :: Prefix where
  "prefix_zero = \<lparr>px_Addr = AddrZero, px_Bits = -1\<rparr>"

fun without_zone :: "Addr \<Rightarrow> Addr" where
  "without_zone (V6 v z) = V6 v ''''"
| "without_zone a = a"

definition PrefixFrom :: "Addr \<Rightarrow> int \<Rightarrow> Prefix" where
  "PrefixFrom a bits =
     \<lparr>px_Addr = without_zone a, px_Bits = if addr_IsValid a \<and> 0 \<le> bits \<and> bits \<le> addr_BitLen a then bits else -1\<rparr>"

definition prefix_IsValid :: "Prefix \<Rightarrow> bool" where
  "prefix_IsValid p \<longleftrightarrow> px_Bits p \<ge> 0"

definition mask_value :: "int \<Rightarrow> int \<Rightarrow> int \<Rightarrow> int" where
  "mask_value width bits v = v - v mod 2 ^ nat (width - bits)"

definition prefix_Masked :: "Prefix \<Rightarrow> Prefix" where
  "prefix_Masked p =
     (if px_Bits p < 0 then prefix_zero
      else case px_Addr p of
        AddrZero \<Rightarrow> prefix_zero
      | V4 v \<Rightarrow> p\<lparr>px_Addr := V4 (mask_value 32 (px_Bits p) v)\<rparr>
      | V6 v z \<Rightarrow> p\<lparr>px_Addr := V6 (mask_value 128 (px_Bits p) v) ''''\<rparr>)"

definition prefix_Contains :: "Prefix \<Rightarrow> Addr \<Rightarrow> bool" where
  "prefix_Contains p a \<longleftrightarrow>
     prefix_IsValid p \<and> addr_Zone a = '''' \<and> addr_BitLen a \<noteq> 0 \<and> addr_BitLen (px_Addr p) = addr_BitLen a
     \<and> mask_value (addr_BitLen a) (px_Bits p) (addr_val a) = mask_value (addr_BitLen a) (px_Bits p) (addr_val (px_Addr p))"

definition prefix_String :: "Prefix \<Rightarrow> string" where
  "prefix_String p = (if prefix_IsValid p then addr_String (px_Addr p) @ ''/'' @ Itoa (px_Bits p) else ''invalid Prefix'')"

text \<open>\<open>ParsePrefix\<close> cuts at the last slash; the length has no sign and no leading zero.\<close>

definition ParsePrefix :: "string \<Rightarrow> Prefix option" where
  "ParsePrefix s =
     (case Cut (rev s) CHR ''/'' of (tail, front, found) \<Rightarrow>
        if \<not> found then None
        else let bitsStr = rev tail
             in case ParseAddr (rev front) of
                  None \<Rightarrow> None
                | Some a \<Rightarrow>
                    if addr_Zone a \<noteq> '''' then None
                    else if length bitsStr > 1 \<and> \<not> (CHR ''1'' \<le> hd bitsStr \<and> hd bitsStr \<le> CHR ''9'') then None
                    else case Atoi bitsStr of
                      None \<Rightarrow> None
                    | Some bits \<Rightarrow> if bits < 0 \<or> bits > addr_BitLen a then None else Some (PrefixFrom a bits))"

section \<open>Facts\<close>

lemma mask_idem [simp]: "mask_value w b (mask_value w b v) = mask_value w b v"
  by (simp add: mask_value_def mod_diff_eq)

lemma Masked_idem [simp]: "prefix_Masked (prefix_Masked p) = prefix_Masked p"
  by (cases "px_Addr p") (auto simp: prefix_Masked_def prefix_zero_def)

lemma parse_examples:
  "ParseAddr ''192.0.2.7'' = Some (V4 3221225991)" "ParseAddr ''192.0.2.07'' = None" "ParseAddr ''1.2.3'' = None"
  "ParseAddr ''::1'' = Some (V6 1 '''')" "ParseAddr ''1:2:3:4:5:6:7:8:9'' = None" "ParseAddr ''1::2::3'' = None"
  "map_option addr_String (ParseAddr ''2001:DB8:0:0:1::'') = Some ''2001:db8:0:0:1::''"
  "map_option addr_String (ParseAddr ''::ffff:192.0.2.1'') = Some ''::ffff:192.0.2.1''"
  "map_option prefix_String (map_option prefix_Masked (ParsePrefix ''192.0.2.7/24'')) = Some ''192.0.2.0/24''"
  "ParsePrefix ''192.0.2.7/024'' = None" "ParsePrefix ''192.0.2.7/33'' = None"
  by code_simp+

end
