(* ===== verification/Protection_Contracts.thy ===== *)
theory Protection_Contracts
  imports Go_Netip
begin

text \<open>
  The contracts of the server-protection component
  (\<^verbatim>\<open>src/components/server-protection/domain\<close>): bounded identifiers, signals, scopes, subjects,
  graylist states, capabilities, decisions, planned responses and applied actions, each with its
  \<open>Validate\<close>.  A Go string enumeration is a datatype of its constants with one constructor for
  every other string.  An error is its message; \<open>nil\<close> is \<^term>\<open>None\<close>.  The identifiers that
  \<open>FinalizeID\<close> computes are SHA-256 digests of the JSON form of some of the fields: the digest of
  that tuple of fields is an argument \<open>dg\<close>.
\<close>

section \<open>Bounded identifiers\<close>

definition maxContractIDBytes :: int where "maxContractIDBytes = 256"
definition maxReasonCodes :: nat where "maxReasonCodes = 32"
definition maxReasonCodeBytes :: int where "maxReasonCodeBytes = 64"

abbreviation between :: "char \<Rightarrow> char \<Rightarrow> char \<Rightarrow> bool" where
  "between lo hi c \<equiv> lo \<le> c \<and> c \<le> hi"

definition contract_char :: "char \<Rightarrow> bool" where
  "contract_char c \<longleftrightarrow>
     between CHR ''a'' CHR ''z'' c \<or> between CHR ''A'' CHR ''Z'' c \<or> between CHR ''0'' CHR ''9'' c
     \<or> c = CHR ''.'' \<or> c = CHR ''_'' \<or> c = CHR '':'' \<or> c = CHR ''@'' \<or> c = CHR ''+'' \<or> c = CHR ''-''"

text \<open>A string of contract characters is valid UTF-8 and has none of the excluded delimiters, so the
  character loop decides.\<close>

definition ValidContractID :: "string \<Rightarrow> int \<Rightarrow> bool" where
  "ValidContractID value0 limit0 =
     (let value = TrimSpace value0;
          limit = (if limit0 \<le> 0 \<or> limit0 > maxContractIDBytes then maxContractIDBytes else limit0)
      in value \<noteq> '''' \<and> int (length value) \<le> limit \<and> list_all contract_char value)"

definition lower_hex :: "char \<Rightarrow> bool" where
  "lower_hex c \<longleftrightarrow> CHR ''0'' \<le> c \<and> c \<le> CHR ''9'' \<or> CHR ''a'' \<le> c \<and> c \<le> CHR ''f''"

definition ValidSHA256 :: "string \<Rightarrow> bool" where
  "ValidSHA256 value \<longleftrightarrow> length value = 64 \<and> list_all lower_hex value"

definition ValidExactRevision :: "string \<Rightarrow> bool" where
  "ValidExactRevision value0 =
     (let value = TrimSpace value0
      in 16 \<le> length value \<and> length value \<le> 128 \<and> list_all lower_hex value)"

definition validateReasonCodes :: "string list \<Rightarrow> bool" where
  "validateReasonCodes values \<longleftrightarrow>
     length values \<le> maxReasonCodes \<and> list_all (\<lambda>v. ValidContractID v maxReasonCodeBytes) values \<and> distinct values"

fun strictly_sorted :: "string list \<Rightarrow> bool" where
  "strictly_sorted (a # b # s) = (a < b \<and> strictly_sorted (b # s))"
| "strictly_sorted _ = True"

definition sortedUniqueStrings :: "string list \<Rightarrow> bool" where
  "sortedUniqueStrings values = strictly_sorted values"

definition sortedUniqueSHA256 :: "string list \<Rightarrow> bool" where
  "sortedUniqueSHA256 values \<longleftrightarrow> list_all ValidSHA256 values \<and> strictly_sorted values"

section \<open>Enumerations\<close>

datatype SignalCategory =
  CatEndpointObservation | CatConnectionMetadata | CatKernelPressure | CatPanelAuth | CatPanelAPI
| CatSubscription | CatSSHAuth | CatHostSurface | CatHostResource | CatExternalReputation | CatConfigDrift
| CatOther string

datatype DecisionScope =
  ScopeEndpoint | ScopeService | ScopePanelAuth | ScopePanelAPI | ScopeSSH | ScopeSubscription | ScopeHostWide
| ScopeOther string

datatype ResponseIntent =
  IntentObserve | IntentSoftGraylist | IntentRateLimit | IntentRouteToDecoy | IntentTemporaryQuarantine
| IntentTemporaryBlock | IntentManualHardBlock | IntentOther string

datatype DecisionStateV2 =
  DecisionCandidate | DecisionResolved | DecisionApplied | DecisionDegraded | DecisionFailed | DecisionExpired
| DecisionSuperseded | DecisionStateOther string

datatype GraylistBandV2 = BandObserve | BandGraylist | BandRateCandidate | BandCooldown | BandOther string

datatype GraylistLifecycleV2 =
  LifecycleActive | LifecycleCooldown | LifecycleExpired | LifecycleSuperseded | LifecycleLegacyStale
| LifecycleOther string

datatype GraylistEvidenceClassV2 = EvidenceNone | EvidenceStrongTrusted | EvidenceWeak | EvidenceExternal | EvidenceOther string

fun validSignalCategory :: "SignalCategory \<Rightarrow> bool" where
  "validSignalCategory (CatOther s) = False"
| "validSignalCategory _ = True"

fun validScope :: "DecisionScope \<Rightarrow> bool" where
  "validScope (ScopeOther s) = False"
| "validScope _ = True"

fun validIntent :: "ResponseIntent \<Rightarrow> bool" where
  "validIntent (IntentOther s) = False"
| "validIntent _ = True"

section \<open>Signal kinds\<close>

definition signal_kinds :: "(string \<times> int) list" where
  "signal_kinds =
     [(''http_scanner_path'', 3), (''http_empty_ua'', 1), (''http_scanner_ua'', 2), (''http_unexpected_method'', 2),
      (''rate_limited'', 2), (''resource_drift'', 0), (''missing_sni'', 3), (''unexpected_alpn'', 2), (''fallback_hit'', 2),
      (''short_tls_session'', 2), (''syn_burst'', 3), (''conntrack_pressure'', 4), (''real_client_correlation'', 5),
      (''tiny_transfer'', 2), (''external_reputation'', 2)]"

definition SignalKind_Validate :: "string \<Rightarrow> bool" where
  "SignalKind_Validate kind \<longleftrightarrow> kind \<in> set (map fst signal_kinds)"

definition DefaultSignalDelta :: "string \<Rightarrow> int" where
  "DefaultSignalDelta kind = (case map_of signal_kinds kind of None \<Rightarrow> 0 | Some delta \<Rightarrow> delta)"

fun SignalScopeAllowed :: "SignalCategory \<Rightarrow> DecisionScope \<Rightarrow> bool" where
  "SignalScopeAllowed CatEndpointObservation scope = (scope = ScopeEndpoint \<or> scope = ScopeService)"
| "SignalScopeAllowed CatConnectionMetadata scope = (scope = ScopeEndpoint \<or> scope = ScopeService)"
| "SignalScopeAllowed CatConfigDrift scope = (scope = ScopeEndpoint \<or> scope = ScopeService)"
| "SignalScopeAllowed CatExternalReputation scope = (scope = ScopeEndpoint)"
| "SignalScopeAllowed CatPanelAuth scope = (scope = ScopePanelAuth)"
| "SignalScopeAllowed CatPanelAPI scope = (scope = ScopePanelAPI)"
| "SignalScopeAllowed CatSubscription scope = (scope = ScopeSubscription)"
| "SignalScopeAllowed CatSSHAuth scope = (scope = ScopeSSH)"
| "SignalScopeAllowed CatKernelPressure scope = (scope = ScopeEndpoint)"
| "SignalScopeAllowed CatHostSurface scope = (scope = ScopeHostWide)"
| "SignalScopeAllowed CatHostResource scope = (scope = ScopeHostWide)"
| "SignalScopeAllowed (CatOther s) scope = False"

fun category_kinds :: "SignalCategory \<Rightarrow> string list" where
  "category_kinds CatConfigDrift = [''resource_drift'']"
| "category_kinds CatEndpointObservation =
     [''http_scanner_path'', ''http_empty_ua'', ''http_scanner_ua'', ''http_unexpected_method'', ''rate_limited'']"
| "category_kinds CatConnectionMetadata =
     [''missing_sni'', ''unexpected_alpn'', ''fallback_hit'', ''short_tls_session'', ''tiny_transfer'', ''real_client_correlation'']"
| "category_kinds CatKernelPressure = [''syn_burst'', ''conntrack_pressure'']"
| "category_kinds CatExternalReputation = [''external_reputation'']"
| "category_kinds _ = []"

definition SignalKindKnown :: "SignalCategory \<Rightarrow> string \<Rightarrow> bool" where
  "SignalKindKnown category kind =
     (let value = TrimSpace kind in SignalKind_Validate value \<and> value \<in> set (category_kinds category))"

section \<open>Signals\<close>

record SignalSourceV2 =
  so_SourceID :: string
  so_Producer :: string
  so_ProducerVersion :: string
  so_TrustClass :: string
  so_SourceClass :: string

record SignalSubjectV2 =
  sj_Type :: string
  sj_Value :: string

record SignalScopeV2 =
  sc_Scope :: DecisionScope
  sc_TargetResourceID :: string
  sc_EndpointID :: string
  sc_Transport :: string

record SignalProvenanceV2 =
  pv_AdapterID :: string
  pv_IntegrationID :: string
  pv_ExternalIDHash :: string
  pv_SourceRevision :: string
  pv_PolicyRevision :: string
  pv_ObservationWindowID :: string
  pv_EvidenceRefIDs :: "string list"

record ProtectionSignalV2 =
  ps_Schema :: string
  ps_SignalID :: string
  ps_Source :: SignalSourceV2
  ps_Category :: SignalCategory
  ps_Kind :: string
  ps_KnownKind :: bool
  ps_Subject :: SignalSubjectV2
  ps_Scope :: SignalScopeV2
  ps_ObservedAt :: go_time
  ps_ExpiresAt :: go_time
  ps_ConfidenceBP :: int
  ps_SafeMeta :: "(string, string) gomap"
  ps_Provenance :: SignalProvenanceV2
  ps_ReasonCodes :: "string list"

definition hour :: duration where "hour = 3600000000000"
definition minute :: duration where "minute = 60000000000"

definition ProtectionSignalSchemaV2 :: string where "ProtectionSignalSchemaV2 = ''solovey-ui/protection-signal/v2''"
definition ProtectionDecisionSchemaV2 :: string where "ProtectionDecisionSchemaV2 = ''solovey-ui/protection-decision/v2''"
definition MaxSignalLifetime :: duration where "MaxSignalLifetime = 24 * hour"

definition validateSubject :: "SignalSubjectV2 \<Rightarrow> string option" where
  "validateSubject value =
     (let v = sj_Value value in
      if sj_Type value = ''ip'' then
        (case ParseAddr v of
           Some address \<Rightarrow> if addr_String (addr_Unmap address) = v then None else Some ''signal IP subject is invalid or non-canonical''
         | None \<Rightarrow> Some ''signal IP subject is invalid or non-canonical'')
      else if sj_Type value = ''prefix'' then
        (case ParsePrefix v of
           Some pfx \<Rightarrow> if prefix_String (prefix_Masked pfx) = v then None else Some ''signal prefix subject is invalid or non-canonical''
         | None \<Rightarrow> Some ''signal prefix subject is invalid or non-canonical'')
      else if sj_Type value = ''endpoint'' \<or> sj_Type value = ''service'' then
        (if ValidContractID v 256 then None else Some ''signal subject is invalid'')
      else if sj_Type value = ''account_pseudonym'' then
        (if HasPrefix v ''account:'' \<and> ValidSHA256 (TrimPrefix v ''account:'') then None
         else Some ''signal account subject is not a bounded pseudonym'')
      else Some ''signal subject type is invalid'')"

definition validateScopeShape :: "SignalScopeV2 \<Rightarrow> bool" where
  "validateScopeShape value =
     (validScope (sc_Scope value)
      \<and> (let target = TrimSpace (sc_TargetResourceID value)
         in if sc_Scope value = ScopeEndpoint \<or> sc_Scope value = ScopeService then
              ValidContractID target maxContractIDBytes
              \<and> \<not> (sc_EndpointID value \<noteq> '''' \<and> \<not> ValidContractID (sc_EndpointID value) maxContractIDBytes)
              \<and> \<not> (sc_Transport value \<noteq> '''' \<and> sc_Transport value \<noteq> ''tcp'' \<and> sc_Transport value \<noteq> ''udp'')
            else target = '''' \<and> sc_EndpointID value = '''' \<and> sc_Transport value = ''''))"

definition privacySafeSignalMetaKeys :: "string list" where
  "privacySafeSignalMetaKeys =
     [''alpn_class'', ''bytes_class'', ''classifier_policy_version'', ''duration_class'', ''method_class'', ''path_class'',
      ''rate_limited'', ''sni_class'', ''status_class'', ''truncated'', ''ua_class'']"

definition safe_meta_entry :: "string \<times> string \<Rightarrow> string option" where
  "safe_meta_entry kv =
     (let key = ToLower (TrimSpace (fst kv)); value = ToLower (TrimSpace (snd kv)) in
      if key \<notin> set privacySafeSignalMetaKeys then Some ''signal metadata key is not privacy-safe''
      else if key = ''classifier_policy_version'' then
        (case Atoi value of
           Some version \<Rightarrow> if version < 1 \<or> version > 1000000 then Some ''signal classifier policy version is invalid'' else None
         | None \<Rightarrow> Some ''signal classifier policy version is invalid'')
      else if key = ''rate_limited'' \<or> key = ''truncated'' then
        (if value \<noteq> ''true'' \<and> value \<noteq> ''false'' then Some ''signal boolean metadata is invalid'' else None)
      else if ValidContractID value 64 then None else Some ''signal classified metadata is invalid'')"

text \<open>A Go map is visited in an unspecified order: which error is reported when several entries are
  bad is not determined, that one is reported is.\<close>

definition ValidateProtectionSignalSafeMeta :: "(string, string) gomap \<Rightarrow> string option" where
  "ValidateProtectionSignalSafeMeta meta = first_error (map safe_meta_entry meta)"

definition failing :: "bool \<Rightarrow> string \<Rightarrow> string option" where
  "failing bad message = (if bad then Some message else None)"

definition valid_provenance :: "ProtectionSignalV2 \<Rightarrow> bool" where
  "valid_provenance s =
     (let p = ps_Provenance s in
      ValidContractID (pv_AdapterID p) 128
      \<and> \<not> (pv_IntegrationID p \<noteq> '''' \<and> \<not> ValidContractID (pv_IntegrationID p) 128)
      \<and> ValidContractID (pv_SourceRevision p) 128 \<and> ValidContractID (pv_PolicyRevision p) 128
      \<and> \<not> (pv_ObservationWindowID p \<noteq> '''' \<and> \<not> ValidContractID (pv_ObservationWindowID p) 128)
      \<and> \<not> (pv_ExternalIDHash p \<noteq> '''' \<and> \<not> ValidSHA256 (pv_ExternalIDHash p))
      \<and> length (pv_EvidenceRefIDs p) \<le> 16 \<and> validateReasonCodes (ps_ReasonCodes s))"

definition Signal_Validate :: "go_time \<Rightarrow> ProtectionSignalV2 \<Rightarrow> string option" where
  "Signal_Validate now s = first_error
     [failing (ps_Schema s \<noteq> ProtectionSignalSchemaV2 \<or> \<not> ValidSHA256 (ps_SignalID s) \<or> \<not> ValidContractID (so_SourceID (ps_Source s)) 128
        \<or> \<not> ValidContractID (so_Producer (ps_Source s)) 128 \<or> \<not> ValidContractID (so_ProducerVersion (ps_Source s)) 64
        \<or> \<not> ValidContractID (so_TrustClass (ps_Source s)) 64) ''signal schema or identity is invalid'',
      failing (so_SourceClass (ps_Source s) \<noteq> ''native'' \<and> so_SourceClass (ps_Source s) \<noteq> ''external'') ''signal source class is invalid'',
      failing (\<not> validSignalCategory (ps_Category s) \<or> \<not> ValidContractID (ps_Kind s) 128 \<or> \<not> validateScopeShape (ps_Scope s)
        \<or> \<not> SignalScopeAllowed (ps_Category s) (sc_Scope (ps_Scope s))) ''signal category, kind, or scope is invalid'',
      failing (ps_KnownKind s \<noteq> SignalKindKnown (ps_Category s) (ps_Kind s)) ''signal known-kind claim does not match the versioned enum'',
      validateSubject (ps_Subject s),
      failing (time_is_zero (ps_ObservedAt s) \<or> time_is_zero (ps_ExpiresAt s) \<or> \<not> ps_ExpiresAt s > ps_ObservedAt s
        \<or> ps_ExpiresAt s > ps_ObservedAt s + MaxSignalLifetime \<or> ps_ObservedAt s > now + 5 * minute) ''signal timestamps are invalid'',
      failing (ps_ConfidenceBP s < 0 \<or> ps_ConfidenceBP s > 10000) ''signal confidence is invalid'',
      ValidateProtectionSignalSafeMeta (ps_SafeMeta s),
      failing (\<not> valid_provenance s) ''signal provenance is invalid'',
      failing (\<not> list_all (\<lambda>r. ValidContractID r 128) (pv_EvidenceRefIDs (ps_Provenance s))) ''signal evidence reference is invalid'',
      failing (\<not> sortedUniqueStrings (pv_EvidenceRefIDs (ps_Provenance s))) ''signal evidence references are not canonical'']"

text \<open>The identifier of a signal: the digest of the event identifier of its producer and of its
  identifying fields.\<close>

definition signal_key :: "ProtectionSignalV2 \<Rightarrow> ProtectionSignalV2" where
  "signal_key s = s\<lparr>ps_SignalID := [], ps_KnownKind := False, ps_ConfidenceBP := 0, ps_SafeMeta := [], ps_ReasonCodes := []\<rparr>"

definition Signal_FinalizeID :: "(string \<Rightarrow> ProtectionSignalV2 \<Rightarrow> string) \<Rightarrow> string \<Rightarrow> ProtectionSignalV2 \<Rightarrow> ProtectionSignalV2" where
  "Signal_FinalizeID dg producerEventID s = s\<lparr>ps_SignalID := dg (TrimSpace producerEventID) (signal_key s)\<rparr>"

section \<open>Graylist states\<close>

definition GraylistStateSchemaV2 :: string where "GraylistStateSchemaV2 = ''solovey-ui/graylist-state/v2''"
definition StrategyActionCapabilitySchemaV2 :: string where
  "StrategyActionCapabilitySchemaV2 = ''solovey-ui/strategy-action-capability/v2''"
definition PlannedResponseSchemaV2 :: string where "PlannedResponseSchemaV2 = ''solovey-ui/planned-response/v2''"
definition MaxGraylistSignalRefs :: nat where "MaxGraylistSignalRefs = 64"

record GraylistEvidenceRefV2 =
  er_SignalID :: string
  er_Class :: GraylistEvidenceClassV2
  er_ExpiresAt :: go_time

record GraylistStateV2 =
  gs_Schema :: string
  gs_StateID :: string
  gs_Revision :: int
  gs_Subject :: SignalSubjectV2
  gs_ResourceID :: string
  gs_EndpointID :: string
  gs_Transport :: string
  gs_Score :: int
  gs_ConfidenceBP :: int
  gs_PolicyRevision :: string
  gs_StrategyRevision :: string
  gs_CapabilityRevision :: string
  gs_SignalRefs :: "string list"
  gs_EvidenceRefs :: "GraylistEvidenceRefV2 list"
  gs_SourceClasses :: "string list"
  gs_Band :: GraylistBandV2
  gs_Lifecycle :: GraylistLifecycleV2
  gs_EnteredAt :: go_time
  gs_LastSignalAt :: go_time
  gs_ExpiresAt :: go_time
  gs_SelectedResponse :: ResponseIntent
  gs_DesiredAction :: ResponseIntent
  gs_ActualActionState :: string
  gs_AppliedActionRefID :: string
  gs_ReasonCodes :: "string list"
  gs_CreatedAt :: go_time
  gs_UpdatedAt :: go_time

text \<open>The fields that identify a state, and the digest of them.\<close>

type_synonym state_key = "SignalSubjectV2 \<times> string \<times> string \<times> string \<times> string \<times> string \<times> string"

definition state_key :: "GraylistStateV2 \<Rightarrow> state_key" where
  "state_key s = (gs_Subject s, gs_ResourceID s, gs_EndpointID s, gs_Transport s,
     gs_PolicyRevision s, gs_StrategyRevision s, gs_CapabilityRevision s)"

definition State_FinalizeID :: "(state_key \<Rightarrow> string) \<Rightarrow> GraylistStateV2 \<Rightarrow> GraylistStateV2" where
  "State_FinalizeID dg s = s\<lparr>gs_StateID := dg (state_key s)\<rparr>"

fun known_evidence_class :: "GraylistEvidenceClassV2 \<Rightarrow> bool" where
  "known_evidence_class EvidenceStrongTrusted = True"
| "known_evidence_class EvidenceWeak = True"
| "known_evidence_class EvidenceExternal = True"
| "known_evidence_class _ = False"

definition valid_evidence :: "GraylistEvidenceRefV2 list \<Rightarrow> bool" where
  "valid_evidence es \<longleftrightarrow>
     list_all (\<lambda>e. ValidSHA256 (er_SignalID e) \<and> \<not> time_is_zero (er_ExpiresAt e) \<and> known_evidence_class (er_Class e)) es
     \<and> strictly_sorted (map er_SignalID es)"

definition valid_state_times :: "GraylistStateV2 \<Rightarrow> bool" where
  "valid_state_times s \<longleftrightarrow>
     \<not> time_is_zero (gs_CreatedAt s) \<and> \<not> time_is_zero (gs_EnteredAt s) \<and> \<not> time_is_zero (gs_LastSignalAt s)
     \<and> \<not> time_is_zero (gs_UpdatedAt s) \<and> \<not> time_is_zero (gs_ExpiresAt s)
     \<and> \<not> gs_EnteredAt s < gs_CreatedAt s \<and> \<not> gs_LastSignalAt s < gs_EnteredAt s
     \<and> \<not> gs_UpdatedAt s < gs_LastSignalAt s \<and> gs_ExpiresAt s > gs_EnteredAt s
     \<and> \<not> gs_ExpiresAt s > gs_EnteredAt s + 24 * hour"

fun known_band :: "GraylistBandV2 \<Rightarrow> bool" where
  "known_band (BandOther b) = False"
| "known_band _ = True"

fun known_lifecycle :: "GraylistLifecycleV2 \<Rightarrow> bool" where
  "known_lifecycle (LifecycleOther l) = False"
| "known_lifecycle _ = True"

definition State_Validate :: "(state_key \<Rightarrow> string) \<Rightarrow> GraylistStateV2 \<Rightarrow> string option" where
  "State_Validate dg s = first_error
     [failing (gs_Schema s \<noteq> GraylistStateSchemaV2 \<or> \<not> ValidSHA256 (gs_StateID s) \<or> gs_Revision s = 0
        \<or> \<not> ValidContractID (gs_ResourceID s) 256 \<or> \<not> ValidContractID (gs_EndpointID s) 256
        \<or> (gs_Transport s \<noteq> ''tcp'' \<and> gs_Transport s \<noteq> ''udp'') \<or> \<not> ValidContractID (gs_PolicyRevision s) 128
        \<or> \<not> ValidContractID (gs_StrategyRevision s) 128 \<or> \<not> ValidContractID (gs_CapabilityRevision s) 128)
        ''graylist identity or revision is invalid'',
      failing (gs_StateID (State_FinalizeID dg s) \<noteq> gs_StateID s) ''graylist identity does not match its semantic key'',
      validateSubject (gs_Subject s),
      failing (gs_Score s < 0 \<or> gs_Score s > 100 \<or> gs_ConfidenceBP s < 0 \<or> gs_ConfidenceBP s > 10000
        \<or> length (gs_SignalRefs s) > MaxGraylistSignalRefs \<or> length (gs_SourceClasses s) = 0 \<or> length (gs_SourceClasses s) > 2
        \<or> \<not> validateReasonCodes (gs_ReasonCodes s)) ''graylist bounds are invalid'',
      failing (\<not> sortedUniqueSHA256 (gs_SignalRefs s) \<or> \<not> sortedUniqueStrings (gs_SourceClasses s)
        \<or> \<not> sortedUniqueStrings (gs_ReasonCodes s)) ''graylist references or reasons are not canonical'',
      failing (length (gs_EvidenceRefs s) > MaxGraylistSignalRefs) ''graylist evidence exceeds its bound'',
      failing (\<not> valid_evidence (gs_EvidenceRefs s)) ''graylist evidence is invalid or non-canonical'',
      failing (\<not> list_all (\<lambda>c. c = ''external'' \<or> c = ''native'') (gs_SourceClasses s)) ''graylist source class is invalid'',
      failing (\<not> valid_state_times s) ''graylist timestamps are invalid'',
      failing (\<not> validIntent (gs_SelectedResponse s) \<or> \<not> validIntent (gs_DesiredAction s)) ''graylist response is invalid'',
      failing (\<not> known_band (gs_Band s)) ''graylist band is invalid'',
      failing (\<not> known_lifecycle (gs_Lifecycle s)) ''graylist lifecycle is invalid'',
      failing (gs_Band s = BandCooldown \<and> gs_Lifecycle s \<noteq> LifecycleCooldown \<and> gs_Lifecycle s \<noteq> LifecycleExpired
        \<and> gs_Lifecycle s \<noteq> LifecycleSuperseded) ''graylist cooldown band has an incompatible lifecycle'',
      failing (gs_ActualActionState s \<notin> {''NOT_APPLIED'', ''APPLIED'', ''EXPIRED'', ''ROLLED_BACK''})
        ''graylist actual action state is invalid'',
      (if gs_ActualActionState s = ''APPLIED''
       then failing (\<not> ValidSHA256 (gs_AppliedActionRefID s)) ''graylist APPLIED projection lacks exact executor evidence''
       else failing (gs_AppliedActionRefID s \<noteq> '''') ''graylist non-applied projection carries applied evidence'')]"

section \<open>Canonical lists\<close>

text \<open>The first occurrence of each kept value, in order, as the loops over a \<open>seen\<close> map collect
  them.\<close>

fun first_seen :: "string set \<Rightarrow> string list \<Rightarrow> string list" where
  "first_seen seen [] = []"
| "first_seen seen (v # vs) = (if v \<in> seen then first_seen seen vs else v # first_seen (insert v seen) vs)"

definition reason_form :: "string \<Rightarrow> string" where
  "reason_form v = ToLower (TrimSpace v)"

definition NormalizeActionReasons :: "string list \<Rightarrow> string list" where
  "NormalizeActionReasons values =
     sort (take 32 (first_seen {} (filter (\<lambda>v. v \<noteq> '''' \<and> ValidContractID v 128) (map reason_form values))))"

definition CanonicalBoundedReasons :: "string list \<Rightarrow> string list" where
  "CanonicalBoundedReasons values = take maxReasonCodes (NormalizeActionReasons values)"

definition CanonicalSignalRefs :: "string list \<Rightarrow> string list" where
  "CanonicalSignalRefs values =
     take MaxGraylistSignalRefs (sort (first_seen {} (filter ValidSHA256 (map reason_form values))))"

text \<open>The latest evidence of each signal; the map is read out in the order of its keys.\<close>

definition keep_latest :: "GraylistEvidenceRefV2 \<Rightarrow> (string \<rightharpoonup> GraylistEvidenceRefV2) \<Rightarrow> string \<rightharpoonup> GraylistEvidenceRefV2" where
  "keep_latest value0 m =
     (let value = value0\<lparr>er_SignalID := reason_form (er_SignalID value0)\<rparr> in
      if \<not> ValidSHA256 (er_SignalID value) \<or> time_is_zero (er_ExpiresAt value) then m
      else case m (er_SignalID value) of
        Some current \<Rightarrow> if er_ExpiresAt value > er_ExpiresAt current then m(er_SignalID value \<mapsto> value) else m
      | None \<Rightarrow> m(er_SignalID value \<mapsto> value))"

definition CanonicalGraylistEvidenceRefs :: "GraylistEvidenceRefV2 list \<Rightarrow> GraylistEvidenceRefV2 list" where
  "CanonicalGraylistEvidenceRefs values =
     (let bySignal = fold keep_latest values Map.empty;
          ids = sort (remdups (map (\<lambda>v. reason_form (er_SignalID v)) values))
      in take MaxGraylistSignalRefs (List.map_filter bySignal ids))"

section \<open>Capabilities\<close>

record StrategyActionCapabilityV2 =
  ca_Schema :: string
  ca_Strategy :: string
  ca_ActionRevision :: string
  ca_StrategyRevision :: string
  ca_CapabilityRevision :: string
  ca_ResourceID :: string
  ca_EndpointID :: string
  ca_ActionScopeRevision :: string
  ca_EndpointRevision :: string
  ca_ResourceRevision :: string
  ca_ConfigurationRevision :: string
  ca_NaturalInvalidTrafficFallback :: bool
  ca_ForcedSameSubjectDecoyRoute :: bool
  ca_SameScopeRateLimit :: bool
  ca_HardBlock :: bool
  ca_Provenance :: string
  ca_ObservedAt :: go_time
  ca_ExpiresAt :: go_time
  ca_ReasonCodes :: "string list"

definition Capability_Validate :: "go_time \<Rightarrow> StrategyActionCapabilityV2 \<Rightarrow> string option" where
  "Capability_Validate now v = failing
     (ca_Schema v \<noteq> StrategyActionCapabilitySchemaV2 \<or> \<not> ValidContractID (ca_Strategy v) 64
      \<or> \<not> ValidContractID (ca_ActionRevision v) 128 \<or> \<not> ValidContractID (ca_StrategyRevision v) 128
      \<or> \<not> ValidContractID (ca_CapabilityRevision v) 128 \<or> \<not> ValidContractID (ca_Provenance v) 128
      \<or> \<not> ValidContractID (ca_ResourceID v) 256 \<or> \<not> ValidContractID (ca_EndpointID v) 256
      \<or> \<not> ValidExactRevision (ca_ActionScopeRevision v) \<or> \<not> ValidExactRevision (ca_EndpointRevision v)
      \<or> \<not> ValidExactRevision (ca_ResourceRevision v) \<or> \<not> ValidExactRevision (ca_ConfigurationRevision v)
      \<or> time_is_zero (ca_ObservedAt v) \<or> time_is_zero (ca_ExpiresAt v) \<or> \<not> ca_ExpiresAt v > ca_ObservedAt v
      \<or> ca_ExpiresAt v > ca_ObservedAt v + 24 * hour \<or> ca_ObservedAt v > now + 5 * minute
      \<or> \<not> validateReasonCodes (ca_ReasonCodes v) \<or> \<not> sortedUniqueStrings (ca_ReasonCodes v))
     ''strategy action capability is invalid''"

section \<open>Decisions\<close>

record ScoreSnapshotV2 =
  sn_Score :: int
  sn_TargetGroup :: string
  sn_CapturedAt :: go_time

record PolicyCheckV2 =
  pc_Result :: string
  pc_ReasonCodes :: "string list"

record DecisionRevisionBindingV2 =
  rb_StrategyRevision :: string
  rb_CapabilityRevision :: string
  rb_ActionScopeRevision :: string
  rb_EndpointRevision :: string
  rb_ResourceRevision :: string
  rb_ConfigurationRevision :: string

record CapabilityResolutionV2 =
  cr_Implemented :: bool
  cr_ResolvedIntent :: ResponseIntent
  cr_ReasonCodes :: "string list"

record ProtectionDecisionV2 =
  pd_Schema :: string
  pd_DecisionID :: string
  pd_PolicyRevision :: string
  pd_Binding :: DecisionRevisionBindingV2
  pd_Subject :: SignalSubjectV2
  pd_Scope :: SignalScopeV2
  pd_TargetResourceIDs :: "string list"
  pd_SignalRefs :: "string list"
  pd_SourceClasses :: "string list"
  pd_ScoreSnapshot :: ScoreSnapshotV2
  pd_ConfidenceBP :: int
  pd_ReasonCodes :: "string list"
  pd_RequestedIntent :: ResponseIntent
  pd_CreatedAt :: go_time
  pd_ExpiresAt :: go_time
  pd_AllowlistResult :: PolicyCheckV2
  pd_RecoveryResult :: PolicyCheckV2
  pd_CapabilityResolution :: CapabilityResolutionV2
  pd_State :: DecisionStateV2

definition canonicalPolicyCheck :: "PolicyCheckV2 \<Rightarrow> PolicyCheckV2" where
  "canonicalPolicyCheck v = v\<lparr>pc_ReasonCodes := sort (pc_ReasonCodes v)\<rparr>"

text \<open>The immutable facts of a decision: everything but its identifier, its reasons, its
  resolution and its state, with the lists sorted.\<close>

definition decision_key :: "ProtectionDecisionV2 \<Rightarrow> ProtectionDecisionV2" where
  "decision_key d = d\<lparr>pd_Schema := '''', pd_DecisionID := '''', pd_TargetResourceIDs := sort (pd_TargetResourceIDs d),
     pd_SignalRefs := sort (pd_SignalRefs d), pd_SourceClasses := sort (pd_SourceClasses d), pd_ReasonCodes := [],
     pd_AllowlistResult := canonicalPolicyCheck (pd_AllowlistResult d),
     pd_RecoveryResult := canonicalPolicyCheck (pd_RecoveryResult d),
     pd_CapabilityResolution := \<lparr>cr_Implemented = False, cr_ResolvedIntent = IntentObserve, cr_ReasonCodes = []\<rparr>,
     pd_State := DecisionCandidate\<rparr>"

definition Decision_FinalizeID :: "(ProtectionDecisionV2 \<Rightarrow> string) \<Rightarrow> ProtectionDecisionV2 \<Rightarrow> ProtectionDecisionV2" where
  "Decision_FinalizeID dg d = d\<lparr>pd_DecisionID := dg (decision_key d)\<rparr>"

definition validatePolicyCheck :: "PolicyCheckV2 \<Rightarrow> bool" where
  "validatePolicyCheck v \<longleftrightarrow>
     pc_Result v \<in> {''allow'', ''deny'', ''unknown'', ''not_evaluated'', ''stale'', ''ambiguous''} \<and> validateReasonCodes (pc_ReasonCodes v)"

fun decision_refs_check :: "string set \<Rightarrow> string list \<Rightarrow> string option" where
  "decision_refs_check seen [] = None"
| "decision_refs_check seen (r # rs) =
     (if \<not> ValidSHA256 r then Some ''decision signal reference is invalid''
      else if r \<in> seen then Some ''decision signal reference is duplicated''
      else decision_refs_check (insert r seen) rs)"

fun decision_targets_check :: "string \<Rightarrow> string set \<Rightarrow> string list \<Rightarrow> string option" where
  "decision_targets_check scope seen [] = None"
| "decision_targets_check scope seen (t # ts) =
     (if \<not> ValidContractID t maxContractIDBytes \<or> (scope \<noteq> '''' \<and> t \<noteq> scope) then Some ''decision target crosses its declared scope''
      else if t \<in> seen then Some ''decision target is duplicated''
      else decision_targets_check scope (insert t seen) ts)"

fun scope_name :: "DecisionScope \<Rightarrow> string" where
  "scope_name ScopeEndpoint = ''ENDPOINT''"
| "scope_name ScopeService = ''SERVICE''"
| "scope_name ScopePanelAuth = ''PANEL_AUTH''"
| "scope_name ScopePanelAPI = ''PANEL_API''"
| "scope_name ScopeSSH = ''SSH''"
| "scope_name ScopeSubscription = ''SUBSCRIPTION''"
| "scope_name ScopeHostWide = ''HOST_WIDE''"
| "scope_name (ScopeOther s) = s"

fun known_decision_state :: "DecisionStateV2 \<Rightarrow> bool" where
  "known_decision_state (DecisionStateOther s) = False"
| "known_decision_state DecisionApplied = False"
| "known_decision_state _ = True"

definition valid_binding :: "DecisionRevisionBindingV2 \<Rightarrow> bool" where
  "valid_binding b \<longleftrightarrow>
     ValidContractID (rb_StrategyRevision b) 128 \<and> ValidContractID (rb_CapabilityRevision b) 128
     \<and> ValidExactRevision (rb_ActionScopeRevision b) \<and> ValidExactRevision (rb_EndpointRevision b)
     \<and> ValidExactRevision (rb_ResourceRevision b) \<and> ValidExactRevision (rb_ConfigurationRevision b)"

definition valid_snapshot :: "ProtectionDecisionV2 \<Rightarrow> bool" where
  "valid_snapshot d =
     (let expectedTargetGroup = (if sc_TargetResourceID (pd_Scope d) = '''' then scope_name (sc_Scope (pd_Scope d))
                                 else sc_TargetResourceID (pd_Scope d));
          sn = pd_ScoreSnapshot d
      in ValidContractID (sn_TargetGroup sn) maxContractIDBytes \<and> sn_TargetGroup sn = expectedTargetGroup
         \<and> \<not> time_is_zero (sn_CapturedAt sn) \<and> \<not> sn_CapturedAt sn < pd_CreatedAt d - 5 * minute
         \<and> \<not> sn_CapturedAt sn > pd_CreatedAt d + 5 * minute)"

definition Decision_Validate :: "(ProtectionDecisionV2 \<Rightarrow> string) \<Rightarrow> go_time \<Rightarrow> ProtectionDecisionV2 \<Rightarrow> string option" where
  "Decision_Validate dg now d =
     (let target = sc_TargetResourceID (pd_Scope d); cr = pd_CapabilityResolution d in first_error
     [failing (pd_Schema d \<noteq> ProtectionDecisionSchemaV2 \<or> \<not> ValidSHA256 (pd_DecisionID d) \<or> \<not> ValidContractID (pd_PolicyRevision d) 128
        \<or> \<not> validateScopeShape (pd_Scope d)) ''decision schema, identity, policy, or scope is invalid'',
      failing (pd_DecisionID (Decision_FinalizeID dg d) \<noteq> pd_DecisionID d) ''decision identity does not match its immutable policy facts'',
      validateSubject (pd_Subject d),
      failing (time_is_zero (pd_CreatedAt d) \<or> time_is_zero (pd_ExpiresAt d) \<or> \<not> pd_ExpiresAt d > pd_CreatedAt d
        \<or> pd_ExpiresAt d > pd_CreatedAt d + 24 * hour \<or> pd_CreatedAt d > now + 5 * minute) ''decision timestamps are invalid'',
      failing (pd_ConfidenceBP d < 0 \<or> pd_ConfidenceBP d > 10000 \<or> length (pd_SignalRefs d) > 128
        \<or> length (pd_TargetResourceIDs d) > 32 \<or> \<not> validateReasonCodes (pd_ReasonCodes d) \<or> length (pd_SourceClasses d) = 0
        \<or> length (pd_SourceClasses d) > 16) ''decision bounds are invalid'',
      decision_refs_check {} (pd_SignalRefs d),
      decision_targets_check target {} (pd_TargetResourceIDs d),
      failing (target \<noteq> '''' \<and> (length (pd_TargetResourceIDs d) \<noteq> 1 \<or> hd (pd_TargetResourceIDs d) \<noteq> target))
        ''decision target does not match its declared scope'',
      failing (target = '''' \<and> length (pd_TargetResourceIDs d) \<noteq> 0) ''unscoped decision targets are invalid'',
      failing (sc_EndpointID (pd_Scope d) \<noteq> '''' \<and> \<not> valid_binding (pd_Binding d)) ''endpoint decision revision binding is incomplete'',
      failing (\<not> list_all (\<lambda>c. c = ''native'' \<or> c = ''external'') (pd_SourceClasses d)) ''decision source class is invalid'',
      failing (\<not> valid_snapshot d) ''decision score snapshot is invalid'',
      failing (\<not> validatePolicyCheck (pd_AllowlistResult d) \<or> \<not> validatePolicyCheck (pd_RecoveryResult d)
        \<or> \<not> validateReasonCodes (cr_ReasonCodes cr)) ''decision policy result is invalid'',
      failing (\<not> validIntent (pd_RequestedIntent d) \<or> \<not> validIntent (cr_ResolvedIntent cr)) ''decision intent is invalid'',
      failing (pd_State d = DecisionApplied) ''a ProtectionDecisionV2 is never an AppliedActionV1'',
      (if cr_Implemented cr
       then failing (cr_ResolvedIntent cr = IntentObserve \<or> sc_Scope (pd_Scope d) \<noteq> ScopeEndpoint \<or> target = '''')
         ''implemented action capability requires a scoped non-observe endpoint intent''
       else failing (cr_ResolvedIntent cr \<noteq> IntentObserve) ''an unavailable action capability must resolve to OBSERVE''),
      failing (\<not> known_decision_state (pd_State d)) ''decision state is invalid''])"

section \<open>Canonical forms\<close>

lemma failing_None [simp]: "failing b m = None \<longleftrightarrow> \<not> b"
  by (simp add: failing_def)

lemma ascii_visible: "CHR ''!'' \<le> c \<Longrightarrow> c \<le> CHR ''~'' \<Longrightarrow> visible c"
  by (simp add: visible_def less_eq_char_def)

lemma contract_visible: "contract_char c \<Longrightarrow> visible c"
  by (rule ascii_visible) (auto simp: contract_char_def less_eq_char_def)

lemma lower_hex_contract: "lower_hex c \<Longrightarrow> contract_char c"
  by (auto simp: lower_hex_def contract_char_def less_eq_char_def)

lemma lower_hex_lower: "lower_hex c \<Longrightarrow> lower_char c = c"
  by (auto simp: lower_hex_def lower_char_def less_eq_char_def)

lemma contract_TrimSpace: "list_all contract_char v \<Longrightarrow> TrimSpace v = v"
  by (rule TrimSpace_visible) (cases v; auto simp: contract_visible list_all_iff)

lemma ToLower_contract: "list_all contract_char v \<Longrightarrow> ToLower v = map lower_char v"
  by (induction v) (auto simp: contract_char_def less_eq_char_def)

lemma lower_contract: "contract_char c \<Longrightarrow> contract_char (lower_char c)"
proof -
  assume "contract_char c"
  then show ?thesis
    by (cases "CHR ''A'' \<le> c \<and> c \<le> CHR ''Z''")
       (auto simp: lower_char_def contract_char_def less_eq_char_def of_char_of)
qed

lemma SHA_form [simp]: "ValidSHA256 v \<Longrightarrow> reason_form v = v"
proof -
  assume "ValidSHA256 v"
  then have "list_all lower_hex v" by (simp add: ValidSHA256_def)
  then have "list_all contract_char v" "map lower_char v = v"
    by (auto simp: list_all_iff lower_hex_contract lower_hex_lower intro: map_idI)
  then show ?thesis by (simp add: reason_form_def contract_TrimSpace ToLower_contract)
qed

lemma strictly_sorted_iff: "strictly_sorted vs \<longleftrightarrow> sorted vs \<and> distinct vs"
proof -
  have "strictly_sorted vs \<longleftrightarrow> sorted_wrt (<) vs"
  proof (induction vs rule: strictly_sorted.induct)
    case (1 a b s)
    then show ?case by (auto dest: less_trans)
  qed auto
  then show ?thesis by (simp add: strict_sorted_iff)
qed

lemma first_seen_set: "set (first_seen seen vs) = set vs - seen"
  by (induction seen vs rule: first_seen.induct) auto

lemma first_seen_distinct: "distinct (first_seen seen vs)"
  by (induction seen vs rule: first_seen.induct) (auto simp: first_seen_set)

lemma first_seen_id: "distinct vs \<Longrightarrow> set vs \<inter> seen = {} \<Longrightarrow> first_seen seen vs = vs"
  by (induction seen vs rule: first_seen.induct) auto

lemma take_sorted_distinct:
  "sorted vs \<Longrightarrow> distinct vs \<Longrightarrow> strictly_sorted (take n vs)"
  by (simp add: strictly_sorted_iff sorted_wrt_take)

lemma CanonicalSignalRefs_ok:
  "sortedUniqueSHA256 (CanonicalSignalRefs vs)" "length (CanonicalSignalRefs vs) \<le> MaxGraylistSignalRefs"
proof -
  have "list_all ValidSHA256 (CanonicalSignalRefs vs)"
    by (auto simp: CanonicalSignalRefs_def list_all_iff first_seen_set dest!: in_set_takeD)
  then show "sortedUniqueSHA256 (CanonicalSignalRefs vs)"
    by (simp add: sortedUniqueSHA256_def CanonicalSignalRefs_def take_sorted_distinct first_seen_distinct)
qed (simp add: CanonicalSignalRefs_def)

lemma CanonicalSignalRefs_id:
  assumes "sortedUniqueSHA256 vs" "length vs \<le> MaxGraylistSignalRefs"
  shows "CanonicalSignalRefs vs = vs"
proof -
  have "map reason_form vs = vs" using assms by (intro map_idI) (auto simp: sortedUniqueSHA256_def list_all_iff)
  then show ?thesis
    using assms by (simp add: CanonicalSignalRefs_def sortedUniqueSHA256_def strictly_sorted_iff list_all_iff
        filter_True first_seen_id sort_key_id_if_sorted)
qed


text \<open>Reasons: a valid reason stays one in its canonical form.\<close>

lemma reason_form_valid:
  assumes "ValidContractID v 64"
  shows "reason_form v \<noteq> [] \<and> ValidContractID (reason_form v) 64 \<and> ValidContractID (reason_form v) 128"
proof -
  define w where "w = TrimSpace v"
  have w: "w \<noteq> []" "length w \<le> 64" "list_all contract_char w"
    using assms by (auto simp: ValidContractID_def w_def maxContractIDBytes_def Let_def)
  have form: "reason_form v = map lower_char w" using w(3) by (simp add: reason_form_def w_def[symmetric] ToLower_contract)
  have "list_all contract_char (map lower_char w)" using w(3) by (auto simp: list_all_iff lower_contract)
  then show ?thesis using w by (simp add: form ValidContractID_def maxContractIDBytes_def contract_TrimSpace Let_def)
qed

lemma CanonicalBoundedReasons_ok:
  assumes "list_all (\<lambda>v. ValidContractID v 64) vs"
  shows "validateReasonCodes (CanonicalBoundedReasons vs)" "sortedUniqueStrings (CanonicalBoundedReasons vs)"
proof -
  let ?c = "CanonicalBoundedReasons vs"
  have "set ?c \<subseteq> reason_form ` set vs"
    by (auto simp: CanonicalBoundedReasons_def NormalizeActionReasons_def first_seen_set dest!: in_set_takeD)
  then have "list_all (\<lambda>v. ValidContractID v 64) ?c"
    using assms reason_form_valid by (fastforce simp: list_all_iff)
  moreover have "strictly_sorted ?c"
    unfolding CanonicalBoundedReasons_def NormalizeActionReasons_def
    by (rule take_sorted_distinct) (simp_all add: first_seen_distinct)
  ultimately show "validateReasonCodes ?c" "sortedUniqueStrings ?c"
    by (simp_all add: validateReasonCodes_def sortedUniqueStrings_def strictly_sorted_iff maxReasonCodeBytes_def
        CanonicalBoundedReasons_def)
qed

lemma CanonicalBoundedReasons_sub: "set (CanonicalBoundedReasons vs) \<subseteq> reason_form ` set vs"
  by (auto simp: CanonicalBoundedReasons_def NormalizeActionReasons_def first_seen_set dest!: in_set_takeD)

text \<open>Evidence: the canonical list has one well-formed entry per signal, in order.\<close>

definition evidence_shape :: "GraylistEvidenceRefV2 list \<Rightarrow> bool" where
  "evidence_shape es \<longleftrightarrow> list_all (\<lambda>e. ValidSHA256 (er_SignalID e) \<and> er_ExpiresAt e \<noteq> 0) es
     \<and> strictly_sorted (map er_SignalID es) \<and> length es \<le> MaxGraylistSignalRefs"

lemma valid_evidence_shape:
  "valid_evidence es \<longleftrightarrow> list_all (\<lambda>e. ValidSHA256 (er_SignalID e) \<and> er_ExpiresAt e \<noteq> 0) es
     \<and> strictly_sorted (map er_SignalID es) \<and> list_all (known_evidence_class \<circ> er_Class) es"
  by (auto simp: valid_evidence_def list_all_iff time_is_zero_def)

definition latest_ok :: "GraylistEvidenceRefV2 list \<Rightarrow> (string \<rightharpoonup> GraylistEvidenceRefV2) \<Rightarrow> bool" where
  "latest_ok vs m \<longleftrightarrow> (\<forall>k e. m k = Some e \<longrightarrow> er_SignalID e = k \<and> ValidSHA256 k \<and> er_ExpiresAt e \<noteq> 0
     \<and> (\<exists>v\<in>set vs. reason_form (er_SignalID v) = k \<and> er_Class e = er_Class v \<and> er_ExpiresAt e = er_ExpiresAt v))"

lemma keep_latest_ok: "latest_ok vs m \<Longrightarrow> v \<in> set vs \<Longrightarrow> latest_ok vs (keep_latest v m)"
  by (auto simp: latest_ok_def keep_latest_def time_is_zero_def Let_def split: option.splits if_splits)

lemma fold_latest_ok: "set us \<subseteq> set vs \<Longrightarrow> latest_ok vs m \<Longrightarrow> latest_ok vs (fold keep_latest us m)"
  by (induction us arbitrary: m) (auto simp: keep_latest_ok)

lemma map_filter_ids:
  assumes "\<And>k e. m k = Some e \<Longrightarrow> f e = k"
  shows "map f (List.map_filter m ids) = filter (\<lambda>k. m k \<noteq> None) ids"
  by (induction ids) (auto simp: map_filter_simps assms split: option.splits)

lemma set_map_filter_Some: "x \<in> set (List.map_filter m ids) \<Longrightarrow> \<exists>k\<in>set ids. m k = Some x"
  by (auto simp: map_filter_def)

lemma canonical_evidence_shape:
  "evidence_shape (CanonicalGraylistEvidenceRefs vs)"
  "\<And>e. e \<in> set (CanonicalGraylistEvidenceRefs vs) \<Longrightarrow> \<exists>v\<in>set vs. er_Class e = er_Class v \<and> er_ExpiresAt e = er_ExpiresAt v
     \<and> reason_form (er_SignalID v) = er_SignalID e"
proof -
  let ?m = "fold keep_latest vs Map.empty"
  let ?ids = "sort (remdups (map (\<lambda>v. reason_form (er_SignalID v)) vs))"
  have ok: "latest_ok vs ?m" by (rule fold_latest_ok) (simp_all add: latest_ok_def)
  have "map er_SignalID (List.map_filter ?m ?ids) = filter (\<lambda>k. ?m k \<noteq> None) ?ids"
    using ok by (intro map_filter_ids) (auto simp: latest_ok_def)
  then have "strictly_sorted (take MaxGraylistSignalRefs (map er_SignalID (List.map_filter ?m ?ids)))"
    by (simp only: take_sorted_distinct sorted_filter sorted_sort distinct_filter distinct_sort distinct_remdups
        sorted_wrt_filter map_ident)
  moreover have el: "\<exists>k. ?m k = Some e" if "e \<in> set (CanonicalGraylistEvidenceRefs vs)" for e
    using that by (auto simp: CanonicalGraylistEvidenceRefs_def Let_def dest!: in_set_takeD set_map_filter_Some)
  then have "list_all (\<lambda>e. ValidSHA256 (er_SignalID e) \<and> er_ExpiresAt e \<noteq> 0) (CanonicalGraylistEvidenceRefs vs)"
    using ok by (fastforce simp: latest_ok_def list_all_iff)
  ultimately show "evidence_shape (CanonicalGraylistEvidenceRefs vs)"
    by (simp add: evidence_shape_def CanonicalGraylistEvidenceRefs_def take_map Let_def)
  show "\<exists>v\<in>set vs. er_Class e = er_Class v \<and> er_ExpiresAt e = er_ExpiresAt v \<and> reason_form (er_SignalID v) = er_SignalID e"
    if "e \<in> set (CanonicalGraylistEvidenceRefs vs)" for e
    using ok el[OF that] unfolding latest_ok_def by metis
qed

lemma fold_latest_distinct:
  assumes "list_all (\<lambda>e. ValidSHA256 (er_SignalID e) \<and> er_ExpiresAt e \<noteq> 0) es" "distinct (map er_SignalID es)"
    "\<forall>e\<in>set es. m (er_SignalID e) = None"
  shows "fold keep_latest es m = m ++ map_of (map (\<lambda>e. (er_SignalID e, e)) es)"
  using assms
proof (induction es arbitrary: m)
  case (Cons e es)
  have "keep_latest e m = m(er_SignalID e \<mapsto> e)"
    using Cons.prems by (simp add: keep_latest_def time_is_zero_def)
  moreover have "fold keep_latest es (m(er_SignalID e \<mapsto> e)) = m(er_SignalID e \<mapsto> e) ++ map_of (map (\<lambda>e. (er_SignalID e, e)) es)"
    using Cons.prems by (intro Cons.IH) (auto simp: image_iff)
  moreover have "map_of (map (\<lambda>e. (er_SignalID e, e)) es) (er_SignalID e) = None"
    using Cons.prems(2) by (force simp: map_of_eq_None_iff)
  ultimately show ?case
    by (simp add: map_add_upd_left domIff) (simp add: fun_eq_iff map_add_def split: option.splits)
qed simp

lemma canonical_evidence_id:
  assumes "evidence_shape es"
  shows "CanonicalGraylistEvidenceRefs es = es"
proof -
  note sh = assms[unfolded evidence_shape_def strictly_sorted_iff]
  have ids: "map (\<lambda>v. reason_form (er_SignalID v)) es = map er_SignalID es"
    using sh by (simp add: list_all_iff)
  have m: "fold keep_latest es Map.empty = map_of (map (\<lambda>e. (er_SignalID e, e)) es)"
    using fold_latest_distinct[of es Map.empty] sh by simp
  have "List.map_filter (map_of (map (\<lambda>e. (er_SignalID e, e)) es)) (map er_SignalID es) = es"
  proof -
    have "map (map_of (map (\<lambda>e. (er_SignalID e, e)) es)) (map er_SignalID es) = map Some es"
      using sh by (auto simp: map_of_eq_Some_iff distinct_map comp_def intro!: map_of_is_SomeI)
    then have "filter (\<lambda>i. map_of (map (\<lambda>e. (er_SignalID e, e)) es) i \<noteq> None) (map er_SignalID es) = map er_SignalID es"
      "map (the \<circ> map_of (map (\<lambda>e. (er_SignalID e, e)) es)) (map er_SignalID es) = es"
      by (auto simp: filter_id_conv intro: map_idI)
    then show ?thesis by (simp only: map_filter_def)
  qed
  then show ?thesis
    using sh by (simp add: CanonicalGraylistEvidenceRefs_def Let_def ids m sort_key_id_if_sorted distinct_remdups_id)
qed

end
