(* ===== verification/Protection_Graylist.thy ===== *)
theory Protection_Graylist
  imports Protection_Contracts
begin

text \<open>
  Admission of protection signals and the graylist state machine
  (\<^verbatim>\<open>src/components/server-protection/service/graylist/admission.go\<close> and \<^verbatim>\<open>state.go\<close>).  The wall
  clock \<open>time.Now()\<close>, read when the caller passes no time, is the argument \<open>wall\<close>.
\<close>

section \<open>Admission\<close>

record AdmissionContext =
  ac_SelectedAdapterID :: string
  ac_ExposesOriginalSubject :: bool
  ac_TrustedEndpointSource :: bool
  ac_TargetIsHealthTelemetry :: bool
  ac_Now :: go_time

record AcceptedSignal =
  as_Signal :: ProtectionSignalV2
  as_Delta :: int
  as_Weak :: bool
  as_EvidenceClass :: GraylistEvidenceClassV2

definition now_or :: "go_time \<Rightarrow> go_time \<Rightarrow> go_time" where
  "now_or wall now = (if time_is_zero now then wall else now)"

definition fail_closed_markers :: "string list" where
  "fail_closed_markers = [''unknown'', ''stale'', ''truncated'', ''ambiguous'', ''legacy'', ''observe_only'', ''untrusted'']"

definition failClosedReason :: "string list \<Rightarrow> bool" where
  "failClosedReason reasons =
     list_ex (\<lambda>reason. list_ex (Contains (ToLower (TrimSpace reason))) fail_closed_markers) reasons"

definition failClosedMetadata :: "(string, string) gomap \<Rightarrow> bool" where
  "failClosedMetadata meta =
     list_ex (\<lambda>(key, value).
       ToLower (TrimSpace key) \<in> {''truncated'', ''ambiguous'', ''unknown_provenance'', ''stale''}
       \<and> ToLower (TrimSpace value) \<in> {''true'', ''1'', ''yes''}) meta"

definition forbiddenMetadata :: "(string, string) gomap \<Rightarrow> bool" where
  "forbiddenMetadata meta \<longleftrightarrow> ValidateProtectionSignalSafeMeta meta \<noteq> None"

definition loopbackSubject :: "SignalSubjectV2 \<Rightarrow> bool" where
  "loopbackSubject subject =
     (if sj_Type subject = ''ip'' then
        (case ParseAddr (sj_Value subject) of None \<Rightarrow> False | Some address \<Rightarrow> addr_IsLoopback address)
      else if sj_Type subject = ''prefix'' then
        (case ParsePrefix (sj_Value subject) of None \<Rightarrow> False | Some pfx \<Rightarrow> addr_IsLoopback (px_Addr pfx))
      else False)"

definition lacks_scope :: "ProtectionSignalV2 \<Rightarrow> bool" where
  "lacks_scope s \<longleftrightarrow>
     sc_Scope (ps_Scope s) \<noteq> ScopeEndpoint \<or> \<not> ValidContractID (sc_TargetResourceID (ps_Scope s)) 256
     \<or> \<not> ValidContractID (sc_EndpointID (ps_Scope s)) 256
     \<or> (sc_Transport (ps_Scope s) \<noteq> ''tcp'' \<and> sc_Transport (ps_Scope s) \<noteq> ''udp'')
     \<or> \<not> ValidContractID (pv_ObservationWindowID (ps_Provenance s)) 128"

definition kind_error :: "ProtectionSignalV2 \<Rightarrow> AdmissionContext \<Rightarrow> string option" where
  "kind_error s ctx =
     (let kind = ps_Kind s; src = so_SourceClass (ps_Source s) in
      if kind = ''fallback_hit'' \<or> kind = ''missing_sni'' \<or> kind = ''unexpected_alpn'' then
        failing (\<not> ac_ExposesOriginalSubject ctx) ''selected adapter does not expose the original subject''
      else if kind = ''syn_burst'' \<or> kind = ''conntrack_pressure'' then
        failing (src \<noteq> ''native'' \<or> \<not> ac_TrustedEndpointSource ctx) ''connection pressure lacks an exact trusted endpoint source''
      else if kind = ''external_reputation'' then
        failing (src \<noteq> ''external'') ''reputation signal is not externally attributed''
      else failing (src \<noteq> ''native'') ''non-reputation external signal is not admitted'')"

definition admission_error :: "go_time \<Rightarrow> ProtectionSignalV2 \<Rightarrow> AdmissionContext \<Rightarrow> string option" where
  "admission_error now s ctx = first_error
     [Signal_Validate now s,
      failing (\<not> ps_ExpiresAt s > now \<or> \<not> ps_KnownKind s) ''signal is stale or unknown'',
      failing (lacks_scope s) ''signal lacks exact resource, endpoint, transport, or observation window'',
      failing (\<not> ValidContractID (ac_SelectedAdapterID ctx) 128 \<or> pv_AdapterID (ps_Provenance s) \<noteq> ac_SelectedAdapterID ctx)
        ''signal adapter attribution is ambiguous'',
      failing (failClosedReason (ps_ReasonCodes s) \<or> failClosedMetadata (ps_SafeMeta s) \<or> forbiddenMetadata (ps_SafeMeta s))
        ''signal provenance or metadata fails closed'',
      failing (ac_TargetIsHealthTelemetry ctx \<or> loopbackSubject (ps_Subject s))
        ''loopback target telemetry is not an Internet subject signal'',
      kind_error s ctx]"

definition Admit :: "go_time \<Rightarrow> ProtectionSignalV2 \<Rightarrow> AdmissionContext \<Rightarrow> string + AcceptedSignal" where
  "Admit wall s ctx =
     (case admission_error (now_or wall (ac_Now ctx)) s ctx of
        Some e \<Rightarrow> Inl e
      | None \<Rightarrow>
          let external = (so_SourceClass (ps_Source s) = ''external'');
              weak = (ps_Kind s = ''short_tls_session'' \<or> ps_Kind s = ''tiny_transfer'');
              delta0 = DefaultSignalDelta (ps_Kind s);
              delta = (if external \<and> delta0 > 2 then 2 else delta0)
          in if delta \<le> 0 then Inl ''signal has no bounded policy contribution''
             else if \<not> external \<and> \<not> weak \<and> \<not> ac_ExposesOriginalSubject ctx \<and> \<not> ac_TrustedEndpointSource ctx
               then Inl ''signal lacks strong trusted same-scope attribution''
             else Inr \<lparr>as_Signal = s, as_Delta = delta, as_Weak = weak,
               as_EvidenceClass = (if external then EvidenceExternal else if weak then EvidenceWeak else EvidenceStrongTrusted)\<rparr>)"

section \<open>The state machine\<close>

record PolicyV2 =
  gp_Revision :: string
  gp_EnterScore :: int
  gp_ExitScore :: int
  gp_RateScore :: int
  gp_RateConfidenceBP :: int
  gp_MaxScore :: int
  gp_DecayInterval :: duration
  gp_TTL :: duration

definition DefaultPolicyV2 :: PolicyV2 where
  "DefaultPolicyV2 = \<lparr>gp_Revision = ''graylist-policy-v2'', gp_EnterScore = 20, gp_ExitScore = 10, gp_RateScore = 40,
     gp_RateConfidenceBP = 5000, gp_MaxScore = 100, gp_DecayInterval = 10 * minute, gp_TTL = hour\<rparr>"

definition PolicyV2_Validate :: "PolicyV2 \<Rightarrow> string option" where
  "PolicyV2_Validate p = failing
     (\<not> ValidContractID (gp_Revision p) 128 \<or> gp_ExitScore p < 0 \<or> gp_EnterScore p \<le> gp_ExitScore p
      \<or> gp_RateScore p \<le> gp_EnterScore p \<or> gp_MaxScore p < gp_RateScore p \<or> gp_MaxScore p > 100
      \<or> gp_RateConfidenceBP p < 0 \<or> gp_RateConfidenceBP p > 10000 \<or> gp_DecayInterval p \<le> 0
      \<or> gp_TTL p < minute \<or> gp_TTL p > 24 * hour) ''graylist policy is invalid''"

record EvaluateInput =
  ei_Existing :: "GraylistStateV2 option"
  ei_Accepted :: "AcceptedSignal option"
  ei_Policy :: PolicyV2
  ei_StrategyRevision :: string
  ei_CapabilityRevision :: string
  ei_Allowlisted :: bool
  ei_Management :: bool
  ei_RecoveryProtected :: bool
  ei_TrustedSource :: bool
  ei_ManualClear :: bool
  ei_Now :: go_time

record EvaluateResult =
  er_State :: GraylistStateV2
  er_Changed :: bool

definition minTime :: "go_time \<Rightarrow> go_time \<Rightarrow> go_time" where
  "minTime left right = (if left < right then left else right)"

definition maxTime :: "go_time \<Rightarrow> go_time \<Rightarrow> go_time" where
  "maxTime left right = (if left > right then left else right)"

definition decayedScore :: "int \<Rightarrow> go_time \<Rightarrow> go_time \<Rightarrow> PolicyV2 \<Rightarrow> int" where
  "decayedScore score since now p =
     (if time_is_zero since \<or> \<not> now > since then min (max score 0) (gp_MaxScore p)
      else max 0 (min score (gp_MaxScore p) - time_sub now since div gp_DecayInterval p))"

definition hasActiveStrongEvidence :: "GraylistEvidenceRefV2 list \<Rightarrow> go_time \<Rightarrow> bool" where
  "hasActiveStrongEvidence values now = list_ex (\<lambda>v. er_Class v = EvidenceStrongTrusted \<and> er_ExpiresAt v > now) values"

definition evidenceClass :: "AcceptedSignal \<Rightarrow> GraylistEvidenceClassV2" where
  "evidenceClass a =
     (if as_EvidenceClass a \<noteq> EvidenceNone then as_EvidenceClass a
      else if so_SourceClass (ps_Source (as_Signal a)) = ''external'' then EvidenceExternal
      else if as_Weak a then EvidenceWeak else EvidenceStrongTrusted)"

definition canonicalSourceClasses :: "string list \<Rightarrow> string list" where
  "canonicalSourceClasses values =
     (if ''external'' \<in> set values then [''external''] else []) @ (if ''native'' \<in> set values then [''native''] else [])"

definition next_revision :: "int \<Rightarrow> int" where
  "next_revision r = (r + 1) mod 18446744073709551616"

definition validated :: "(state_key \<Rightarrow> string) \<Rightarrow> GraylistStateV2 \<Rightarrow> bool \<Rightarrow> string + EvaluateResult" where
  "validated dg state changed =
     (let state = state\<lparr>gs_SignalRefs := CanonicalSignalRefs (gs_SignalRefs state),
                       gs_EvidenceRefs := CanonicalGraylistEvidenceRefs (gs_EvidenceRefs state),
                       gs_ReasonCodes := CanonicalBoundedReasons (gs_ReasonCodes state)\<rparr>
      in case State_Validate dg state of
           Some e \<Rightarrow> Inl e
         | None \<Rightarrow> Inr \<lparr>er_State = state, er_Changed = changed\<rparr>)"

definition supersede :: "(state_key \<Rightarrow> string) \<Rightarrow> GraylistStateV2 \<Rightarrow> go_time \<Rightarrow> string \<Rightarrow> string + EvaluateResult" where
  "supersede dg state now reason =
     (if gs_Lifecycle state = LifecycleSuperseded \<and> reason \<in> set (gs_ReasonCodes state)
      then Inr \<lparr>er_State = state, er_Changed = False\<rparr>
      else validated dg (state\<lparr>gs_Lifecycle := LifecycleSuperseded, gs_SelectedResponse := IntentObserve,
             gs_DesiredAction := IntentObserve, gs_ActualActionState := ''NOT_APPLIED'', gs_AppliedActionRefID := '''',
             gs_ReasonCodes := CanonicalBoundedReasons (gs_ReasonCodes state @ [reason]),
             gs_UpdatedAt := maxTime now (gs_LastSignalAt state), gs_Revision := next_revision (gs_Revision state)\<rparr>) True)"

definition revision_drift :: "GraylistStateV2 \<Rightarrow> PolicyV2 \<Rightarrow> EvaluateInput \<Rightarrow> bool" where
  "revision_drift state p inp \<longleftrightarrow>
     gs_PolicyRevision state \<noteq> gp_Revision p \<or> gs_StrategyRevision state \<noteq> ei_StrategyRevision inp
     \<or> gs_CapabilityRevision state \<noteq> ei_CapabilityRevision inp"

definition fresh_state :: "(state_key \<Rightarrow> string) \<Rightarrow> PolicyV2 \<Rightarrow> EvaluateInput \<Rightarrow> ProtectionSignalV2 \<Rightarrow> GraylistStateV2" where
  "fresh_state dg p inp s = State_FinalizeID dg
     \<lparr>gs_Schema = GraylistStateSchemaV2, gs_StateID = '''', gs_Revision = 1, gs_Subject = ps_Subject s,
      gs_ResourceID = sc_TargetResourceID (ps_Scope s), gs_EndpointID = sc_EndpointID (ps_Scope s),
      gs_Transport = sc_Transport (ps_Scope s), gs_Score = 0, gs_ConfidenceBP = 0, gs_PolicyRevision = gp_Revision p,
      gs_StrategyRevision = ei_StrategyRevision inp, gs_CapabilityRevision = ei_CapabilityRevision inp,
      gs_SignalRefs = [], gs_EvidenceRefs = [], gs_SourceClasses = [so_SourceClass (ps_Source s)],
      gs_Band = BandObserve, gs_Lifecycle = LifecycleActive, gs_EnteredAt = ps_ObservedAt s, gs_LastSignalAt = ps_ObservedAt s,
      gs_ExpiresAt = minTime (ps_ObservedAt s + gp_TTL p) (ps_ObservedAt s + 24 * hour),
      gs_SelectedResponse = IntentObserve, gs_DesiredAction = IntentObserve, gs_ActualActionState = ''NOT_APPLIED'',
      gs_AppliedActionRefID = '''', gs_ReasonCodes = [], gs_CreatedAt = ps_ObservedAt s, gs_UpdatedAt = ps_ObservedAt s\<rparr>"

definition reenter :: "PolicyV2 \<Rightarrow> ProtectionSignalV2 \<Rightarrow> GraylistStateV2 \<Rightarrow> GraylistStateV2" where
  "reenter p s state =
     (if gs_Lifecycle state = LifecycleExpired then
        state\<lparr>gs_Score := 0, gs_ConfidenceBP := 0, gs_SignalRefs := [], gs_EvidenceRefs := [],
          gs_SourceClasses := [so_SourceClass (ps_Source s)], gs_Band := BandObserve, gs_Lifecycle := LifecycleActive,
          gs_EnteredAt := ps_ObservedAt s, gs_ExpiresAt := minTime (ps_ObservedAt s + gp_TTL p) (ps_ObservedAt s + 24 * hour),
          gs_ReasonCodes := CanonicalBoundedReasons [''fresh_signal_reentry'']\<rparr>
      else state)"

definition add_signal :: "PolicyV2 \<Rightarrow> go_time \<Rightarrow> AcceptedSignal \<Rightarrow> GraylistStateV2 \<Rightarrow> GraylistStateV2" where
  "add_signal p now a state =
     (let s = as_Signal a; at = ps_ObservedAt s;
          score = decayedScore (gs_Score state) (gs_LastSignalAt state) at p
      in state\<lparr>gs_Score := min (gp_MaxScore p) (score + as_Delta a),
           gs_ConfidenceBP := max (gs_ConfidenceBP state) (ps_ConfidenceBP s),
           gs_SignalRefs := CanonicalSignalRefs (gs_SignalRefs state @ [ps_SignalID s]),
           gs_EvidenceRefs := CanonicalGraylistEvidenceRefs (gs_EvidenceRefs state
             @ [\<lparr>er_SignalID = ps_SignalID s, er_Class = evidenceClass a, er_ExpiresAt = ps_ExpiresAt s\<rparr>]),
           gs_SourceClasses := canonicalSourceClasses (gs_SourceClasses state @ [so_SourceClass (ps_Source s)]),
           gs_LastSignalAt := at, gs_ExpiresAt := minTime (at + gp_TTL p) (gs_EnteredAt state + 24 * hour),
           gs_UpdatedAt := maxTime now at\<rparr>)"

text \<open>The part of \<open>Evaluate\<close> that takes in a signal: an early return, or the state to go on with.  The
  state is fresh when there is none yet; a second check for a revision drift of an existing state
  follows one that returns, so it never fires.\<close>

definition absorb :: "(state_key \<Rightarrow> string) \<Rightarrow> PolicyV2 \<Rightarrow> EvaluateInput \<Rightarrow> go_time \<Rightarrow> GraylistStateV2 option \<Rightarrow> AcceptedSignal
    \<Rightarrow> (string + EvaluateResult) + GraylistStateV2" where
  "absorb dg p inp now existing a =
     (let s = as_Signal a in
      if pv_PolicyRevision (ps_Provenance s) \<noteq> gp_Revision p
      then Inl (Inl ''signal policy attribution does not match current policy'')
      else
        let state = (case existing of None \<Rightarrow> fresh_state dg p inp s | Some st \<Rightarrow> st) in
        if ps_Subject s \<noteq> gs_Subject state \<or> sc_TargetResourceID (ps_Scope s) \<noteq> gs_ResourceID state
           \<or> sc_EndpointID (ps_Scope s) \<noteq> gs_EndpointID state \<or> sc_Transport (ps_Scope s) \<noteq> gs_Transport state
        then Inl (Inl ''accepted signal crosses graylist identity'')
        else if gs_Lifecycle state = LifecycleSuperseded then Inl (Inl ''superseded graylist state cannot be reactivated'')
        else
          let state = reenter p s state in
          if ps_SignalID s \<in> set (gs_SignalRefs state) then Inl (Inr \<lparr>er_State = state, er_Changed = False\<rparr>)
          else if ps_ObservedAt s < gs_LastSignalAt state then Inl (Inl ''signal_out_of_order'')
          else if length (gs_SignalRefs state) \<ge> MaxGraylistSignalRefs
            then Inl (Inl ''graylist signal reference capacity exceeded'')
          else Inr (add_signal p now a state))"

definition precedence :: "EvaluateInput \<Rightarrow> string option" where
  "precedence inp =
     (if ei_Allowlisted inp then Some ''allowlist_precedence''
      else if ei_Management inp then Some ''management_precedence''
      else if ei_RecoveryProtected inp then Some ''recovery_precedence''
      else if ei_TrustedSource inp then Some ''trusted_source_precedence''
      else if ei_ManualClear inp then Some ''manual_clear''
      else None)"

definition next_band :: "PolicyV2 \<Rightarrow> go_time \<Rightarrow> int \<Rightarrow> GraylistStateV2 \<Rightarrow> GraylistBandV2 \<times> GraylistLifecycleV2 \<times> ResponseIntent" where
  "next_band p now effective state =
     (if \<not> hasActiveStrongEvidence (gs_EvidenceRefs state) now then (BandObserve, LifecycleActive, IntentObserve)
      else if effective \<ge> gp_RateScore p \<and> gs_ConfidenceBP state \<ge> gp_RateConfidenceBP p
        then (BandRateCandidate, LifecycleActive, IntentRateLimit)
      else if effective \<ge> gp_EnterScore p then (BandGraylist, LifecycleActive, IntentSoftGraylist)
      else if (gs_Band state = BandGraylist \<or> gs_Band state = BandRateCandidate \<or> gs_Band state = BandCooldown)
          \<and> effective < gp_ExitScore p
        then (BandCooldown, LifecycleCooldown, IntentObserve)
      else (gs_Band state, gs_Lifecycle state, IntentObserve))"

definition expire :: "(state_key \<Rightarrow> string) \<Rightarrow> go_time \<Rightarrow> GraylistStateV2 \<Rightarrow> string + EvaluateResult" where
  "expire dg now state =
     (if gs_Lifecycle state = LifecycleExpired then Inr \<lparr>er_State = state, er_Changed = False\<rparr>
      else validated dg (state\<lparr>gs_Band := BandCooldown, gs_Lifecycle := LifecycleExpired, gs_SelectedResponse := IntentObserve,
             gs_DesiredAction := IntentObserve, gs_UpdatedAt := now, gs_Revision := next_revision (gs_Revision state),
             gs_ReasonCodes := CanonicalBoundedReasons (gs_ReasonCodes state @ [''exact_expiry''])\<rparr>) True)"

text \<open>The second half of \<open>Evaluate\<close>: precedence, expiry, and the band by the decayed score.\<close>

definition settle :: "(state_key \<Rightarrow> string) \<Rightarrow> PolicyV2 \<Rightarrow> EvaluateInput \<Rightarrow> go_time \<Rightarrow> GraylistStateV2 \<Rightarrow> string + EvaluateResult" where
  "settle dg p inp now state =
     (case precedence inp of
        Some reason \<Rightarrow> supersede dg state now reason
      | None \<Rightarrow>
          if \<not> now < gs_ExpiresAt state then expire dg now state
          else
            let effective = decayedScore (gs_Score state) (gs_LastSignalAt state) now p;
                (nextBand, nextLifecycle, nextDesired) = next_band p now effective state;
                changed = (ei_Accepted inp \<noteq> None \<or> nextBand \<noteq> gs_Band state \<or> nextLifecycle \<noteq> gs_Lifecycle state
                           \<or> nextDesired \<noteq> gs_DesiredAction state);
                state = state\<lparr>gs_Score := effective, gs_Band := nextBand, gs_Lifecycle := nextLifecycle,
                  gs_DesiredAction := nextDesired, gs_SelectedResponse := IntentObserve,
                  gs_ActualActionState := ''NOT_APPLIED'', gs_AppliedActionRefID := ''''\<rparr>;
                state = (if changed then state\<lparr>gs_Revision := next_revision (gs_Revision state),
                                              gs_UpdatedAt := maxTime now (gs_LastSignalAt state)\<rparr> else state)
            in validated dg state changed)"

definition graylist_Evaluate :: "(state_key \<Rightarrow> string) \<Rightarrow> go_time \<Rightarrow> EvaluateInput \<Rightarrow> string + EvaluateResult" where
  "graylist_Evaluate dg wall inp =
     (let now = now_or wall (ei_Now inp);
          p = (if gp_Revision (ei_Policy inp) = '''' then DefaultPolicyV2 else ei_Policy inp)
      in case PolicyV2_Validate p of
           Some e \<Rightarrow> Inl e
         | None \<Rightarrow>
             if \<not> ValidContractID (ei_StrategyRevision inp) 128 \<or> \<not> ValidContractID (ei_CapabilityRevision inp) 128
             then Inl ''strategy or capability revision is invalid''
             else case ei_Existing inp of
               None \<Rightarrow>
                 (case ei_Accepted inp of
                    None \<Rightarrow> Inl ''new graylist state requires an accepted signal''
                  | Some a \<Rightarrow> (case absorb dg p inp now None a of Inl r \<Rightarrow> r | Inr state \<Rightarrow> settle dg p inp now state))
             | Some st \<Rightarrow>
                 (case State_Validate dg st of
                    Some e \<Rightarrow> Inl e
                  | None \<Rightarrow>
                      if revision_drift st p inp then supersede dg st now ''revision_drift''
                      else case ei_Accepted inp of
                        None \<Rightarrow> settle dg p inp now st
                      | Some a \<Rightarrow> (case absorb dg p inp now (Some st) a of Inl r \<Rightarrow> r | Inr state \<Rightarrow> settle dg p inp now state)))"

end
