(* ===== verification/Graylist_Safety.thy ===== *)
theory Graylist_Safety
  imports Protection_Graylist
begin

text \<open>
  Properties of the graylist state machine: identity and revisions, what justifies an action, weak
  evidence, replays, decay, and the totality of timer evaluations.
\<close>

section \<open>What the steps of an evaluation keep\<close>

definition same_identity :: "GraylistStateV2 \<Rightarrow> GraylistStateV2 \<Rightarrow> bool" where
  "same_identity s t \<longleftrightarrow> gs_Schema s = gs_Schema t \<and> gs_StateID s = gs_StateID t \<and> state_key s = state_key t
     \<and> gs_CreatedAt s = gs_CreatedAt t"

lemma same_identity_refl [simp]: "same_identity s s"
  by (simp add: same_identity_def)

lemma same_identity_trans: "same_identity s t \<Longrightarrow> same_identity t u \<Longrightarrow> same_identity s u"
  by (simp add: same_identity_def)

text \<open>The outcome of an evaluation of a valid state: valid, of the same identity, with the revision
  advanced by one exactly when it is to be written.\<close>

definition outcome :: "(state_key \<Rightarrow> string) \<Rightarrow> GraylistStateV2 \<Rightarrow> EvaluateResult \<Rightarrow> bool" where
  "outcome dg st r \<longleftrightarrow> State_Validate dg (er_State r) = None \<and> same_identity (er_State r) st
     \<and> gs_Revision (er_State r) = (if er_Changed r then next_revision (gs_Revision st) else gs_Revision st)"

definition canonical :: "GraylistStateV2 \<Rightarrow> GraylistStateV2" where
  "canonical st = st\<lparr>gs_SignalRefs := CanonicalSignalRefs (gs_SignalRefs st),
     gs_EvidenceRefs := CanonicalGraylistEvidenceRefs (gs_EvidenceRefs st),
     gs_ReasonCodes := CanonicalBoundedReasons (gs_ReasonCodes st)\<rparr>"

lemma validated_Inr:
  "validated dg st changed = Inr r \<longleftrightarrow> State_Validate dg (canonical st) = None \<and> r = \<lparr>er_State = canonical st, er_Changed = changed\<rparr>"
  by (auto simp: validated_def canonical_def Let_def split: option.splits)

lemma canonical_same [simp]:
  "same_identity (canonical st) t \<longleftrightarrow> same_identity st t" "gs_Revision (canonical st) = gs_Revision st"
  "gs_DesiredAction (canonical st) = gs_DesiredAction st" "gs_SelectedResponse (canonical st) = gs_SelectedResponse st"
  "gs_Lifecycle (canonical st) = gs_Lifecycle st" "gs_Band (canonical st) = gs_Band st" "gs_Score (canonical st) = gs_Score st"
  "gs_ConfidenceBP (canonical st) = gs_ConfidenceBP st" "gs_ExpiresAt (canonical st) = gs_ExpiresAt st"
  "gs_EnteredAt (canonical st) = gs_EnteredAt st" "gs_LastSignalAt (canonical st) = gs_LastSignalAt st"
  "gs_UpdatedAt (canonical st) = gs_UpdatedAt st" "gs_ActualActionState (canonical st) = gs_ActualActionState st"
  "gs_EvidenceRefs (canonical st) = CanonicalGraylistEvidenceRefs (gs_EvidenceRefs st)"
  by (simp_all add: canonical_def same_identity_def state_key_def)

lemma supersede_Inr:
  assumes "supersede dg st now reason = Inr r"
  shows "gs_Lifecycle (er_State r) = LifecycleSuperseded"
    "er_Changed r \<Longrightarrow> gs_DesiredAction (er_State r) = IntentObserve \<and> gs_SelectedResponse (er_State r) = IntentObserve"
    "State_Validate dg st = None \<or> er_Changed r \<Longrightarrow> same_identity st t \<Longrightarrow> gs_Revision st = gs_Revision t \<Longrightarrow> outcome dg t r"
    "\<not> er_Changed r \<Longrightarrow> er_State r = st"
  using assms by (auto simp: supersede_def validated_Inr outcome_def same_identity_def state_key_def canonical_def split: if_splits)

lemma expire_Inr:
  assumes "expire dg now st = Inr r"
  shows "gs_Lifecycle (er_State r) = LifecycleExpired"
    "er_Changed r \<Longrightarrow> gs_DesiredAction (er_State r) = IntentObserve \<and> gs_SelectedResponse (er_State r) = IntentObserve"
    "State_Validate dg st = None \<or> er_Changed r \<Longrightarrow> same_identity st t \<Longrightarrow> gs_Revision st = gs_Revision t \<Longrightarrow> outcome dg t r"
    "\<not> er_Changed r \<Longrightarrow> er_State r = st"
  using assms by (auto simp: expire_def validated_Inr outcome_def same_identity_def state_key_def canonical_def split: if_splits)

text \<open>The last branch of \<open>settle\<close>, as one function of the state.\<close>

definition banded :: "PolicyV2 \<Rightarrow> EvaluateInput \<Rightarrow> go_time \<Rightarrow> GraylistStateV2 \<Rightarrow> GraylistStateV2 \<times> bool" where
  "banded p inp now state =
     (let effective = decayedScore (gs_Score state) (gs_LastSignalAt state) now p;
          (band, cycle, desired) = next_band p now effective state;
          changed = (ei_Accepted inp \<noteq> None \<or> band \<noteq> gs_Band state \<or> cycle \<noteq> gs_Lifecycle state \<or> desired \<noteq> gs_DesiredAction state)
      in (state\<lparr>gs_Score := effective, gs_Band := band, gs_Lifecycle := cycle, gs_DesiredAction := desired,
            gs_SelectedResponse := IntentObserve, gs_ActualActionState := ''NOT_APPLIED'', gs_AppliedActionRefID := '''',
            gs_Revision := (if changed then next_revision (gs_Revision state) else gs_Revision state),
            gs_UpdatedAt := (if changed then maxTime now (gs_LastSignalAt state) else gs_UpdatedAt state)\<rparr>, changed))"

lemma settle_cases:
  "settle dg p inp now st =
     (case precedence inp of
        Some reason \<Rightarrow> supersede dg st now reason
      | None \<Rightarrow> if \<not> now < gs_ExpiresAt st then expire dg now st
                else validated dg (fst (banded p inp now st)) (snd (banded p inp now st)))"
  by (cases "next_band p now (decayedScore (gs_Score st) (gs_LastSignalAt st) now p) st")
     (simp add: settle_def banded_def Let_def split: option.splits)

lemma banded_same: "same_identity (fst (banded p inp now st)) t \<longleftrightarrow> same_identity st t"
  by (cases "next_band p now (decayedScore (gs_Score st) (gs_LastSignalAt st) now p) st")
     (simp add: banded_def same_identity_def state_key_def Let_def)

lemma banded_revision:
  "gs_Revision (fst (banded p inp now st)) = (if snd (banded p inp now st) then next_revision (gs_Revision st) else gs_Revision st)"
  by (cases "next_band p now (decayedScore (gs_Score st) (gs_LastSignalAt st) now p) st") (simp add: banded_def Let_def)

lemma banded_accepted: "ei_Accepted inp \<noteq> None \<Longrightarrow> snd (banded p inp now st)"
  by (cases "next_band p now (decayedScore (gs_Score st) (gs_LastSignalAt st) now p) st") (simp add: banded_def Let_def)

lemma settle_outcome:
  assumes "settle dg p inp now st = Inr r" "same_identity st t" "gs_Revision st = gs_Revision t"
    and "ei_Accepted inp = None \<and> State_Validate dg st = None
      \<or> gs_Lifecycle st \<noteq> LifecycleSuperseded \<and> gs_Lifecycle st \<noteq> LifecycleExpired"
  shows "outcome dg t r"
proof -
  have "State_Validate dg st = None \<or> er_Changed r" if "supersede dg st now reason = Inr r" for reason
    using that assms(4) supersede_Inr(1,4)[OF that] by metis
  moreover have "State_Validate dg st = None \<or> er_Changed r" if "expire dg now st = Inr r"
    using that assms(4) expire_Inr(1,4)[OF that] by metis
  ultimately show ?thesis
    using assms supersede_Inr(3) expire_Inr(3)
    by (auto simp: settle_cases validated_Inr outcome_def banded_same banded_revision split: option.splits if_splits)
qed

lemma reenter_same: "same_identity (reenter p s st) t \<longleftrightarrow> same_identity st t" "gs_Revision (reenter p s st) = gs_Revision st"
  by (simp_all add: reenter_def same_identity_def state_key_def)

lemma add_signal_same:
  "same_identity (add_signal p now a st) t \<longleftrightarrow> same_identity st t" "gs_Revision (add_signal p now a st) = gs_Revision st"
  "gs_Lifecycle (add_signal p now a st) = gs_Lifecycle st" "gs_Band (add_signal p now a st) = gs_Band st"
  by (simp_all add: add_signal_def same_identity_def state_key_def Let_def)

lemma reenter_lifecycle: "gs_Lifecycle (reenter p s st) \<noteq> LifecycleExpired"
  "gs_Lifecycle st \<noteq> LifecycleSuperseded \<Longrightarrow> gs_Lifecycle (reenter p s st) \<noteq> LifecycleSuperseded"
  by (simp_all add: reenter_def)

lemma absorb_Inr:
  assumes "absorb dg p inp now ex a = Inr st"
  shows "st = add_signal p now a (reenter p (as_Signal a) (case ex of None \<Rightarrow> fresh_state dg p inp (as_Signal a) | Some s \<Rightarrow> s))"
    "gs_Lifecycle st \<noteq> LifecycleSuperseded \<and> gs_Lifecycle st \<noteq> LifecycleExpired"
  using assms reenter_lifecycle by (auto simp: absorb_def Let_def add_signal_same split: if_splits option.splits)

lemma absorb_early:
  assumes "absorb dg p inp now ex a = Inl (Inr r)"
  shows "\<exists>s. ex = Some s \<and> r = \<lparr>er_State = s, er_Changed = False\<rparr> \<and> ps_SignalID (as_Signal a) \<in> set (gs_SignalRefs s)"
  using assms by (cases ex) (auto simp: absorb_def Let_def reenter_def fresh_state_def State_FinalizeID_def split: if_splits)

abbreviation effective_policy :: "EvaluateInput \<Rightarrow> PolicyV2" where
  "effective_policy inp \<equiv> if gp_Revision (ei_Policy inp) = '''' then DefaultPolicyV2 else ei_Policy inp"

text \<open>The ways an evaluation succeeds.\<close>

lemma Evaluate_Inr:
  assumes "graylist_Evaluate dg wall inp = Inr r"
  obtains (drift) st where "ei_Existing inp = Some st" "State_Validate dg st = None"
      "supersede dg st (now_or wall (ei_Now inp)) ''revision_drift'' = Inr r"
  | (timer) st where "ei_Existing inp = Some st" "State_Validate dg st = None" "ei_Accepted inp = None"
      "settle dg (effective_policy inp) inp (now_or wall (ei_Now inp)) st = Inr r"
  | (replay) st a where "ei_Existing inp = Some st" "State_Validate dg st = None" "ei_Accepted inp = Some a"
      "r = \<lparr>er_State = st, er_Changed = False\<rparr>" "ps_SignalID (as_Signal a) \<in> set (gs_SignalRefs st)"
  | (signal) a st where "ei_Accepted inp = Some a" "absorb dg (effective_policy inp) inp (now_or wall (ei_Now inp)) (ei_Existing inp) a = Inr st"
      "settle dg (effective_policy inp) inp (now_or wall (ei_Now inp)) st = Inr r"
      "\<And>s. ei_Existing inp = Some s \<Longrightarrow> State_Validate dg s = None"
proof -
  let ?p = "effective_policy inp" and ?now = "now_or wall (ei_Now inp)"
  show ?thesis
  proof (cases "ei_Existing inp")
    case None
    then obtain a where a: "ei_Accepted inp = Some a"
      and c: "(case absorb dg ?p inp ?now None a of Inl r \<Rightarrow> r | Inr state \<Rightarrow> settle dg ?p inp ?now state) = Inr r"
      using assms by (auto simp: graylist_Evaluate_def Let_def split: option.splits if_splits)
    show ?thesis
    proof (cases "absorb dg ?p inp ?now None a")
      case (Inl x)
      then show ?thesis using absorb_early[of dg ?p inp ?now None a] c by simp
    next
      case (Inr st)
      then show ?thesis using c a signal None by simp
    qed
  next
    case (Some st)
    then have v: "State_Validate dg st = None"
      and c: "(if revision_drift st ?p inp then supersede dg st ?now ''revision_drift''
         else case ei_Accepted inp of None \<Rightarrow> settle dg ?p inp ?now st
         | Some a \<Rightarrow> (case absorb dg ?p inp ?now (Some st) a of Inl r \<Rightarrow> r | Inr state \<Rightarrow> settle dg ?p inp ?now state)) = Inr r"
      using assms by (auto simp: graylist_Evaluate_def Let_def split: option.splits if_splits)
    show ?thesis
    proof (cases "revision_drift st ?p inp")
      case True
      then show ?thesis using drift Some v c by simp
    next
      case False
      show ?thesis
      proof (cases "ei_Accepted inp")
        case None
        then show ?thesis using timer Some v c False by simp
      next
        case a: (Some a)
        show ?thesis
        proof (cases "absorb dg ?p inp ?now (Some st) a")
          case (Inl x)
          then have "x = Inr r" using c False a by simp
          with Inl show ?thesis using absorb_early[of dg ?p inp ?now "Some st" a] replay Some v a by simp
        next
          case (Inr st')
          then show ?thesis using c a signal Some v False by simp
        qed
      qed
    qed
  qed
qed

section \<open>Identity and revisions\<close>

lemma signal_outcome:
  assumes "absorb dg p inp now ex a = Inr st" "settle dg p inp now st = Inr r"
  shows "outcome dg (case ex of None \<Rightarrow> fresh_state dg p inp (as_Signal a) | Some s \<Rightarrow> s) r"
proof -
  let ?s = "case ex of None \<Rightarrow> fresh_state dg p inp (as_Signal a) | Some s \<Rightarrow> s"
  have "same_identity st ?s" "gs_Revision st = gs_Revision ?s"
    using absorb_Inr(1)[OF assms(1)] by (simp_all add: add_signal_same reenter_same)
  then show ?thesis using settle_outcome[OF assms(2)] absorb_Inr(2)[OF assms(1)] by blast
qed

lemma Evaluate_valid:
  assumes "graylist_Evaluate dg wall inp = Inr r"
  shows "State_Validate dg (er_State r) = None"
  using assms
proof (cases rule: Evaluate_Inr)
  case (drift st)
  then show ?thesis using supersede_Inr(3)[of dg st _ _ r st] by (simp add: outcome_def)
next
  case (timer st)
  then show ?thesis using settle_outcome[of dg _ inp _ st r st] by (simp add: outcome_def)
next
  case (signal a st)
  then show ?thesis using signal_outcome by (simp add: outcome_def)
qed simp

text \<open>C14. An evaluation of a stored state gives a valid state of the same identity (subject, resource,
  endpoint, transport, revisions, identifier, creation time), and its revision is advanced by
  exactly one when it is to be written and untouched when it is not: the compare-and-swap of the
  store never sees a change without a new revision.\<close>

theorem graylist_revision:
  assumes "graylist_Evaluate dg wall inp = Inr r" "ei_Existing inp = Some st"
  shows "State_Validate dg (er_State r) = None \<and> state_key (er_State r) = state_key st \<and> gs_StateID (er_State r) = gs_StateID st
    \<and> gs_CreatedAt (er_State r) = gs_CreatedAt st
    \<and> gs_Revision (er_State r) = (if er_Changed r then next_revision (gs_Revision st) else gs_Revision st)"
proof -
  have "outcome dg st r"
    using assms(1)
  proof (cases rule: Evaluate_Inr)
    case (drift s)
    then show ?thesis using supersede_Inr(3)[of dg s _ _ r s] assms(2) by simp
  next
    case (timer s)
    then show ?thesis using settle_outcome[of dg _ inp _ s r s] assms(2) by simp
  next
    case (replay s a)
    then show ?thesis using assms(2) by (simp add: outcome_def)
  next
    case (signal a s)
    then show ?thesis using signal_outcome[OF signal(2,3)] assms(2) by simp
  qed
  then show ?thesis by (simp add: outcome_def same_identity_def)
qed

section \<open>What justifies an action\<close>

lemma state_shape: "State_Validate dg st = None \<Longrightarrow> evidence_shape (gs_EvidenceRefs st)"
  by (auto simp: State_Validate_def first_error_None evidence_shape_def valid_evidence_shape)

lemma add_signal_shape: "evidence_shape (gs_EvidenceRefs (add_signal p now a st))"
  by (simp add: add_signal_def Let_def canonical_evidence_shape(1))

lemma banded_desired:
  assumes "gs_DesiredAction (fst (banded p inp now st)) \<noteq> IntentObserve"
  shows "hasActiveStrongEvidence (gs_EvidenceRefs st) now"
    "gs_Lifecycle (fst (banded p inp now st)) = LifecycleActive"
    "gs_DesiredAction (fst (banded p inp now st)) = IntentSoftGraylist
     \<or> gs_DesiredAction (fst (banded p inp now st)) = IntentRateLimit \<and> gp_RateScore p \<le> gs_Score (fst (banded p inp now st))
       \<and> gp_RateConfidenceBP p \<le> gs_ConfidenceBP (fst (banded p inp now st))"
    "gs_DesiredAction (fst (banded p inp now st)) = IntentSoftGraylist \<Longrightarrow> gp_EnterScore p \<le> gs_Score (fst (banded p inp now st))"
  using assms by (auto simp: banded_def next_band_def Let_def split: if_splits)

lemma banded_frame [simp]:
  "gs_EvidenceRefs (fst (banded p inp now st)) = gs_EvidenceRefs st" "gs_ExpiresAt (fst (banded p inp now st)) = gs_ExpiresAt st"
  "gs_LastSignalAt (fst (banded p inp now st)) = gs_LastSignalAt st" "gs_EnteredAt (fst (banded p inp now st)) = gs_EnteredAt st"
  "gs_SelectedResponse (fst (banded p inp now st)) = IntentObserve" "gs_ConfidenceBP (fst (banded p inp now st)) = gs_ConfidenceBP st"
  by (simp_all add: banded_def Let_def split: prod.split)

lemma Evaluate_settled:
  assumes "graylist_Evaluate dg wall inp = Inr r" "er_Changed r" "gs_DesiredAction (er_State r) \<noteq> IntentObserve"
  shows "\<exists>st. precedence inp = None \<and> now_or wall (ei_Now inp) < gs_ExpiresAt st \<and> evidence_shape (gs_EvidenceRefs st)
    \<and> er_State r = canonical (fst (banded (effective_policy inp) inp (now_or wall (ei_Now inp)) st))"
proof -
  let ?now = "now_or wall (ei_Now inp)" and ?p = "effective_policy inp"
  have settled: "precedence inp = None \<and> ?now < gs_ExpiresAt st \<and> er_State r = canonical (fst (banded ?p inp ?now st))"
    if "settle dg ?p inp ?now st = Inr r" for st
    using that assms(2,3) supersede_Inr(2) expire_Inr(2)
    by (auto simp: settle_cases validated_Inr split: option.splits if_splits)
  show ?thesis
    using assms(1)
  proof (cases rule: Evaluate_Inr)
    case (drift st)
    then show ?thesis using supersede_Inr(2) assms(2,3) by blast
  next
    case (timer st)
    then show ?thesis using settled state_shape by blast
  next
    case (replay st a)
    then show ?thesis using assms(2) by simp
  next
    case (signal a st)
    then show ?thesis using settled absorb_Inr(1) add_signal_shape by metis
  qed
qed


section \<open>Weak and external evidence\<close>

text \<open>A stored state under a sequence of evaluations: a result that changed is written.\<close>

fun graylist_run :: "(state_key \<Rightarrow> string) \<Rightarrow> go_time \<Rightarrow> GraylistStateV2 option \<Rightarrow> EvaluateInput list \<Rightarrow> GraylistStateV2 option" where
  "graylist_run dg wall st [] = st"
| "graylist_run dg wall st (inp # inps) =
     (case graylist_Evaluate dg wall (inp\<lparr>ei_Existing := st\<rparr>) of
        Inl e \<Rightarrow> graylist_run dg wall st inps
      | Inr r \<Rightarrow> graylist_run dg wall (if er_Changed r then Some (er_State r) else st) inps)"

definition no_strong :: "GraylistStateV2 \<Rightarrow> bool" where
  "no_strong st \<longleftrightarrow> (\<forall>e\<in>set (gs_EvidenceRefs st). er_Class e \<noteq> EvidenceStrongTrusted) \<and> gs_DesiredAction st = IntentObserve
     \<and> gs_SelectedResponse st = IntentObserve"

lemma canonical_no_strong:
  assumes "\<forall>v\<in>set vs. er_Class v \<noteq> EvidenceStrongTrusted" "e \<in> set (CanonicalGraylistEvidenceRefs vs)"
  shows "er_Class e \<noteq> EvidenceStrongTrusted"
  using canonical_evidence_shape(2)[OF assms(2)] assms(1) by auto

lemma no_strong_canonical: "no_strong st \<Longrightarrow> no_strong (canonical st)"
  using canonical_no_strong[of "gs_EvidenceRefs st"] by (simp add: no_strong_def)

lemma no_strong_settle:
  assumes "settle dg p inp now st = Inr r" "no_strong st"
  shows "no_strong (er_State r)"
proof -
  have "\<not> hasActiveStrongEvidence (gs_EvidenceRefs st) now"
    using assms(2) by (auto simp: no_strong_def hasActiveStrongEvidence_def list_ex_iff)
  then have "no_strong (fst (banded p inp now st))"
    using banded_desired(1) assms(2) unfolding no_strong_def by (metis banded_frame(1,5))
  then show ?thesis
    using assms by (auto simp: settle_cases validated_Inr supersede_def expire_def no_strong_canonical split: option.splits if_splits)
      (auto simp: no_strong_def canonical_no_strong)
qed

lemma no_strong_Evaluate:
  assumes "graylist_Evaluate dg wall inp = Inr r" "\<And>st. ei_Existing inp = Some st \<Longrightarrow> no_strong st"
    and "\<And>a. ei_Accepted inp = Some a \<Longrightarrow> evidenceClass a \<noteq> EvidenceStrongTrusted"
  shows "no_strong (er_State r)"
  using assms(1)
proof (cases rule: Evaluate_Inr)
  case (drift st)
  then show ?thesis using assms(2)[of st]
    by (auto simp: supersede_def validated_Inr split: if_splits) (auto simp: no_strong_def canonical_no_strong)
next
  case (timer st)
  then show ?thesis using no_strong_settle assms(2) by blast
next
  case (replay st a)
  then show ?thesis using assms(2) by simp
next
  case (signal a st)
  have fresh: "no_strong (fresh_state dg p inp s)" for p s
    by (simp add: no_strong_def fresh_state_def State_FinalizeID_def)
  have re: "no_strong t \<Longrightarrow> no_strong (reenter p s t)" for p s t
    by (auto simp: no_strong_def reenter_def)
  have "no_strong t \<Longrightarrow> no_strong (add_signal p now a t)" for p now t
    using assms(3)[OF signal(1)] canonical_no_strong[of "gs_EvidenceRefs t @ [\<lparr>er_SignalID = ps_SignalID (as_Signal a),
      er_Class = evidenceClass a, er_ExpiresAt = ps_ExpiresAt (as_Signal a)\<rparr>]"]
    by (auto simp: no_strong_def add_signal_def Let_def)
  then have "no_strong st"
    using absorb_Inr(1)[OF signal(2)] fresh re assms(2) by (cases "ei_Existing inp") auto
  then show ?thesis using no_strong_settle signal(3) by blast
qed

lemma no_strong_run:
  assumes "\<forall>inp\<in>set inps. \<forall>a. ei_Accepted inp = Some a \<longrightarrow> evidenceClass a \<noteq> EvidenceStrongTrusted"
    and "\<And>s. st = Some s \<Longrightarrow> no_strong s" "graylist_run dg wall st inps = Some t"
  shows "no_strong t"
  using assms
proof (induction dg wall st inps rule: graylist_run.induct)
  case (2 dg wall st inp inps)
  show ?case
  proof (cases "graylist_Evaluate dg wall (inp\<lparr>ei_Existing := st\<rparr>)")
    case (Inl e)
    then show ?thesis using 2 by simp
  next
    case (Inr r)
    have "no_strong (er_State r)"
      using no_strong_Evaluate[OF Inr] 2(3,4) by simp
    then show ?thesis using "2.IH"(2)[OF Inr] 2(3-5) Inr by (auto split: if_splits)
  qed
qed simp

text \<open>C6. Weak and external evidence never escalates, however much of it arrives: a state built from any
  sequence of evaluations, at any times and with any failures between, whose signals are all weak
  or external asks for and selects nothing but observation.\<close>

theorem weak_evidence_observes:
  assumes "\<forall>inp\<in>set inps. \<forall>a. ei_Accepted inp = Some a \<longrightarrow> evidenceClass a \<noteq> EvidenceStrongTrusted"
    and "graylist_run dg wall None inps = Some st"
  shows "gs_DesiredAction st = IntentObserve \<and> gs_SelectedResponse st = IntentObserve"
  using no_strong_run[OF assms(1) _ assms(2)] by (simp add: no_strong_def)

section \<open>Replays\<close>

lemma refs_contain:
  assumes "sortedUniqueSHA256 refs" "ValidSHA256 i" "length refs < MaxGraylistSignalRefs"
  shows "i \<in> set (CanonicalSignalRefs (refs @ [i]))"
proof -
  let ?vs = "filter ValidSHA256 (map reason_form (refs @ [i]))"
  have form: "map reason_form refs = refs" using assms(1) by (intro map_idI) (auto simp: sortedUniqueSHA256_def list_all_iff)
  have "length (first_seen {} ?vs) \<le> length ?vs"
    by (metis distinct_card first_seen_distinct first_seen_set Diff_empty card_length)
  also have "\<dots> \<le> MaxGraylistSignalRefs" using assms(3) length_filter_le[of ValidSHA256 "map reason_form (refs @ [i])"] by simp
  finally have "CanonicalSignalRefs (refs @ [i]) = sort (first_seen {} ?vs)" by (simp add: CanonicalSignalRefs_def)
  then show ?thesis using assms(2) by (simp add: first_seen_set)
qed

lemma canonical_refs_id [simp]: "CanonicalSignalRefs (CanonicalSignalRefs vs) = CanonicalSignalRefs vs"
  using CanonicalSignalRefs_id CanonicalSignalRefs_ok by blast

lemma settle_refs:
  assumes "settle dg p inp now st = Inr r" "gs_SignalRefs st = CanonicalSignalRefs vs"
  shows "gs_SignalRefs (er_State r) = gs_SignalRefs st"
proof -
  have "gs_SignalRefs (fst (banded p inp now st)) = gs_SignalRefs st"
    by (simp add: banded_def Let_def split: prod.split)
  then show ?thesis
    using assms by (auto simp: settle_cases supersede_def expire_def validated_Inr canonical_def split: option.splits if_splits)
qed

lemma State_refs: "State_Validate dg st = None \<Longrightarrow> sortedUniqueSHA256 (gs_SignalRefs st)"
  by (simp add: State_Validate_def first_error_None)

lemma absorbed_refs:
  assumes "absorb dg p inp now ex a = Inr st" "\<And>s. ex = Some s \<Longrightarrow> State_Validate dg s = None" "ValidSHA256 (ps_SignalID (as_Signal a))"
  shows "ps_SignalID (as_Signal a) \<in> set (gs_SignalRefs st)" "\<exists>vs. gs_SignalRefs st = CanonicalSignalRefs vs"
proof -
  let ?s = "reenter p (as_Signal a) (case ex of None \<Rightarrow> fresh_state dg p inp (as_Signal a) | Some s \<Rightarrow> s)"
  have st: "st = add_signal p now a ?s" by (rule absorb_Inr(1)[OF assms(1)])
  have "length (gs_SignalRefs ?s) < MaxGraylistSignalRefs"
    using assms(1) by (auto simp: absorb_def Let_def split: if_splits option.splits)
  moreover have "sortedUniqueSHA256 (gs_SignalRefs ?s)"
    using State_refs[OF assms(2)] by (cases ex) (auto simp: reenter_def fresh_state_def State_FinalizeID_def sortedUniqueSHA256_def)
  ultimately show "ps_SignalID (as_Signal a) \<in> set (gs_SignalRefs st)"
    using refs_contain assms(3) by (simp add: st add_signal_def Let_def)
  show "\<exists>vs. gs_SignalRefs st = CanonicalSignalRefs vs" by (auto simp: st add_signal_def Let_def)
qed

lemma absorb_matches:
  assumes "absorb dg p inp now ex a = Inr st"
  shows "pv_PolicyRevision (ps_Provenance (as_Signal a)) = gp_Revision p
    \<and> ps_Subject (as_Signal a) = gs_Subject st \<and> sc_TargetResourceID (ps_Scope (as_Signal a)) = gs_ResourceID st
    \<and> sc_EndpointID (ps_Scope (as_Signal a)) = gs_EndpointID st \<and> sc_Transport (ps_Scope (as_Signal a)) = gs_Transport st"
  using assms absorb_Inr(1)[OF assms]
  by (auto simp: absorb_def Let_def add_signal_def reenter_def split: if_splits option.splits)


section \<open>Decay\<close>

lemma timer_banded:
  assumes "graylist_Evaluate dg wall inp = Inr r" "ei_Existing inp = Some st" "ei_Accepted inp = None"
    and "gs_Lifecycle (er_State r) \<noteq> LifecycleExpired" "gs_Lifecycle (er_State r) \<noteq> LifecycleSuperseded"
  shows "gs_Score (er_State r) = decayedScore (gs_Score st) (gs_LastSignalAt st) (now_or wall (ei_Now inp)) (effective_policy inp)
    \<and> gs_LastSignalAt (er_State r) = gs_LastSignalAt st \<and> gs_EnteredAt (er_State r) = gs_EnteredAt st
    \<and> gs_ExpiresAt (er_State r) = gs_ExpiresAt st \<and> now_or wall (ei_Now inp) < gs_ExpiresAt st
    \<and> State_Validate dg st = None \<and> PolicyV2_Validate (effective_policy inp) = None"
proof -
  let ?p = "effective_policy inp" and ?now = "now_or wall (ei_Now inp)"
  have pol: "PolicyV2_Validate ?p = None" and v: "State_Validate dg st = None"
    using assms(1,2) by (auto simp: graylist_Evaluate_def Let_def split: option.splits if_splits)
  have "settle dg ?p inp ?now st = Inr r"
    using assms(1)
  proof (cases rule: Evaluate_Inr)
    case (drift s)
    then show ?thesis using supersede_Inr(1) assms(5) by blast
  qed (use assms in auto)
  then have "?now < gs_ExpiresAt st \<and> er_State r = canonical (fst (banded ?p inp ?now st))"
    using assms(4,5) supersede_Inr(1) expire_Inr(1)
    by (auto simp: settle_cases validated_Inr split: option.splits if_splits)
  moreover have "gs_Score (fst (banded ?p inp ?now st)) = decayedScore (gs_Score st) (gs_LastSignalAt st) ?now ?p"
    by (simp add: banded_def Let_def split: prod.split)
  ultimately show ?thesis using pol v by simp
qed


section \<open>Timers\<close>

text \<open>What it takes for an updated state to be valid, given that the old one is.\<close>

lemma updated_valid:
  assumes old: "State_Validate dg st = None" and id: "same_identity s st"
    and same: "gs_SignalRefs s = gs_SignalRefs st" "gs_EvidenceRefs s = gs_EvidenceRefs st" "gs_SourceClasses s = gs_SourceClasses st"
      "gs_ConfidenceBP s = gs_ConfidenceBP st"
    and rev: "gs_Revision s \<noteq> 0" and score: "0 \<le> gs_Score s" "gs_Score s \<le> 100"
    and reasons: "list_all (\<lambda>v. ValidContractID v 64) (gs_ReasonCodes s)" and times: "valid_state_times s"
    and intents: "validIntent (gs_SelectedResponse s)" "validIntent (gs_DesiredAction s)"
    and band: "known_band (gs_Band s)" "known_lifecycle (gs_Lifecycle s)"
      "gs_Band s = BandCooldown \<Longrightarrow> gs_Lifecycle s \<in> {LifecycleCooldown, LifecycleExpired, LifecycleSuperseded}"
    and actual: "gs_ActualActionState s = ''NOT_APPLIED'' \<and> gs_AppliedActionRefID s = ''''
      \<or> gs_ActualActionState s = gs_ActualActionState st \<and> gs_AppliedActionRefID s = gs_AppliedActionRefID st"
  shows "State_Validate dg (canonical s) = None"
proof -
  have old': "gs_Schema st = GraylistStateSchemaV2" "ValidSHA256 (gs_StateID st)" "ValidContractID (gs_ResourceID st) 256"
    "ValidContractID (gs_EndpointID st) 256" "gs_Transport st = ''tcp'' \<or> gs_Transport st = ''udp''"
    "ValidContractID (gs_PolicyRevision st) 128" "ValidContractID (gs_StrategyRevision st) 128" "ValidContractID (gs_CapabilityRevision st) 128"
    "dg (state_key st) = gs_StateID st" "validateSubject (gs_Subject st) = None"
    "0 \<le> gs_ConfidenceBP st" "gs_ConfidenceBP st \<le> 10000" "gs_SourceClasses st \<noteq> []" "length (gs_SourceClasses st) \<le> 2"
    "sortedUniqueStrings (gs_SourceClasses st)" "list_all (\<lambda>c. c = ''external'' \<or> c = ''native'') (gs_SourceClasses st)"
    "valid_evidence (gs_EvidenceRefs st)" "length (gs_EvidenceRefs st) \<le> MaxGraylistSignalRefs"
    using old by (auto simp: State_Validate_def first_error_None State_FinalizeID_def)
  have act: "gs_ActualActionState s \<in> {''NOT_APPLIED'', ''APPLIED'', ''EXPIRED'', ''ROLLED_BACK''}"
    "if gs_ActualActionState s = ''APPLIED'' then ValidSHA256 (gs_AppliedActionRefID s) else gs_AppliedActionRefID s = ''''"
    using old actual by (auto simp: State_Validate_def first_error_None split: if_splits)
  have key: "state_key s = state_key st" "gs_StateID s = gs_StateID st" "gs_Schema s = gs_Schema st" "gs_CreatedAt s = gs_CreatedAt st"
    using id by (simp_all add: same_identity_def)
  have ev: "CanonicalGraylistEvidenceRefs (gs_EvidenceRefs st) = gs_EvidenceRefs st"
    using state_shape[OF old] canonical_evidence_id by simp
  have t: "valid_state_times (canonical s)" using times by (simp add: valid_state_times_def canonical_def)
  have k: "state_key (canonical s) = state_key s" by (simp add: state_key_def canonical_def)
  show ?thesis
    using old' act key ev t k rev score intents band same CanonicalSignalRefs_ok[of "gs_SignalRefs st"]
      CanonicalBoundedReasons_ok[OF reasons]
    unfolding State_Validate_def first_error_None
    by (auto simp: canonical_def State_FinalizeID_def state_key_def)
qed

lemma next_revision_pos: "0 \<le> r \<Longrightarrow> r + 1 < 2 ^ 64 \<Longrightarrow> next_revision r \<noteq> 0"
  by (simp add: next_revision_def)

lemma appended_reasons:
  assumes "State_Validate dg st = None" "ValidContractID reason 64"
  shows "list_all (\<lambda>v. ValidContractID v 64) (CanonicalBoundedReasons (gs_ReasonCodes st @ [reason]))"
proof -
  have "list_all (\<lambda>v. ValidContractID v 64) (gs_ReasonCodes st @ [reason])"
    using assms by (auto simp: State_Validate_def first_error_None validateReasonCodes_def maxReasonCodeBytes_def)
  then show ?thesis using CanonicalBoundedReasons_ok(1) by (simp add: validateReasonCodes_def maxReasonCodeBytes_def)
qed

lemma old_facts:
  assumes "State_Validate dg st = None"
  shows "valid_state_times st" "list_all (\<lambda>v. ValidContractID v 64) (gs_ReasonCodes st)" "0 \<le> gs_Score st" "gs_Score st \<le> 100"
    "known_band (gs_Band st)" "known_lifecycle (gs_Lifecycle st)" "gs_Revision st \<noteq> 0"
    "gs_Band st = BandCooldown \<Longrightarrow> gs_Lifecycle st \<in> {LifecycleCooldown, LifecycleExpired, LifecycleSuperseded}"
  using assms by (auto simp: State_Validate_def first_error_None validateReasonCodes_def maxReasonCodeBytes_def)

lemma supersede_total:
  assumes "State_Validate dg st = None" "ValidContractID reason 64" "0 < now" "0 \<le> gs_Revision st" "gs_Revision st + 1 < 2 ^ 64"
  shows "\<exists>r. supersede dg st now reason = Inr r"
proof -
  let ?s = "st\<lparr>gs_Lifecycle := LifecycleSuperseded, gs_SelectedResponse := IntentObserve,
             gs_DesiredAction := IntentObserve, gs_ActualActionState := ''NOT_APPLIED'', gs_AppliedActionRefID := '''',
             gs_ReasonCodes := CanonicalBoundedReasons (gs_ReasonCodes st @ [reason]),
             gs_UpdatedAt := maxTime now (gs_LastSignalAt st), gs_Revision := next_revision (gs_Revision st)\<rparr>"
  note o = old_facts[OF assms(1)]
  have "State_Validate dg (canonical ?s) = None"
    using o appended_reasons[OF assms(1,2)] next_revision_pos assms(3-5)
    by (intro updated_valid[OF assms(1)]) (auto simp: same_identity_def state_key_def valid_state_times_def time_is_zero_def maxTime_def)
  then show ?thesis by (auto simp: supersede_def validated_Inr)
qed

lemma expire_total:
  assumes "State_Validate dg st = None" "0 < now" "gs_LastSignalAt st \<le> now" "0 \<le> gs_Revision st" "gs_Revision st + 1 < 2 ^ 64"
  shows "\<exists>r. expire dg now st = Inr r"
proof -
  let ?s = "st\<lparr>gs_Band := BandCooldown, gs_Lifecycle := LifecycleExpired, gs_SelectedResponse := IntentObserve,
             gs_DesiredAction := IntentObserve, gs_UpdatedAt := now, gs_Revision := next_revision (gs_Revision st),
             gs_ReasonCodes := CanonicalBoundedReasons (gs_ReasonCodes st @ [''exact_expiry''])\<rparr>"
  have "ValidContractID ''exact_expiry'' 64" by code_simp
  note o = old_facts[OF assms(1)] and rs = appended_reasons[OF assms(1) this]
  have "State_Validate dg (canonical ?s) = None"
    using o rs next_revision_pos assms(2-5)
    by (intro updated_valid[OF assms(1)]) (auto simp: same_identity_def state_key_def valid_state_times_def time_is_zero_def)
  then show ?thesis by (auto simp: expire_def validated_Inr)
qed

lemma banded_total:
  assumes "State_Validate dg st = None" "PolicyV2_Validate p = None" "0 < now" "0 \<le> gs_Revision st" "gs_Revision st + 1 < 2 ^ 64"
  shows "State_Validate dg (canonical (fst (banded p inp now st))) = None"
proof -
  let ?e = "decayedScore (gs_Score st) (gs_LastSignalAt st) now p"
  note o = old_facts[OF assms(1)]
  have e: "0 \<le> ?e" "?e \<le> 100"
  proof -
    have p: "0 \<le> gp_MaxScore p" "gp_MaxScore p \<le> 100" "0 < gp_DecayInterval p"
      using assms(2) by (auto simp: PolicyV2_Validate_def)
    have "0 \<le> time_sub now (gs_LastSignalAt st) div gp_DecayInterval p" if "gs_LastSignalAt st < now"
      using that p(3) by (simp add: pos_imp_zdiv_nonneg_iff time_sub_def int64_min_def int64_max_def)
    then show "0 \<le> ?e" "?e \<le> 100" using p o(3) by (auto simp: decayedScore_def min_def max_def)
  qed
  have t: "valid_state_times (fst (banded p inp now st))"
    using o(1) assms(3) by (auto simp: banded_def Let_def valid_state_times_def time_is_zero_def maxTime_def split: prod.splits)
  have b: "known_band b \<and> known_lifecycle l \<and> validIntent d
      \<and> (b = BandCooldown \<longrightarrow> l \<in> {LifecycleCooldown, LifecycleExpired, LifecycleSuperseded})"
    if "next_band p now ?e st = (b, l, d)" for b l d
    using that o by (auto simp: next_band_def split: if_splits)
  show ?thesis
    using o e t b next_revision_pos[OF assms(4,5)]
    by (intro updated_valid[OF assms(1)])
       (auto simp: banded_same banded_def Let_def same_identity_def state_key_def split: prod.splits)
qed


section \<open>An example\<close>

definition demo_key_digest :: "state_key \<Rightarrow> string" where
  "demo_key_digest k = replicate 64 CHR ''a''"

definition demo_protection_signal :: "string \<Rightarrow> go_time \<Rightarrow> ProtectionSignalV2" where
  "demo_protection_signal i at =
     \<lparr>ps_Schema = ProtectionSignalSchemaV2, ps_SignalID = i,
      ps_Source = \<lparr>so_SourceID = ''s'', so_Producer = ''p'', so_ProducerVersion = ''1'', so_TrustClass = ''t'', so_SourceClass = ''native''\<rparr>,
      ps_Category = CatConnectionMetadata, ps_Kind = ''fallback_hit'', ps_KnownKind = True,
      ps_Subject = \<lparr>sj_Type = ''ip'', sj_Value = ''192.0.2.7''\<rparr>,
      ps_Scope = \<lparr>sc_Scope = ScopeEndpoint, sc_TargetResourceID = ''r'', sc_EndpointID = ''e'', sc_Transport = ''tcp''\<rparr>,
      ps_ObservedAt = at, ps_ExpiresAt = at + hour, ps_ConfidenceBP = 6000, ps_SafeMeta = [],
      ps_Provenance = \<lparr>pv_AdapterID = ''a'', pv_IntegrationID = '''', pv_ExternalIDHash = '''', pv_SourceRevision = ''1'',
        pv_PolicyRevision = ''graylist-policy-v2'', pv_ObservationWindowID = ''w'', pv_EvidenceRefIDs = []\<rparr>,
      ps_ReasonCodes = []\<rparr>"

definition demo_accepted :: "string \<Rightarrow> go_time \<Rightarrow> int \<Rightarrow> GraylistEvidenceClassV2 \<Rightarrow> AcceptedSignal" where
  "demo_accepted i at delta cls =
     \<lparr>as_Signal = demo_protection_signal i at, as_Delta = delta, as_Weak = False, as_EvidenceClass = cls\<rparr>"

definition demo_evaluation :: "GraylistStateV2 option \<Rightarrow> AcceptedSignal option \<Rightarrow> go_time \<Rightarrow> EvaluateInput" where
  "demo_evaluation existing accepted now =
     \<lparr>ei_Existing = existing, ei_Accepted = accepted, ei_Policy = DefaultPolicyV2, ei_StrategyRevision = ''s1'',
      ei_CapabilityRevision = ''c1'', ei_Allowlisted = False, ei_Management = False, ei_RecoveryProtected = False,
      ei_TrustedSource = False, ei_ManualClear = False, ei_Now = now\<rparr>"

definition demo_graylisted :: GraylistStateV2 where
  "demo_graylisted =
     \<lparr>gs_Schema = GraylistStateSchemaV2, gs_StateID = replicate 64 CHR ''a'', gs_Revision = 2,
      gs_Subject = \<lparr>sj_Type = ''ip'', sj_Value = ''192.0.2.7''\<rparr>, gs_ResourceID = ''r'', gs_EndpointID = ''e'', gs_Transport = ''tcp'',
      gs_Score = 42, gs_ConfidenceBP = 6000, gs_PolicyRevision = ''graylist-policy-v2'', gs_StrategyRevision = ''s1'',
      gs_CapabilityRevision = ''c1'', gs_SignalRefs = [replicate 64 CHR ''b''],
      gs_EvidenceRefs = [\<lparr>er_SignalID = replicate 64 CHR ''b'', er_Class = EvidenceStrongTrusted, er_ExpiresAt = 1 + hour\<rparr>],
      gs_SourceClasses = [''native''], gs_Band = BandRateCandidate, gs_Lifecycle = LifecycleActive, gs_EnteredAt = 1,
      gs_LastSignalAt = 1, gs_ExpiresAt = 1 + hour, gs_SelectedResponse = IntentObserve, gs_DesiredAction = IntentRateLimit,
      gs_ActualActionState = ''NOT_APPLIED'', gs_AppliedActionRefID = '''', gs_ReasonCodes = [], gs_CreatedAt = 1, gs_UpdatedAt = 2\<rparr>"

lemma demo_first:
  "graylist_Evaluate demo_key_digest 0 (demo_evaluation None (Some (demo_accepted (replicate 64 CHR ''b'') 1 42 EvidenceStrongTrusted)) 2)
     = Inr \<lparr>er_State = demo_graylisted, er_Changed = True\<rparr>"
  by code_simp

lemma demo_valid: "State_Validate demo_key_digest demo_graylisted = None"
  by code_simp

definition demo_cooled :: GraylistStateV2 where
  "demo_cooled =
     \<lparr>gs_Schema = GraylistStateSchemaV2, gs_StateID = replicate 64 CHR ''a'', gs_Revision = 3,
      gs_Subject = \<lparr>sj_Type = ''ip'', sj_Value = ''192.0.2.7''\<rparr>, gs_ResourceID = ''r'', gs_EndpointID = ''e'', gs_Transport = ''tcp'',
      gs_Score = 39, gs_ConfidenceBP = 6000, gs_PolicyRevision = ''graylist-policy-v2'', gs_StrategyRevision = ''s1'',
      gs_CapabilityRevision = ''c1'', gs_SignalRefs = [replicate 64 CHR ''b''],
      gs_EvidenceRefs = [\<lparr>er_SignalID = replicate 64 CHR ''b'', er_Class = EvidenceStrongTrusted, er_ExpiresAt = 1 + hour\<rparr>],
      gs_SourceClasses = [''native''], gs_Band = BandGraylist, gs_Lifecycle = LifecycleActive, gs_EnteredAt = 1,
      gs_LastSignalAt = 1, gs_ExpiresAt = 1 + hour, gs_SelectedResponse = IntentObserve, gs_DesiredAction = IntentSoftGraylist,
      gs_ActualActionState = ''NOT_APPLIED'', gs_AppliedActionRefID = '''', gs_ReasonCodes = [], gs_CreatedAt = 1, gs_UpdatedAt = 1800000000001\<rparr>"

lemma demo_second:
  "graylist_Evaluate demo_key_digest 0 (demo_evaluation (Some demo_graylisted) None (1 + 30 * minute))
     = Inr \<lparr>er_State = demo_cooled, er_Changed = True\<rparr>"
  by code_simp

lemma demo_third:
  "\<exists>r. graylist_Evaluate demo_key_digest 0 (demo_evaluation (Some demo_cooled) None (1 + 31 * minute)) = Inr r
     \<and> gs_Score (er_State r) = 36 \<and> gs_Lifecycle (er_State r) = LifecycleActive"
proof -
  let ?now = "1 + 31 * minute" and ?inp = "demo_evaluation (Some demo_cooled) None (1 + 31 * minute)"
  have v: "State_Validate demo_key_digest demo_cooled = None" by code_simp
  have ok: "PolicyV2_Validate DefaultPolicyV2 = None" "ValidContractID ''s1'' 128" "ValidContractID ''c1'' 128"
    "\<not> revision_drift demo_cooled DefaultPolicyV2 ?inp" "precedence ?inp = None" "now_or 0 ?now = ?now" "?now < gs_ExpiresAt demo_cooled"
    by code_simp+
  have b: "gs_Score (fst (banded DefaultPolicyV2 ?inp ?now demo_cooled)) = 36"
    "gs_Lifecycle (fst (banded DefaultPolicyV2 ?inp ?now demo_cooled)) = LifecycleActive" by code_simp+
  have "State_Validate demo_key_digest (canonical (fst (banded DefaultPolicyV2 ?inp ?now demo_cooled))) = None"
    using banded_total[OF v ok(1)] by (simp add: demo_cooled_def minute_def)
  moreover have "graylist_Evaluate demo_key_digest 0 ?inp = settle demo_key_digest DefaultPolicyV2 ?inp ?now demo_cooled"
    using v ok by (simp add: graylist_Evaluate_def demo_evaluation_def DefaultPolicyV2_def Let_def)
  ultimately show ?thesis using ok(5,7) b by (simp add: settle_cases validated_Inr)
qed

theorem graylist_revision_witness:
  "gs_Revision demo_cooled = next_revision (gs_Revision demo_graylisted) \<and> gs_StateID demo_cooled = gs_StateID demo_graylisted"
  using graylist_revision[OF demo_second] by (simp add: demo_evaluation_def)


theorem weak_evidence_observes_witness:
  "\<exists>st. graylist_run demo_key_digest 0 None
       [demo_evaluation None (Some (demo_accepted (replicate 64 CHR ''b'') 1 42 EvidenceWeak)) 2] = Some st
     \<and> gs_DesiredAction st = IntentObserve"
proof -
  let ?inps = "[demo_evaluation None (Some (demo_accepted (replicate 64 CHR ''b'') 1 42 EvidenceWeak)) 2]"
  have "graylist_run demo_key_digest 0 None ?inps \<noteq> None" by code_simp
  then obtain st where st: "graylist_run demo_key_digest 0 None ?inps = Some st" by blast
  have "\<forall>inp\<in>set ?inps. \<forall>a. ei_Accepted inp = Some a \<longrightarrow> evidenceClass a \<noteq> EvidenceStrongTrusted"
    by (simp add: demo_evaluation_def demo_accepted_def evidenceClass_def)
  from weak_evidence_observes[OF this st] st show ?thesis by blast
qed




end
