(* ===== verification/Protection_Response.thy ===== *)
theory Protection_Response
  imports Protection_Graylist
begin

text \<open>
  Decisions and responses of the server-protection component: the decision resolvers
  (\<^verbatim>\<open>src/components/server-protection/service/decision/scoped.go\<close>), the response resolver
  (\<^verbatim>\<open>service/response/resolver.go\<close>) and the admission-to-response pipeline
  (\<^verbatim>\<open>service/graylist/pipeline.go\<close>).
\<close>

section \<open>Planned responses\<close>

record PlannedResponseV2 =
  pr_Schema :: string
  pr_ResponseID :: string
  pr_DecisionID :: string
  pr_ResourceID :: string
  pr_EndpointID :: string
  pr_Subject :: SignalSubjectV2
  pr_DesiredIntent :: ResponseIntent
  pr_SelectedIntent :: ResponseIntent
  pr_PolicyRevision :: string
  pr_Binding :: DecisionRevisionBindingV2
  pr_ActualState :: string
  pr_ReasonCodes :: "string list"
  pr_CreatedAt :: go_time
  pr_ExpiresAt :: go_time

definition response_key :: "PlannedResponseV2 \<Rightarrow> PlannedResponseV2" where
  "response_key v = v\<lparr>pr_Schema := '''', pr_ResponseID := '''', pr_ActualState := '''', pr_ReasonCodes := []\<rparr>"

definition Response_FinalizeID :: "(PlannedResponseV2 \<Rightarrow> string) \<Rightarrow> PlannedResponseV2 \<Rightarrow> PlannedResponseV2" where
  "Response_FinalizeID dg v = v\<lparr>pr_ResponseID := dg (response_key v)\<rparr>"

definition Response_Validate :: "(PlannedResponseV2 \<Rightarrow> string) \<Rightarrow> PlannedResponseV2 \<Rightarrow> string option" where
  "Response_Validate dg v = first_error
     [failing (pr_Schema v \<noteq> PlannedResponseSchemaV2 \<or> \<not> ValidSHA256 (pr_ResponseID v) \<or> \<not> ValidSHA256 (pr_DecisionID v)
        \<or> \<not> ValidContractID (pr_ResourceID v) 256 \<or> \<not> ValidContractID (pr_EndpointID v) 256
        \<or> \<not> ValidContractID (pr_PolicyRevision v) 128 \<or> \<not> valid_binding (pr_Binding v) \<or> pr_ActualState v \<noteq> ''NOT_APPLIED''
        \<or> \<not> validIntent (pr_DesiredIntent v) \<or> \<not> validIntent (pr_SelectedIntent v)
        \<or> \<not> validateReasonCodes (pr_ReasonCodes v) \<or> \<not> sortedUniqueStrings (pr_ReasonCodes v)
        \<or> time_is_zero (pr_CreatedAt v) \<or> time_is_zero (pr_ExpiresAt v) \<or> \<not> pr_ExpiresAt v > pr_CreatedAt v
        \<or> pr_ExpiresAt v > pr_CreatedAt v + 24 * hour) ''planned response is invalid'',
      validateSubject (pr_Subject v),
      failing (pr_ResponseID (Response_FinalizeID dg v) \<noteq> pr_ResponseID v) ''planned response identity does not match immutable facts'']"

section \<open>Policy decisions\<close>

record EscalationPolicyV1 =
  ep_Revision :: string
  ep_GraylistScore :: int
  ep_RateLimitScore :: int
  ep_QuarantineScore :: int
  ep_TemporaryBlockScore :: int
  ep_RateConfidenceBP :: int
  ep_StrongConfidenceBP :: int
  ep_DecisionTTL :: duration

definition DefaultEscalationPolicyV1 :: EscalationPolicyV1 where
  "DefaultEscalationPolicyV1 = \<lparr>ep_Revision = ''endpoint-baseline-default-v1'', ep_GraylistScore = 20, ep_RateLimitScore = 40,
     ep_QuarantineScore = 70, ep_TemporaryBlockScore = 90, ep_RateConfidenceBP = 5000, ep_StrongConfidenceBP = 8000,
     ep_DecisionTTL = hour\<rparr>"

definition validateEscalationPolicy :: "EscalationPolicyV1 \<Rightarrow> string option" where
  "validateEscalationPolicy v = failing
     (\<not> ValidContractID (ep_Revision v) 128 \<or> ep_GraylistScore v < 0 \<or> ep_RateLimitScore v \<le> ep_GraylistScore v
      \<or> ep_QuarantineScore v \<le> ep_RateLimitScore v \<or> ep_TemporaryBlockScore v \<le> ep_QuarantineScore v
      \<or> ep_RateConfidenceBP v < 0 \<or> ep_RateConfidenceBP v > ep_StrongConfidenceBP v \<or> ep_StrongConfidenceBP v > 10000
      \<or> ep_DecisionTTL v \<le> 0 \<or> ep_DecisionTTL v > 24 * hour) ''escalation policy is invalid''"

definition policyIntent :: "int \<Rightarrow> int \<Rightarrow> EscalationPolicyV1 \<Rightarrow> ResponseIntent \<times> string list" where
  "policyIntent score confidence p =
     (if score \<ge> ep_TemporaryBlockScore p \<and> confidence \<ge> ep_StrongConfidenceBP p
        then (IntentTemporaryBlock, [''score_temporary_block''])
      else if score \<ge> ep_QuarantineScore p \<and> confidence \<ge> ep_StrongConfidenceBP p
        then (IntentTemporaryQuarantine, [''score_temporary_quarantine''])
      else if score \<ge> ep_RateLimitScore p \<and> confidence \<ge> ep_RateConfidenceBP p
        then (IntentRateLimit, [''score_rate_limit''])
      else if score \<ge> ep_GraylistScore p then (IntentSoftGraylist, [''score_soft_graylist''])
      else (IntentObserve, [''score_observe'']))"

record ScopedDecisionInput =
  sd_Subject :: SignalSubjectV2
  sd_Scope :: SignalScopeV2
  sd_Signals :: "ProtectionSignalV2 list"
  sd_Score :: ScoreSnapshotV2
  sd_AllowlistResult :: PolicyCheckV2
  sd_RecoveryResult :: PolicyCheckV2
  sd_RevisionBinding :: DecisionRevisionBindingV2
  sd_Policy :: EscalationPolicyV1
  sd_Now :: go_time

definition unresolved :: CapabilityResolutionV2 where
  "unresolved = \<lparr>cr_Implemented = False, cr_ResolvedIntent = IntentObserve, cr_ReasonCodes = [''capability_unavailable'']\<rparr>"

definition unresolved_with :: "string list \<Rightarrow> CapabilityResolutionV2" where
  "unresolved_with reasons = \<lparr>cr_Implemented = False, cr_ResolvedIntent = IntentObserve, cr_ReasonCodes = reasons\<rparr>"

text \<open>The loop over the signals of a decision: the references, the source classes and the least
  confidence, or the first error.\<close>

fun collect_signals :: "ScopedDecisionInput \<Rightarrow> go_time \<Rightarrow> ProtectionSignalV2 list \<Rightarrow> string list \<Rightarrow> string list \<Rightarrow> int
    \<Rightarrow> string + (string list \<times> string list \<times> int)" where
  "collect_signals inp now [] refs sources confidence = Inr (refs, sources, confidence)"
| "collect_signals inp now (s # ss) refs sources confidence =
     (if Signal_Validate now s \<noteq> None \<or> \<not> ps_ExpiresAt s > now \<or> \<not> ps_KnownKind s
      then Inl ''decision input contains an invalid or stale signal''
      else if ps_Subject s \<noteq> sd_Subject inp \<or> ps_Scope s \<noteq> sd_Scope inp
      then Inl ''decision input crosses subject or endpoint scope''
      else collect_signals inp now ss (refs @ [ps_SignalID s])
             (if so_SourceClass (ps_Source s) \<in> set sources then sources else sources @ [so_SourceClass (ps_Source s)])
             (if ps_ConfidenceBP s < confidence then ps_ConfidenceBP s else confidence))"

definition validated_decision :: "(ProtectionDecisionV2 \<Rightarrow> string) \<Rightarrow> go_time \<Rightarrow> ProtectionDecisionV2 \<Rightarrow> string + ProtectionDecisionV2" where
  "validated_decision dg now d0 =
     (let d = Decision_FinalizeID dg d0
      in case Decision_Validate dg now d of Some e \<Rightarrow> Inl e | None \<Rightarrow> Inr d)"

definition ResolveScopedDecision :: "(ProtectionDecisionV2 \<Rightarrow> string) \<Rightarrow> go_time \<Rightarrow> ScopedDecisionInput \<Rightarrow> string + ProtectionDecisionV2" where
  "ResolveScopedDecision dg wall inp =
     (let now = now_or wall (sd_Now inp);
          p = (if ep_Revision (sd_Policy inp) = '''' then DefaultEscalationPolicyV1 else sd_Policy inp)
      in case validateEscalationPolicy p of Some e \<Rightarrow> Inl e | None \<Rightarrow>
         if sc_Scope (sd_Scope inp) \<noteq> ScopeEndpoint \<or> sc_TargetResourceID (sd_Scope inp) = ''''
            \<or> sc_EndpointID (sd_Scope inp) = '''' \<or> sc_Transport (sd_Scope inp) = ''''
         then Inl ''firewall baseline automatic decisions require one exact endpoint scope''
         else case collect_signals inp now (sd_Signals inp) [] [] 10000 of Inl e \<Rightarrow> Inl e | Inr (refs, sources, confidence) \<Rightarrow>
           if refs = [] then Inl ''decision requires at least one scoped signal''
           else let (intent, reasons) = policyIntent (sn_Score (sd_Score inp)) confidence p;
                    (intent, reasons) = (if pc_Result (sd_AllowlistResult inp) \<noteq> ''deny''
                      then (IntentObserve, reasons @ [''allowlist_not_cleared'']) else (intent, reasons));
                    (intent, reasons) = (if pc_Result (sd_RecoveryResult inp) \<noteq> ''allow''
                      then (IntentObserve, reasons @ [''recovery_precedence'']) else (intent, reasons));
                    created = (if time_is_zero (sn_CapturedAt (sd_Score inp)) then now else sn_CapturedAt (sd_Score inp));
                    expires = (if created + ep_DecisionTTL p > created + 24 * hour then created + 24 * hour
                               else created + ep_DecisionTTL p)
                in if \<not> expires > now then Inl ''decision score snapshot is already expired''
                   else validated_decision dg now
                     \<lparr>pd_Schema = ProtectionDecisionSchemaV2, pd_DecisionID = '''', pd_PolicyRevision = ep_Revision p,
                      pd_Binding = sd_RevisionBinding inp, pd_Subject = sd_Subject inp, pd_Scope = sd_Scope inp,
                      pd_TargetResourceIDs = [sc_TargetResourceID (sd_Scope inp)], pd_SignalRefs = sort refs,
                      pd_SourceClasses = sort sources, pd_ScoreSnapshot = sd_Score inp, pd_ConfidenceBP = confidence,
                      pd_ReasonCodes = NormalizeActionReasons reasons, pd_RequestedIntent = intent, pd_CreatedAt = created,
                      pd_ExpiresAt = expires, pd_AllowlistResult = sd_AllowlistResult inp, pd_RecoveryResult = sd_RecoveryResult inp,
                      pd_CapabilityResolution = unresolved, pd_State = DecisionCandidate\<rparr>)"

definition ResolveGraylistState :: "(state_key \<Rightarrow> string) \<Rightarrow> (ProtectionDecisionV2 \<Rightarrow> string) \<Rightarrow> go_time \<Rightarrow> GraylistStateV2
    \<Rightarrow> PolicyCheckV2 \<Rightarrow> PolicyCheckV2 \<Rightarrow> DecisionRevisionBindingV2 \<Rightarrow> go_time \<Rightarrow> string + ProtectionDecisionV2" where
  "ResolveGraylistState sdg dg wall state allowlist recovery binding now0 =
     (let now = now_or wall now0 in
      case State_Validate sdg state of Some e \<Rightarrow> Inl e | None \<Rightarrow>
      if gs_Lifecycle state = LifecycleExpired \<or> gs_Lifecycle state = LifecycleSuperseded \<or> gs_Lifecycle state = LifecycleLegacyStale
      then Inl ''terminal or legacy graylist state is not decision-actionable''
      else let (intent, reasons) = (if pc_Result allowlist \<noteq> ''deny'' then (IntentObserve, gs_ReasonCodes state @ [''allowlist_precedence''])
                                    else (gs_DesiredAction state, gs_ReasonCodes state));
               (intent, reasons) = (if pc_Result recovery \<noteq> ''allow'' then (IntentObserve, reasons @ [''recovery_precedence''])
                                    else (intent, reasons));
               created = gs_UpdatedAt state; expires = gs_ExpiresAt state
           in if \<not> expires > created then Inl ''graylist state has no current decision lifetime''
              else validated_decision dg now
                \<lparr>pd_Schema = ProtectionDecisionSchemaV2, pd_DecisionID = '''', pd_PolicyRevision = gs_PolicyRevision state,
                 pd_Binding = binding, pd_Subject = gs_Subject state,
                 pd_Scope = \<lparr>sc_Scope = ScopeEndpoint, sc_TargetResourceID = gs_ResourceID state,
                   sc_EndpointID = gs_EndpointID state, sc_Transport = gs_Transport state\<rparr>,
                 pd_TargetResourceIDs = [gs_ResourceID state], pd_SignalRefs = gs_SignalRefs state,
                 pd_SourceClasses = gs_SourceClasses state,
                 pd_ScoreSnapshot = \<lparr>sn_Score = gs_Score state, sn_TargetGroup = gs_ResourceID state, sn_CapturedAt = created\<rparr>,
                 pd_ConfidenceBP = gs_ConfidenceBP state, pd_ReasonCodes = NormalizeActionReasons reasons,
                 pd_RequestedIntent = intent, pd_CreatedAt = created, pd_ExpiresAt = expires, pd_AllowlistResult = allowlist,
                 pd_RecoveryResult = recovery, pd_CapabilityResolution = unresolved, pd_State = DecisionCandidate\<rparr>)"

section \<open>The response resolver\<close>

datatype ManagementGuardState = GuardNotApplicable | GuardAllowed | GuardProtected | GuardUnknown | GuardOther string

record ManagementGuardResult =
  mg_State :: ManagementGuardState
  mg_ProtectedEndpointIDs :: "string list"
  mg_FreshRecoveryPathIDs :: "string list"
  mg_UnaffectedRecoveryPathIDs :: "string list"
  mg_TrustedSourceMatched :: bool
  mg_ActionAllowed :: bool
  mg_ReasonCodes :: "string list"

record StrategyCapability =
  sy_Strategy :: string
  sy_Intent :: ResponseIntent
  sy_Implemented :: bool
  sy_RequiresApply :: bool
  sy_ReasonCodes :: "string list"
  sy_Facts :: StrategyActionCapabilityV2

record ResolveInput =
  ri_Decision :: ProtectionDecisionV2
  ri_Strategy :: string
  ri_Capability :: StrategyActionCapabilityV2
  ri_ActionScopeRevision :: string
  ri_EndpointRevision :: string
  ri_ResourceRevision :: string
  ri_ConfigurationRevision :: string
  ri_BaselineApplyBlocked :: bool
  ri_EndpointKnown :: bool
  ri_Guard :: ManagementGuardResult
  ri_Now :: go_time

record Resolution =
  re_Decision :: ProtectionDecisionV2
  re_Capability :: StrategyCapability
  re_PlannedResponse :: "PlannedResponseV2 option"
  re_DesiredIntent :: ResponseIntent
  re_SelectedIntent :: ResponseIntent
  re_ActualStatus :: string
  re_ReasonCodes :: "string list"

definition normalizeReasons :: "string list \<Rightarrow> string list" where
  "normalizeReasons values =
     take 32 (sort (first_seen {} (filter (\<lambda>v. v \<noteq> '''' \<and> ValidContractID v 64) (map reason_form values))))"

fun intent_supported :: "StrategyActionCapabilityV2 \<Rightarrow> ResponseIntent \<Rightarrow> bool" where
  "intent_supported facts IntentSoftGraylist = ca_SameScopeRateLimit facts"
| "intent_supported facts IntentRateLimit = ca_SameScopeRateLimit facts"
| "intent_supported facts IntentTemporaryQuarantine = ca_SameScopeRateLimit facts"
| "intent_supported facts IntentRouteToDecoy = ca_ForcedSameSubjectDecoyRoute facts"
| "intent_supported facts IntentTemporaryBlock = ca_HardBlock facts"
| "intent_supported facts IntentManualHardBlock = ca_HardBlock facts"
| "intent_supported facts _ = False"

definition capabilityFor :: "string \<Rightarrow> StrategyActionCapabilityV2 \<Rightarrow> ResponseIntent \<Rightarrow> go_time \<Rightarrow> StrategyCapability" where
  "capabilityFor strategy facts intent now =
     (let result = \<lparr>sy_Strategy = strategy, sy_Intent = intent, sy_Implemented = False, sy_RequiresApply = (intent \<noteq> IntentObserve),
                    sy_ReasonCodes = [], sy_Facts = facts\<rparr>
      in if intent = IntentObserve then result\<lparr>sy_Implemented := True, sy_RequiresApply := False\<rparr>
         else if ca_Schema facts = '''' then result\<lparr>sy_ReasonCodes := [''action_capability_unknown'']\<rparr>
         else if Capability_Validate now facts \<noteq> None \<or> ca_Strategy facts \<noteq> strategy
           then result\<lparr>sy_ReasonCodes := [''action_capability_unknown'']\<rparr>
         else if \<not> ca_ExpiresAt facts > now then result\<lparr>sy_ReasonCodes := [''action_capability_stale'']\<rparr>
         else if intent_supported facts intent then result\<lparr>sy_Implemented := True\<rparr>
         else result\<lparr>sy_ReasonCodes := [''strategy_intent_unsupported'']\<rparr>)"

fun fallbackChain :: "ResponseIntent \<Rightarrow> ResponseIntent list" where
  "fallbackChain IntentObserve = [IntentObserve]"
| "fallbackChain IntentSoftGraylist = [IntentSoftGraylist, IntentObserve]"
| "fallbackChain IntentRateLimit = [IntentRateLimit, IntentSoftGraylist, IntentObserve]"
| "fallbackChain IntentRouteToDecoy = [IntentRouteToDecoy, IntentSoftGraylist, IntentObserve]"
| "fallbackChain IntentTemporaryQuarantine = [IntentTemporaryQuarantine, IntentRateLimit, IntentSoftGraylist, IntentObserve]"
| "fallbackChain IntentTemporaryBlock =
     [IntentTemporaryBlock, IntentTemporaryQuarantine, IntentRateLimit, IntentSoftGraylist, IntentObserve]"
| "fallbackChain IntentManualHardBlock =
     [IntentManualHardBlock, IntentTemporaryBlock, IntentTemporaryQuarantine, IntentRateLimit, IntentSoftGraylist, IntentObserve]"
| "fallbackChain (IntentOther s) = [IntentObserve]"

definition supportedFallback :: "string \<Rightarrow> StrategyActionCapabilityV2 \<Rightarrow> ResponseIntent \<Rightarrow> go_time \<Rightarrow> ResponseIntent \<times> string list" where
  "supportedFallback strategy facts requested now =
     (let reasons = (if requested = IntentRouteToDecoy \<and> ca_Schema facts \<noteq> '''' \<and> Capability_Validate now facts = None
                        \<and> ca_Strategy facts = strategy \<and> \<not> ca_ForcedSameSubjectDecoyRoute facts
                     then ''forced_subject_decoy_unavailable''
                          # (if ca_NaturalInvalidTrafficFallback facts then [''native_fallback_natural_only''] else [])
                     else [])
      in case List.find (\<lambda>c. sy_Implemented (capabilityFor strategy facts c now)) (fallbackChain requested) of
           Some candidate \<Rightarrow> (candidate, reasons)
         | None \<Rightarrow> (IntentObserve, reasons @ sy_ReasonCodes (capabilityFor strategy facts requested now)))"

definition revision_bound :: "ResolveInput \<Rightarrow> bool" where
  "revision_bound inp =
     (let d = ri_Decision inp; b = pd_Binding d; c = ri_Capability inp in
      ValidExactRevision (ri_ActionScopeRevision inp) \<and> ValidExactRevision (ri_EndpointRevision inp)
      \<and> ValidExactRevision (ri_ResourceRevision inp) \<and> ValidExactRevision (ri_ConfigurationRevision inp)
      \<and> rb_StrategyRevision b = ca_StrategyRevision c \<and> rb_CapabilityRevision b = ca_CapabilityRevision c
      \<and> rb_ActionScopeRevision b = ri_ActionScopeRevision inp \<and> rb_EndpointRevision b = ri_EndpointRevision inp
      \<and> rb_ResourceRevision b = ri_ResourceRevision inp \<and> rb_ConfigurationRevision b = ri_ConfigurationRevision inp
      \<and> ca_ActionRevision c = ri_ActionScopeRevision inp \<and> ca_ActionScopeRevision c = ri_ActionScopeRevision inp
      \<and> ca_EndpointRevision c = ri_EndpointRevision inp \<and> ca_ResourceRevision c = ri_ResourceRevision inp
      \<and> ca_ConfigurationRevision c = ri_ConfigurationRevision inp
      \<and> ca_ResourceID c = sc_TargetResourceID (pd_Scope d) \<and> ca_EndpointID c = sc_EndpointID (pd_Scope d))"

text \<open>One guard of the resolver: when it fires the intent falls to OBSERVE and its reasons are
  recorded.\<close>

definition downgrade :: "bool \<Rightarrow> string list \<Rightarrow> ResponseIntent \<times> string list \<Rightarrow> ResponseIntent \<times> string list" where
  "downgrade fires why sel = (if fires then (IntentObserve, snd sel @ why) else sel)"

definition resolve_intent :: "(ProtectionDecisionV2 \<Rightarrow> string) \<Rightarrow> go_time \<Rightarrow> ResolveInput \<Rightarrow> ResponseIntent \<times> string list" where
  "resolve_intent dg now inp =
     (let d = ri_Decision inp; g = ri_Guard inp;
          sel = supportedFallback (ri_Strategy inp) (ri_Capability inp) (pd_RequestedIntent d) now;
          sel = downgrade (Decision_Validate dg now d \<noteq> None) [''decision_contract_invalid''] sel;
          sel = downgrade (\<not> pd_ExpiresAt d > now) [''decision_expired''] sel;
          sel = downgrade (pd_State d \<noteq> DecisionCandidate) [''decision_state_not_actionable''] sel;
          sel = downgrade (pc_Result (pd_AllowlistResult d) \<noteq> ''deny'') [''allowlist_precedence''] sel;
          sel = downgrade (pc_Result (pd_RecoveryResult d) \<noteq> ''allow'') [''recovery_precedence''] sel;
          sel = downgrade (sc_Scope (pd_Scope d) \<noteq> ScopeEndpoint \<or> TrimSpace (sc_TargetResourceID (pd_Scope d)) = ''''
                  \<or> TrimSpace (sc_EndpointID (pd_Scope d)) = '''') [''scope_action_unavailable''] sel;
          sel = downgrade (ri_BaselineApplyBlocked inp \<and> fst sel \<noteq> IntentObserve) [''kernel_apply_gate_disabled''] sel;
          sel = downgrade (\<not> ri_EndpointKnown inp) [''endpoint_inventory_unknown''] sel;
          sel = downgrade (fst sel \<noteq> IntentObserve \<and> \<not> revision_bound inp) [''action_revision_mismatch''] sel
      in downgrade (mg_State g = GuardProtected \<or> mg_State g = GuardUnknown \<or> \<not> mg_ActionAllowed g)
           (mg_ReasonCodes g @ [''management_precedence'']) sel)"

definition Resolve :: "(ProtectionDecisionV2 \<Rightarrow> string) \<Rightarrow> (PlannedResponseV2 \<Rightarrow> string) \<Rightarrow> go_time \<Rightarrow> ResolveInput \<Rightarrow> Resolution" where
  "Resolve dg rdg wall inp =
     (let now = now_or wall (ri_Now inp); d0 = ri_Decision inp; desired = pd_RequestedIntent d0;
          (selected, reasons) = resolve_intent dg now inp;
          capability = capabilityFor (ri_Strategy inp) (ri_Capability inp) selected now;
          reasons = reasons @ (if selected \<noteq> desired then [''unsupported_action_downgraded''] else []);
          reasons = normalizeReasons (reasons @ sy_ReasonCodes capability);
          reasons = normalizeReasons (reasons @ [''decision_not_applied'']);
          d = d0\<lparr>pd_CapabilityResolution := \<lparr>cr_Implemented = sy_Implemented capability \<and> selected \<noteq> IntentObserve,
                    cr_ResolvedIntent = selected, cr_ReasonCodes = reasons\<rparr>,
                 pd_ReasonCodes := normalizeReasons (pd_ReasonCodes d0 @ reasons),
                 pd_State := (if \<not> pd_ExpiresAt d0 > now then DecisionExpired
                              else if selected \<noteq> desired then DecisionDegraded else DecisionResolved)\<rparr>;
          resolution = \<lparr>re_Decision = d, re_Capability = capability, re_PlannedResponse = None, re_DesiredIntent = desired,
                        re_SelectedIntent = selected, re_ActualStatus = ''NOT_APPLIED'', re_ReasonCodes = reasons\<rparr>
      in if selected = IntentObserve \<or> \<not> sy_Implemented capability then resolution
         else
           let response = Response_FinalizeID rdg
                 \<lparr>pr_Schema = PlannedResponseSchemaV2, pr_ResponseID = '''', pr_DecisionID = pd_DecisionID d,
                  pr_ResourceID = sc_TargetResourceID (pd_Scope d), pr_EndpointID = sc_EndpointID (pd_Scope d),
                  pr_Subject = pd_Subject d, pr_DesiredIntent = desired, pr_SelectedIntent = selected,
                  pr_PolicyRevision = pd_PolicyRevision d, pr_Binding = pd_Binding d, pr_ActualState = ''NOT_APPLIED'',
                  pr_ReasonCodes = reasons, pr_CreatedAt = pd_CreatedAt d, pr_ExpiresAt = pd_ExpiresAt d\<rparr>
           in if Response_Validate rdg response \<noteq> None then
                (let why = normalizeReasons (reasons @ [''planned_response_invalid''])
                 in resolution\<lparr>re_SelectedIntent := IntentObserve,
                      re_Capability := capabilityFor (ri_Strategy inp) (ri_Capability inp) IntentObserve now,
                      re_ReasonCodes := why,
                      re_Decision := d\<lparr>pd_CapabilityResolution := unresolved_with why, pd_State := DecisionDegraded\<rparr>\<rparr>)
              else resolution\<lparr>re_PlannedResponse := Some response\<rparr>)"

definition capability_of_binding :: "string \<Rightarrow> string \<Rightarrow> string list \<Rightarrow> bool \<Rightarrow> go_time \<Rightarrow> string \<Rightarrow> string
    \<Rightarrow> DecisionRevisionBindingV2 \<Rightarrow> bool \<Rightarrow> StrategyActionCapabilityV2" where
  "capability_of_binding strategy provenance reasons natural now resourceID endpointID b sameScopeRateLimit =
     \<lparr>ca_Schema = StrategyActionCapabilitySchemaV2, ca_Strategy = strategy, ca_ActionRevision = rb_ActionScopeRevision b,
      ca_StrategyRevision = rb_StrategyRevision b, ca_CapabilityRevision = rb_CapabilityRevision b, ca_ResourceID = resourceID,
      ca_EndpointID = endpointID, ca_ActionScopeRevision = rb_ActionScopeRevision b, ca_EndpointRevision = rb_EndpointRevision b,
      ca_ResourceRevision = rb_ResourceRevision b, ca_ConfigurationRevision = rb_ConfigurationRevision b,
      ca_NaturalInvalidTrafficFallback = natural, ca_ForcedSameSubjectDecoyRoute = False,
      ca_SameScopeRateLimit = sameScopeRateLimit, ca_HardBlock = False, ca_Provenance = provenance,
      ca_ObservedAt = now, ca_ExpiresAt = now + hour, ca_ReasonCodes = normalizeReasons reasons\<rparr>"

definition NativeFallbackCapability :: "go_time \<Rightarrow> string \<Rightarrow> string \<Rightarrow> DecisionRevisionBindingV2 \<Rightarrow> bool \<Rightarrow> StrategyActionCapabilityV2" where
  "NativeFallbackCapability = capability_of_binding ''NATIVE_FALLBACK'' ''native-fallback-capability''
     [''native_fallback_natural_only'', ''forced_subject_decoy_unavailable''] True"

definition SNIPrereadFrontingCapability :: "go_time \<Rightarrow> string \<Rightarrow> string \<Rightarrow> DecisionRevisionBindingV2 \<Rightarrow> bool \<Rightarrow> StrategyActionCapabilityV2" where
  "SNIPrereadFrontingCapability = capability_of_binding ''SNI_PREREAD_FRONTING'' ''sni-preread-downgrade-only''
     [''forced_subject_decoy_unavailable'', ''sni_action_map_not_proven''] False"

section \<open>The pipeline\<close>

record PipelineInput =
  pi_Signal :: ProtectionSignalV2
  pi_Admission :: AdmissionContext
  pi_Existing :: "GraylistStateV2 option"
  pi_Policy :: PolicyV2
  pi_Strategy :: string
  pi_Capability :: StrategyActionCapabilityV2
  pi_AllowlistResult :: PolicyCheckV2
  pi_RecoveryResult :: PolicyCheckV2
  pi_Allowlisted :: bool
  pi_Management :: bool
  pi_RecoveryProtected :: bool
  pi_TrustedSource :: bool
  pi_Guard :: ManagementGuardResult
  pi_Binding :: DecisionRevisionBindingV2
  pi_BaselineApplyBlocked :: bool
  pi_EndpointKnown :: bool
  pi_Now :: go_time

record PipelineResult =
  pp_Accepted :: AcceptedSignal
  pp_State :: GraylistStateV2
  pp_Decision :: "ProtectionDecisionV2 option"
  pp_Resolution :: "Resolution option"
  pp_Changed :: bool

record digests =
  dg_state :: "state_key \<Rightarrow> string"
  dg_decision :: "ProtectionDecisionV2 \<Rightarrow> string"
  dg_response :: "PlannedResponseV2 \<Rightarrow> string"

definition binding_mismatch :: "PipelineInput \<Rightarrow> bool" where
  "binding_mismatch inp =
     (let b = pi_Binding inp; c = pi_Capability inp in
      rb_StrategyRevision b \<noteq> ca_StrategyRevision c \<or> rb_CapabilityRevision b \<noteq> ca_CapabilityRevision c
      \<or> rb_ActionScopeRevision b \<noteq> ca_ActionRevision c \<or> rb_ActionScopeRevision b \<noteq> ca_ActionScopeRevision c
      \<or> rb_EndpointRevision b \<noteq> ca_EndpointRevision c \<or> rb_ResourceRevision b \<noteq> ca_ResourceRevision c
      \<or> rb_ConfigurationRevision b \<noteq> ca_ConfigurationRevision c
      \<or> sc_TargetResourceID (ps_Scope (pi_Signal inp)) \<noteq> ca_ResourceID c
      \<or> sc_EndpointID (ps_Scope (pi_Signal inp)) \<noteq> ca_EndpointID c \<or> pi_Strategy inp \<noteq> ca_Strategy c)"

definition evaluate_input :: "PipelineInput \<Rightarrow> AcceptedSignal \<Rightarrow> go_time \<Rightarrow> EvaluateInput" where
  "evaluate_input inp a now =
     \<lparr>ei_Existing = pi_Existing inp, ei_Accepted = Some a, ei_Policy = pi_Policy inp,
      ei_StrategyRevision = rb_StrategyRevision (pi_Binding inp), ei_CapabilityRevision = rb_CapabilityRevision (pi_Binding inp),
      ei_Allowlisted = pi_Allowlisted inp, ei_Management = pi_Management inp, ei_RecoveryProtected = pi_RecoveryProtected inp,
      ei_TrustedSource = pi_TrustedSource inp, ei_ManualClear = False, ei_Now = now\<rparr>"

definition resolve_input :: "PipelineInput \<Rightarrow> ProtectionDecisionV2 \<Rightarrow> go_time \<Rightarrow> ResolveInput" where
  "resolve_input inp d now =
     \<lparr>ri_Decision = d, ri_Strategy = pi_Strategy inp, ri_Capability = pi_Capability inp,
      ri_ActionScopeRevision = rb_ActionScopeRevision (pi_Binding inp), ri_EndpointRevision = rb_EndpointRevision (pi_Binding inp),
      ri_ResourceRevision = rb_ResourceRevision (pi_Binding inp), ri_ConfigurationRevision = rb_ConfigurationRevision (pi_Binding inp),
      ri_BaselineApplyBlocked = pi_BaselineApplyBlocked inp, ri_EndpointKnown = pi_EndpointKnown inp,
      ri_Guard = pi_Guard inp, ri_Now = now\<rparr>"

definition respond :: "digests \<Rightarrow> go_time \<Rightarrow> PipelineInput \<Rightarrow> go_time \<Rightarrow> AcceptedSignal \<Rightarrow> EvaluateResult \<Rightarrow> string + PipelineResult" where
  "respond dg wall inp now a ev =
     (let state = er_State ev in
      case ResolveGraylistState (dg_state dg) (dg_decision dg) wall state (pi_AllowlistResult inp) (pi_RecoveryResult inp) (pi_Binding inp) now of
        Inl e \<Rightarrow> Inl e
      | Inr d \<Rightarrow>
          let resolution = Resolve (dg_decision dg) (dg_response dg) wall (resolve_input inp d now);
              result = \<lparr>pp_Accepted = a, pp_State = state, pp_Decision = Some (re_Decision resolution),
                        pp_Resolution = Some resolution, pp_Changed = er_Changed ev\<rparr>
          in if gs_SelectedResponse state = re_SelectedIntent resolution then Inr result
             else let state = state\<lparr>gs_SelectedResponse := re_SelectedIntent resolution,
                        gs_ReasonCodes := CanonicalBoundedReasons (gs_ReasonCodes state @ re_ReasonCodes resolution),
                        gs_UpdatedAt := now, gs_Revision := next_revision (gs_Revision state)\<rparr>
                  in case State_Validate (dg_state dg) state of
                       Some e \<Rightarrow> Inl e
                     | None \<Rightarrow> Inr (result\<lparr>pp_State := state, pp_Changed := True\<rparr>))"

definition ProcessAccepted :: "digests \<Rightarrow> go_time \<Rightarrow> PipelineInput \<Rightarrow> AcceptedSignal \<Rightarrow> string + PipelineResult" where
  "ProcessAccepted dg wall inp a =
     (let now = now_or wall (pi_Now inp) in
      case Capability_Validate now (pi_Capability inp) of Some e \<Rightarrow> Inl e | None \<Rightarrow>
      if binding_mismatch inp then Inl ''strategy action capability binding mismatch''
      else case graylist_Evaluate (dg_state dg) wall (evaluate_input inp a now) of Inl e \<Rightarrow> Inl e | Inr ev \<Rightarrow>
        if gs_Lifecycle (er_State ev) = LifecycleSuperseded \<or> gs_Lifecycle (er_State ev) = LifecycleExpired
        then Inr \<lparr>pp_Accepted = a, pp_State = er_State ev, pp_Decision = None, pp_Resolution = None, pp_Changed = er_Changed ev\<rparr>
        else respond dg wall inp now a ev)"

definition Process :: "digests \<Rightarrow> go_time \<Rightarrow> PipelineInput \<Rightarrow> string + PipelineResult" where
  "Process dg wall inp =
     (let now = now_or wall (pi_Now inp);
          inp = inp\<lparr>pi_Admission := (pi_Admission inp)\<lparr>ac_Now := now\<rparr>, pi_Now := now\<rparr>
      in case Admit wall (pi_Signal inp) (pi_Admission inp) of
           Inl e \<Rightarrow> Inl e
         | Inr a \<Rightarrow> ProcessAccepted dg wall inp a)"

end
