(* ===== verification/Response_Safety.thy ===== *)
theory Response_Safety
  imports Graylist_Safety Protection_Response
begin

text \<open>
  Properties of the response resolver and of the admission-to-response pipeline: when a response is
  planned, which intent it has, and what the pipeline may ask for.
\<close>

section \<open>The response resolver\<close>

text \<open>What the guards of \<^verbatim>\<open>Resolve\<close> ask for, as one condition on the input.\<close>

definition clear_to_act :: "(ProtectionDecisionV2 \<Rightarrow> string) \<Rightarrow> go_time \<Rightarrow> ResolveInput \<Rightarrow> bool" where
  "clear_to_act dg now inp \<longleftrightarrow>
     (let d = ri_Decision inp; g = ri_Guard inp in
      Decision_Validate dg now d = None \<and> now < pd_ExpiresAt d \<and> pd_State d = DecisionCandidate
      \<and> pc_Result (pd_AllowlistResult d) = ''deny'' \<and> pc_Result (pd_RecoveryResult d) = ''allow''
      \<and> sc_Scope (pd_Scope d) = ScopeEndpoint \<and> TrimSpace (sc_TargetResourceID (pd_Scope d)) \<noteq> ''''
      \<and> TrimSpace (sc_EndpointID (pd_Scope d)) \<noteq> '''' \<and> \<not> ri_BaselineApplyBlocked inp \<and> ri_EndpointKnown inp
      \<and> revision_bound inp \<and> mg_State g \<noteq> GuardProtected \<and> mg_State g \<noteq> GuardUnknown \<and> mg_ActionAllowed g)"

lemma capabilityFor_Implemented:
  "sy_Implemented (capabilityFor strategy facts i now) \<longleftrightarrow>
     i = IntentObserve \<or> ca_Schema facts \<noteq> '''' \<and> Capability_Validate now facts = None \<and> ca_Strategy facts = strategy
       \<and> now < ca_ExpiresAt facts \<and> intent_supported facts i"
  by (simp add: capabilityFor_def Let_def)

lemma Observe_in_chain: "IntentObserve \<in> set (fallbackChain i)"
  by (cases i) simp_all

text \<open>The loop over the fallback chain always finds a candidate: the first one the strategy
  implements, OBSERVE at the latest.\<close>

definition strongest_supported :: "string \<Rightarrow> StrategyActionCapabilityV2 \<Rightarrow> ResponseIntent \<Rightarrow> go_time \<Rightarrow> ResponseIntent" where
  "strongest_supported strategy facts i now =
     hd (filter (\<lambda>c. sy_Implemented (capabilityFor strategy facts c now)) (fallbackChain i))"

lemma find_hd_filter: "x \<in> set xs \<Longrightarrow> P x \<Longrightarrow> List.find P xs = Some (hd (filter P xs))"
  by (induction xs) auto

lemma supportedFallback_fst: "fst (supportedFallback strategy facts i now) = strongest_supported strategy facts i now"
  using find_hd_filter[OF Observe_in_chain[of i], of "\<lambda>c. sy_Implemented (capabilityFor strategy facts c now)"]
  by (simp add: supportedFallback_def strongest_supported_def capabilityFor_Implemented Let_def)

lemma strongest_supported_in:
  "strongest_supported strategy facts i now \<in> set (fallbackChain i)"
  "sy_Implemented (capabilityFor strategy facts (strongest_supported strategy facts i now) now)"
proof -
  let ?P = "\<lambda>c. sy_Implemented (capabilityFor strategy facts c now)"
  have "IntentObserve \<in> set (filter ?P (fallbackChain i))" by (simp add: Observe_in_chain capabilityFor_Implemented)
  then have "strongest_supported strategy facts i now \<in> set (filter ?P (fallbackChain i))"
    unfolding strongest_supported_def by (metis hd_in_set empty_iff list.set(1))
  then show "strongest_supported strategy facts i now \<in> set (fallbackChain i)" "?P (strongest_supported strategy facts i now)" by simp_all
qed

lemma resolve_intent_fst:
  "fst (resolve_intent dg now inp) =
     (if clear_to_act dg now inp then strongest_supported (ri_Strategy inp) (ri_Capability inp) (pd_RequestedIntent (ri_Decision inp)) now
      else IntentObserve)"
  by (auto simp: resolve_intent_def clear_to_act_def downgrade_def supportedFallback_fst Let_def)

lemma normalizeReasons_ok: "validateReasonCodes (normalizeReasons vs)" "sortedUniqueStrings (normalizeReasons vs)"
proof -
  have "strictly_sorted (normalizeReasons vs)"
    unfolding normalizeReasons_def by (rule take_sorted_distinct) (simp_all add: first_seen_distinct)
  moreover have "list_all (\<lambda>v. ValidContractID v 64) (normalizeReasons vs)"
    by (auto simp: normalizeReasons_def list_all_iff first_seen_set dest!: in_set_takeD)
  ultimately show "validateReasonCodes (normalizeReasons vs)" "sortedUniqueStrings (normalizeReasons vs)"
    by (simp_all add: validateReasonCodes_def sortedUniqueStrings_def strictly_sorted_iff maxReasonCodes_def maxReasonCodeBytes_def
        normalizeReasons_def)
qed

lemma TrimSpace_idem_ValidContractID: "ValidContractID (TrimSpace v) n \<longleftrightarrow> ValidContractID v n"
  by (simp add: ValidContractID_def)

lemma chain_valid: "j \<in> set (fallbackChain i) \<Longrightarrow> validIntent j"
  by (cases i) auto

section \<open>Planned responses\<close>

text \<open>A clear decision makes a valid response, whatever the reasons: the branch for an invalid one is
  not taken.\<close>

lemma planned_response_valid:
  assumes "clear_to_act dg now inp" "i \<in> set (fallbackChain (pd_RequestedIntent (ri_Decision inp)))" "\<And>x. ValidSHA256 (rdg x)"
    "d = ri_Decision inp"
  shows "Response_Validate rdg (Response_FinalizeID rdg
    \<lparr>pr_Schema = PlannedResponseSchemaV2, pr_ResponseID = '''', pr_DecisionID = pd_DecisionID d,
     pr_ResourceID = sc_TargetResourceID (pd_Scope d), pr_EndpointID = sc_EndpointID (pd_Scope d),
     pr_Subject = pd_Subject d, pr_DesiredIntent = pd_RequestedIntent d, pr_SelectedIntent = i,
     pr_PolicyRevision = pd_PolicyRevision d, pr_Binding = pd_Binding d, pr_ActualState = ''NOT_APPLIED'',
     pr_ReasonCodes = normalizeReasons vs, pr_CreatedAt = pd_CreatedAt d, pr_ExpiresAt = pd_ExpiresAt d\<rparr>) = None"
proof -
  have v: "Decision_Validate dg now d = None" and sc: "sc_Scope (pd_Scope d) = ScopeEndpoint" and e: "sc_EndpointID (pd_Scope d) \<noteq> ''''"
    using assms(1) by (auto simp: clear_to_act_def assms(4) Let_def)
  have "validateScopeShape (pd_Scope d)" "ValidSHA256 (pd_DecisionID d)" "ValidContractID (pd_PolicyRevision d) 128"
    "validateSubject (pd_Subject d) = None" "validIntent (pd_RequestedIntent d)" "valid_binding (pd_Binding d)"
    and t: "\<not> time_is_zero (pd_CreatedAt d)" "\<not> time_is_zero (pd_ExpiresAt d)" "pd_CreatedAt d < pd_ExpiresAt d"
      "\<not> pd_CreatedAt d + 24 * hour < pd_ExpiresAt d"
    using v e by (auto simp: Decision_Validate_def first_error_None Let_def)
  moreover from this sc e have "ValidContractID (sc_TargetResourceID (pd_Scope d)) 256" "ValidContractID (sc_EndpointID (pd_Scope d)) 256"
    by (simp_all add: validateScopeShape_def maxContractIDBytes_def TrimSpace_idem_ValidContractID Let_def)
  ultimately show ?thesis
    using assms(2,3) normalizeReasons_ok chain_valid
    by (simp add: Response_Validate_def Response_FinalizeID_def response_key_def first_error_None assms(4))
qed

lemma Resolve_selected:
  assumes "\<And>x. ValidSHA256 (rdg x)" "now = now_or wall (ri_Now inp)"
  shows "re_SelectedIntent (Resolve dg rdg wall inp) =
      (if clear_to_act dg now inp then strongest_supported (ri_Strategy inp) (ri_Capability inp) (pd_RequestedIntent (ri_Decision inp)) now
       else IntentObserve)
    \<and> (re_PlannedResponse (Resolve dg rdg wall inp) = None \<longleftrightarrow> re_SelectedIntent (Resolve dg rdg wall inp) = IntentObserve)"
proof -
  obtain i why where i: "resolve_intent dg now inp = (i, why)" by fastforce
  have sel: "i = (if clear_to_act dg now inp then strongest_supported (ri_Strategy inp) (ri_Capability inp) (pd_RequestedIntent (ri_Decision inp)) now
       else IntentObserve)" using resolve_intent_fst[of dg now inp] i by simp
  show ?thesis
  proof (cases "i = IntentObserve")
    case True
    then show ?thesis using i sel assms(2) by (simp add: Resolve_def Let_def)
  next
    case False
    then have c: "clear_to_act dg now inp" using sel by metis
    then have "i \<in> set (fallbackChain (pd_RequestedIntent (ri_Decision inp)))"
      "sy_Implemented (capabilityFor (ri_Strategy inp) (ri_Capability inp) i now)" using sel strongest_supported_in by simp_all
    then show ?thesis
      using i sel c assms(2) False planned_response_valid[OF c _ assms(1) refl, of i]
      by (simp add: Resolve_def Let_def)
  qed
qed

lemma Resolve_planned:
  assumes "re_PlannedResponse (Resolve dg rdg wall inp) = Some r" "now = now_or wall (ri_Now inp)" "d = ri_Decision inp"
  shows "clear_to_act dg now inp"
    "pr_SelectedIntent r = strongest_supported (ri_Strategy inp) (ri_Capability inp) (pd_RequestedIntent d) now"
    "pr_SelectedIntent r \<noteq> IntentObserve" "Response_Validate rdg r = None"
    "pr_Subject r = pd_Subject d" "pr_ResourceID r = sc_TargetResourceID (pd_Scope d)" "pr_EndpointID r = sc_EndpointID (pd_Scope d)"
    "pr_ExpiresAt r = pd_ExpiresAt d" "pr_ActualState r = ''NOT_APPLIED''" "pr_DecisionID r = pd_DecisionID d"
proof -
  obtain i why where i: "resolve_intent dg now inp = (i, why)" by fastforce
  have n: "i \<noteq> IntentObserve" and r: "pr_SelectedIntent r = i" "Response_Validate rdg r = None"
    "pr_Subject r = pd_Subject d \<and> pr_ResourceID r = sc_TargetResourceID (pd_Scope d) \<and> pr_EndpointID r = sc_EndpointID (pd_Scope d)
     \<and> pr_ExpiresAt r = pd_ExpiresAt d \<and> pr_ActualState r = ''NOT_APPLIED'' \<and> pr_DecisionID r = pd_DecisionID d"
    using assms i by (auto simp: Resolve_def Response_FinalizeID_def Let_def split: if_splits)
  then show "pr_SelectedIntent r \<noteq> IntentObserve" "Response_Validate rdg r = None"
    "pr_Subject r = pd_Subject d" "pr_ResourceID r = sc_TargetResourceID (pd_Scope d)" "pr_EndpointID r = sc_EndpointID (pd_Scope d)"
    "pr_ExpiresAt r = pd_ExpiresAt d" "pr_ActualState r = ''NOT_APPLIED''" "pr_DecisionID r = pd_DecisionID d" by simp_all
  show "clear_to_act dg now inp" using resolve_intent_fst[of dg now inp] i n by (metis fst_conv)
  then show "pr_SelectedIntent r = strongest_supported (ri_Strategy inp) (ri_Capability inp) (pd_RequestedIntent d) now"
    using resolve_intent_fst[of dg now inp] i r(1) assms(3) by simp
qed

text \<open>C9. The resolver acts exactly when it may.  When the decision is valid, current and still a candidate, the
  allowlist denies, recovery allows, the scope is one endpoint, the kernel gate is open, the endpoint is known, every
  revision matches and the management guard allows it, the selected intent is the first one of the fallback chain that
  the strategy implements; otherwise it is OBSERVE.  A response is planned exactly when the intent is not OBSERVE,
  and the response is a valid one for that intent, not yet applied.\<close>

theorem resolve_exact:
  assumes "\<And>x. ValidSHA256 (rdg x)" "now = now_or wall (ri_Now inp)" "q = Resolve dg rdg wall inp"
  shows "re_SelectedIntent q =
      (if clear_to_act dg now inp then strongest_supported (ri_Strategy inp) (ri_Capability inp) (pd_RequestedIntent (ri_Decision inp)) now
       else IntentObserve)
    \<and> (case re_PlannedResponse q of None \<Rightarrow> re_SelectedIntent q = IntentObserve
         | Some r \<Rightarrow> re_SelectedIntent q \<noteq> IntentObserve \<and> pr_SelectedIntent r = re_SelectedIntent q
             \<and> Response_Validate rdg r = None \<and> pr_ActualState r = ''NOT_APPLIED'')"
proof -
  note s = Resolve_selected[where rdg = rdg and dg = dg, OF assms(1,2), folded assms(3)]
  show ?thesis
  proof (cases "re_PlannedResponse q")
    case None
    then have "re_SelectedIntent q = IntentObserve" using s by blast
    then show ?thesis using conjunct1[OF s] by (simp add: None)
  next
    case (Some r)
    then show ?thesis using s Resolve_planned[OF _ assms(2) refl, of dg rdg r] assms(3) by simp
  qed
qed

section \<open>The pipeline\<close>

lemma ResolveGraylistState_Inr:
  assumes "ResolveGraylistState sdg dg wall st al rec b now0 = Inr d"
  shows "pd_Subject d = gs_Subject st" "sc_TargetResourceID (pd_Scope d) = gs_ResourceID st" "sc_EndpointID (pd_Scope d) = gs_EndpointID st"
    "pd_ExpiresAt d = gs_ExpiresAt st" "pd_AllowlistResult d = al" "pd_RecoveryResult d = rec"
    "pd_RequestedIntent d = (if pc_Result al = ''deny'' \<and> pc_Result rec = ''allow'' then gs_DesiredAction st else IntentObserve)"
  using assms
  by (auto simp: ResolveGraylistState_def validated_decision_def Decision_FinalizeID_def Let_def split: option.splits if_splits)

text \<open>A signal that is new to its state leaves an open state with a change, made by the last branch
  of the evaluation.\<close>

lemma Evaluate_new_signal:
  assumes "graylist_Evaluate dg wall inp = Inr r" "ei_Accepted inp = Some a"
    "\<And>s. ei_Existing inp = Some s \<Longrightarrow> ps_SignalID (as_Signal a) \<notin> set (gs_SignalRefs s)"
    "gs_Lifecycle (er_State r) \<noteq> LifecycleSuperseded" "gs_Lifecycle (er_State r) \<noteq> LifecycleExpired"
  shows "er_Changed r" "gs_Subject (er_State r) = ps_Subject (as_Signal a)"
    "gs_ResourceID (er_State r) = sc_TargetResourceID (ps_Scope (as_Signal a))"
    "gs_EndpointID (er_State r) = sc_EndpointID (ps_Scope (as_Signal a))"
proof -
  from assms(1) have "er_Changed r \<and> gs_Subject (er_State r) = ps_Subject (as_Signal a)
    \<and> gs_ResourceID (er_State r) = sc_TargetResourceID (ps_Scope (as_Signal a))
    \<and> gs_EndpointID (er_State r) = sc_EndpointID (ps_Scope (as_Signal a))"
  proof (cases rule: Evaluate_Inr)
    case (drift st)
    then show ?thesis using supersede_Inr(1) assms(4) by blast
  next
    case (timer st)
    then show ?thesis using assms(2) by simp
  next
    case (replay st a')
    then show ?thesis using assms(2,3) by auto
  next
    case (signal a' st)
    let ?s = "case ei_Existing inp of None \<Rightarrow> fresh_state dg (effective_policy inp) inp (as_Signal a) | Some s \<Rightarrow> s"
    have a: "a' = a" using signal(1) assms(2) by simp
    have "snd (banded p inp now st)" for p now
      using assms(2) by (simp add: banded_def Let_def split: prod.split)
    then have "er_Changed r"
      using signal(3) assms(4,5) supersede_Inr(1) expire_Inr(1)
      by (auto simp: settle_cases validated_Inr split: option.splits if_splits)
    moreover have "state_key (er_State r) = state_key ?s"
      using signal_outcome[OF signal(2,3)] unfolding a outcome_def same_identity_def by (elim conjE)
    moreover have "gs_Subject ?s = ps_Subject (as_Signal a) \<and> gs_ResourceID ?s = sc_TargetResourceID (ps_Scope (as_Signal a))
      \<and> gs_EndpointID ?s = sc_EndpointID (ps_Scope (as_Signal a))"
      using signal(2) unfolding a absorb_def Let_def by (auto split: if_splits)
    ultimately show ?thesis by (simp add: state_key_def)
  qed
  then show "er_Changed r" "gs_Subject (er_State r) = ps_Subject (as_Signal a)"
    "gs_ResourceID (er_State r) = sc_TargetResourceID (ps_Scope (as_Signal a))"
    "gs_EndpointID (er_State r) = sc_EndpointID (ps_Scope (as_Signal a))" by simp_all
qed

text \<open>How the pipeline comes to a planned response.\<close>

lemma Process_planned:
  assumes "Process dg wall inp = Inr res" "pp_Resolution res = Some q" "re_PlannedResponse q = Some r" "now = now_or wall (pi_Now inp)"
  obtains a ev d where "Admit wall (pi_Signal inp) ((pi_Admission inp)\<lparr>ac_Now := now\<rparr>) = Inr a"
    "graylist_Evaluate (dg_state dg) wall (evaluate_input (inp\<lparr>pi_Now := now\<rparr>) a (now_or wall now)) = Inr ev"
    "gs_Lifecycle (er_State ev) \<noteq> LifecycleSuperseded" "gs_Lifecycle (er_State ev) \<noteq> LifecycleExpired"
    "ResolveGraylistState (dg_state dg) (dg_decision dg) wall (er_State ev) (pi_AllowlistResult inp) (pi_RecoveryResult inp)
       (pi_Binding inp) (now_or wall now) = Inr d"
    "re_PlannedResponse (Resolve (dg_decision dg) (dg_response dg) wall (resolve_input inp d (now_or wall now))) = Some r"
    "gs_EvidenceRefs (pp_State res) = gs_EvidenceRefs (er_State ev)" "gs_Subject (pp_State res) = gs_Subject (er_State ev)"
proof -
  let ?inp = "inp\<lparr>pi_Admission := (pi_Admission inp)\<lparr>ac_Now := now\<rparr>, pi_Now := now\<rparr>"
  obtain a where a: "Admit wall (pi_Signal inp) ((pi_Admission inp)\<lparr>ac_Now := now\<rparr>) = Inr a" "ProcessAccepted dg wall ?inp a = Inr res"
    using assms(1,4) by (auto simp: Process_def Let_def split: sum.splits)
  have e: "evaluate_input ?inp a n = evaluate_input (inp\<lparr>pi_Now := now\<rparr>) a n" "resolve_input ?inp d n = resolve_input inp d n" for n d
    by (simp_all add: evaluate_input_def resolve_input_def)
  obtain ev where ev: "graylist_Evaluate (dg_state dg) wall (evaluate_input (inp\<lparr>pi_Now := now\<rparr>) a (now_or wall now)) = Inr ev"
    "gs_Lifecycle (er_State ev) \<noteq> LifecycleSuperseded" "gs_Lifecycle (er_State ev) \<noteq> LifecycleExpired"
    "respond dg wall ?inp (now_or wall now) a ev = Inr res"
    using a(2) assms(2) by (auto simp: ProcessAccepted_def Let_def e split: option.splits if_splits sum.splits)
  obtain d where d: "ResolveGraylistState (dg_state dg) (dg_decision dg) wall (er_State ev) (pi_AllowlistResult inp) (pi_RecoveryResult inp)
       (pi_Binding inp) (now_or wall now) = Inr d" using ev(4) by (auto simp: respond_def Let_def split: sum.splits)
  have "pp_Resolution res = Some (Resolve (dg_decision dg) (dg_response dg) wall (resolve_input inp d (now_or wall now)))
    \<and> gs_EvidenceRefs (pp_State res) = gs_EvidenceRefs (er_State ev) \<and> gs_Subject (pp_State res) = gs_Subject (er_State ev)"
    using ev(4) d by (auto simp: respond_def Let_def e split: option.splits if_splits)
  then show thesis using that[OF a(1) ev(1-3) d] assms(2,3) by simp
qed

lemma Admit_signal: "Admit wall s ctx = Inr a \<Longrightarrow> as_Signal a = s \<and> admission_error (now_or wall (ac_Now ctx)) s ctx = None"
  by (auto simp: Admit_def Let_def split: option.splits if_splits)

lemma Evaluate_soft:
  assumes "graylist_Evaluate dg wall inp = Inr r" "er_Changed r" "gs_DesiredAction (er_State r) \<noteq> IntentObserve" "now = now_or wall (ei_Now inp)"
  shows "precedence inp = None" "hasActiveStrongEvidence (gs_EvidenceRefs (er_State r)) now"
    "gs_DesiredAction (er_State r) = IntentSoftGraylist \<or> gs_DesiredAction (er_State r) = IntentRateLimit"
proof -
  obtain s where s: "precedence inp = None" "evidence_shape (gs_EvidenceRefs s)"
    "er_State r = canonical (fst (banded (effective_policy inp) inp now s))"
    using Evaluate_settled[OF assms(1-3)] assms(4) by auto
  then show "precedence inp = None" "hasActiveStrongEvidence (gs_EvidenceRefs (er_State r)) now"
    "gs_DesiredAction (er_State r) = IntentSoftGraylist \<or> gs_DesiredAction (er_State r) = IntentRateLimit"
    using banded_desired(1,3)[of "effective_policy inp" inp now s] assms(3) by (auto simp: canonical_evidence_id)
qed

lemma soft_chain:
  "i = IntentSoftGraylist \<or> i = IntentRateLimit \<Longrightarrow> j \<in> set (fallbackChain i) \<Longrightarrow> j \<noteq> IntentObserve \<Longrightarrow>
     j = IntentSoftGraylist \<or> j = IntentRateLimit \<and> i = IntentRateLimit"
  by auto

text \<open>C2. What the pipeline may ask for, end to end: a response planned for a signal that is new to its state is a soft
  graylisting or a rate limit, never a block, a quarantine or a decoy; it is for the subject, resource and endpoint
  of that signal, which was admitted; no precedence holds (allowlist, management, recovery, trusted source), the guard
  and the kernel gate let it through, the capability is current and offers a same-scope rate limit, the state holds
  strong trusted evidence that has not expired, and the response has not expired and is not applied.\<close>

theorem pipeline_plans_softly:
  assumes "Process dg wall inp = Inr res" "pp_Resolution res = Some q" "re_PlannedResponse q = Some r"
    "\<And>s. pi_Existing inp = Some s \<Longrightarrow> ps_SignalID (pi_Signal inp) \<notin> set (gs_SignalRefs s)"
    "now = now_or wall (pi_Now inp)" "now \<noteq> 0"
  shows "(pr_SelectedIntent r = IntentSoftGraylist \<or> pr_SelectedIntent r = IntentRateLimit)
    \<and> pr_Subject r = ps_Subject (pi_Signal inp) \<and> pr_ResourceID r = sc_TargetResourceID (ps_Scope (pi_Signal inp))
    \<and> pr_EndpointID r = sc_EndpointID (ps_Scope (pi_Signal inp))
    \<and> admission_error now (pi_Signal inp) ((pi_Admission inp)\<lparr>ac_Now := now\<rparr>) = None
    \<and> \<not> pi_Allowlisted inp \<and> \<not> pi_Management inp \<and> \<not> pi_RecoveryProtected inp \<and> \<not> pi_TrustedSource inp
    \<and> pc_Result (pi_AllowlistResult inp) = ''deny'' \<and> pc_Result (pi_RecoveryResult inp) = ''allow''
    \<and> mg_ActionAllowed (pi_Guard inp) \<and> \<not> pi_BaselineApplyBlocked inp \<and> pi_EndpointKnown inp
    \<and> now < ca_ExpiresAt (pi_Capability inp) \<and> ca_SameScopeRateLimit (pi_Capability inp)
    \<and> hasActiveStrongEvidence (gs_EvidenceRefs (pp_State res)) now \<and> now < pr_ExpiresAt r \<and> pr_ActualState r = ''NOT_APPLIED''"
proof -
  have n: "now_or wall now = now" using assms(6) by (simp add: now_or_def time_is_zero_def)
  obtain a ev d where ad: "Admit wall (pi_Signal inp) ((pi_Admission inp)\<lparr>ac_Now := now\<rparr>) = Inr a"
    and ev: "graylist_Evaluate (dg_state dg) wall (evaluate_input (inp\<lparr>pi_Now := now\<rparr>) a now) = Inr ev"
    "gs_Lifecycle (er_State ev) \<noteq> LifecycleSuperseded" "gs_Lifecycle (er_State ev) \<noteq> LifecycleExpired"
    and d: "ResolveGraylistState (dg_state dg) (dg_decision dg) wall (er_State ev) (pi_AllowlistResult inp) (pi_RecoveryResult inp)
       (pi_Binding inp) now = Inr d"
    and r: "re_PlannedResponse (Resolve (dg_decision dg) (dg_response dg) wall (resolve_input inp d now)) = Some r"
    and st: "gs_EvidenceRefs (pp_State res) = gs_EvidenceRefs (er_State ev)"
    by (rule Process_planned[OF assms(1-3,5)]) (simp add: n)
  let ?e = "evaluate_input (inp\<lparr>pi_Now := now\<rparr>) a now"
  have sig: "as_Signal a = pi_Signal inp" "admission_error now (pi_Signal inp) ((pi_Admission inp)\<lparr>ac_Now := now\<rparr>) = None"
    using Admit_signal[OF ad] n by simp_all
  note new = Evaluate_new_signal[OF ev(1) _ _ ev(2,3), of a, unfolded sig]
  have nw: "now = now_or wall (ri_Now (resolve_input inp d now))" using n by (simp add: resolve_input_def)
  note pl = Resolve_planned[OF r nw refl]
  note dd = ResolveGraylistState_Inr[OF d]
  have cl: "pc_Result (pi_AllowlistResult inp) = ''deny''" "pc_Result (pi_RecoveryResult inp) = ''allow''" "mg_ActionAllowed (pi_Guard inp)"
    "\<not> pi_BaselineApplyBlocked inp" "pi_EndpointKnown inp" "now < pd_ExpiresAt d"
    using pl(1) dd(5,6) by (simp_all add: clear_to_act_def resolve_input_def Let_def)
  have sel: "pr_SelectedIntent r = strongest_supported (pi_Strategy inp) (pi_Capability inp) (gs_DesiredAction (er_State ev)) now"
    using pl(2) dd(7) cl(1,2) by (simp add: resolve_input_def)
  have des: "gs_DesiredAction (er_State ev) \<noteq> IntentObserve"
    using pl(3) strongest_supported_in(1)[of "pi_Strategy inp" "pi_Capability inp" IntentObserve now] sel by auto
  have ch: "er_Changed ev" using new(1) assms(4) by (simp add: evaluate_input_def)
  have en: "now = now_or wall (ei_Now ?e)" using n by (simp add: evaluate_input_def)
  note b = Evaluate_soft[OF ev(1) ch des en]
  have soft: "pr_SelectedIntent r = IntentSoftGraylist \<or> pr_SelectedIntent r = IntentRateLimit"
    using soft_chain[OF b(3)] strongest_supported_in(1) sel pl(3) by metis
  have cap: "now < ca_ExpiresAt (pi_Capability inp)" "ca_SameScopeRateLimit (pi_Capability inp)"
    using strongest_supported_in(2)[of "pi_Strategy inp" "pi_Capability inp" "gs_DesiredAction (er_State ev)" now] sel soft
    by (auto simp: capabilityFor_Implemented)
  have pre: "\<not> pi_Allowlisted inp" "\<not> pi_Management inp" "\<not> pi_RecoveryProtected inp" "\<not> pi_TrustedSource inp"
    using b(1) by (auto simp: precedence_def evaluate_input_def split: if_splits)
  show ?thesis
    using soft sig(2) cl pre cap b(2) st pl(5-9) dd(1-4) new(2-4) assms(4) by (simp add: evaluate_input_def resolve_input_def)
qed

section \<open>An example\<close>

definition demo_binding :: DecisionRevisionBindingV2 where
  "demo_binding = \<lparr>rb_StrategyRevision = ''s1'', rb_CapabilityRevision = ''c1'', rb_ActionScopeRevision = ''0123456789abcdef'',
     rb_EndpointRevision = ''0123456789abcdef'', rb_ResourceRevision = ''0123456789abcdef'', rb_ConfigurationRevision = ''0123456789abcdef''\<rparr>"

definition demo_pipeline :: PipelineInput where
  "demo_pipeline =
     \<lparr>pi_Signal = demo_protection_signal (replicate 64 CHR ''c'') 3,
      pi_Admission = \<lparr>ac_SelectedAdapterID = ''a'', ac_ExposesOriginalSubject = True, ac_TrustedEndpointSource = True,
        ac_TargetIsHealthTelemetry = False, ac_Now = 0\<rparr>,
      pi_Existing = Some demo_graylisted, pi_Policy = DefaultPolicyV2, pi_Strategy = ''NATIVE_FALLBACK'',
      pi_Capability = NativeFallbackCapability 1 ''r'' ''e'' demo_binding True,
      pi_AllowlistResult = \<lparr>pc_Result = ''deny'', pc_ReasonCodes = []\<rparr>, pi_RecoveryResult = \<lparr>pc_Result = ''allow'', pc_ReasonCodes = []\<rparr>,
      pi_Allowlisted = False, pi_Management = False, pi_RecoveryProtected = False, pi_TrustedSource = False,
      pi_Guard = \<lparr>mg_State = GuardAllowed, mg_ProtectedEndpointIDs = [], mg_FreshRecoveryPathIDs = [], mg_UnaffectedRecoveryPathIDs = [],
        mg_TrustedSourceMatched = False, mg_ActionAllowed = True, mg_ReasonCodes = []\<rparr>,
      pi_Binding = demo_binding, pi_BaselineApplyBlocked = False, pi_EndpointKnown = True, pi_Now = 4\<rparr>"

definition demo_digests :: digests where
  "demo_digests = \<lparr>dg_state = demo_key_digest, dg_decision = \<lambda>_. replicate 64 CHR ''d'', dg_response = \<lambda>_. replicate 64 CHR ''e''\<rparr>"

definition demo_noted :: GraylistStateV2 where
  "demo_noted = demo_graylisted\<lparr>gs_Revision := 3, gs_Score := 44, gs_SignalRefs := [replicate 64 CHR ''b'', replicate 64 CHR ''c''],
     gs_EvidenceRefs := [\<lparr>er_SignalID = replicate 64 CHR ''b'', er_Class = EvidenceStrongTrusted, er_ExpiresAt = 1 + hour\<rparr>,
       \<lparr>er_SignalID = replicate 64 CHR ''c'', er_Class = EvidenceStrongTrusted, er_ExpiresAt = 3 + hour\<rparr>],
     gs_LastSignalAt := 3, gs_ExpiresAt := 3 + hour, gs_UpdatedAt := 4\<rparr>"

definition demo_decision :: ProtectionDecisionV2 where
  "demo_decision =
     \<lparr>pd_Schema = ProtectionDecisionSchemaV2, pd_DecisionID = replicate 64 CHR ''d'', pd_PolicyRevision = ''graylist-policy-v2'',
      pd_Binding = demo_binding, pd_Subject = gs_Subject demo_noted,
      pd_Scope = ps_Scope (pi_Signal demo_pipeline), pd_TargetResourceIDs = [''r''], pd_SignalRefs = gs_SignalRefs demo_noted,
      pd_SourceClasses = [''native''], pd_ScoreSnapshot = \<lparr>sn_Score = 44, sn_TargetGroup = ''r'', sn_CapturedAt = 4\<rparr>,
      pd_ConfidenceBP = 6000, pd_ReasonCodes = [], pd_RequestedIntent = IntentRateLimit, pd_CreatedAt = 4, pd_ExpiresAt = 3 + hour,
      pd_AllowlistResult = pi_AllowlistResult demo_pipeline, pd_RecoveryResult = pi_RecoveryResult demo_pipeline,
      pd_CapabilityResolution = unresolved, pd_State = DecisionCandidate\<rparr>"

lemma demo_admitted:
  "Admit 0 (pi_Signal demo_pipeline) ((pi_Admission demo_pipeline)\<lparr>ac_Now := 4\<rparr>)
     = Inr (demo_accepted (replicate 64 CHR ''c'') 3 2 EvidenceStrongTrusted)"
  by code_simp

lemma demo_evaluated:
  "graylist_Evaluate demo_key_digest 0 (evaluate_input demo_pipeline (demo_accepted (replicate 64 CHR ''c'') 3 2 EvidenceStrongTrusted) 4)
     = Inr \<lparr>er_State = demo_noted, er_Changed = True\<rparr>"
  by code_simp

lemma demo_decided:
  "ResolveGraylistState demo_key_digest (dg_decision demo_digests) 0 demo_noted (pi_AllowlistResult demo_pipeline)
     (pi_RecoveryResult demo_pipeline) demo_binding 4 = Inr demo_decision"
  by code_simp

lemma demo_clear: "clear_to_act (dg_decision demo_digests) 4 (resolve_input demo_pipeline demo_decision 4)"
  by code_simp

lemma demo_strongest: "strongest_supported ''NATIVE_FALLBACK'' (pi_Capability demo_pipeline) IntentRateLimit 4 = IntentRateLimit"
  by code_simp

lemma demo_capability: "Capability_Validate 4 (pi_Capability demo_pipeline) = None" "\<not> binding_mismatch demo_pipeline"
  by code_simp+

lemma demo_reasons:
  "re_ReasonCodes (Resolve (dg_decision demo_digests) (dg_response demo_digests) 0 (resolve_input demo_pipeline demo_decision 4))
     = [''decision_not_applied'']"
  by code_simp

lemma demo_selected_valid:
  "State_Validate demo_key_digest (demo_noted\<lparr>gs_SelectedResponse := IntentRateLimit,
     gs_ReasonCodes := CanonicalBoundedReasons [''decision_not_applied''], gs_UpdatedAt := 4, gs_Revision := next_revision 3\<rparr>) = None"
  by code_simp

lemma demo_digest_ok: "ValidSHA256 (dg_response demo_digests x)"
  by (simp add: demo_digests_def ValidSHA256_def lower_hex_def list_all_iff less_eq_char_def)

lemma demo_resolved:
  "re_SelectedIntent (Resolve (dg_decision demo_digests) (dg_response demo_digests) 0 (resolve_input demo_pipeline demo_decision 4)) = IntentRateLimit"
  "\<exists>r. re_PlannedResponse (Resolve (dg_decision demo_digests) (dg_response demo_digests) 0 (resolve_input demo_pipeline demo_decision 4)) = Some r"
proof -
  let ?i = "resolve_input demo_pipeline demo_decision 4"
  have "now_or 0 (ri_Now ?i) = 4" "ri_Strategy ?i = ''NATIVE_FALLBACK''" "ri_Capability ?i = pi_Capability demo_pipeline"
    "pd_RequestedIntent (ri_Decision ?i) = IntentRateLimit"
    by (simp_all add: resolve_input_def now_or_def time_is_zero_def demo_pipeline_def demo_decision_def)
  then show "re_SelectedIntent (Resolve (dg_decision demo_digests) (dg_response demo_digests) 0 ?i) = IntentRateLimit"
    "\<exists>r. re_PlannedResponse (Resolve (dg_decision demo_digests) (dg_response demo_digests) 0 ?i) = Some r"
    using Resolve_selected[where rdg = "dg_response demo_digests" and dg = "dg_decision demo_digests" and wall = 0 and inp = ?i,
        OF demo_digest_ok refl] demo_clear demo_strongest by auto
qed

theorem resolve_exact_witness:
  "\<exists>r. re_PlannedResponse (Resolve (dg_decision demo_digests) (dg_response demo_digests) 0 (resolve_input demo_pipeline demo_decision 4)) = Some r
     \<and> pr_SelectedIntent r = IntentRateLimit \<and> Response_Validate (dg_response demo_digests) r = None"
  using resolve_exact[where rdg = "dg_response demo_digests" and dg = "dg_decision demo_digests" and wall = 0
      and inp = "resolve_input demo_pipeline demo_decision 4", OF demo_digest_ok refl refl]
    demo_resolved by auto

lemma demo_processed:
  "\<exists>res q r. Process demo_digests 0 demo_pipeline = Inr res \<and> pp_Resolution res = Some q \<and> re_PlannedResponse q = Some r
     \<and> gs_SelectedResponse (pp_State res) = IntentRateLimit"
proof -
  let ?inp = "demo_pipeline\<lparr>pi_Admission := (pi_Admission demo_pipeline)\<lparr>ac_Now := 4\<rparr>, pi_Now := 4\<rparr>"
  let ?a = "demo_accepted (replicate 64 CHR ''c'') 3 2 EvidenceStrongTrusted"
  let ?q = "Resolve (dg_decision demo_digests) (dg_response demo_digests) 0 (resolve_input demo_pipeline demo_decision 4)"
  have n: "now_or 0 (4::int) = 4" "pi_Now demo_pipeline = 4" by (simp_all add: now_or_def time_is_zero_def demo_pipeline_def)
  have same: "evaluate_input ?inp ?a 4 = evaluate_input demo_pipeline ?a 4" "resolve_input ?inp d 4 = resolve_input demo_pipeline d 4"
    "binding_mismatch ?inp = binding_mismatch demo_pipeline" for d
    by (simp_all add: evaluate_input_def resolve_input_def binding_mismatch_def)
  have dg: "dg_state demo_digests = demo_key_digest" "pi_Binding demo_pipeline = demo_binding" by (simp_all add: demo_digests_def demo_pipeline_def)
  have st: "gs_SelectedResponse demo_noted = IntentObserve" "gs_ReasonCodes demo_noted = []" "gs_Revision demo_noted = 3"
    "gs_Lifecycle demo_noted = LifecycleActive" by (simp_all add: demo_noted_def demo_graylisted_def)
  have "respond demo_digests 0 ?inp 4 ?a \<lparr>er_State = demo_noted, er_Changed = True\<rparr>
    = Inr \<lparr>pp_Accepted = ?a, pp_State = demo_noted\<lparr>gs_SelectedResponse := IntentRateLimit,
        gs_ReasonCodes := CanonicalBoundedReasons [''decision_not_applied''], gs_UpdatedAt := 4, gs_Revision := next_revision 3\<rparr>,
      pp_Decision = Some (re_Decision ?q), pp_Resolution = Some ?q, pp_Changed = True\<rparr>"
    using demo_selected_valid
    by (simp add: respond_def dg demo_decided same demo_resolved(1) demo_reasons st Let_def)
  moreover have "Process demo_digests 0 demo_pipeline = respond demo_digests 0 ?inp 4 ?a \<lparr>er_State = demo_noted, er_Changed = True\<rparr>"
    by (simp add: Process_def ProcessAccepted_def n demo_admitted demo_capability same dg demo_evaluated st Let_def)
  ultimately show ?thesis using demo_resolved(2) by auto
qed

theorem pipeline_plans_softly_witness:
  "\<exists>res q r. Process demo_digests 0 demo_pipeline = Inr res \<and> pp_Resolution res = Some q \<and> re_PlannedResponse q = Some r
     \<and> pr_Subject r = \<lparr>sj_Type = ''ip'', sj_Value = ''192.0.2.7''\<rparr> \<and> hasActiveStrongEvidence (gs_EvidenceRefs (pp_State res)) 4"
proof -
  obtain res q r where p: "Process demo_digests 0 demo_pipeline = Inr res" "pp_Resolution res = Some q" "re_PlannedResponse q = Some r"
    using demo_processed by blast
  have n: "4 = now_or 0 (pi_Now demo_pipeline)" by (simp add: now_or_def time_is_zero_def demo_pipeline_def)
  have new: "ps_SignalID (pi_Signal demo_pipeline) \<notin> set (gs_SignalRefs s)" if "pi_Existing demo_pipeline = Some s" for s
    using that by (auto simp: demo_pipeline_def demo_protection_signal_def demo_graylisted_def replicate_eq_replicate)
  show ?thesis
    using pipeline_plans_softly[OF p new n] p by (simp add: demo_pipeline_def demo_protection_signal_def)
qed

end
