(* ===== verification/Management_Guard.thy ===== *)
theory Management_Guard
  imports Response_Safety
begin

text \<open>
  The management guard and the trusted sources of the server-protection component:
  \<^verbatim>\<open>src/components/server-protection/service/policy/{management,trusted_source}.go\<close>, with the
  management endpoints and recovery paths of \<^verbatim>\<open>src/componenthost/resources/{management,listen,endpoints}.go\<close>.
\<close>

section \<open>Case folding\<close>

text \<open>\<^verbatim>\<open>strings.ToUpper\<close> and \<^verbatim>\<open>strings.EqualFold\<close> where the result is compared with ASCII: besides the
  ASCII letters, the dotless i (U+0131) and the long s (U+017F) have ASCII upper cases, and the long s and
  the Kelvin sign (U+212A) fold to ASCII letters.  Other characters never match ASCII and stay as they are.\<close>

definition upper_char :: "char \<Rightarrow> char" where
  "upper_char c = (if CHR ''a'' \<le> c \<and> c \<le> CHR ''z'' then char_of (of_char c - 32 :: nat) else c)"

function ToUpper :: "string \<Rightarrow> string" where
  "ToUpper [] = []"
| "ToUpper (c # s) =
     (if c = CHR 0xC4 \<and> HasPrefix s [CHR 0xB1] then CHR ''I'' # ToUpper (drop 1 s)
      else if c = CHR 0xC5 \<and> HasPrefix s [CHR 0xBF] then CHR ''S'' # ToUpper (drop 1 s)
      else upper_char c # ToUpper s)"
  by pat_completeness auto
termination by (relation "measure length") auto

function fold_case :: "string \<Rightarrow> string" where
  "fold_case [] = []"
| "fold_case (c # s) =
     (if c = CHR 0xC5 \<and> HasPrefix s [CHR 0xBF] then CHR ''s'' # fold_case (drop 1 s)
      else if c = CHR 0xE2 \<and> HasPrefix s [CHR 0x84, CHR 0xAA] then CHR ''k'' # fold_case (drop 2 s)
      else lower_char c # fold_case s)"
  by pat_completeness auto
termination by (relation "measure length") auto

definition EqualFold :: "string \<Rightarrow> string \<Rightarrow> bool" where
  "EqualFold s t \<longleftrightarrow> fold_case s = fold_case t"

definition TrimSuffix :: "string \<Rightarrow> string \<Rightarrow> string" where
  "TrimSuffix s p = (if HasSuffix s p then take (length s - length p) s else s)"

section \<open>Listen addresses\<close>

datatype ListenClass = ListenWildcard | ListenIPv4Wildcard | ListenIPv6Wildcard | ListenLoopback | ListenPublicExact | ListenHostname

record NormalizedListen =
  nl_Value :: string
  nl_Class :: ListenClass
  nl_Family :: int

definition NormalizeListen :: "string \<Rightarrow> NormalizedListen" where
  "NormalizeListen value0 =
     (let value = TrimSpace value0 in
      if value = '''' \<or> value = ''*'' then \<lparr>nl_Value = ''*'', nl_Class = ListenWildcard, nl_Family = 0\<rparr>
      else
        let value = TrimPrefix (TrimSuffix value '']'') ''['';
            lower = ToLower (TrimSuffix value ''.'')
        in if lower = ''0.0.0.0'' then \<lparr>nl_Value = lower, nl_Class = ListenIPv4Wildcard, nl_Family = 4\<rparr>
           else if lower = ''::'' then \<lparr>nl_Value = lower, nl_Class = ListenIPv6Wildcard, nl_Family = 6\<rparr>
           else if lower = ''localhost'' then \<lparr>nl_Value = lower, nl_Class = ListenLoopback, nl_Family = 0\<rparr>
           else case ParseAddr lower of
             Some a0 \<Rightarrow>
               let a = addr_Unmap a0
               in \<lparr>nl_Value = addr_String a, nl_Class = (if addr_IsLoopback a then ListenLoopback else ListenPublicExact),
                   nl_Family = (if addr_Is4 a then 4 else 6)\<rparr>
           | None \<Rightarrow> \<lparr>nl_Value = lower, nl_Class = ListenHostname, nl_Family = 0\<rparr>)"

datatype Network = NetworkTCP | NetworkUDP | NetworkUnknown | NetworkOther string
datatype AddressFamily = AddressFamilyIPv4 | AddressFamilyIPv6 | AddressFamilyUnknown | AddressFamilyOther string
datatype EndpointIntent = EndpointIntentPublic | EndpointIntentPrivate | EndpointIntentLocal | EndpointIntentUnknown | EndpointIntentOther string

definition addr_IsPrivate :: "Addr \<Rightarrow> bool" where
  "addr_IsPrivate a =
     (case addr_Unmap a of
        AddrZero \<Rightarrow> False
      | V4 v \<Rightarrow> v div 16777216 = 10 \<or> v div 1048576 = 2753 \<or> v div 65536 = 49320
      | V6 v z \<Rightarrow> v div 2 ^ 121 = 126)"

definition EndpointIntentForBind :: "string \<Rightarrow> EndpointIntent" where
  "EndpointIntentForBind value =
     (let n = NormalizeListen value in
      if nl_Class n = ListenLoopback then EndpointIntentLocal
      else if (case ParseAddr (nl_Value n) of Some a \<Rightarrow> addr_IsPrivate a | None \<Rightarrow> False) then EndpointIntentPrivate
      else if nl_Class n = ListenHostname \<or> nl_Class n = ListenWildcard then EndpointIntentUnknown
      else EndpointIntentPublic)"

definition AddressFamilyForListen :: "string \<Rightarrow> AddressFamily" where
  "AddressFamilyForListen value =
     (if nl_Family (NormalizeListen value) = 4 then AddressFamilyIPv4
      else if nl_Family (NormalizeListen value) = 6 then AddressFamilyIPv6
      else AddressFamilyUnknown)"

record PublicEndpointKey =
  ek_Network :: Network
  ek_AddressFamily :: AddressFamily
  ek_BindAddress :: string
  ek_Port :: int

section \<open>Management endpoints and recovery paths\<close>

record ManagementEndpointV1 =
  me_Schema :: string
  me_ID :: string
  me_Network :: Network
  me_Family :: AddressFamily
  me_Bind :: string
  me_Port :: int
  me_ServiceKind :: string
  me_Exposure :: EndpointIntent
  me_Owner :: string
  me_OwnerRevision :: string
  me_ResourceID :: string
  me_Purpose :: string
  me_RecoveryPolicy :: string
  me_Source :: string
  me_ConfiguredIntent :: bool
  me_ObservedListener :: bool
  me_Wildcard :: bool
  me_DualStack :: bool
  me_ConfidenceBP :: int
  me_ObservedAt :: int
  me_ExpiresAt :: int
  me_ConfigurationRevision :: string
  me_RuntimeRevision :: string
  me_SemanticRevision :: string
  me_ReasonCodes :: "string list"

record RecoveryPathV1 =
  rp_Schema :: string
  rp_ID :: string
  rp_Kind :: string
  rp_EndpointID :: string
  rp_PrincipalID :: string
  rp_SourcePrefix :: string
  rp_VerificationMethod :: string
  rp_EvidenceProvider :: string
  rp_TargetOperation :: string
  rp_VerifiedAt :: int
  rp_ExpiresAt :: int
  rp_IndependenceClass :: string
  rp_VerificationState :: string
  rp_OperationBound :: bool
  rp_SingleUse :: bool
  rp_ConsumedAt :: int
  rp_Revision :: int
  rp_ReasonCodes :: "string list"
  rp_SourceRevision :: string
  rp_ConfigurationRevision :: string
  rp_ServiceRevision :: string
  rp_BinaryRevision :: string
  rp_ProducerRevision :: string
  rp_ClientIdentityBindingRevision :: string
  rp_ClientIdentityConfigRevision :: string
  rp_ClientIdentityProvenance :: string

definition ManagementEndpointSchemaV1 :: string where "ManagementEndpointSchemaV1 = ''solovey-ui/management-endpoint/v1''"
definition RecoveryPathSchemaV1 :: string where "RecoveryPathSchemaV1 = ''solovey-ui/recovery-path/v1''"

definition validManagementRevision :: "string \<Rightarrow> bool" where
  "validManagementRevision value \<longleftrightarrow> length value = 64 \<and> value = ToLower value \<and> list_all lower_hex value"

definition validManagementKind :: "string \<Rightarrow> bool" where
  "validManagementKind value \<longleftrightarrow>
     ToUpper (TrimSpace value) \<in> {''PANEL'', ''SSH'', ''SUBSCRIPTION_ADMIN'', ''OTHER_ADMIN''}"

definition safeManagementID :: "string \<Rightarrow> bool" where
  "safeManagementID value0 =
     (let value = TrimSpace value0 in value \<noteq> '''' \<and> length value \<le> 256 \<and> list_all contract_char value)"

definition optional :: "(string \<Rightarrow> bool) \<Rightarrow> string \<Rightarrow> bool" where
  "optional ok v \<longleftrightarrow> v = '''' \<or> ok v"

definition endpoint_shape :: "ManagementEndpointV1 \<Rightarrow> go_time \<Rightarrow> bool" where
  "endpoint_shape v now \<longleftrightarrow>
     \<not> time_is_zero now \<and> me_Schema v = ManagementEndpointSchemaV1 \<and> safeManagementID (me_ID v)
     \<and> (me_Network v = NetworkTCP \<or> me_Network v = NetworkUDP)
     \<and> (me_Family v = AddressFamilyIPv4 \<or> me_Family v = AddressFamilyIPv6) \<and> me_Port v \<noteq> 0
     \<and> me_ObservedAt v > 0 \<and> me_ObservedAt v \<le> unix_of (now + 5 * minute) \<and> me_ExpiresAt v > unix_of now
     \<and> me_ExpiresAt v > me_ObservedAt v \<and> me_ExpiresAt v \<le> me_ObservedAt v + 300
     \<and> me_ConfidenceBP v > 0 \<and> me_ConfidenceBP v \<le> 10000 \<and> validManagementRevision (me_ConfigurationRevision v)
     \<and> validManagementKind (me_ServiceKind v) \<and> safeManagementID (me_Owner v) \<and> safeManagementID (me_Source v)
     \<and> optional safeManagementID (me_ResourceID v) \<and> optional safeManagementID (me_Purpose v)
     \<and> safeManagementID (me_RecoveryPolicy v)"

definition doubtful_reason :: "string \<Rightarrow> bool" where
  "doubtful_reason reason =
     (let lower = ToLower (TrimSpace reason)
      in \<not> safeManagementID lower \<or> length lower > 64
         \<or> list_ex (Contains lower) [''unknown'', ''stale'', ''truncated'', ''ambiguous'', ''invalid'', ''unavailable'', ''not_verified''])"

definition ManagementEndpointCurrent :: "ManagementEndpointV1 \<Rightarrow> go_time \<Rightarrow> bool" where
  "ManagementEndpointCurrent v now \<longleftrightarrow>
     endpoint_shape v now
     \<and> nl_Value (NormalizeListen (me_Bind v)) = me_Bind v \<and> AddressFamilyForListen (me_Bind v) = me_Family v
     \<and> me_Exposure v = EndpointIntentForBind (me_Bind v)
     \<and> list_all (optional validManagementRevision) [me_OwnerRevision v, me_RuntimeRevision v, me_SemanticRevision v]
     \<and> \<not> (\<not> me_ConfiguredIntent v \<and> \<not> me_ObservedListener v
          \<or> me_ServiceKind v = ''SSH'' \<and> me_ConfiguredIntent v = me_ObservedListener v)
     \<and> \<not> list_ex doubtful_reason (me_ReasonCodes v)"

definition path_shape :: "RecoveryPathV1 \<Rightarrow> int \<Rightarrow> bool" where
  "path_shape v nowUnix \<longleftrightarrow>
     rp_Schema v = RecoveryPathSchemaV1 \<and> safeManagementID (rp_ID v) \<and> safeManagementID (rp_EndpointID v)
     \<and> safeManagementID (rp_PrincipalID v) \<and> validManagementKind (rp_Kind v) \<and> safeManagementID (rp_VerificationMethod v)
     \<and> safeManagementID (rp_IndependenceClass v) \<and> safeManagementID (rp_VerificationState v)
     \<and> validManagementRevision (rp_SourceRevision v) \<and> validManagementRevision (rp_ConfigurationRevision v)
     \<and> optional validManagementRevision (rp_ProducerRevision v) \<and> rp_VerifiedAt v > 0 \<and> rp_VerifiedAt v \<le> nowUnix + 300
     \<and> rp_ExpiresAt v > rp_VerifiedAt v \<and> rp_ExpiresAt v \<le> rp_VerifiedAt v + 86400 \<and> length (rp_ReasonCodes v) \<le> 16"

definition RecoveryPathValid :: "RecoveryPathV1 \<Rightarrow> go_time \<Rightarrow> bool" where
  "RecoveryPathValid v now =
     (let nowUnix = unix_of now; pfx = TrimSpace (rp_SourcePrefix v) in
      path_shape v nowUnix
      \<and> list_all (optional safeManagementID) [rp_EvidenceProvider v, rp_TargetOperation v]
      \<and> list_all (optional validManagementRevision) [rp_ServiceRevision v, rp_BinaryRevision v]
      \<and> list_all (optional validManagementRevision) [rp_ClientIdentityBindingRevision v, rp_ClientIdentityConfigRevision v]
      \<and> rp_ClientIdentityProvenance v \<in> {'''', ''DIRECT'', ''TRUSTED_XFF''}
      \<and> \<not> ((rp_OperationBound v \<or> rp_SingleUse v) \<and> (rp_ExpiresAt v - rp_VerifiedAt v > 900 \<or> rp_Revision v = 0))
      \<and> \<not> (rp_ConsumedAt v < 0
           \<or> rp_ConsumedAt v > 0 \<and> (rp_ConsumedAt v < rp_VerifiedAt v \<or> rp_ConsumedAt v > nowUnix + 300))
      \<and> (pfx = '''' \<or> (case ParsePrefix pfx of None \<Rightarrow> False | Some p \<Rightarrow> prefix_String (prefix_Masked p) = pfx))
      \<and> list_all (\<lambda>r. safeManagementID r \<and> length r \<le> 64) (rp_ReasonCodes v))"

definition RecoveryPathFresh :: "RecoveryPathV1 \<Rightarrow> go_time \<Rightarrow> bool" where
  "RecoveryPathFresh v now =
     (if \<not> RecoveryPathValid v now \<or> \<not> EqualFold (TrimSpace (rp_VerificationState v)) ''verified''
         \<or> rp_ExpiresAt v \<le> unix_of now \<or> rp_ConsumedAt v \<noteq> 0 \<or> rp_ReasonCodes v \<noteq> [] then False
      else
        let independence = ToLower (TrimSpace (rp_IndependenceClass v));
            verification = ToLower (TrimSpace (rp_VerificationMethod v))
        in if verification = ''fresh_panel_login'' then
             independence = ''independent'' \<or> independence = ''independent_reconnect''
           else if verification = ''fresh_ssh_login'' then
             rp_OperationBound v \<and> rp_SingleUse v \<and> TrimSpace (rp_TargetOperation v) \<noteq> ''''
             \<and> (independence = ''independent'' \<or> independence = ''independent_reconnect'')
           else if verification = ''provider_console'' then
             rp_OperationBound v \<and> TrimSpace (rp_EvidenceProvider v) \<noteq> ''''
             \<and> (independence = ''independent'' \<or> independence = ''provider_control_plane'')
           else False)"

section \<open>The guard\<close>

record ManagementGuardInput =
  gi_Scope :: SignalScopeV2
  gi_Subject :: SignalSubjectV2
  gi_EndpointKey :: PublicEndpointKey
  gi_Management :: "ManagementEndpointV1 list"
  gi_RecoveryPaths :: "RecoveryPathV1 list"
  gi_TrustedSources :: "string list"
  gi_MayRestrictTraffic :: bool
  gi_Now :: go_time

definition uniqueSorted :: "string list \<Rightarrow> string list" where
  "uniqueSorted values = sort (first_seen {} (filter (\<lambda>v. v \<noteq> '''') (map TrimSpace values)))"

definition guard_normalize :: "ManagementGuardResult \<Rightarrow> ManagementGuardResult" where
  "guard_normalize r = r\<lparr>mg_ProtectedEndpointIDs := uniqueSorted (mg_ProtectedEndpointIDs r),
     mg_FreshRecoveryPathIDs := uniqueSorted (mg_FreshRecoveryPathIDs r),
     mg_UnaffectedRecoveryPathIDs := uniqueSorted (mg_UnaffectedRecoveryPathIDs r),
     mg_ReasonCodes := uniqueSorted (mg_ReasonCodes r)\<rparr>"

definition validGuardSubject :: "SignalSubjectV2 \<Rightarrow> bool" where
  "validGuardSubject subject =
     (if sj_Type subject = ''ip'' then
        (case ParseAddr (sj_Value subject) of None \<Rightarrow> False | Some a \<Rightarrow> addr_String (addr_Unmap a) = sj_Value subject)
      else if sj_Type subject = ''prefix'' then
        (case ParsePrefix (sj_Value subject) of None \<Rightarrow> False | Some p \<Rightarrow> prefix_String (prefix_Masked p) = sj_Value subject)
      else False)"

definition subjectOverlapsPrefix :: "SignalSubjectV2 \<Rightarrow> string \<Rightarrow> bool" where
  "subjectOverlapsPrefix subject prefixValue =
     (case ParsePrefix (TrimSpace prefixValue) of
        None \<Rightarrow> False
      | Some p0 \<Rightarrow>
          let p = prefix_Masked p0
          in if sj_Type subject = ''ip'' then
               (case ParseAddr (sj_Value subject) of None \<Rightarrow> False | Some a \<Rightarrow> prefix_Contains p a)
             else if sj_Type subject = ''prefix'' then
               (case ParsePrefix (sj_Value subject) of
                  None \<Rightarrow> False
                | Some other0 \<Rightarrow>
                    let other = prefix_Masked other0
                    in prefix_Contains p (px_Addr other) \<or> prefix_Contains other (px_Addr p))
             else False)"

definition recoveryUnaffected :: "RecoveryPathV1 \<Rightarrow> SignalSubjectV2 \<Rightarrow> bool" where
  "recoveryUnaffected path subject =
     (if ToLower (TrimSpace (rp_VerificationMethod path)) = ''provider_console'' then True
      else let pfx = TrimSpace (rp_SourcePrefix path)
           in if pfx = '''' then False else \<not> subjectOverlapsPrefix subject pfx)"

definition managementEndpointMatches :: "ManagementEndpointV1 \<Rightarrow> string \<Rightarrow> PublicEndpointKey \<Rightarrow> bool" where
  "managementEndpointMatches value resourceID key =
     (if ek_Network key \<noteq> NetworkUnknown \<and> ek_AddressFamily key \<noteq> AddressFamilyUnknown \<and> ek_Port key \<noteq> 0 then
        if resourceID \<noteq> '''' \<and> me_ResourceID value \<noteq> '''' \<and> me_ResourceID value \<noteq> resourceID then False
        else me_Network value = ek_Network key \<and> me_Family value = ek_AddressFamily key \<and> me_Port value = ek_Port key
             \<and> nl_Value (NormalizeListen (me_Bind value)) = nl_Value (NormalizeListen (ek_BindAddress key))
      else resourceID \<noteq> '''' \<and> me_ResourceID value = resourceID)"

text \<open>The recovery paths that count for one endpoint.\<close>

definition usable_path :: "ManagementEndpointV1 \<Rightarrow> go_time \<Rightarrow> RecoveryPathV1 \<Rightarrow> bool" where
  "usable_path endpoint now path \<longleftrightarrow>
     rp_EndpointID path = me_ID endpoint \<and> EqualFold (rp_Kind path) (me_ServiceKind endpoint)
     \<and> rp_ConfigurationRevision path = me_ConfigurationRevision endpoint \<and> RecoveryPathFresh path now
     \<and> (let pfx = TrimSpace (rp_SourcePrefix path)
        in pfx = '''' \<or> (case ParsePrefix pfx of None \<Rightarrow> False
             | Some parsed \<Rightarrow> (me_Family endpoint = AddressFamilyIPv4) = addr_Is4 (px_Addr parsed)))"

definition fresh_paths :: "ManagementGuardInput \<Rightarrow> go_time \<Rightarrow> ManagementEndpointV1 \<Rightarrow> RecoveryPathV1 list" where
  "fresh_paths inp now endpoint = filter (usable_path endpoint now) (gi_RecoveryPaths inp)"

definition unaffected_paths :: "ManagementGuardInput \<Rightarrow> go_time \<Rightarrow> ManagementEndpointV1 \<Rightarrow> RecoveryPathV1 list" where
  "unaffected_paths inp now endpoint = filter (\<lambda>p. recoveryUnaffected p (gi_Subject inp)) (fresh_paths inp now endpoint)"

definition recovery_reason :: "ManagementGuardInput \<Rightarrow> go_time \<Rightarrow> ManagementEndpointV1 \<Rightarrow> string list" where
  "recovery_reason inp now endpoint =
     (if fresh_paths inp now endpoint = [] then [''fresh_recovery_path_missing'']
      else if unaffected_paths inp now endpoint = [] then [''last_recovery_path_protected'']
      else [])"

text \<open>The second loop over the matched endpoints and what follows it.\<close>

definition guard_recovery :: "ManagementGuardInput \<Rightarrow> go_time \<Rightarrow> ManagementEndpointV1 list \<Rightarrow> ManagementGuardResult \<Rightarrow> ManagementGuardResult" where
  "guard_recovery inp now matched r0 =
     (let unknownRecovery = list_ex (\<lambda>e. fresh_paths inp now e = []) matched;
          protectedRecovery = list_ex (\<lambda>e. fresh_paths inp now e \<noteq> [] \<and> unaffected_paths inp now e = []) matched;
          reasons = mg_ReasonCodes r0 @ concat (map (recovery_reason inp now) matched);
          r = r0\<lparr>mg_FreshRecoveryPathIDs := mg_FreshRecoveryPathIDs r0 @ concat (map (\<lambda>e. map rp_ID (fresh_paths inp now e)) matched),
                 mg_UnaffectedRecoveryPathIDs := mg_UnaffectedRecoveryPathIDs r0
                   @ concat (map (\<lambda>e. map rp_ID (unaffected_paths inp now e)) matched),
                 mg_ReasonCodes := reasons\<rparr>
      in guard_normalize
           (if unknownRecovery then r\<lparr>mg_State := GuardUnknown, mg_ActionAllowed := False\<rparr>
            else if protectedRecovery then r\<lparr>mg_State := GuardProtected, mg_ActionAllowed := False\<rparr>
            else r\<lparr>mg_ReasonCodes := reasons @ [''independent_recovery_path_preserved'']\<rparr>))"

definition EvaluateManagementGuard :: "go_time \<Rightarrow> ManagementGuardInput \<Rightarrow> ManagementGuardResult" where
  "EvaluateManagementGuard wall inp =
     (let now = now_or wall (gi_Now inp);
          result = \<lparr>mg_State = GuardNotApplicable, mg_ProtectedEndpointIDs = [], mg_FreshRecoveryPathIDs = [],
                    mg_UnaffectedRecoveryPathIDs = [], mg_TrustedSourceMatched = False, mg_ActionAllowed = True, mg_ReasonCodes = []\<rparr>
      in if \<not> gi_MayRestrictTraffic inp then result\<lparr>mg_ReasonCodes := [''non_restrictive_action'']\<rparr>
         else if \<not> validGuardSubject (gi_Subject inp) then
           result\<lparr>mg_State := GuardUnknown, mg_ActionAllowed := False, mg_ReasonCodes := [''management_subject_unknown'']\<rparr>
         else if list_ex (subjectOverlapsPrefix (gi_Subject inp)) (gi_TrustedSources inp) then
           result\<lparr>mg_State := GuardProtected, mg_TrustedSourceMatched := True, mg_ActionAllowed := False,
             mg_ReasonCodes := [''trusted_source_precedence'']\<rparr>
         else
           let matched = filter (\<lambda>e. managementEndpointMatches e (sc_TargetResourceID (gi_Scope inp)) (gi_EndpointKey inp)) (gi_Management inp)
           in if matched = [] then result\<lparr>mg_ReasonCodes := [''not_a_management_endpoint'']\<rparr>
              else
                let stale = filter (\<lambda>e. \<not> ManagementEndpointCurrent e now) matched;
                    r = result\<lparr>mg_State := (if stale = [] then GuardAllowed else GuardUnknown), mg_ProtectedEndpointIDs := map me_ID matched,
                          mg_ActionAllowed := (stale = []), mg_ReasonCodes := map (\<lambda>_. ''management_endpoint_unknown'') stale\<rparr>
                in if stale \<noteq> [] then guard_normalize r else guard_recovery inp now matched r)"

section \<open>Trusted sources\<close>

datatype trusted_error = ErrTrustedSourceInvalid | ErrTrustedSourceUnusable | ErrTrustedSourceBroadConfirmation

record TrustedSourceValidation =
  ts_Prefix :: Prefix
  ts_Family :: string
  ts_Broad :: bool
  ts_Confirmation :: string
  ts_BroadScopeAcknowledgement :: bool

definition normalizeTrustedSource :: "string \<Rightarrow> trusted_error + Prefix" where
  "normalizeTrustedSource raw0 =
     (let raw = TrimSpace raw0 in
      case ParsePrefix raw of
        Some p \<Rightarrow>
          if addr_Is4In6 (px_Addr p) then
            if px_Bits p < 96 then Inl ErrTrustedSourceInvalid
            else Inr (prefix_Masked (PrefixFrom (addr_Unmap (px_Addr p)) (px_Bits p - 96)))
          else Inr (prefix_Masked p)
      | None \<Rightarrow>
          (case ParseAddr raw of
             None \<Rightarrow> Inl ErrTrustedSourceInvalid
           | Some a0 \<Rightarrow>
               if addr_Zone a0 \<noteq> '''' then Inl ErrTrustedSourceInvalid
               else let a = addr_Unmap a0 in Inr (PrefixFrom a (if addr_Is4 a then 32 else 128))))"

definition special_addresses :: "Addr \<Rightarrow> Addr list" where
  "special_addresses a =
     (if addr_Is4 a then [V4 0, V4 2130706433, V4 2851995649, V4 3758096385, V4 4294967295]
      else [V6 0 '''', V6 1 '''', V6 (1018 * 2 ^ 118 + 1) '''', V6 (255 * 2 ^ 120 + 1) ''''])"

definition trustedSourceContainsUnusableAddress :: "Prefix \<Rightarrow> bool" where
  "trustedSourceContainsUnusableAddress p =
     (if \<not> prefix_IsValid p then True
      else let address = px_Addr p in
        if addr_IsUnspecified address \<or> addr_IsLoopback address \<or> addr_IsMulticast address \<or> addr_IsLinkLocalUnicast address then True
        else list_ex (prefix_Contains p) (special_addresses address))"

definition ValidateTrustedSource :: "string \<Rightarrow> bool \<Rightarrow> string \<Rightarrow> (trusted_error \<times> TrustedSourceValidation option) + TrustedSourceValidation" where
  "ValidateTrustedSource raw broadAcknowledged confirmation =
     (case normalizeTrustedSource raw of
        Inl e \<Rightarrow> Inl (e, None)
      | Inr p \<Rightarrow>
          if trustedSourceContainsUnusableAddress p then Inl (ErrTrustedSourceUnusable, None)
          else
            let (family, broad) = (if addr_Is4 (px_Addr p) then (''ipv4'', px_Bits p < 24) else (''ipv6'', px_Bits p < 64));
                expected = ''TRUST BROAD SOURCE '' @ prefix_String p
            in if broad \<and> (\<not> broadAcknowledged \<or> confirmation \<noteq> expected) then
                 Inl (ErrTrustedSourceBroadConfirmation, Some \<lparr>ts_Prefix = p, ts_Family = family, ts_Broad = True,
                   ts_Confirmation = expected, ts_BroadScopeAcknowledgement = False\<rparr>)
               else Inr \<lparr>ts_Prefix = p, ts_Family = family, ts_Broad = broad, ts_Confirmation = expected,
                   ts_BroadScopeAcknowledgement = broadAcknowledged\<rparr>)"

definition NormalizeTrustedSource :: "string \<Rightarrow> trusted_error + Prefix" where
  "NormalizeTrustedSource raw =
     (case ValidateTrustedSource raw True '''' of
        Inl (ErrTrustedSourceBroadConfirmation, Some v) \<Rightarrow> Inr (ts_Prefix v)
      | Inl (e, v) \<Rightarrow> Inl e
      | Inr v \<Rightarrow> Inr (ts_Prefix v))"

end
