(* ===== verification/Guard_Safety.thy ===== *)
theory Guard_Safety
  imports Management_Guard
begin

text \<open>
  Properties of the management guard and of trusted sources: prefixes as sets of addresses, what an allowed action
  leaves open, and what a trusted source cannot be.
\<close>

section \<open>Prefixes as sets of addresses\<close>

lemma mask_eq_iff: "mask_value w b x = mask_value w b y \<longleftrightarrow> x div 2 ^ nat (w - b) = y div 2 ^ nat (w - b)"
proof -
  have "mask_value w b z = 2 ^ nat (w - b) * (z div 2 ^ nat (w - b))" for z
    by (simp add: mask_value_def minus_mod_eq_mult_div)
  then show ?thesis by simp
qed

lemma div_pow_coarser:
  assumes "x div 2 ^ m = y div (2 ^ m :: int)" "m \<le> n"
  shows "x div 2 ^ n = y div 2 ^ n"
proof -
  have "2 ^ n = 2 ^ m * (2 ^ (n - m) :: int)" using assms(2) by (simp flip: power_add)
  then have "z div 2 ^ n = (z div 2 ^ m) div (2 ^ (n - m))" for z :: int by (simp add: zdiv_zmult2_eq)
  then show ?thesis using assms(1) by simp
qed

lemma Contains_iff:
  "prefix_Contains p a \<longleftrightarrow> px_Bits p \<ge> 0 \<and> addr_Zone a = '''' \<and> addr_BitLen a \<noteq> 0 \<and> addr_BitLen (px_Addr p) = addr_BitLen a
     \<and> addr_val a div 2 ^ nat (addr_BitLen a - px_Bits p) = addr_val (px_Addr p) div 2 ^ nat (addr_BitLen a - px_Bits p)"
  by (simp add: prefix_Contains_def prefix_IsValid_def mask_eq_iff)

text \<open>A prefix that parses: it has a family and no zone, and so it contains its own address.\<close>

definition proper :: "Prefix \<Rightarrow> bool" where
  "proper p \<longleftrightarrow> px_Bits p \<ge> 0 \<and> addr_Zone (px_Addr p) = '''' \<and> addr_BitLen (px_Addr p) \<noteq> 0"

lemma proper_self: "proper p \<Longrightarrow> prefix_Contains p (px_Addr p)"
  by (simp add: Contains_iff proper_def)

text \<open>Two prefixes that share an address are nested, so the longer one has its address in the other.\<close>

lemma Contains_nested:
  assumes "prefix_Contains p a" "prefix_Contains q a" "px_Bits p \<le> px_Bits q" "proper q"
  shows "prefix_Contains p (px_Addr q)"
proof -
  note p = assms(1)[unfolded Contains_iff] and q = assms(2)[unfolded Contains_iff]
  have "nat (addr_BitLen a - px_Bits q) \<le> nat (addr_BitLen a - px_Bits p)" using assms(3) by (intro nat_mono) simp
  then have "addr_val a div 2 ^ nat (addr_BitLen a - px_Bits p) = addr_val (px_Addr q) div 2 ^ nat (addr_BitLen a - px_Bits p)"
    using div_pow_coarser[of "addr_val a" "nat (addr_BitLen a - px_Bits q)" "addr_val (px_Addr q)"] q by blast
  then show ?thesis using p q assms(4) unfolding Contains_iff proper_def by metis
qed

lemma overlap_iff:
  assumes "proper p" "proper q"
  shows "(\<exists>a. prefix_Contains p a \<and> prefix_Contains q a) \<longleftrightarrow> prefix_Contains p (px_Addr q) \<or> prefix_Contains q (px_Addr p)"
proof
  assume "\<exists>a. prefix_Contains p a \<and> prefix_Contains q a"
  then obtain a where a: "prefix_Contains p a" "prefix_Contains q a" by blast
  show "prefix_Contains p (px_Addr q) \<or> prefix_Contains q (px_Addr p)"
    using Contains_nested[OF a _ assms(2)] Contains_nested[OF a(2,1) _ assms(1)] by (cases "px_Bits p \<le> px_Bits q") auto
next
  assume "prefix_Contains p (px_Addr q) \<or> prefix_Contains q (px_Addr p)"
  then show "\<exists>a. prefix_Contains p a \<and> prefix_Contains q a" using proper_self assms by blast
qed

lemma parse_v6_proper: "parse_v6 t = Some a \<Longrightarrow> addr_BitLen a = 128"
  by (auto simp: parse_v6_def split: if_splits option.splits prod.splits)

lemma ParseAddr_proper: "ParseAddr s = Some a \<Longrightarrow> addr_BitLen a \<noteq> 0"
proof -
  have "ParseAddr_from t s = Some a \<Longrightarrow> addr_BitLen a \<noteq> 0" for t
    by (induction s) (auto split: if_splits dest: parse_v6_proper)
  then show "ParseAddr s = Some a \<Longrightarrow> addr_BitLen a \<noteq> 0" by (simp add: ParseAddr_def)
qed

lemma ParsePrefix_proper:
  assumes "ParsePrefix s = Some p"
  shows "proper p" "proper (prefix_Masked p)"
proof -
  obtain w t found where c: "Cut (rev s) CHR ''/'' = (w, t, found)" by (metis prod_cases3)
  then obtain a where a: "ParseAddr (rev t) = Some a" using assms by (auto simp: ParsePrefix_def Let_def split: if_splits option.splits)
  then have "\<exists>bits. 0 \<le> bits \<and> bits \<le> addr_BitLen a \<and> p = PrefixFrom a bits"
    using assms c by (auto simp: ParsePrefix_def Let_def not_less split: if_splits option.splits intro!: exI)
  then show "proper p"
    using ParseAddr_proper[OF a] by (cases a) (auto simp: PrefixFrom_def proper_def addr_IsValid_def)
  then show "proper (prefix_Masked p)"
    by (cases "px_Addr p") (auto simp: prefix_Masked_def proper_def)
qed

section \<open>The guard\<close>

text \<open>The addresses a subject stands for.\<close>

definition subject_covers :: "SignalSubjectV2 \<Rightarrow> Addr \<Rightarrow> bool" where
  "subject_covers s a \<longleftrightarrow>
     sj_Type s = ''ip'' \<and> ParseAddr (sj_Value s) = Some a
     \<or> sj_Type s = ''prefix'' \<and> (\<exists>p. ParsePrefix (sj_Value s) = Some p \<and> prefix_Contains (prefix_Masked p) a)"

text \<open>\<^verbatim>\<open>subjectOverlapsPrefix\<close> decides whether the subject and the prefix have an address in common.\<close>

lemma subjectOverlapsPrefix_iff:
  "subjectOverlapsPrefix s v \<longleftrightarrow>
     (\<exists>p a. ParsePrefix (TrimSpace v) = Some p \<and> prefix_Contains (prefix_Masked p) a \<and> subject_covers s a)"
proof (cases "ParsePrefix (TrimSpace v)")
  case None
  then show ?thesis by (simp add: subjectOverlapsPrefix_def)
next
  case (Some p)
  note p = ParsePrefix_proper(2)[OF Some]
  consider "sj_Type s = ''ip''" | "sj_Type s = ''prefix''" | "sj_Type s \<noteq> ''ip''" "sj_Type s \<noteq> ''prefix''" by blast
  then show ?thesis
  proof cases
    case 1
    then show ?thesis using Some by (cases "ParseAddr (sj_Value s)") (simp_all add: subjectOverlapsPrefix_def subject_covers_def)
  next
    case 2
    show ?thesis
    proof (cases "ParsePrefix (sj_Value s)")
      case None
      then show ?thesis using 2 Some by (simp add: subjectOverlapsPrefix_def subject_covers_def)
    next
      case q: (Some q)
      then show ?thesis
        using 2 Some overlap_iff[OF p ParsePrefix_proper(2)[OF q]]
        by (simp add: subjectOverlapsPrefix_def subject_covers_def Let_def)
    qed
  next
    case 3
    then show ?thesis using Some by (simp add: subjectOverlapsPrefix_def subject_covers_def)
  qed
qed

lemma guard_normalize_allowed [simp]: "mg_ActionAllowed (guard_normalize r) = mg_ActionAllowed r" "mg_State (guard_normalize r) = mg_State r"
  by (simp_all add: guard_normalize_def)

lemma guard_recovery_allowed:
  assumes "mg_ActionAllowed r"
  shows "mg_ActionAllowed (guard_recovery inp now ms r) \<longleftrightarrow> (\<forall>e\<in>set ms. unaffected_paths inp now e \<noteq> [])"
  using assms by (auto simp: guard_recovery_def Let_def list_ex_iff unaffected_paths_def)

text \<open>A recovery path that stays open: it leads to the endpoint, it was verified, and it is a provider console or
  comes from addresses that the subject does not cover.\<close>

definition open_path :: "SignalSubjectV2 \<Rightarrow> ManagementEndpointV1 \<Rightarrow> go_time \<Rightarrow> RecoveryPathV1 \<Rightarrow> bool" where
  "open_path s e now p \<longleftrightarrow>
     rp_EndpointID p = me_ID e \<and> rp_ConfigurationRevision p = me_ConfigurationRevision e \<and> RecoveryPathFresh p now
     \<and> (ToLower (TrimSpace (rp_VerificationMethod p)) = ''provider_console''
        \<or> (\<exists>q. ParsePrefix (TrimSpace (rp_SourcePrefix p)) = Some q \<and> \<not> (\<exists>a. subject_covers s a \<and> prefix_Contains (prefix_Masked q) a)))"

lemma usable_unaffected_open: "usable_path e now p \<Longrightarrow> recoveryUnaffected p s \<Longrightarrow> open_path s e now p"
  by (auto simp: usable_path_def recoveryUnaffected_def open_path_def subjectOverlapsPrefix_iff Let_def split: if_splits option.splits)

lemma guard_allowed:
  assumes "mg_ActionAllowed (EvaluateManagementGuard wall inp)" "gi_MayRestrictTraffic inp" "now = now_or wall (gi_Now inp)"
  shows "validGuardSubject (gi_Subject inp)"
    "t \<in> set (gi_TrustedSources inp) \<Longrightarrow> \<not> subjectOverlapsPrefix (gi_Subject inp) t"
    "e \<in> set (gi_Management inp) \<Longrightarrow> managementEndpointMatches e (sc_TargetResourceID (gi_Scope inp)) (gi_EndpointKey inp) \<Longrightarrow>
       ManagementEndpointCurrent e now \<and> unaffected_paths inp now e \<noteq> []"
proof -
  let ?ms = "filter (\<lambda>e. managementEndpointMatches e (sc_TargetResourceID (gi_Scope inp)) (gi_EndpointKey inp)) (gi_Management inp)"
  show v: "validGuardSubject (gi_Subject inp)" using assms by (auto simp: EvaluateManagementGuard_def Let_def split: if_splits)
  have t: "\<not> list_ex (subjectOverlapsPrefix (gi_Subject inp)) (gi_TrustedSources inp)"
    using assms by (auto simp: EvaluateManagementGuard_def Let_def split: if_splits)
  then show "t \<in> set (gi_TrustedSources inp) \<Longrightarrow> \<not> subjectOverlapsPrefix (gi_Subject inp) t" by (simp add: list_ex_iff)
  show "ManagementEndpointCurrent e now \<and> unaffected_paths inp now e \<noteq> []"
    if "e \<in> set (gi_Management inp)" "managementEndpointMatches e (sc_TargetResourceID (gi_Scope inp)) (gi_EndpointKey inp)"
  proof -
    have e: "e \<in> set ?ms" using that by simp
    then have "?ms \<noteq> []" by (metis empty_iff list.set(1))
    then have "filter (\<lambda>e. \<not> ManagementEndpointCurrent e now) ?ms = [] \<and>
        (\<forall>e\<in>set ?ms. unaffected_paths inp now e \<noteq> [])"
      using assms v t guard_recovery_allowed
      by (simp add: EvaluateManagementGuard_def Let_def split: if_splits)
    then show ?thesis using e by (auto simp: filter_empty_conv)
  qed
qed

text \<open>C3. A planned response never cuts off its operator.  When the resolver is given the management guard of the same
  subject, evaluated for a restricting intent, a planned response has a subject that shares no address with a trusted
  source, and for every management endpoint it concerns, known from current facts, there is a fresh recovery path to
  it that is a provider console or comes from addresses outside the subject.\<close>

theorem response_keeps_recovery:
  assumes "re_PlannedResponse (Resolve dg rdg wall inp) = Some r" "ri_Guard inp = EvaluateManagementGuard wall g"
    "gi_Subject g = pd_Subject (ri_Decision inp)" "gi_MayRestrictTraffic g \<longleftrightarrow> pd_RequestedIntent (ri_Decision inp) \<noteq> IntentObserve"
    "now = now_or wall (gi_Now g)"
  shows "(\<forall>t\<in>set (gi_TrustedSources g). \<forall>p a. ParsePrefix (TrimSpace t) = Some p \<and> prefix_Contains (prefix_Masked p) a
        \<longrightarrow> \<not> subject_covers (pr_Subject r) a)
    \<and> (\<forall>e\<in>set (gi_Management g). managementEndpointMatches e (sc_TargetResourceID (gi_Scope g)) (gi_EndpointKey g)
        \<longrightarrow> ManagementEndpointCurrent e now \<and> (\<exists>p\<in>set (gi_RecoveryPaths g). open_path (pr_Subject r) e now p))"
proof -
  note pl = Resolve_planned[OF assms(1) refl refl]
  have "pd_RequestedIntent (ri_Decision inp) \<noteq> IntentObserve"
    using pl(2,3) strongest_supported_in(1)[of "ri_Strategy inp" "ri_Capability inp" IntentObserve "now_or wall (ri_Now inp)"] by auto
  then have may: "gi_MayRestrictTraffic g" using assms(4) by simp
  have "mg_ActionAllowed (EvaluateManagementGuard wall g)"
    using pl(1) assms(2) by (simp add: clear_to_act_def Let_def)
  note ok = guard_allowed[OF this may assms(5)]
  have s: "gi_Subject g = pr_Subject r" using pl(5) assms(3) by simp
  have "\<exists>p\<in>set (gi_RecoveryPaths g). open_path (pr_Subject r) e now p"
    if ne: "unaffected_paths g now e \<noteq> []" for e
  proof -
    obtain p where "p \<in> set (unaffected_paths g now e)" using ne by (cases "unaffected_paths g now e") auto
    then show ?thesis using usable_unaffected_open[of e now p "gi_Subject g"] s by (auto simp: unaffected_paths_def fresh_paths_def)
  qed
  then show ?thesis using ok(2)[unfolded subjectOverlapsPrefix_iff s] ok(3) by blast
qed

section \<open>Trusted sources\<close>

text \<open>A block of addresses is inside a prefix, around it, or apart from it: whether a prefix meets the block shows at
  one address of the block and at the address of the prefix.\<close>

lemma block_sampled:
  assumes "prefix_Contains p a" "addr_BitLen s = addr_BitLen a" "addr_Zone s = ''''"
    "addr_val a div 2 ^ k = c" "addr_val s div 2 ^ k = c"
  shows "prefix_Contains p s \<or> addr_val (px_Addr p) div 2 ^ k = c"
proof -
  note p = assms(1)[unfolded Contains_iff]
  let ?n = "nat (addr_BitLen a - px_Bits p)"
  show ?thesis
  proof (cases "k \<le> ?n")
    case True
    have "addr_val s div 2 ^ ?n = addr_val a div 2 ^ ?n" using div_pow_coarser[OF _ True] assms(4,5) by metis
    then show ?thesis using p assms(2,3) unfolding Contains_iff by metis
  next
    case False
    have "addr_val a div 2 ^ k = addr_val (px_Addr p) div 2 ^ k" using div_pow_coarser[of _ ?n _ k] p False by (meson nat_le_linear)
    then show ?thesis using assms(4) by simp
  qed
qed

definition special :: "Addr \<Rightarrow> bool" where
  "special a \<longleftrightarrow> addr_IsUnspecified a \<or> addr_IsLoopback a \<or> addr_IsMulticast a \<or> addr_IsLinkLocalUnicast a"

lemma usable_no_special_v4:
  assumes "prefix_Contains p (V4 v)" "\<not> trustedSourceContainsUnusableAddress p"
  shows "\<not> special (V4 v)" "v \<noteq> 4294967295"
proof -
  obtain u where u: "px_Addr p = V4 u" using assms(1) by (cases "px_Addr p") (simp_all add: Contains_iff)
  have n: "\<not> special (V4 u)" "\<not> prefix_Contains p (V4 0)" "\<not> prefix_Contains p (V4 2130706433)" "\<not> prefix_Contains p (V4 2851995649)"
    "\<not> prefix_Contains p (V4 3758096385)" "\<not> prefix_Contains p (V4 4294967295)"
    using assms(2) by (simp_all add: trustedSourceContainsUnusableAddress_def special_addresses_def special_def u Let_def split: if_splits)
  show "v \<noteq> 4294967295" using assms(1) n(6) by blast
  have "v \<noteq> 0" using assms(1) n(2) by blast
  moreover have "v div 16777216 \<noteq> 127" using block_sampled[OF assms(1), of "V4 2130706433" 24 127] n(1,3) u by (auto simp: special_def addr_IsLoopback_def)
  moreover have "v div 268435456 \<noteq> 14" using block_sampled[OF assms(1), of "V4 3758096385" 28 14] n(1,5) u by (auto simp: special_def addr_IsMulticast_def)
  moreover have "v div 65536 \<noteq> 43518" using block_sampled[OF assms(1), of "V4 2851995649" 16 43518] n(1,4) u by (auto simp: special_def addr_IsLinkLocalUnicast_def)
  ultimately show "\<not> special (V4 v)"
    by (simp add: special_def addr_IsUnspecified_def addr_IsLoopback_def addr_IsMulticast_def addr_IsLinkLocalUnicast_def)
qed

lemma v6_not_mapped: "v div 2 ^ 120 = 255 \<or> v div 2 ^ 118 = 1018 \<or> v = 1 \<Longrightarrow> v div 4294967296 \<noteq> (65535 :: int)"
proof -
  have "v div 2 ^ 118 = v div 4294967296 div 2 ^ 86" "v div 2 ^ 120 = v div 4294967296 div 2 ^ 88" for v :: int
    by (simp_all flip: zdiv_zmult2_eq)
  then show "v div 2 ^ 120 = 255 \<or> v div 2 ^ 118 = 1018 \<or> v = 1 \<Longrightarrow> v div 4294967296 \<noteq> (65535 :: int)" by auto
qed

lemma usable_no_special_v6:
  assumes "prefix_Contains p (V6 v [])" "\<not> trustedSourceContainsUnusableAddress p" "\<not> addr_Is4In6 (V6 v [])" "addr_Zone (px_Addr p) = []"
  shows "\<not> special (V6 v [])"
proof -
  obtain u where u: "px_Addr p = V6 u []" using assms(1,4) by (cases "px_Addr p") (simp_all add: Contains_iff)
  have n: "\<not> special (V6 u [])" "\<not> prefix_Contains p (V6 0 [])" "\<not> prefix_Contains p (V6 1 [])"
    "\<not> prefix_Contains p (V6 (1018 * 2 ^ 118 + 1) [])" "\<not> prefix_Contains p (V6 (255 * 2 ^ 120 + 1) [])"
    using assms(2) by (simp_all add: trustedSourceContainsUnusableAddress_def special_addresses_def special_def u Let_def split: if_splits)
  have "v \<noteq> 0" "v \<noteq> 1" using assms(1) n(2,3) by blast+
  moreover have "v div 2 ^ 120 \<noteq> 255"
    using block_sampled[OF assms(1), of "V6 (255 * 2 ^ 120 + 1) []" 120 255] n(1,5) u v6_not_mapped[of u] by (auto simp: special_def addr_IsMulticast_def)
  moreover have "v div 2 ^ 118 \<noteq> 1018"
    using block_sampled[OF assms(1), of "V6 (1018 * 2 ^ 118 + 1) []" 118 1018] n(1,4) u v6_not_mapped[of u] by (auto simp: special_def addr_IsLinkLocalUnicast_def)
  ultimately show ?thesis
    using assms(3) by (simp add: special_def addr_IsUnspecified_def addr_IsLoopback_def addr_IsMulticast_def addr_IsLinkLocalUnicast_def)
qed

lemma normalizeTrustedSource_shape:
  assumes "normalizeTrustedSource raw = Inr p"
  shows "addr_Zone (px_Addr p) = []" "prefix_Masked p = p"
proof -
  have m: "addr_Zone (px_Addr (prefix_Masked q)) = []" for q
    by (cases "px_Addr q") (simp_all add: prefix_Masked_def prefix_zero_def)
  have w: "addr_Zone (px_Addr (PrefixFrom b n)) = []" for b n by (cases b) (simp_all add: PrefixFrom_def)
  have f: "addr_Is4 b \<Longrightarrow> prefix_Masked (PrefixFrom b 32) = PrefixFrom b 32" "\<not> addr_Is4 b \<Longrightarrow> prefix_Masked (PrefixFrom b 128) = PrefixFrom b 128" for b
    by (cases b; simp add: PrefixFrom_def prefix_Masked_def prefix_zero_def mask_value_def addr_IsValid_def)+
  show "addr_Zone (px_Addr p) = []" "prefix_Masked p = p"
    using assms m w f by (auto simp: normalizeTrustedSource_def Let_def split: option.splits if_splits)
qed


section \<open>An example\<close>

text \<open>A web panel with one recovery path from another network.\<close>

definition demo_panel :: ManagementEndpointV1 where
  "demo_panel =
     \<lparr>me_Schema = ManagementEndpointSchemaV1, me_ID = ''management:panel'', me_Network = NetworkTCP, me_Family = AddressFamilyIPv4,
      me_Bind = ''0.0.0.0'', me_Port = 2095, me_ServiceKind = ''PANEL'', me_Exposure = EndpointIntentPublic, me_Owner = ''core'',
      me_OwnerRevision = '''', me_ResourceID = ''r'', me_Purpose = '''', me_RecoveryPolicy = ''fresh_independent_path_required'',
      me_Source = ''settings'', me_ConfiguredIntent = True, me_ObservedListener = False, me_Wildcard = True, me_DualStack = False,
      me_ConfidenceBP = 10000, me_ObservedAt = 1700000000, me_ExpiresAt = 1700000090,
      me_ConfigurationRevision = replicate 64 CHR ''c'', me_RuntimeRevision = '''', me_SemanticRevision = '''', me_ReasonCodes = []\<rparr>"

definition demo_path :: RecoveryPathV1 where
  "demo_path =
     \<lparr>rp_Schema = RecoveryPathSchemaV1, rp_ID = ''p1'', rp_Kind = ''panel'', rp_EndpointID = ''management:panel'', rp_PrincipalID = ''admin'',
      rp_SourcePrefix = ''198.51.100.0/24'', rp_VerificationMethod = ''fresh_panel_login'', rp_EvidenceProvider = '''', rp_TargetOperation = '''',
      rp_VerifiedAt = 1700000000, rp_ExpiresAt = 1700000600, rp_IndependenceClass = ''independent'', rp_VerificationState = ''verified'',
      rp_OperationBound = False, rp_SingleUse = False, rp_ConsumedAt = 0, rp_Revision = 1, rp_ReasonCodes = [],
      rp_SourceRevision = replicate 64 CHR ''d'', rp_ConfigurationRevision = replicate 64 CHR ''c'', rp_ServiceRevision = '''',
      rp_BinaryRevision = '''', rp_ProducerRevision = '''', rp_ClientIdentityBindingRevision = '''', rp_ClientIdentityConfigRevision = '''',
      rp_ClientIdentityProvenance = ''''\<rparr>"

definition demo_guard_input :: ManagementGuardInput where
  "demo_guard_input =
     \<lparr>gi_Scope = ps_Scope (pi_Signal demo_pipeline), gi_Subject = \<lparr>sj_Type = ''ip'', sj_Value = ''192.0.2.7''\<rparr>,
      gi_EndpointKey = \<lparr>ek_Network = NetworkTCP, ek_AddressFamily = AddressFamilyIPv4, ek_BindAddress = ''0.0.0.0'', ek_Port = 2095\<rparr>,
      gi_Management = [demo_panel], gi_RecoveryPaths = [demo_path], gi_TrustedSources = [''203.0.113.0/24''], gi_MayRestrictTraffic = True,
      gi_Now = time_of_unix 1700000010\<rparr>"

lemma demo_guard_result:
  "EvaluateManagementGuard 0 demo_guard_input =
     \<lparr>mg_State = GuardAllowed, mg_ProtectedEndpointIDs = [''management:panel''], mg_FreshRecoveryPathIDs = [''p1''],
      mg_UnaffectedRecoveryPathIDs = [''p1''], mg_TrustedSourceMatched = False, mg_ActionAllowed = True,
      mg_ReasonCodes = [''independent_recovery_path_preserved'']\<rparr>"
  by code_simp

definition demo_guarded :: ResolveInput where
  "demo_guarded = (resolve_input demo_pipeline demo_decision 4)\<lparr>ri_Guard := EvaluateManagementGuard 0 demo_guard_input\<rparr>"

lemma demo_guarded_planned: "\<exists>r. re_PlannedResponse (Resolve (dg_decision demo_digests) (dg_response demo_digests) 0 demo_guarded) = Some r"
proof -
  have c: "clear_to_act (dg_decision demo_digests) 4 demo_guarded"
    using demo_clear demo_guard_result by (simp add: clear_to_act_def revision_bound_def demo_guarded_def Let_def)
  have "now_or 0 (ri_Now demo_guarded) = 4" "ri_Strategy demo_guarded = ''NATIVE_FALLBACK''"
    "ri_Capability demo_guarded = pi_Capability demo_pipeline" "pd_RequestedIntent (ri_Decision demo_guarded) = IntentRateLimit"
    by (simp_all add: demo_guarded_def resolve_input_def now_or_def time_is_zero_def demo_pipeline_def demo_decision_def)
  then show ?thesis
    using Resolve_selected[where rdg = "dg_response demo_digests" and dg = "dg_decision demo_digests" and wall = 0 and inp = demo_guarded,
        OF demo_digest_ok refl] c demo_strongest by auto
qed

theorem response_keeps_recovery_witness:
  "ManagementEndpointCurrent demo_panel (time_of_unix 1700000010)
    \<and> (\<exists>p\<in>set (gi_RecoveryPaths demo_guard_input). open_path (gi_Subject demo_guard_input) demo_panel (time_of_unix 1700000010) p)"
proof -
  obtain r where r: "re_PlannedResponse (Resolve (dg_decision demo_digests) (dg_response demo_digests) 0 demo_guarded) = Some r"
    using demo_guarded_planned by blast
  have g: "ri_Guard demo_guarded = EvaluateManagementGuard 0 demo_guard_input" "gi_Subject demo_guard_input = pd_Subject (ri_Decision demo_guarded)"
    "gi_MayRestrictTraffic demo_guard_input \<longleftrightarrow> pd_RequestedIntent (ri_Decision demo_guarded) \<noteq> IntentObserve"
    by (simp_all add: demo_guarded_def resolve_input_def demo_guard_input_def demo_decision_def demo_noted_def demo_graylisted_def)
  have n: "time_of_unix 1700000010 = now_or 0 (gi_Now demo_guard_input)"
    by (simp add: demo_guard_input_def now_or_def time_is_zero_def time_of_unix_def second_def)
  have e: "demo_panel \<in> set (gi_Management demo_guard_input)" by (simp add: demo_guard_input_def)
  have "managementEndpointMatches demo_panel (sc_TargetResourceID (gi_Scope demo_guard_input)) (gi_EndpointKey demo_guard_input)" by code_simp
  moreover have "pr_Subject r = gi_Subject demo_guard_input" using Resolve_planned(5)[OF r refl refl] g(2) by simp
  ultimately show ?thesis using response_keeps_recovery[OF r g n] e by auto
qed

lemma demo_trusted:
  "ValidateTrustedSource ''203.0.113.7/20'' True ''TRUST BROAD SOURCE 203.0.112.0/20''
     = Inr \<lparr>ts_Prefix = \<lparr>px_Addr = V4 3405803520, px_Bits = 20\<rparr>, ts_Family = ''ipv4'', ts_Broad = True,
            ts_Confirmation = ''TRUST BROAD SOURCE 203.0.112.0/20'', ts_BroadScopeAcknowledgement = True\<rparr>"
  by code_simp


end
