(* ===== verification/Applied_Action.thy ===== *)
theory Applied_Action
  imports Protection_Contracts
begin

text \<open>
  Applied actions of the server-protection component
  (\<^verbatim>\<open>src/components/server-protection/domain/actions_v1.go\<close>): the contract of an action, and its life
  from planned over verified to applied or to a terminal state.
\<close>

datatype AppliedActionState = ActionPlanned | ActionVerified | ActionApplied | ActionExpired | ActionRolledBack | ActionFailed
  | ActionStateOther string

record AppliedActionV1 =
  aa_Schema :: string
  aa_ActionID :: string
  aa_DecisionID :: string
  aa_PlanDigest :: string
  aa_ResourceID :: string
  aa_Subject :: SignalSubjectV2
  aa_GraphRevision :: string
  aa_EndpointRevision :: string
  aa_ResourceRevision :: string
  aa_ConfigurationRevision :: string
  aa_RequestedIntent :: ResponseIntent
  aa_ResolvedIntent :: ResponseIntent
  aa_DesiredState :: string
  aa_SelectedState :: string
  aa_ActualState :: string
  aa_ActualRevision :: string
  aa_State :: AppliedActionState
  aa_CreatedAt :: go_time
  aa_ExpiresAt :: go_time
  aa_VerifiedAt :: "go_time option"
  aa_ReasonCodes :: "string list"

definition AppliedActionSchemaV1 :: string where "AppliedActionSchemaV1 = ''solovey-ui/applied-action/v1''"

text \<open>The immutable contract of an action: what its identifier is a digest of.\<close>

definition action_key :: "AppliedActionV1 \<Rightarrow> AppliedActionV1" where
  "action_key a = a\<lparr>aa_Schema := '''', aa_ActionID := '''', aa_DesiredState := '''', aa_SelectedState := '''', aa_ActualState := '''',
     aa_ActualRevision := '''', aa_State := ActionPlanned, aa_VerifiedAt := None, aa_ReasonCodes := []\<rparr>"

definition Action_FinalizeID :: "(AppliedActionV1 \<Rightarrow> string) \<Rightarrow> AppliedActionV1 \<Rightarrow> AppliedActionV1" where
  "Action_FinalizeID dg a = a\<lparr>aa_ActionID := dg (action_key a)\<rparr>"

definition validRevision :: "string \<Rightarrow> bool" where
  "validRevision value0 =
     (let value = TrimSpace value0 in 16 \<le> length value \<and> length value \<le> 128 \<and> list_all lower_hex value)"

definition validActionStatus :: "string \<Rightarrow> bool" where
  "validActionStatus value \<longleftrightarrow>
     value \<in> {''REQUESTED'', ''SELECTED'', ''NOT_APPLIED'', ''VERIFIED_NOT_APPLIED'', ''APPLIED'', ''EXPIRED'', ''ROLLED_BACK'', ''FAILED''}"

fun action_state_error :: "AppliedActionV1 \<Rightarrow> AppliedActionState \<Rightarrow> string option" where
  "action_state_error a ActionPlanned = failing (aa_ActualState a \<noteq> ''NOT_APPLIED'' \<or> aa_ActualRevision a \<noteq> '''' \<or> aa_VerifiedAt a \<noteq> None)
     ''planned action cannot claim actual state''"
| "action_state_error a ActionVerified = failing (aa_VerifiedAt a = None \<or> aa_ActualRevision a = ''''
       \<or> aa_ActualState a \<noteq> ''VERIFIED_NOT_APPLIED'' \<or> \<not> validRevision (aa_ActualRevision a)) ''verified action evidence is incomplete''"
| "action_state_error a ActionApplied = failing (aa_VerifiedAt a = None \<or> aa_ActualRevision a = ''''
       \<or> aa_ActualState a \<noteq> ''APPLIED'' \<or> \<not> validRevision (aa_ActualRevision a)) ''applied action lacks exact verification''"
| "action_state_error a (ActionStateOther s) = Some ''action state is invalid''"
| "action_state_error a _ = failing (aa_ActualState a = ''APPLIED'') ''terminal action cannot claim applied state''"

definition Action_Validate :: "(AppliedActionV1 \<Rightarrow> string) \<Rightarrow> go_time \<Rightarrow> AppliedActionV1 \<Rightarrow> string option" where
  "Action_Validate dg now a = first_error
     [failing (aa_Schema a \<noteq> AppliedActionSchemaV1 \<or> \<not> ValidSHA256 (aa_ActionID a) \<or> \<not> ValidSHA256 (aa_DecisionID a)
        \<or> \<not> ValidSHA256 (aa_PlanDigest a)) ''action schema or identity is invalid'',
      failing (aa_ActionID (Action_FinalizeID dg a) \<noteq> aa_ActionID a) ''action identity does not match its immutable contract'',
      failing (\<not> ValidContractID (aa_ResourceID a) maxContractIDBytes \<or> \<not> validRevision (aa_GraphRevision a)
        \<or> \<not> validRevision (aa_EndpointRevision a) \<or> \<not> validRevision (aa_ResourceRevision a)
        \<or> \<not> validRevision (aa_ConfigurationRevision a)) ''action target revisions are invalid'',
      failing (validateSubject (aa_Subject a) \<noteq> None \<or> sj_Type (aa_Subject a) \<noteq> ''ip'' \<and> sj_Type (aa_Subject a) \<noteq> ''prefix'')
        ''action subject is invalid'',
      failing (\<not> validIntent (aa_RequestedIntent a) \<or> \<not> validIntent (aa_ResolvedIntent a) \<or> aa_ResolvedIntent a = IntentObserve)
        ''action intent is invalid'',
      failing (time_is_zero (aa_CreatedAt a) \<or> time_is_zero (aa_ExpiresAt a) \<or> \<not> aa_ExpiresAt a > aa_CreatedAt a
        \<or> aa_ExpiresAt a > aa_CreatedAt a + 24 * hour \<or> aa_CreatedAt a > now + 5 * minute) ''action timestamps are invalid'',
      failing (\<not> validActionStatus (aa_DesiredState a) \<or> \<not> validActionStatus (aa_SelectedState a) \<or> \<not> validActionStatus (aa_ActualState a)
        \<or> \<not> validateReasonCodes (aa_ReasonCodes a)) ''action status is invalid'',
      action_state_error a (aa_State a)]"

definition MarkVerified :: "(AppliedActionV1 \<Rightarrow> string) \<Rightarrow> AppliedActionV1 \<Rightarrow> string \<Rightarrow> go_time \<Rightarrow> string + AppliedActionV1" where
  "MarkVerified dg a actualRevision at =
     (if Action_Validate dg at a \<noteq> None \<or> aa_State a \<noteq> ActionPlanned \<or> \<not> validRevision actualRevision \<or> time_is_zero at
         \<or> at < aa_CreatedAt a \<or> \<not> at < aa_ExpiresAt a
      then Inl ''planned action cannot be verified with the supplied exact revision''
      else Inr (a\<lparr>aa_State := ActionVerified, aa_ActualState := ''VERIFIED_NOT_APPLIED'', aa_ActualRevision := actualRevision,
                  aa_VerifiedAt := Some at\<rparr>))"

definition MarkApplied :: "(AppliedActionV1 \<Rightarrow> string) \<Rightarrow> AppliedActionV1 \<Rightarrow> string \<Rightarrow> go_time \<Rightarrow> string + AppliedActionV1" where
  "MarkApplied dg a actualRevision at =
     (if Action_Validate dg at a \<noteq> None \<or> aa_State a \<noteq> ActionVerified
         \<or> (case aa_VerifiedAt a of None \<Rightarrow> True
            | Some verified \<Rightarrow> aa_ActualRevision a \<noteq> actualRevision \<or> \<not> validRevision actualRevision \<or> time_is_zero at
                \<or> at < verified \<or> \<not> at < aa_ExpiresAt a)
      then Inl ''action cannot become APPLIED without matching verified actual state''
      else Inr (a\<lparr>aa_State := ActionApplied, aa_ActualState := ''APPLIED''\<rparr>))"

fun terminal_status :: "AppliedActionState \<Rightarrow> string option" where
  "terminal_status ActionExpired = Some ''EXPIRED''"
| "terminal_status ActionRolledBack = Some ''ROLLED_BACK''"
| "terminal_status ActionFailed = Some ''FAILED''"
| "terminal_status _ = None"

definition MarkTerminal :: "(AppliedActionV1 \<Rightarrow> string) \<Rightarrow> AppliedActionV1 \<Rightarrow> AppliedActionState \<Rightarrow> string \<Rightarrow> string + AppliedActionV1" where
  "MarkTerminal dg a state reason =
     (if Action_Validate dg (aa_ExpiresAt a) a \<noteq> None then Inl ''action identity is invalid''
      else case terminal_status state of
        None \<Rightarrow> Inl ''requested action terminal state is invalid''
      | Some status \<Rightarrow> Inr (a\<lparr>aa_ActualState := status, aa_State := state,
                            aa_ReasonCodes := NormalizeActionReasons (aa_ReasonCodes a @ [reason])\<rparr>))"

section \<open>The life of an action\<close>

inductive action_step :: "(AppliedActionV1 \<Rightarrow> string) \<Rightarrow> AppliedActionV1 \<Rightarrow> AppliedActionV1 \<Rightarrow> bool" for dg where
  verified: "MarkVerified dg a revision at = Inr b \<Longrightarrow> action_step dg a b"
| applied: "MarkApplied dg a revision at = Inr b \<Longrightarrow> action_step dg a b"
| terminal: "MarkTerminal dg a state reason = Inr b \<Longrightarrow> action_step dg a b"

inductive_cases action_stepE: "action_step dg a b"

definition terminated :: "AppliedActionV1 \<Rightarrow> bool" where
  "terminated a \<longleftrightarrow> terminal_status (aa_State a) \<noteq> None"

text \<open>What every action holds that was reached from a planned one.\<close>

definition evidenced :: "AppliedActionV1 \<Rightarrow> bool" where
  "evidenced a \<longleftrightarrow>
     (case aa_VerifiedAt a of None \<Rightarrow> True | Some t \<Rightarrow> aa_CreatedAt a \<le> t \<and> t < aa_ExpiresAt a \<and> validRevision (aa_ActualRevision a))
     \<and> (aa_State a = ActionVerified \<or> aa_State a = ActionApplied \<longrightarrow> aa_VerifiedAt a \<noteq> None)
     \<and> (aa_ActualState a = ''APPLIED'' \<longleftrightarrow> aa_State a = ActionApplied)"

lemma Mark_cases:
  "MarkVerified dg a revision at = Inr b \<Longrightarrow> aa_State a = ActionPlanned \<and> aa_CreatedAt a \<le> at \<and> at < aa_ExpiresAt a \<and> validRevision revision
     \<and> b = a\<lparr>aa_State := ActionVerified, aa_ActualState := ''VERIFIED_NOT_APPLIED'', aa_ActualRevision := revision, aa_VerifiedAt := Some at\<rparr>"
  "MarkApplied dg a revision at = Inr b \<Longrightarrow> aa_State a = ActionVerified \<and> b = a\<lparr>aa_State := ActionApplied, aa_ActualState := ''APPLIED''\<rparr>"
  "MarkTerminal dg a state reason = Inr b \<Longrightarrow> \<exists>status. terminal_status state = Some status
     \<and> b = a\<lparr>aa_ActualState := status, aa_State := state, aa_ReasonCodes := NormalizeActionReasons (aa_ReasonCodes a @ [reason])\<rparr>"
  by (auto simp: MarkVerified_def MarkApplied_def MarkTerminal_def split: if_splits option.splits)

lemma terminal_status_name:
  "terminal_status state = Some status \<Longrightarrow> status \<noteq> ''APPLIED'' \<and> state \<noteq> ActionVerified \<and> state \<noteq> ActionApplied \<and> state \<noteq> ActionPlanned"
  by (cases state) auto

lemma action_step_keeps:
  assumes "action_step dg a b" "evidenced a"
  shows "evidenced b \<and> action_key b = action_key a \<and> aa_ActionID b = aa_ActionID a \<and> (terminated a \<longrightarrow> terminated b)
    \<and> (aa_State b = ActionApplied \<longrightarrow> aa_State a = ActionVerified)"
  using assms(1)
proof cases
  case (verified revision at)
  then show ?thesis using assms(2) Mark_cases(1)[OF verified] by (auto simp: evidenced_def action_key_def terminated_def)
next
  case (applied revision at)
  then show ?thesis using assms(2) Mark_cases(2)[OF applied] by (auto simp: evidenced_def action_key_def terminated_def)
next
  case (terminal state reason)
  obtain status where "terminal_status state = Some status"
    "b = a\<lparr>aa_ActualState := status, aa_State := state, aa_ReasonCodes := NormalizeActionReasons (aa_ReasonCodes a @ [reason])\<rparr>"
    using Mark_cases(3)[OF terminal] by blast
  then show ?thesis
    using assms(2) terminal_status_name[of state status]
    by (cases "aa_VerifiedAt a") (auto simp: evidenced_def action_key_def terminated_def)
qed

lemma action_reach_keeps:
  assumes "(action_step dg)\<^sup>*\<^sup>* a b" "evidenced a"
  shows "evidenced b \<and> action_key b = action_key a \<and> aa_ActionID b = aa_ActionID a \<and> (terminated a \<longrightarrow> terminated b)"
  using assms by (induction rule: rtranclp_induct) (auto simp: action_step_keeps)

text \<open>C12. An action is applied only on evidence.  Whatever calls of \<^verbatim>\<open>MarkVerified\<close>, \<^verbatim>\<open>MarkApplied\<close> and
  \<^verbatim>\<open>MarkTerminal\<close> succeed on a valid planned action, at whatever times: its contract and identifier never change;
  it claims to be applied exactly in the state APPLIED, which it enters only from VERIFIED, with a verification between
  its creation and its expiry and a valid actual revision; and once terminal it stays terminal.\<close>

theorem applied_needs_evidence:
  assumes "Action_Validate dg t0 a = None" "aa_State a = ActionPlanned" "(action_step dg)\<^sup>*\<^sup>* a b"
  shows "action_key b = action_key a \<and> aa_ActionID b = aa_ActionID a
    \<and> (aa_ActualState b = ''APPLIED'' \<longleftrightarrow> aa_State b = ActionApplied)
    \<and> (aa_State b = ActionApplied \<longrightarrow>
         (\<exists>t. aa_VerifiedAt b = Some t \<and> aa_CreatedAt b \<le> t \<and> t < aa_ExpiresAt b) \<and> validRevision (aa_ActualRevision b))
    \<and> (\<forall>c. (action_step dg)\<^sup>*\<^sup>* b c \<longrightarrow> (terminated b \<longrightarrow> terminated c))
    \<and> (\<forall>c. action_step dg b c \<and> aa_State c = ActionApplied \<longrightarrow> aa_State b = ActionVerified)"
proof -
  have "evidenced a" using assms(1,2) by (auto simp: Action_Validate_def first_error_None evidenced_def)
  then have b: "evidenced b" "action_key b = action_key a" "aa_ActionID b = aa_ActionID a"
    using action_reach_keeps[OF assms(3)] by simp_all
  have e: "aa_ActualState b = ''APPLIED'' \<longleftrightarrow> aa_State b = ActionApplied" using b(1) by (simp add: evidenced_def)
  have v: "(\<exists>t. aa_VerifiedAt b = Some t \<and> aa_CreatedAt b \<le> t \<and> t < aa_ExpiresAt b) \<and> validRevision (aa_ActualRevision b)"
    if "aa_State b = ActionApplied" using b(1) that by (cases "aa_VerifiedAt b") (simp_all add: evidenced_def)
  have t: "terminated c" if "(action_step dg)\<^sup>*\<^sup>* b c" "terminated b" for c
    using action_reach_keeps[OF that(1) b(1)] that(2) by blast
  have "aa_State b = ActionVerified" if "action_step dg b c" "aa_State c = ActionApplied" for c
    using action_step_keeps[OF that(1) b(1)] that(2) by blast
  then show ?thesis using b(2,3) e v t by blast
qed

section \<open>Terminal marks\<close>

lemma NormalizeActionReasons_valid:
  assumes "list_all (\<lambda>v. ValidContractID v 64) vs"
  shows "validateReasonCodes (NormalizeActionReasons vs)"
proof -
  let ?r = "NormalizeActionReasons vs"
  have "set ?r \<subseteq> reason_form ` set vs" by (auto simp: NormalizeActionReasons_def first_seen_set dest!: in_set_takeD)
  then have "list_all (\<lambda>v. ValidContractID v 64) ?r" using assms reason_form_valid by (fastforce simp: list_all_iff)
  moreover have "distinct ?r" "length ?r \<le> 32" by (simp_all add: NormalizeActionReasons_def first_seen_distinct)
  ultimately show ?thesis by (simp add: validateReasonCodes_def maxReasonCodes_def maxReasonCodeBytes_def)
qed

text \<open>Every valid action can be ended: marking it expired, rolled back or failed with a reason of at most 64
  characters succeeds, and the result is valid at every time at which the action was.\<close>

theorem terminal_mark_valid:
  assumes "Action_Validate dg now a = None" "terminal_status state = Some status" "ValidContractID reason 64"
  shows "\<exists>b. MarkTerminal dg a state reason = Inr b \<and> Action_Validate dg now b = None \<and> aa_State b = state \<and> aa_ActualState b = status"
proof -
  have "Action_Validate dg (aa_ExpiresAt a) a = None"
    using assms(1) by (auto simp: Action_Validate_def first_error_None minute_def)
  moreover have "validateReasonCodes (NormalizeActionReasons (aa_ReasonCodes a @ [reason]))"
    using assms(1,3) by (intro NormalizeActionReasons_valid)
      (auto simp: Action_Validate_def first_error_None validateReasonCodes_def maxReasonCodeBytes_def)
  moreover have "validActionStatus status" using assms(2) by (cases state) (auto simp: validActionStatus_def)
  moreover have "action_state_error b state = None" if "aa_ActualState b = status" for b
    using assms(2) that by (cases state) auto
  ultimately show ?thesis
    using assms(1,2) by (simp add: MarkTerminal_def Action_Validate_def first_error_None Action_FinalizeID_def action_key_def)
qed

section \<open>An example\<close>

definition demo_action :: AppliedActionV1 where
  "demo_action =
     \<lparr>aa_Schema = AppliedActionSchemaV1, aa_ActionID = replicate 64 CHR ''a'', aa_DecisionID = replicate 64 CHR ''b'',
      aa_PlanDigest = replicate 64 CHR ''c'', aa_ResourceID = ''r'', aa_Subject = \<lparr>sj_Type = ''ip'', sj_Value = ''192.0.2.7''\<rparr>,
      aa_GraphRevision = ''0123456789abcdef'', aa_EndpointRevision = ''0123456789abcdef'', aa_ResourceRevision = ''0123456789abcdef'',
      aa_ConfigurationRevision = ''0123456789abcdef'', aa_RequestedIntent = IntentRateLimit, aa_ResolvedIntent = IntentRateLimit,
      aa_DesiredState = ''REQUESTED'', aa_SelectedState = ''SELECTED'', aa_ActualState = ''NOT_APPLIED'', aa_ActualRevision = '''',
      aa_State = ActionPlanned, aa_CreatedAt = 1, aa_ExpiresAt = 1 + hour, aa_VerifiedAt = None, aa_ReasonCodes = []\<rparr>"

definition demo_applied :: AppliedActionV1 where
  "demo_applied = demo_action\<lparr>aa_State := ActionApplied, aa_ActualState := ''APPLIED'', aa_ActualRevision := ''fedcba9876543210'',
     aa_VerifiedAt := Some 2\<rparr>"

lemma demo_action_valid: "Action_Validate (\<lambda>_. replicate 64 CHR ''a'') 1 demo_action = None"
  by code_simp

lemma demo_action_marks:
  "MarkVerified (\<lambda>_. replicate 64 CHR ''a'') demo_action ''fedcba9876543210'' 2
     = Inr (demo_action\<lparr>aa_State := ActionVerified, aa_ActualState := ''VERIFIED_NOT_APPLIED'', aa_ActualRevision := ''fedcba9876543210'',
              aa_VerifiedAt := Some 2\<rparr>)"
  "MarkApplied (\<lambda>_. replicate 64 CHR ''a'') (demo_action\<lparr>aa_State := ActionVerified, aa_ActualState := ''VERIFIED_NOT_APPLIED'',
     aa_ActualRevision := ''fedcba9876543210'', aa_VerifiedAt := Some 2\<rparr>) ''fedcba9876543210'' 3 = Inr demo_applied"
  by code_simp+

lemma demo_action_reached: "(action_step (\<lambda>_. replicate 64 CHR ''a''))\<^sup>*\<^sup>* demo_action demo_applied"
proof -
  let ?r = "action_step (\<lambda>_. replicate 64 CHR ''a'')"
  have "?r\<^sup>*\<^sup>* demo_action (demo_action\<lparr>aa_State := ActionVerified, aa_ActualState := ''VERIFIED_NOT_APPLIED'',
      aa_ActualRevision := ''fedcba9876543210'', aa_VerifiedAt := Some 2\<rparr>)"
    using action_step.verified[OF demo_action_marks(1)] by (rule r_into_rtranclp)
  then show ?thesis using action_step.applied[OF demo_action_marks(2)] by (rule rtranclp.rtrancl_into_rtrancl)
qed

theorem applied_needs_evidence_witness:
  "\<exists>t. aa_VerifiedAt demo_applied = Some t \<and> aa_CreatedAt demo_applied \<le> t \<and> t < aa_ExpiresAt demo_applied"
  using applied_needs_evidence[OF demo_action_valid _ demo_action_reached] by (simp add: demo_action_def demo_applied_def)

theorem terminal_mark_valid_witness:
  "\<exists>b. MarkTerminal (\<lambda>_. replicate 64 CHR ''a'') demo_action ActionExpired ''ttl'' = Inr b \<and> aa_ActualState b = ''EXPIRED''"
proof -
  have "ValidContractID ''ttl'' 64" by code_simp
  then show ?thesis using terminal_mark_valid[OF demo_action_valid, of ActionExpired "''EXPIRED''" "''ttl''"] by auto
qed

end
