(* ===== verification/Spec2Isabelle.thy ===== *)
theory Spec2Isabelle
  imports Ratelimit_Fixed Ratelimit_Sliding Ratelimit_Threshold Ratelimit_Failure
    Version_Policy Entity_Order Failover_Job Restart_Manager Paid_Refund Resource_Pressure
    Guard_Safety Applied_Action
begin

text \<open>
  A verification of parts of solovey-ui, a web panel for sing-box servers written in Go.

  \<^bold>\<open>The program.\<close>  The panel keeps its configuration in SQLite, assembles it for an embedded sing-box core, and
  lets components extend it.  The parts modelled here are those whose correctness rests on their logic rather than on
  I/O: the rate limiters in front of logins and subscriptions; the store and the coordinator of paid subscriptions,
  which turn payments into client grants; the failover job, which probes outbounds and switches selectors; the restart
  manager, which serialises restarts of the core; the evaluator of resource pressure, which admits or refuses heavy
  work; and the policy chain of the server-protection component, which turns signals about remote addresses into
  graylist states, decisions and planned responses, under a guard for management access.

  \<^bold>\<open>Conventions.\<close>  \<^verbatim>\<open>Go_Prelude\<close>, \<^verbatim>\<open>Go_Strings\<close>, \<^verbatim>\<open>Go_Float\<close> and \<^verbatim>\<open>Go_Netip\<close> model what the code uses of Go and of its
  standard library: 64-bit integers with wrap-around, instants as nanoseconds with the zero time, saturating
  differences of instants, maps as association lists visited in an arbitrary order (an argument), byte strings with
  \<^verbatim>\<open>TrimSpace\<close>, \<^verbatim>\<open>ToLower\<close>, \<^verbatim>\<open>Split\<close> and \<^verbatim>\<open>Atoi\<close>, the ordering of float64 with NaN and infinities, and the addresses
  and prefixes of \<^verbatim>\<open>net/netip\<close>.  A method on a pointer takes and returns the record; an error is a value of a sum or
  option type; the clock is an argument; \<^verbatim>\<open>time.Now()\<close> behind a zero argument is the argument \<open>wall\<close>.  SHA-256 digests
  of JSON payloads are arguments: functions of the fields that are marshalled.  All definitions are executable, and
  every theorem with hypotheses is followed by a witness that runs the model on a concrete input.

  \<^bold>\<open>Rate limiters\<close> (\<^verbatim>\<open>src/util/ratelimit\<close>).  \<^verbatim>\<open>Ratelimit_Store\<close> has what the four limiters share: the map of entries
  with pruning and eviction, and the locale of a bounded store that each limiter interprets.  \<^verbatim>\<open>Ratelimit_Fixed\<close>,
  \<^verbatim>\<open>Ratelimit_Sliding\<close>, \<^verbatim>\<open>Ratelimit_Threshold\<close> and \<^verbatim>\<open>Ratelimit_Failure\<close> have one limiter each, with all its methods.
  Shown: the rate bounds over any interleaving of keys, the refinement of the fixed window by independent counters,
  the bound on memory, exact retry times, exact blocking and unblocking, triggering once per window, and the tarpit
  delay under overflow.

  \<^bold>\<open>Paid subscriptions\<close> (\<^verbatim>\<open>src/components/paid-subscriptions\<close>).  \<^verbatim>\<open>Paid_Model\<close> has the tables with their unique
  indexes, transactions, and storage faults as an oracle consulted at every statement; \<^verbatim>\<open>Paid_Schema\<close> the migration;
  \<^verbatim>\<open>Paid_Orders\<close> orders, invoices and recovery; \<^verbatim>\<open>Paid_Grant\<close> grants, refunds and their arithmetic; \<^verbatim>\<open>Paid_Service\<close> the
  coordinator; \<^verbatim>\<open>Paid_Safety\<close> and \<^verbatim>\<open>Paid_Refund\<close> the proofs.  Shown: over any sequence of operations with any faults an
  order is granted at most once, failing operations change nothing, the indexes hold, a refund reverses its grant,
  refund claims exclude each other, invoice intents are idempotent, and the migration ends in a consistent schema,
  its batch loop of 256 rows being one pass.

  \<^bold>\<open>Failover\<close> (\<^verbatim>\<open>src/internal/entities/outbounds\<close>, \<^verbatim>\<open>src/service/failover\<close>, \<^verbatim>\<open>src/cronjob/jobs/runtime/failover.go\<close>).
  \<^verbatim>\<open>Failover_Config\<close> has decoding, validation and assembly of groups, \<^verbatim>\<open>Failover_Job\<close> the policy and the job with its
  status page, alerts and switches, as runs over arbitrary probe results.  Shown: the hysteresis, the choice of
  members, valid targets, alerts on edges, and the validated configuration.

  \<^bold>\<open>Restart manager\<close> (\<^verbatim>\<open>src/internal/singbox/restart\<close>).  \<^verbatim>\<open>Restart_Manager\<close> has the manager with its mutex, condition
  and timers as a transition system whose threads interleave at every lock.  Shown: exclusion of restarts, no lost
  wake-up, and that a scheduled restart stays pending.

  \<^bold>\<open>Resource pressure\<close> (\<^verbatim>\<open>src/internal/ops/resourcepressure\<close>).  \<^verbatim>\<open>Resource_Pressure\<close> has thresholds, normalisation,
  classification, the state machine and admission.  Shown: changes are confirmed, recovery is reached, signals are
  well-formed, admission is monotone, and the default thresholds have no hysteresis.

  \<^bold>\<open>Server protection\<close> (\<^verbatim>\<open>src/components/server-protection\<close>).  \<^verbatim>\<open>Protection_Contracts\<close> has the contracts of
  \<^verbatim>\<open>domain/\<close> with their validation and canonical forms; \<^verbatim>\<open>Protection_Graylist\<close> admission and the graylist state machine
  (\<^verbatim>\<open>service/graylist\<close>); \<^verbatim>\<open>Protection_Response\<close> the decision resolvers, the response resolver and the pipeline
  (\<^verbatim>\<open>service/decision\<close>, \<^verbatim>\<open>service/response\<close>, \<^verbatim>\<open>service/graylist/pipeline.go\<close>); \<^verbatim>\<open>Management_Guard\<close> the guard, trusted
  sources, and the endpoints and recovery paths of \<^verbatim>\<open>src/componenthost/resources\<close>; \<^verbatim>\<open>Applied_Action\<close> the life of an
  action.  \<^verbatim>\<open>Graylist_Safety\<close>, \<^verbatim>\<open>Response_Safety\<close> and \<^verbatim>\<open>Guard_Safety\<close> have the proofs.  Shown: weak evidence never
  escalates, an action has its reasons, revisions and identity, timer evaluations always return, the resolver acts
  exactly when its guards pass, the pipeline plans only soft responses, a planned response leaves a recovery path,
  a trusted source has no special addresses, and an action is applied only on evidence.

  \<^bold>\<open>Version policy and entity order\<close> (\<^verbatim>\<open>src/config/versionpolicy\<close>, \<^verbatim>\<open>src/internal/entities/order\<close>).
  \<^verbatim>\<open>Version_Policy\<close> shows the round trip, the order and the normal form of versions; \<^verbatim>\<open>Entity_Order\<close> that a reorder
  succeeds exactly for permutations.

  \<^bold>\<open>Bounds.\<close>  No definition needs fuel: loops are structural or come with a measure.  Runs of the limiters, of the
  payment store, of the failover job, of the evaluator and of the graylist are lists of operations of any length.

  \<^bold>\<open>Not modelled.\<close>  The HTTP API, the frontend, the Telegram bot, settings, the assembly of the sing-box configuration
  and the core itself, database migrations other than that of the paid subscriptions, backup and restore, certificates,
  updates, the privileged brokers, and the executors and repositories of the server protection are I/O, rendering or
  calls into third-party libraries.  Case mapping is exact as far as results are compared with ASCII text; names of
  listeners outside ASCII are taken literally.
\<close>

end
